(* ===== verification/Prelude.thy ===== *)
theory Prelude
  imports Complex_Main "HOL-Library.Word"
begin

text \<open>
  Shared vocabulary of the development. A tile buffer is a list of bytes (\<open>8 word\<close>);
  Python text (the result of \<open>bytes.decode\<close>) is a list of Unicode code points, since
  HOL's \<open>char\<close> holds bytes only. The Python exceptions the tile and merge scripts can
  raise are the constructors of \<open>py_error\<close>, and a computation that may raise returns
  \<open>py_error + 'a\<close> with \<open>Inl\<close> the exception. The section also holds the byte-level
  primitives the parsers use: little-endian \<open>struct.unpack_from\<close>, slicing and
  \<open>bytes.find\<close>, each with the facts the component proofs share.
\<close>

named_theorems eval_simps "rules that evaluate the readers on concrete buffers"

type_synonym byte = "8 word"
type_synonym bytes = "byte list"
type_synonym ustr = "nat list"

datatype py_error = StructError | ValueError | ZeroDivisionError | TypeError | IndexError | KeyError
  | AttributeError | OSError

text \<open>ASCII literals, as byte strings and as decoded text.\<close>

definition ascii_bytes :: "string \<Rightarrow> bytes" where
  "ascii_bytes s = map of_char s"

definition ascii :: "string \<Rightarrow> ustr" where
  "ascii s = map of_char s"

text \<open>Sequencing of computations that may raise: the first exception propagates.\<close>

definition ebind :: "py_error + 'a \<Rightarrow> ('a \<Rightarrow> py_error + 'b) \<Rightarrow> py_error + 'b" where
  "ebind m f = (case m of Inl e \<Rightarrow> Inl e | Inr x \<Rightarrow> f x)"

lemma ebind_Inr [simp]: "ebind (Inr x) f = f x"
  by (simp add: ebind_def)

lemma ebind_Inl [simp]: "ebind (Inl e) f = Inl e"
  by (simp add: ebind_def)

lemma ebind_eq_Inr [simp]:
  "ebind m f = Inr y \<longleftrightarrow> (\<exists>x. m = Inr x \<and> f x = Inr y)"
  by (cases m) auto

subsection \<open>Little-endian integers: \<open>struct.unpack_from('<I', data, off)\<close>\<close>

fun le_nat :: "bytes \<Rightarrow> nat" where
  "le_nat [] = 0"
| "le_nat (b # bs) = unat b + 256 * le_nat bs"

lemma le_nat_bound: "le_nat bs < 2 ^ (8 * length bs)"
proof (induction bs)
  case Nil
  then show ?case by simp
next
  case (Cons b bs)
  have "unat b < 256" using unsigned_less [of b] by simp
  then have "unat b + 256 * le_nat bs < 256 + 256 * le_nat bs" by simp
  also have "\<dots> = 256 * (le_nat bs + 1)" by simp
  also have "\<dots> \<le> 256 * 2 ^ (8 * length bs)" using Cons.IH by simp
  finally show ?case by (simp add: power_add)
qed

text \<open>
  \<open>struct.unpack_from('<I', data, off)\<close> with \<open>off \<ge> 0\<close>: it raises
  \<open>struct.error\<close> when fewer than four bytes remain.
\<close>

definition unpack_u32 :: "bytes \<Rightarrow> nat \<Rightarrow> py_error + 32 word" where
  "unpack_u32 d off =
     (if off + 4 \<le> length d then Inr (of_nat (le_nat (take 4 (drop off d)))) else Inl StructError)"

lemma unat_unpack_u32:
  assumes "unpack_u32 d off = Inr v"
  shows "unat v = le_nat (take 4 (drop off d))"
proof -
  from assms have len: "off + 4 \<le> length d" and v: "v = of_nat (le_nat (take 4 (drop off d)))"
    by (auto simp: unpack_u32_def split: if_splits)
  have "length (take 4 (drop off d)) = 4" using len by simp
  then have "le_nat (take 4 (drop off d)) < 2 ^ LENGTH(32)"
    using le_nat_bound [of "take 4 (drop off d)"] by simp
  then show ?thesis using v by (simp add: unat_of_nat)
qed

lemma unpack_u32_ok:
  "off + 4 \<le> length d \<Longrightarrow> unpack_u32 d off = Inr (of_nat (le_nat (take 4 (drop off d))))"
  by (simp add: unpack_u32_def)

text \<open>The value read at an offset in range, as the Python integer \<open>struct\<close> returns.\<close>

definition u32_at :: "bytes \<Rightarrow> nat \<Rightarrow> nat" where
  "u32_at d off = le_nat (take 4 (drop off d))"

lemma u32_at_bound: "u32_at d off < 2 ^ 32"
proof -
  have "le_nat (take 4 (drop off d)) < 2 ^ (8 * length (take 4 (drop off d)))"
    by (rule le_nat_bound)
  also have "\<dots> \<le> 2 ^ 32"
    by (rule power_increasing) simp_all
  finally show ?thesis by (simp add: u32_at_def)
qed

lemma unpack_u32_in_range:
  assumes "off + 4 \<le> length d"
  shows "\<exists>v. unpack_u32 d off = Inr v \<and> unat v = u32_at d off"
  using assms u32_at_bound [of d off]
  by (simp add: unpack_u32_def u32_at_def unat_of_nat)

lemma unpack_u32_Inr_unat:
  "unpack_u32 d off = Inr v \<Longrightarrow> unat v = u32_at d off"
  by (simp add: unat_unpack_u32 u32_at_def)

lemma unpack_u32_Inr_iff: "(\<exists>v. unpack_u32 d off = Inr v) \<longleftrightarrow> off + 4 \<le> length d"
  by (simp add: unpack_u32_def)

lemma unpack_u32_Inl_iff: "(\<exists>e. unpack_u32 d off = Inl e) \<longleftrightarrow> length d < off + 4"
  by (auto simp: unpack_u32_def)

text \<open>The encoder that writes a \<open>u32\<close> little-endian; used to build test buffers.\<close>

definition u32_le :: "32 word \<Rightarrow> bytes" where
  "u32_le w = [ucast w, ucast (drop_bit 8 w), ucast (drop_bit 16 w), ucast (drop_bit 24 w)]"

lemma length_u32_le [simp]: "length (u32_le w) = 4"
  by (simp add: u32_le_def)

lemma nat_le_bytes_decomp:
  "(u::nat) = u mod 256 + 256 * ((u div 256) mod 256
     + 256 * ((u div 65536) mod 256 + 256 * (u div 16777216)))"
proof -
  have a: "u = u mod 256 + 256 * (u div 256)" by simp
  have b: "u div 256 = (u div 256) mod 256 + 256 * (u div 65536)"
    using div_mult_mod_eq [of "u div 256" 256] by (simp add: div_mult2_eq [symmetric])
  have c: "u div 65536 = (u div 65536) mod 256 + 256 * (u div 16777216)"
    using div_mult_mod_eq [of "u div 65536" 256] by (simp add: div_mult2_eq [symmetric])
  show ?thesis using a b c by simp
qed

lemma unat_ucast_drop_bit_8:
  "unat (ucast (drop_bit n (w::32 word)) :: 8 word) = (unat w div 2 ^ n) mod 256"
  by (simp only: unsigned_ucast_eq unat_drop_bit_eq) (simp add: drop_bit_eq_div take_bit_eq_mod)

lemma le_nat_u32_le: "le_nat (u32_le w) = unat w"
proof -
  have "unat w < 2 ^ LENGTH(32)" by (rule unsigned_less)
  then have top: "unat w div 16777216 < 256" by simp
  have "unat (ucast w :: 8 word) = unat w mod 256"
    by (simp add: unsigned_ucast_eq take_bit_eq_mod)
  then show ?thesis
    using nat_le_bytes_decomp [of "unat w"] top
    by (simp add: u32_le_def unat_ucast_drop_bit_8)
qed

lemma unpack_u32_roundtrip:
  "unpack_u32 (xs @ u32_le w @ ys) (length xs) = Inr w"
  by (simp add: unpack_u32_def le_nat_u32_le)

subsection \<open>Slices and substring search\<close>

text \<open>Python's \<open>data[a:b]\<close> for \<open>0 \<le> a\<close>: clipped at the end of the buffer, never raising.\<close>

definition py_slice :: "'a list \<Rightarrow> nat \<Rightarrow> nat \<Rightarrow> 'a list" where
  "py_slice xs a b = take (b - a) (drop a xs)"

lemma length_slice_le: "length (py_slice xs a b) \<le> b - a"
  by (simp add: py_slice_def)

text \<open>\<open>data.find(pat)\<close>: the least index at which \<open>pat\<close> occurs, \<open>None\<close> for \<open>-1\<close>.\<close>

fun find_from :: "'a list \<Rightarrow> 'a list \<Rightarrow> nat \<Rightarrow> nat option" where
  "find_from pat [] i = (if pat = [] then Some i else None)"
| "find_from pat (x # xs) i = (if take (length pat) (x # xs) = pat then Some i else find_from pat xs (Suc i))"

definition find_sub :: "'a list \<Rightarrow> 'a list \<Rightarrow> nat option" where
  "find_sub d pat = find_from pat d 0"

definition occurs_at :: "'a list \<Rightarrow> 'a list \<Rightarrow> nat \<Rightarrow> bool" where
  "occurs_at d pat p \<longleftrightarrow> p + length pat \<le> length d \<and> take (length pat) (drop p d) = pat"

lemma find_from_Some:
  "find_from pat d i = Some p \<Longrightarrow>
     i \<le> p \<and> occurs_at d pat (p - i) \<and> (\<forall>q < p - i. \<not> occurs_at d pat q)"
proof (induction pat d i rule: find_from.induct)
  case (1 pat i)
  then show ?case by (auto simp: occurs_at_def split: if_splits)
next
  case (2 pat x xs i)
  show ?case
  proof (cases "take (length pat) (x # xs) = pat")
    case True
    with "2.prems" have "p = i" by simp
    with True show ?thesis
      by (auto simp: occurs_at_def dest: arg_cong [where f = length])
  next
    case False
    with "2.prems" have "find_from pat xs (Suc i) = Some p" by simp
    with "2.IH" False have ih: "Suc i \<le> p \<and> occurs_at xs pat (p - Suc i)
        \<and> (\<forall>q < p - Suc i. \<not> occurs_at xs pat q)" by simp
    have "\<not> occurs_at (x # xs) pat 0" using False by (simp add: occurs_at_def)
    moreover have "\<And>q. occurs_at (x # xs) pat (Suc q) = occurs_at xs pat q"
      by (simp add: occurs_at_def)
    from ih have "Suc i \<le> p" by simp
    then have pos: "p - i = Suc (p - Suc i)" by arith
    have "\<forall>q < p - i. \<not> occurs_at (x # xs) pat q"
    proof (intro allI impI)
      fix q assume q: "q < p - i"
      show "\<not> occurs_at (x # xs) pat q"
      proof (cases q)
        case 0
        then show ?thesis using \<open>\<not> occurs_at (x # xs) pat 0\<close> by simp
      next
        case (Suc q')
        then have "q' < p - Suc i" using q pos by simp
        then show ?thesis using ih Suc \<open>\<And>q. occurs_at (x # xs) pat (Suc q) = occurs_at xs pat q\<close>
          by simp
      qed
    qed
    moreover have "occurs_at (x # xs) pat (p - i)"
      using ih pos \<open>\<And>q. occurs_at (x # xs) pat (Suc q) = occurs_at xs pat q\<close> by simp
    ultimately show ?thesis using ih by simp
  qed
qed

lemma find_from_None:
  "find_from pat d i = None \<Longrightarrow> \<not> occurs_at d pat q"
proof (induction pat d i arbitrary: q rule: find_from.induct)
  case (1 pat i)
  then show ?case by (auto simp: occurs_at_def split: if_splits)
next
  case (2 pat x xs i)
  then have ne: "take (length pat) (x # xs) \<noteq> pat" and rest: "find_from pat xs (Suc i) = None"
    by (auto split: if_splits)
  show ?case
  proof (cases q)
    case 0
    with ne show ?thesis by (simp add: occurs_at_def)
  next
    case (Suc q')
    with "2.IH" ne rest show ?thesis by (simp add: occurs_at_def)
  qed
qed

lemma find_sub_Some:
  "find_sub d pat = Some p \<Longrightarrow> occurs_at d pat p \<and> (\<forall>q < p. \<not> occurs_at d pat q)"
  using find_from_Some [of pat d 0 p] by (simp add: find_sub_def)

lemma find_sub_None: "find_sub d pat = None \<longleftrightarrow> (\<forall>q. \<not> occurs_at d pat q)"
proof
  assume "find_sub d pat = None"
  then show "\<forall>q. \<not> occurs_at d pat q" using find_from_None by (fastforce simp: find_sub_def)
next
  assume none: "\<forall>q. \<not> occurs_at d pat q"
  show "find_sub d pat = None"
  proof (rule ccontr)
    assume "find_sub d pat \<noteq> None"
    then obtain p where "find_sub d pat = Some p" by blast
    then show False using none find_sub_Some by blast
  qed
qed

lemma filter_upt_less: "filter (\<lambda>i. i < k) [0..<n] = [0..<min n k]"
proof (induction n)
  case (Suc n)
  then show ?case by (cases "n < k") (simp_all add: min_def)
qed simp

text \<open>The index of the first element satisfying a test: a \<open>for j, x in enumerate(xs)\<close>
  loop that \<open>break\<close>s at the first hit.\<close>

fun first_index :: "('a \<Rightarrow> bool) \<Rightarrow> 'a list \<Rightarrow> nat option" where
  "first_index P [] = None"
| "first_index P (x # xs) = (if P x then Some 0 else map_option Suc (first_index P xs))"

lemma first_index_Some:
  "first_index P xs = Some j \<longleftrightarrow> j < length xs \<and> P (xs ! j) \<and> (\<forall>k<j. \<not> P (xs ! k))"
proof (induction xs arbitrary: j)
  case (Cons x xs)
  show ?case
  proof (cases j)
    case 0
    then show ?thesis by simp
  next
    case (Suc j')
    then show ?thesis using Cons.IH [of j'] by (auto simp: less_Suc_eq_0_disj)
  qed
qed simp

lemma first_index_None: "first_index P xs = None \<longleftrightarrow> (\<forall>x\<in>set xs. \<not> P x)"
  by (induction xs) auto

end
