(* ===== verification/PyText.thy ===== *)
theory PyText
  imports Prelude
begin

text \<open>
  The three pieces of Python's text handling the scripts depend on:
  \<open>bytes.decode('utf-8', errors='replace')\<close> (field names and values of the attribute
  table), \<open>float(s)\<close> on a decimal string (the TWD97 coordinates and the height of a
  record) and \<open>str(n)\<close> of a non-negative integer (the tile tag
  \<open>L{level}/R{row}_C{col}\<close>). They are library code the scripts call; the models follow
  the documented behaviour of CPython on the inputs the scripts give them.
\<close>

subsection \<open>UTF-8 decoding with replacement\<close>

text \<open>
  One step of the decoder: the code point at the front of a non-empty buffer and the
  number of bytes it takes. An ill-formed sequence yields U+FFFD for its maximal valid
  prefix (at least one byte), as CPython's decoder does.
\<close>

definition replacement_char :: nat where
  "replacement_char = 65533"

definition cont_in :: "bytes \<Rightarrow> nat \<Rightarrow> nat \<Rightarrow> nat \<Rightarrow> bool" where
  "cont_in bs i lo hi \<longleftrightarrow> i < length bs \<and> lo \<le> unat (bs ! i) \<and> unat (bs ! i) \<le> hi"

definition cbits :: "bytes \<Rightarrow> nat \<Rightarrow> nat" where
  "cbits bs i = unat (bs ! i) - 128"

fun utf8_conts :: "bytes \<Rightarrow> nat \<Rightarrow> nat \<Rightarrow> nat \<Rightarrow> nat \<Rightarrow> nat \<Rightarrow> nat \<times> nat" where
  "utf8_conts bs i 0 acc lo hi = (acc, i)"
| "utf8_conts bs i (Suc k) acc lo hi =
     (if cont_in bs i lo hi then utf8_conts bs (Suc i) k (acc * 64 + cbits bs i) 128 191
      else (replacement_char, i))"

definition utf8_next :: "bytes \<Rightarrow> nat \<times> nat" where
  "utf8_next bs =
     (let n = unat (hd bs) in
      if n < 128 then (n, 1)
      else if 194 \<le> n \<and> n \<le> 223 then utf8_conts bs 1 1 (n - 192) 128 191
      else if 224 \<le> n \<and> n \<le> 239 then
        utf8_conts bs 1 2 (n - 224) (if n = 224 then 160 else 128) (if n = 237 then 159 else 191)
      else if 240 \<le> n \<and> n \<le> 244 then
        utf8_conts bs 1 3 (n - 240) (if n = 240 then 144 else 128) (if n = 244 then 143 else 191)
      else (replacement_char, 1))"

lemma utf8_conts_consumes:
  "i \<le> length bs \<Longrightarrow> i \<le> snd (utf8_conts bs i k acc lo hi) \<and> snd (utf8_conts bs i k acc lo hi) \<le> length bs"
proof (induction k arbitrary: i acc lo hi)
  case 0
  then show ?case by simp
next
  case (Suc k)
  show ?case
  proof (cases "cont_in bs i lo hi")
    case True
    then have "Suc i \<le> length bs" by (simp add: cont_in_def)
    then have "Suc i \<le> snd (utf8_conts bs (Suc i) k (acc * 64 + cbits bs i) 128 191)
        \<and> snd (utf8_conts bs (Suc i) k (acc * 64 + cbits bs i) 128 191) \<le> length bs"
      by (rule Suc.IH)
    with True show ?thesis by simp
  next
    case False
    with Suc.prems show ?thesis by simp
  qed
qed

lemma utf8_conts_lower:
  "fst (utf8_conts bs i k acc 128 191) = replacement_char \<or> acc * 64 ^ k \<le> fst (utf8_conts bs i k acc 128 191)"
proof (induction k arbitrary: i acc)
  case 0
  then show ?case by simp
next
  case (Suc k)
  show ?case
  proof (cases "cont_in bs i 128 191")
    case True
    have le: "acc * 64 ^ Suc k \<le> (acc * 64 + cbits bs i) * 64 ^ k" by simp
    from Suc.IH [of "Suc i" "acc * 64 + cbits bs i"] True show ?thesis
      using order_trans [OF le] by auto
  next
    case False
    then show ?thesis by simp
  qed
qed

lemma utf8_conts_first:
  assumes "cont_in bs i lo hi"
  shows "fst (utf8_conts bs i (Suc k) acc lo hi) = replacement_char
     \<or> (acc * 64 + (lo - 128)) * 64 ^ k \<le> fst (utf8_conts bs i (Suc k) acc lo hi)"
proof -
  have "lo - 128 \<le> cbits bs i" using assms by (simp add: cont_in_def cbits_def diff_le_mono)
  then have le: "(acc * 64 + (lo - 128)) * 64 ^ k \<le> (acc * 64 + cbits bs i) * 64 ^ k" by simp
  have eq: "utf8_conts bs i (Suc k) acc lo hi = utf8_conts bs (Suc i) k (acc * 64 + cbits bs i) 128 191"
    using assms by simp
  show ?thesis
    using utf8_conts_lower [of bs "Suc i" k "acc * 64 + cbits bs i"]
  proof
    assume "fst (utf8_conts bs (Suc i) k (acc * 64 + cbits bs i) 128 191) = replacement_char"
    then show ?thesis using eq by simp
  next
    assume "(acc * 64 + cbits bs i) * 64 ^ k \<le> fst (utf8_conts bs (Suc i) k (acc * 64 + cbits bs i) 128 191)"
    with le have "(acc * 64 + (lo - 128)) * 64 ^ k \<le> fst (utf8_conts bs (Suc i) k (acc * 64 + cbits bs i) 128 191)"
      by (rule order_trans)
    then show ?thesis using assms by simp
  qed
qed

lemma utf8_next_consumes:
  assumes "bs \<noteq> []"
  shows "0 < snd (utf8_next bs) \<and> snd (utf8_next bs) \<le> length bs"
proof -
  have one: "1 \<le> length bs" using assms by (cases bs) auto
  have one': "Suc 0 \<le> length bs" using one by simp
  have h1: "0 < snd (utf8_conts bs (Suc 0) k acc lo hi)" for k acc lo hi
    using utf8_conts_consumes [OF one', of k acc lo hi] by simp
  have h2: "snd (utf8_conts bs (Suc 0) k acc lo hi) \<le> length bs" for k acc lo hi
    using utf8_conts_consumes [OF one', of k acc lo hi] by simp
  show ?thesis unfolding utf8_next_def Let_def using one by (simp add: h1 h2 cont_in_def)
qed

lemma utf8_next_ascii:
  "unat b < 128 \<Longrightarrow> utf8_next (b # bs) = (unat b, 1)"
  by (simp add: utf8_next_def)

lemma utf8_next_non_ascii:
  assumes "128 \<le> unat b"
  shows "128 \<le> fst (utf8_next (b # bs))"
proof -
  let ?n = "unat b"
  have rc: "128 \<le> replacement_char" by (simp add: replacement_char_def)
  have step: "128 \<le> fst (utf8_conts (b # bs) 1 (Suc k) acc lo hi)"
    if "128 \<le> (acc * 64 + (lo - 128)) * 64 ^ k" for k acc lo hi
  proof (cases "cont_in (b # bs) 1 lo hi")
    case True
    then show ?thesis using utf8_conts_first [OF True, of k acc] that rc by auto
  next
    case False
    then show ?thesis using rc by simp
  qed
  consider "194 \<le> ?n \<and> ?n \<le> 223" | "224 \<le> ?n \<and> ?n \<le> 239" | "240 \<le> ?n \<and> ?n \<le> 244"
    | "\<not> (194 \<le> ?n \<and> ?n \<le> 244)" by linarith
  then show ?thesis
  proof cases
    case 1
    then have "2 \<le> ?n - 192" by arith
    then have "128 \<le> ((?n - 192) * 64 + (128 - 128)) * 64 ^ 0" by simp
    with 1 assms show ?thesis using step [of "?n - 192" 128 0] by (simp add: utf8_next_def)
  next
    case 2
    let ?lo = "if ?n = 224 then 160 else 128"
    have "128 \<le> ((?n - 224) * 64 + (?lo - 128)) * 64 ^ 1" using 2 by auto
    with 2 assms show ?thesis using step [of "?n - 224" ?lo 1] by (simp add: utf8_next_def Let_def numeral_2_eq_2)
  next
    case 3
    let ?lo = "if ?n = 240 then 144 else 128"
    have "128 \<le> ((?n - 240) * 64 + (?lo - 128)) * 64 ^ 2" using 3 by auto
    with 3 assms show ?thesis using step [of "?n - 240" ?lo 2] by (simp add: utf8_next_def Let_def numeral_3_eq_3)
  next
    case 4
    with assms rc show ?thesis by (auto simp: utf8_next_def)
  qed
qed

function utf8_decode :: "bytes \<Rightarrow> ustr" where
  "utf8_decode bs =
     (if bs = [] then []
      else fst (utf8_next bs) # utf8_decode (drop (snd (utf8_next bs)) bs))"
  by pat_completeness auto
termination
  by (relation "measure length") (auto dest: utf8_next_consumes)

declare utf8_decode.simps [simp del]

lemma utf8_decode_Nil [simp]: "utf8_decode [] = []"
  by (simp add: utf8_decode.simps)

lemma utf8_decode_Cons:
  "utf8_decode (b # bs) =
     fst (utf8_next (b # bs)) # utf8_decode (drop (snd (utf8_next (b # bs))) (b # bs))"
  by (simp add: utf8_decode.simps [of "b # bs"])

lemma utf8_decode_ascii_Cons [simp]:
  "unat b < 128 \<Longrightarrow> utf8_decode (b # bs) = unat b # utf8_decode bs"
  by (simp add: utf8_decode_Cons utf8_next_ascii)

lemma utf8_decode_eq_Nil_iff [simp]: "utf8_decode bs = [] \<longleftrightarrow> bs = []"
  by (cases bs) (simp_all add: utf8_decode_Cons)

lemma length_utf8_decode: "length (utf8_decode bs) \<le> length bs"
proof (induction bs rule: utf8_decode.induct)
  case (1 bs)
  show ?case
  proof (cases bs)
    case Nil
    then show ?thesis by simp
  next
    case (Cons b bs')
    then have "0 < snd (utf8_next bs)" and "snd (utf8_next bs) \<le> length bs"
      using utf8_next_consumes [of bs] by auto
    with "1.IH" Cons show ?thesis
      by (simp add: utf8_decode_Cons)
  qed
qed

text \<open>
  A decoded string all of whose code points are ASCII comes from exactly those bytes:
  no ill-formed input decodes to ASCII text. So the tests of the source on decoded
  strings (\<open>val != 'NA'\<close>, the key \<open>BUILD_ID\<close>) are tests on the raw bytes.
\<close>

lemma utf8_decode_ascii_iff:
  "\<forall>c \<in> set cs. c < 128 \<Longrightarrow> utf8_decode bs = cs \<longleftrightarrow> bs = map of_nat cs"
proof (induction cs arbitrary: bs)
  case Nil
  then show ?case by auto
next
  case (Cons c cs)
  show ?case
  proof (cases bs)
    case Nil
    then show ?thesis by simp
  next
    case (Cons b bs')
    show ?thesis
    proof (cases "unat b < 128")
      case True
      have "unat (of_nat c :: byte) = c" using Cons.prems by (simp add: unat_of_nat)
      then have "(b = of_nat c) = (unat b = c)" by (simp add: word_unat_eq_iff)
      with True Cons.IH [of bs'] Cons.prems \<open>bs = b # bs'\<close> show ?thesis by auto
    next
      case False
      then have "128 \<le> fst (utf8_next (b # bs'))" using utf8_next_non_ascii by simp
      moreover have "unat (of_nat c :: byte) = c" using Cons.prems by (simp add: unat_of_nat)
      ultimately show ?thesis using False Cons.prems \<open>bs = b # bs'\<close>
        by (auto simp: utf8_decode_Cons)
    qed
  qed
qed

lemma utf8_decode_ascii_bytes [simp]:
  "\<forall>c \<in> set s. of_char c < (128::nat) \<Longrightarrow> utf8_decode (ascii_bytes s) = ascii s"
proof (induction s)
  case Nil
  then show ?case by (simp add: ascii_bytes_def ascii_def)
next
  case (Cons c s)
  have "unat (of_char c :: byte) = unat (of_nat (of_char c) :: byte)"
    by (simp only: of_nat_of_char)
  then have "unat (of_char c :: byte) = of_char c"
    by (simp add: unat_of_nat)
  with Cons show ?case by (simp add: ascii_bytes_def ascii_def)
qed


subsection \<open>\<open>float(s)\<close> on decimal strings\<close>

text \<open>
  CPython's \<open>float()\<close> strips white space, then accepts an optional sign, a decimal
  mantissa with at least one digit and an optional exponent; anything else raises
  \<open>ValueError\<close> (\<open>None\<close> here). The value is the exact decimal number; the spellings
  \<open>inf\<close>, \<open>nan\<close>, digit separators \<open>_\<close> and non-ASCII digits, which CPython also
  accepts, are outside this model and read as \<open>ValueError\<close>.
\<close>

definition is_py_space :: "nat \<Rightarrow> bool" where
  "is_py_space c \<longleftrightarrow> (9 \<le> c \<and> c \<le> 13) \<or> (28 \<le> c \<and> c \<le> 32) \<or> c = 133 \<or> c = 160
     \<or> c = 5760 \<or> (8192 \<le> c \<and> c \<le> 8202) \<or> c = 8232 \<or> c = 8233 \<or> c = 8239
     \<or> c = 8287 \<or> c = 12288"

definition py_strip :: "ustr \<Rightarrow> ustr" where
  "py_strip s = rev (dropWhile is_py_space (rev (dropWhile is_py_space s)))"

definition is_digit :: "nat \<Rightarrow> bool" where
  "is_digit c \<longleftrightarrow> 48 \<le> c \<and> c \<le> 57"

fun digits_value :: "nat list \<Rightarrow> nat \<Rightarrow> nat" where
  "digits_value [] acc = acc"
| "digits_value (c # cs) acc = digits_value cs (10 * acc + (c - 48))"

definition pow10 :: "int \<Rightarrow> real" where
  "pow10 k = (if 0 \<le> k then 10 ^ nat k else 1 / 10 ^ nat (- k))"

definition split_sign :: "ustr \<Rightarrow> int \<times> ustr" where
  "split_sign s =
     (if s \<noteq> [] \<and> hd s = 45 then (-1, tl s) else if s \<noteq> [] \<and> hd s = 43 then (1, tl s) else (1, s))"

definition parse_exponent :: "ustr \<Rightarrow> int option" where
  "parse_exponent s =
     (if s = [] then Some 0
      else if hd s = 101 \<or> hd s = 69 then
        (let (es, r') = split_sign (tl s) in
         if r' \<noteq> [] \<and> list_all is_digit r' then Some (es * int (digits_value r' 0)) else None)
      else None)"

definition py_float :: "ustr \<Rightarrow> real option" where
  "py_float u =
     (let (sg, r) = split_sign (py_strip u);
          ip = takeWhile is_digit r; r1 = dropWhile is_digit r;
          (fp, r2) = (if r1 \<noteq> [] \<and> hd r1 = 46 then (takeWhile is_digit (tl r1), dropWhile is_digit (tl r1))
                      else ([], r1))
      in if ip = [] \<and> fp = [] then None
         else map_option (\<lambda>e. of_int sg * of_nat (digits_value (ip @ fp) 0) * pow10 (e - int (length fp)))
                (parse_exponent r2))"

subsection \<open>\<open>str(n)\<close> and \<open>round(x, n)\<close>\<close>

fun show_nat :: "nat \<Rightarrow> ustr" where
  "show_nat n = (if n < 10 then [48 + n] else show_nat (n div 10) @ [48 + n mod 10])"

declare show_nat.simps [simp del]

text \<open>\<open>round(x, n)\<close> of a float: the nearest multiple of \<open>10^-n\<close>, ties to even.\<close>

definition round_half_even :: "real \<Rightarrow> int" where
  "round_half_even x =
     (let f = \<lfloor>x\<rfloor>; r = x - of_int f in
      if r < 1 / 2 then f else if 1 / 2 < r then f + 1 else if even f then f else f + 1)"

definition py_round :: "real \<Rightarrow> nat \<Rightarrow> real" where
  "py_round x n = of_int (round_half_even (x * 10 ^ n)) / 10 ^ n"

lemma show_nat_digit [simp]: "n < 10 \<Longrightarrow> show_nat n = [48 + n]"
  by (simp add: show_nat.simps)

lemma py_float_Nil [simp]: "py_float [] = None"
  by (simp add: py_float_def py_strip_def split_sign_def)

lemma digits_value_append: "digits_value (xs @ ys) acc = digits_value ys (digits_value xs acc)"
  by (induction xs arbitrary: acc) simp_all

lemma show_nat_digits: "show_nat n \<noteq> [] \<and> list_all is_digit (show_nat n)"
proof (induction n rule: show_nat.induct)
  case (1 n)
  then show ?case by (auto simp: show_nat.simps [of n] is_digit_def)
qed

lemma digits_value_show_nat: "digits_value (show_nat n) 0 = n"
proof (induction n rule: show_nat.induct)
  case (1 n)
  show ?case
  proof (cases "n < 10")
    case True
    then show ?thesis by (subst show_nat.simps) simp
  next
    case False
    then have "digits_value (show_nat n) 0 = 10 * digits_value (show_nat (n div 10)) 0 + n mod 10"
      by (subst show_nat.simps) (simp add: digits_value_append)
    with "1.IH" False show ?thesis by simp
  qed
qed

end
