(* ===== verification/Locator.thy ===== *)
theory Locator
  imports PyText
begin

text \<open>
  The attribute-section locator, \<open>find_attribute_section\<close> of
  \<^verbatim>\<open>src/scripts/03_parse_nlsc_tiles.py\<close> (lines 112--180; the same code is repeated in
  \<^verbatim>\<open>07_parse_multi_campus.py\<close>). It finds the first \<open>BUILD_ID\<close> in the buffer, checks
  the length prefix before it, and probes the field counts 20, 15, 25, 10, 30 in that
  order: a count is accepted when the words before the name table are all type code 8
  and the header before them names that count and a building count in (0, 10000).
  The loop over the candidates is \<open>probe_guesses\<close>; its inner loop over the type codes
  is \<open>all_eight\<close>. Every read is a \<open>struct.unpack_from\<close> and may raise in principle;
  \<open>find_attribute_section_total\<close> shows that none does.
  The declarative contract is \<open>guess_ok\<close>: the probe returns the layout of the first
  candidate that satisfies it (\<open>probe_guesses_refines\<close>).
\<close>

record attr_info =
  meta_offset :: nat
  field_count :: nat
  building_count :: nat
  field_lengths_offset :: nat
  type_codes_offset :: nat
  field_names_offset :: nat

definition build_id_marker :: bytes where
  "build_id_marker = ascii_bytes ''BUILD_ID''"

definition field_count_guesses :: "nat list" where
  "field_count_guesses = [20, 15, 25, 10, 30]"

text \<open>\<open>for j in range(n): v = unpack('<I', start + 4j); if v != 8: break\<close>\<close>

fun all_eight :: "bytes \<Rightarrow> nat \<Rightarrow> nat list \<Rightarrow> py_error + bool" where
  "all_eight d start [] = Inr True"
| "all_eight d start (j # js) =
     ebind (unpack_u32 d (start + j * 4)) (\<lambda>v. if unat v \<noteq> 8 then Inr False else all_eight d start js)"

text \<open>The loop \<open>for field_count_guess in [20, 15, 25, 10, 30]\<close>, with its two
  \<open>continue\<close>s (negative offsets) and the fall-through when the header check fails.\<close>

fun probe_guesses :: "bytes \<Rightarrow> nat \<Rightarrow> nat list \<Rightarrow> py_error + attr_info option" where
  "probe_guesses d nlp [] = Inr None"
| "probe_guesses d nlp (g # gs) =
     (if nlp < g * 4 then probe_guesses d nlp gs
      else
        (let tcs = nlp - g * 4 in
         ebind (all_eight d tcs [0..<g]) (\<lambda>ok.
           if \<not> ok then probe_guesses d nlp gs
           else if tcs < g * 4 + 8 then probe_guesses d nlp gs
           else
             (let fls = tcs - g * 4; ms = fls - 8 in
              ebind (unpack_u32 d ms) (\<lambda>fc.
              ebind (unpack_u32 d (ms + 4)) (\<lambda>bc.
                if unat fc = g \<and> 0 < unat bc \<and> unat bc < 10000
                then Inr (Some \<lparr>meta_offset = ms, field_count = unat fc, building_count = unat bc,
                                field_lengths_offset = fls, type_codes_offset = tcs,
                                field_names_offset = nlp\<rparr>)
                else probe_guesses d nlp gs))))))"

definition find_attribute_section :: "bytes \<Rightarrow> py_error + attr_info option" where
  "find_attribute_section d =
     (case find_sub d build_id_marker of
        None \<Rightarrow> Inr None
      | Some p \<Rightarrow>
          (if p < 4 then Inr None
           else
             (let nlp = p - 4 in
              ebind (unpack_u32 d nlp) (\<lambda>nl.
                if unat nl \<noteq> 8 then Inr None else probe_guesses d nlp field_count_guesses))))"

subsection \<open>The declarative contract of the probe\<close>

definition guess_ok :: "bytes \<Rightarrow> nat \<Rightarrow> nat \<Rightarrow> bool" where
  "guess_ok d nlp g \<longleftrightarrow>
     g * 8 + 8 \<le> nlp \<and> (\<forall>j < g. u32_at d (nlp - g * 4 + j * 4) = 8)
     \<and> u32_at d (nlp - g * 8 - 8) = g
     \<and> 0 < u32_at d (nlp - g * 8 - 4) \<and> u32_at d (nlp - g * 8 - 4) < 10000"

definition layout_of :: "bytes \<Rightarrow> nat \<Rightarrow> nat \<Rightarrow> attr_info" where
  "layout_of d nlp g =
     \<lparr>meta_offset = nlp - g * 8 - 8, field_count = g,
      building_count = u32_at d (nlp - g * 8 - 4),
      field_lengths_offset = nlp - g * 8, type_codes_offset = nlp - g * 4,
      field_names_offset = nlp\<rparr>"

lemma all_eight_in_range:
  assumes "\<forall>j \<in> set js. start + j * 4 + 4 \<le> length d"
  shows "all_eight d start js = Inr (\<forall>j \<in> set js. u32_at d (start + j * 4) = 8)"
  using assms
proof (induction js)
  case Nil
  then show ?case by simp
next
  case (Cons j js)
  then obtain v where v: "unpack_u32 d (start + j * 4) = Inr v" "unat v = u32_at d (start + j * 4)"
    using unpack_u32_in_range [of "start + j * 4" d] by auto
  with Cons show ?case by auto
qed

lemma probe_guesses_refines:
  assumes "nlp + 4 \<le> length d"
  shows "probe_guesses d nlp gs = Inr (map_option (layout_of d nlp) (find (guess_ok d nlp) gs))"
proof (induction gs)
  case Nil
  then show ?case by simp
next
  case (Cons g gs)
  show ?case
  proof (cases "nlp < g * 4")
    case True
    then have "\<not> guess_ok d nlp g" by (simp add: guess_ok_def)
    with True Cons.IH show ?thesis by simp
  next
    case False
    let ?tcs = "nlp - g * 4"
    have rng: "\<forall>j \<in> set [0..<g]. ?tcs + j * 4 + 4 \<le> length d"
      using False assms by auto
    have "(\<forall>j \<in> set [0..<g]. u32_at d (?tcs + j * 4) = 8) \<longleftrightarrow> (\<forall>j < g. u32_at d (?tcs + j * 4) = 8)"
      by auto
    then have ae: "all_eight d ?tcs [0..<g] = Inr (\<forall>j < g. u32_at d (?tcs + j * 4) = 8)"
      using all_eight_in_range [OF rng] by simp
    show ?thesis
    proof (cases "(\<forall>j < g. u32_at d (?tcs + j * 4) = 8) \<and> \<not> ?tcs < g * 4 + 8")
      case False
      then have "\<not> guess_ok d nlp g" by (auto simp: guess_ok_def)
      with False \<open>\<not> nlp < g * 4\<close> ae Cons.IH show ?thesis by (auto simp: Let_def)
    next
      case True
      let ?ms = "?tcs - g * 4 - 8"
      have ms: "?ms = nlp - g * 8 - 8" and ms4: "?ms + 4 = nlp - g * 8 - 4"
        using True False by auto
      have r1: "?ms + 4 \<le> length d" and r2: "?ms + 4 + 4 \<le> length d"
        using True False assms by arith+
      obtain fc where fc: "unpack_u32 d ?ms = Inr fc" "unat fc = u32_at d ?ms"
        using unpack_u32_in_range [OF r1] by blast
      obtain bc where bc: "unpack_u32 d (?ms + 4) = Inr bc" "unat bc = u32_at d (?ms + 4)"
        using unpack_u32_in_range [OF r2] by blast
      have ok: "guess_ok d nlp g \<longleftrightarrow> unat fc = g \<and> 0 < unat bc \<and> unat bc < 10000"
        using True False fc(2) bc(2) ms ms4 by (auto simp: guess_ok_def)
      have lay: "layout_of d nlp g =
          \<lparr>meta_offset = ?ms, field_count = unat fc, building_count = unat bc,
           field_lengths_offset = ?tcs - g * 4, type_codes_offset = ?tcs,
           field_names_offset = nlp\<rparr>" if "unat fc = g"
        using that bc(2) ms ms4 True False by (simp add: layout_of_def)
      show ?thesis
        using False True ae fc(1) bc(1) ok lay Cons.IH by (auto simp: Let_def)
    qed
  qed
qed


text \<open>The first marker lies inside the buffer, so the name-length word before it can be read.\<close>

lemma marker_in_buffer:
  "find_sub d build_id_marker = Some p \<Longrightarrow> p + 8 \<le> length d"
  using find_sub_Some [of d build_id_marker p]
  by (simp add: occurs_at_def build_id_marker_def ascii_bytes_def)

text \<open>The whole locator as a pure function of the buffer: the Python code never raises,
  and its result is the first candidate meeting \<open>guess_ok\<close> after the first marker.\<close>

lemma find_attribute_section_eq:
  "find_attribute_section d =
     Inr (case find_sub d build_id_marker of
            None \<Rightarrow> None
          | Some p \<Rightarrow>
              if p < 4 \<or> u32_at d (p - 4) \<noteq> 8 then None
              else map_option (layout_of d (p - 4)) (find (guess_ok d (p - 4)) field_count_guesses))"
proof (cases "find_sub d build_id_marker")
  case None
  then show ?thesis by (simp add: find_attribute_section_def)
next
  case (Some p)
  show ?thesis
  proof (cases "p < 4")
    case True
    with Some show ?thesis by (simp add: find_attribute_section_def)
  next
    case False
    have len: "p - 4 + 4 \<le> length d" using marker_in_buffer [OF Some] False by simp
    then obtain v where v: "unpack_u32 d (p - 4) = Inr v" "unat v = u32_at d (p - 4)"
      using unpack_u32_in_range by blast
    show ?thesis
      using Some False v probe_guesses_refines [OF len]
      by (simp add: find_attribute_section_def Let_def)
  qed
qed

lemma layout_of_fields:
  "field_count (layout_of d nlp g) = g"
  "field_names_offset (layout_of d nlp g) = nlp"
  "type_codes_offset (layout_of d nlp g) = nlp - g * 4"
  "field_lengths_offset (layout_of d nlp g) = nlp - g * 8"
  "meta_offset (layout_of d nlp g) = nlp - g * 8 - 8"
  "building_count (layout_of d nlp g) = u32_at d (nlp - g * 8 - 4)"
  by (simp_all add: layout_of_def)

text \<open>The structural fingerprint a located section satisfies.\<close>

definition layout_wf :: "bytes \<Rightarrow> attr_info \<Rightarrow> bool" where
  "layout_wf d i \<longleftrightarrow>
     field_count i \<in> set field_count_guesses
     \<and> 0 < building_count i \<and> building_count i < 10000
     \<and> occurs_at d build_id_marker (field_names_offset i + 4)
     \<and> u32_at d (field_names_offset i) = 8
     \<and> type_codes_offset i + field_count i * 4 = field_names_offset i
     \<and> field_lengths_offset i + field_count i * 4 = type_codes_offset i
     \<and> meta_offset i + 8 = field_lengths_offset i
     \<and> (\<forall>j < field_count i. u32_at d (type_codes_offset i + j * 4) = 8)
     \<and> u32_at d (meta_offset i) = field_count i
     \<and> u32_at d (meta_offset i + 4) = building_count i"

lemma guess_ok_layout_wf:
  assumes "g \<in> set field_count_guesses" "guess_ok d nlp g"
    and "occurs_at d build_id_marker (nlp + 4)" "u32_at d nlp = 8"
  shows "layout_wf d (layout_of d nlp g)"
proof -
  have big: "g * 8 + 8 \<le> nlp" using assms(2) by (simp add: guess_ok_def)
  then have "nlp - g * 8 - 8 + 4 = nlp - g * 8 - 4" by arith
  with assms big show ?thesis
    by (simp add: layout_wf_def layout_of_def guess_ok_def)
qed


subsection \<open>Properties of the locator\<close>

text \<open>
  A synthetic attribute header with ten fields, one building and field lengths of 12:
  the probe rejects 20 and 15 (a field length is not 8), skips 25 (the offset would be
  negative) and accepts 10.
\<close>

definition sample_head :: bytes where
  "sample_head =
     [10,0,0,0, 1,0,0,0,
      12,0,0,0, 12,0,0,0, 12,0,0,0, 12,0,0,0, 12,0,0,0,
      12,0,0,0, 12,0,0,0, 12,0,0,0, 12,0,0,0, 12,0,0,0,
      8,0,0,0, 8,0,0,0, 8,0,0,0, 8,0,0,0, 8,0,0,0,
      8,0,0,0, 8,0,0,0, 8,0,0,0, 8,0,0,0, 8,0,0,0,
      8,0,0,0, 66,85,73,76,68,95,73,68]"

lemma sample_head_marker: "find_sub sample_head build_id_marker = Some 92"
  by (simp add: sample_head_def find_sub_def build_id_marker_def ascii_bytes_def)

lemma sample_head_section:
  "find_attribute_section sample_head =
     Inr (Some \<lparr>meta_offset = 0, field_count = 10, building_count = 1,
                field_lengths_offset = 8, type_codes_offset = 48, field_names_offset = 88\<rparr>)"
  unfolding find_attribute_section_def sample_head_marker
  by (simp add: field_count_guesses_def unpack_u32_def upt_rec sample_head_def)

text \<open>
  C1. The locator is a pure function of the buffer (it never raises) and it returns the
  layout of the first candidate field count, in the order 20, 15, 25, 10, 30, that
  passes the structural fingerprint \<open>guess_ok\<close> at the first occurrence of
  \<open>BUILD_ID\<close>, when the word before that occurrence is 8; otherwise no section.
\<close>

theorem find_attribute_section_spec:
  "find_attribute_section d =
     Inr (case find_sub d build_id_marker of
            None \<Rightarrow> None
          | Some p \<Rightarrow>
              if p < 4 \<or> u32_at d (p - 4) \<noteq> 8 then None
              else map_option (layout_of d (p - 4)) (find (guess_ok d (p - 4)) field_count_guesses))"
  by (rule find_attribute_section_eq)

text \<open>
  A buffer in which the bytes \<open>BUILD_ID\<close> occur nowhere has no attribute section
  (zero buildings, no error).
\<close>

theorem find_attribute_section_no_marker:
  assumes "\<forall>q. \<not> occurs_at d build_id_marker q"
  shows "find_attribute_section d = Inr None"
proof -
  from assms have "find_sub d build_id_marker = None" by (simp add: find_sub_None)
  then show ?thesis by (simp add: find_attribute_section_eq)
qed

theorem find_attribute_section_no_marker_witness:
  "(\<forall>q. \<not> occurs_at [5, 0, 0, 0, 10, 0, 0] build_id_marker q)
   \<and> find_attribute_section [5, 0, 0, 0, 10, 0, 0] = Inr None"
proof -
  have none: "\<forall>q. \<not> occurs_at [5, 0, 0, 0, 10, 0, 0] build_id_marker q"
    by (simp add: occurs_at_def build_id_marker_def ascii_bytes_def)
  show ?thesis using find_attribute_section_no_marker [OF none] none by simp
qed


text \<open>
  C4. A located section is well formed: its field count is one of the candidates, its
  building count lies in (0, 10000), the name table starts with the length word 8 right
  before the first \<open>BUILD_ID\<close>, the type-code, field-length and count words sit
  contiguously before it, every type code is 8 and the count words hold the reported
  counts.
\<close>

theorem find_attribute_section_wf:
  assumes "find_attribute_section d = Inr (Some i)"
  shows "layout_wf d i"
proof -
  obtain p where p: "find_sub d build_id_marker = Some p" and p4: "\<not> p < 4"
    and nl: "u32_at d (p - 4) = 8"
    and g: "map_option (layout_of d (p - 4)) (find (guess_ok d (p - 4)) field_count_guesses) = Some i"
    using assms by (auto simp: find_attribute_section_eq split: option.splits if_splits)
  from g obtain gc where gc: "find (guess_ok d (p - 4)) field_count_guesses = Some gc"
    and i: "i = layout_of d (p - 4) gc" by auto
  from gc have mem: "gc \<in> set field_count_guesses" and ok: "guess_ok d (p - 4) gc"
    by (auto simp: find_Some_iff)
  have occ: "occurs_at d build_id_marker (p - 4 + 4)"
    using find_sub_Some [OF p] p4 by simp
  show ?thesis
    unfolding i by (rule guess_ok_layout_wf [OF mem ok occ nl])
qed

theorem find_attribute_section_wf_witness:
  "find_attribute_section sample_head =
     Inr (Some \<lparr>meta_offset = 0, field_count = 10, building_count = 1,
                field_lengths_offset = 8, type_codes_offset = 48, field_names_offset = 88\<rparr>)
   \<and> layout_wf sample_head \<lparr>meta_offset = 0, field_count = 10, building_count = 1,
                field_lengths_offset = 8, type_codes_offset = 48, field_names_offset = 88\<rparr>"
  using find_attribute_section_wf [OF sample_head_section] sample_head_section by simp

end
