(* ===== verification/Attributes.thy ===== *)
theory Attributes
  imports Locator
begin

text \<open>
  The attribute decoder, \<open>parse_tile_attributes\<close> of
  \<^verbatim>\<open>src/scripts/03_parse_nlsc_tiles.py\<close> (lines 183--257). Given the layout the locator
  found, it reads the field lengths (\<open>read_u32s\<close>), the field names (\<open>read_names\<close>), then
  the column-major data region, one column per field (\<open>read_column\<close>, driven by
  \<open>read_columns\<close>), and assembles one sparse record per building
  (\<open>build_record\<close>). A record is a Python dict, modelled as a map from decoded
  strings to JSON values (\<open>jval\<close>); the decoder only stores strings, the pipeline later
  adds the numbers \<open>lon\<close>, \<open>lat\<close>. Every \<open>struct.unpack_from\<close> may raise
  \<open>struct.error\<close>, which propagates as \<open>Inl StructError\<close>.
\<close>

datatype jval = JStr ustr | JNum real

type_synonym record_dict = "ustr \<rightharpoonup> jval"

record tile_attrs =
  ta_field_count :: nat
  ta_building_count :: nat
  ta_fields :: "ustr list"
  ta_buildings :: "record_dict list"

text \<open>\<open>for i in range(fc): fl = unpack('<I', pos); field_lengths.append(fl); pos += 4\<close>\<close>

fun read_u32s :: "bytes \<Rightarrow> nat \<Rightarrow> nat \<Rightarrow> py_error + nat list" where
  "read_u32s d pos 0 = Inr []"
| "read_u32s d pos (Suc n) =
     ebind (unpack_u32 d pos) (\<lambda>v. ebind (read_u32s d (pos + 4) n) (\<lambda>vs. Inr (unat v # vs)))"

text \<open>\<open>nlen = unpack('<I', pos); pos += 4; name = data[pos:pos+nlen].decode(...); pos += nlen\<close>\<close>

fun read_names :: "bytes \<Rightarrow> nat \<Rightarrow> nat \<Rightarrow> py_error + ustr list \<times> nat" where
  "read_names d pos 0 = Inr ([], pos)"
| "read_names d pos (Suc n) =
     ebind (unpack_u32 d pos) (\<lambda>nl.
       (let p1 = pos + 4; name = utf8_decode (py_slice d p1 (p1 + unat nl)) in
        ebind (read_names d (p1 + unat nl) n) (\<lambda>(ns, p). Inr (name # ns, p))))"

text \<open>
  One column: \<open>building_count\<close> values, each a length word and that many bytes. A value
  whose length word would pass \<open>field_end\<close> is empty and leaves \<open>read_pos\<close> where it
  is; a value is read when it ends at most 50 bytes past \<open>field_end\<close>; otherwise it is
  empty and \<open>read_pos\<close> stays just after its length word.
\<close>

fun read_column :: "bytes \<Rightarrow> nat \<Rightarrow> nat \<Rightarrow> nat \<Rightarrow> py_error + ustr list" where
  "read_column d rp fend 0 = Inr []"
| "read_column d rp fend (Suc k) =
     (if fend < rp + 4 then ebind (read_column d rp fend k) (\<lambda>vs. Inr ([] # vs))
      else
        ebind (unpack_u32 d rp) (\<lambda>vl.
          (let rp' = rp + 4 in
           if 0 < unat vl \<and> rp' + unat vl \<le> fend + 50
           then ebind (read_column d (rp' + unat vl) fend k)
                  (\<lambda>vs. Inr (utf8_decode (py_slice d rp' (rp' + unat vl)) # vs))
           else ebind (read_column d rp' fend k) (\<lambda>vs. Inr ([] # vs)))))"

text \<open>The loop over the fields: \<open>all_values[field_name] = values; field_offset += field_lengths[f_idx]\<close>.\<close>

fun read_columns :: "bytes \<Rightarrow> nat \<Rightarrow> (ustr \<times> nat) list \<Rightarrow> nat \<Rightarrow> (ustr \<rightharpoonup> ustr list)
    \<Rightarrow> py_error + (ustr \<rightharpoonup> ustr list)" where
  "read_columns d off [] bc av = Inr av"
| "read_columns d off ((f, l) # fls) bc av =
     ebind (read_column d off (off + l) bc) (\<lambda>vs. read_columns d (off + l) fls bc (av(f \<mapsto> vs)))"

text \<open>\<open>for fname in fields: val = all_values[fname][b_idx]; if val and val != 'NA': bldg[fname] = val\<close>\<close>

definition keep_value :: "ustr \<Rightarrow> bool" where
  "keep_value v \<longleftrightarrow> v \<noteq> [] \<and> v \<noteq> ascii ''NA''"

definition build_record :: "ustr list \<Rightarrow> (ustr \<rightharpoonup> ustr list) \<Rightarrow> nat \<Rightarrow> record_dict" where
  "build_record fnames av b =
     fold (\<lambda>fname bldg. (let v = the (av fname) ! b in
                          if keep_value v then bldg(fname \<mapsto> JStr v) else bldg))
          fnames Map.empty"

definition parse_tile_attributes :: "bytes \<Rightarrow> py_error + tile_attrs option" where
  "parse_tile_attributes d =
     ebind (find_attribute_section d) (\<lambda>found.
       case found of
         None \<Rightarrow> Inr None
       | Some info \<Rightarrow>
           (let fc = field_count info; bc = building_count info in
            if bc = 0 then Inr (Some \<lparr>ta_field_count = fc, ta_building_count = 0,
                                       ta_fields = [], ta_buildings = []\<rparr>)
            else
              ebind (read_u32s d (field_lengths_offset info) fc) (\<lambda>fls.
              ebind (read_names d (field_names_offset info) fc) (\<lambda>(fnames, pos).
              ebind (read_columns d (pos + 5) (zip fnames fls) bc Map.empty) (\<lambda>av.
                Inr (Some \<lparr>ta_field_count = fc, ta_building_count = bc, ta_fields = fnames,
                           ta_buildings = map (build_record fnames av) [0..<bc]\<rparr>))))))"

subsection \<open>Shapes of the intermediate results\<close>

lemma read_u32s_length: "read_u32s d pos n = Inr vs \<Longrightarrow> length vs = n"
  by (induction d pos n arbitrary: vs rule: read_u32s.induct) auto

lemma read_names_length: "read_names d pos n = Inr (ns, p) \<Longrightarrow> length ns = n"
  by (induction d pos n arbitrary: ns p rule: read_names.induct) (auto simp: Let_def split: prod.splits)

lemma read_column_length: "read_column d rp fend k = Inr vs \<Longrightarrow> length vs = k"
proof (induction k arbitrary: rp vs)
  case 0
  then show ?case by simp
next
  case (Suc k)
  show ?case
  proof (cases "fend < rp + 4")
    case True
    with Suc show ?thesis by auto
  next
    case False
    with Suc.prems obtain vl where vl: "unpack_u32 d rp = Inr vl"
      by (auto simp: Let_def)
    show ?thesis
    proof (cases "0 < unat vl \<and> rp + 4 + unat vl \<le> fend + 50")
      case True
      with Suc.prems False vl obtain vs' where
        "read_column d (rp + 4 + unat vl) fend k = Inr vs'" "vs = utf8_decode (py_slice d (rp + 4) (rp + 4 + unat vl)) # vs'"
        by (auto simp: Let_def)
      with Suc.IH show ?thesis by simp
    next
      case True': False
      with Suc.prems False vl obtain vs' where
        "read_column d (rp + 4) fend k = Inr vs'" "vs = [] # vs'"
        by (auto simp: Let_def)
      with Suc.IH show ?thesis by simp
    qed
  qed
qed

lemma read_columns_defined:
  "read_columns d off fls bc av = Inr av' \<Longrightarrow>
     (\<forall>f \<in> fst ` set fls. \<exists>vs. av' f = Some vs \<and> length vs = bc)
     \<and> (\<forall>f. f \<notin> fst ` set fls \<longrightarrow> av' f = av f)"
proof (induction d off fls bc av rule: read_columns.induct)
  case (1 d off bc av)
  then show ?case by simp
next
  case (2 d off f l fls bc av)
  then obtain vs where vs: "read_column d off (off + l) bc = Inr vs"
    and rest: "read_columns d (off + l) fls bc (av(f \<mapsto> vs)) = Inr av'"
    by auto
  from "2.IH" [OF rest] read_column_length [OF vs] show ?case
    by (cases "f \<in> fst ` set fls") auto
qed

subsection \<open>Record assembly\<close>

lemma fold_build_lookup:
  "fold (\<lambda>fname bldg. (let v = the (av fname) ! b in
                         if keep_value v then bldg(fname \<mapsto> JStr v) else bldg)) fnames m k =
     (if k \<in> set fnames \<and> keep_value (the (av k) ! b) then Some (JStr (the (av k) ! b)) else m k)"
  by (induction fnames arbitrary: m) (auto simp: Let_def)

lemma build_record_lookup:
  "build_record fnames av b k =
     (if k \<in> set fnames \<and> keep_value (the (av k) ! b) then Some (JStr (the (av k) ! b)) else None)"
  by (simp add: build_record_def fold_build_lookup)

text \<open>A record is sparse: its keys are declared field names and its values non-empty
  strings other than the placeholder \<open>NA\<close>.\<close>

definition sparse_record :: "ustr list \<Rightarrow> record_dict \<Rightarrow> bool" where
  "sparse_record fnames r \<longleftrightarrow>
     (\<forall>k v. r k = Some v \<longrightarrow> k \<in> set fnames \<and> (\<exists>s. v = JStr s \<and> keep_value s))"

lemma build_record_sparse: "sparse_record fnames (build_record fnames av b)"
  by (auto simp: sparse_record_def build_record_lookup split: if_splits)

lemma parse_tile_attributes_Some:
  assumes "parse_tile_attributes d = Inr (Some r)"
  shows "\<exists>info av. find_attribute_section d = Inr (Some info)
     \<and> ta_field_count r = field_count info \<and> ta_building_count r = building_count info
     \<and> length (ta_fields r) = field_count info
     \<and> ta_buildings r = map (build_record (ta_fields r) av) [0..<building_count info]
     \<and> (\<forall>f \<in> set (ta_fields r). \<exists>vs. av f = Some vs \<and> length vs = building_count info)"
proof -
  obtain info where fa: "find_attribute_section d = Inr (Some info)"
    using assms by (auto simp: parse_tile_attributes_def split: option.splits)
  have bc: "0 < building_count info"
    using fa find_attribute_section_eq [of d]
    by (auto simp: layout_of_fields guess_ok_def dest!: find_Some_iff [THEN iffD1]
        split: option.splits if_splits)
  from assms fa bc obtain fls fnames pos av where
      fls: "read_u32s d (field_lengths_offset info) (field_count info) = Inr fls"
    and nm: "read_names d (field_names_offset info) (field_count info) = Inr (fnames, pos)"
    and cols: "read_columns d (pos + 5) (zip fnames fls) (building_count info) Map.empty = Inr av"
    and r: "r = \<lparr>ta_field_count = field_count info, ta_building_count = building_count info,
                 ta_fields = fnames,
                 ta_buildings = map (build_record fnames av) [0..<building_count info]\<rparr>"
    by (auto simp: parse_tile_attributes_def Let_def split: prod.splits)
  have "length fnames = field_count info" using read_names_length [OF nm] .
  moreover have "length fls = field_count info" using read_u32s_length [OF fls] .
  ultimately have "map fst (zip fnames fls) = fnames" by simp
  then have "fst ` set (zip fnames fls) = set fnames" by (metis set_map)
  with read_columns_defined [OF cols] have "\<forall>f \<in> set fnames. \<exists>vs. av f = Some vs \<and> length vs = building_count info"
    by simp
  with fa r \<open>length fnames = field_count info\<close> show ?thesis by auto
qed


subsection \<open>Evaluation on concrete buffers\<close>

lemma read_u32s_numeral [eval_simps]:
  "read_u32s d pos (numeral k) =
     ebind (unpack_u32 d pos) (\<lambda>v. ebind (read_u32s d (pos + 4) (pred_numeral k)) (\<lambda>vs. Inr (unat v # vs)))"
  by (simp add: numeral_eq_Suc)
lemma read_names_numeral [eval_simps]:
  "read_names d pos (numeral k) =
     ebind (unpack_u32 d pos) (\<lambda>nl.
       (let p1 = pos + 4; name = utf8_decode (py_slice d p1 (p1 + unat nl)) in
        ebind (read_names d (p1 + unat nl) (pred_numeral k)) (\<lambda>(ns, p). Inr (name # ns, p))))"
  by (simp add: numeral_eq_Suc)
lemma read_column_numeral [eval_simps]:
  "read_column d rp fend (numeral k) =
     (if fend < rp + 4 then ebind (read_column d rp fend (pred_numeral k)) (\<lambda>vs. Inr ([] # vs))
      else
        ebind (unpack_u32 d rp) (\<lambda>vl.
          (let rp' = rp + 4 in
           if 0 < unat vl \<and> rp' + unat vl \<le> fend + 50
           then ebind (read_column d (rp' + unat vl) fend (pred_numeral k))
                  (\<lambda>vs. Inr (utf8_decode (py_slice d rp' (rp' + unat vl)) # vs))
           else ebind (read_column d rp' fend (pred_numeral k)) (\<lambda>vs. Inr ([] # vs)))))"
  by (simp add: numeral_eq_Suc)


text \<open>
  A complete synthetic attribute table: ten fields (\<open>BUILD_ID\<close>, \<open>BUILD_H\<close>, then
  \<open>a\<close> to \<open>h\<close>), one building whose \<open>BUILD_ID\<close> is \<open>X1\<close>, whose \<open>BUILD_H\<close> is the
  placeholder \<open>NA\<close> and whose other values are empty.
\<close>

definition sample_tile :: bytes where
  "sample_tile =
     [10,0,0,0, 1,0,0,0,
      6,0,0,0, 6,0,0,0, 4,0,0,0, 4,0,0,0, 4,0,0,0,
      4,0,0,0, 4,0,0,0, 4,0,0,0, 4,0,0,0, 4,0,0,0,
      8,0,0,0, 8,0,0,0, 8,0,0,0, 8,0,0,0, 8,0,0,0,
      8,0,0,0, 8,0,0,0, 8,0,0,0, 8,0,0,0, 8,0,0,0,
      8,0,0,0, 66,85,73,76,68,95,73,68,
      7,0,0,0, 66,85,73,76,68,95,72,
      1,0,0,0, 97, 1,0,0,0, 98, 1,0,0,0, 99, 1,0,0,0, 100,
      1,0,0,0, 101, 1,0,0,0, 102, 1,0,0,0, 103, 1,0,0,0, 104,
      0,0,0,0,55,
      2,0,0,0, 88,49, 2,0,0,0, 78,65,
      0,0,0,0, 0,0,0,0, 0,0,0,0, 0,0,0,0, 0,0,0,0, 0,0,0,0, 0,0,0,0, 0,0,0,0]"

lemma sample_tile_marker: "find_sub sample_tile build_id_marker = Some 92"
  by (simp add: sample_tile_def find_sub_def build_id_marker_def ascii_bytes_def)

lemma sample_tile_section:
  "find_attribute_section sample_tile =
     Inr (Some \<lparr>meta_offset = 0, field_count = 10, building_count = 1,
                field_lengths_offset = 8, type_codes_offset = 48, field_names_offset = 88\<rparr>)"
  unfolding find_attribute_section_def sample_tile_marker
  by (simp add: field_count_guesses_def unpack_u32_def upt_rec sample_tile_def)

lemma sample_tile_parsed:
  "parse_tile_attributes sample_tile =
     Inr (Some \<lparr>ta_field_count = 10, ta_building_count = 1,
                ta_fields = [ascii ''BUILD_ID'', ascii ''BUILD_H'', ascii ''a'', ascii ''b'', ascii ''c'',
                             ascii ''d'', ascii ''e'', ascii ''f'', ascii ''g'', ascii ''h''],
                ta_buildings = [[ascii ''BUILD_ID'' \<mapsto> JStr (ascii ''X1'')]]\<rparr>)"
  unfolding parse_tile_attributes_def sample_tile_section
  by (simp add: eval_simps unpack_u32_def sample_tile_def py_slice_def ascii_def Let_def build_record_def
      keep_value_def del: ebind_eq_Inr)

subsection \<open>Properties of the decoder\<close>

text \<open>
  C5. A decoded table has exactly \<open>building_count\<close> records, with
  \<open>0 < building_count < 10000\<close>, one name per declared field, and every record is
  sparse: its keys are declared field names and its values are non-empty strings other
  than \<open>NA\<close>.
\<close>

theorem parse_tile_attributes_records:
  assumes "parse_tile_attributes d = Inr (Some r)"
  shows "length (ta_buildings r) = ta_building_count r
     \<and> 0 < ta_building_count r \<and> ta_building_count r < 10000
     \<and> length (ta_fields r) = ta_field_count r
     \<and> (\<forall>b \<in> set (ta_buildings r). sparse_record (ta_fields r) b)"
proof -
  obtain info av where fa: "find_attribute_section d = Inr (Some info)"
    and cnt: "ta_field_count r = field_count info" "ta_building_count r = building_count info"
    and len: "length (ta_fields r) = field_count info"
    and bs: "ta_buildings r = map (build_record (ta_fields r) av) [0..<building_count info]"
    using parse_tile_attributes_Some [OF assms] by blast
  have "layout_wf d info"
    using fa find_attribute_section_eq [of d]
    by (auto simp: layout_of_fields guess_ok_layout_wf find_Some_iff find_sub_Some
        split: option.splits if_splits)
  then have "0 < building_count info \<and> building_count info < 10000"
    by (simp add: layout_wf_def)
  with cnt len bs show ?thesis by (auto simp: build_record_sparse)
qed

theorem parse_tile_attributes_records_witness:
  "parse_tile_attributes sample_tile =
     Inr (Some \<lparr>ta_field_count = 10, ta_building_count = 1,
                ta_fields = [ascii ''BUILD_ID'', ascii ''BUILD_H'', ascii ''a'', ascii ''b'', ascii ''c'',
                             ascii ''d'', ascii ''e'', ascii ''f'', ascii ''g'', ascii ''h''],
                ta_buildings = [[ascii ''BUILD_ID'' \<mapsto> JStr (ascii ''X1'')]]\<rparr>)
   \<and> sparse_record [ascii ''BUILD_ID'', ascii ''BUILD_H'', ascii ''a'', ascii ''b'', ascii ''c'',
                    ascii ''d'', ascii ''e'', ascii ''f'', ascii ''g'', ascii ''h'']
       [ascii ''BUILD_ID'' \<mapsto> JStr (ascii ''X1'')]"
  using parse_tile_attributes_records [OF sample_tile_parsed] sample_tile_parsed by simp

definition value_within :: "bytes \<Rightarrow> nat \<Rightarrow> nat \<Rightarrow> ustr \<Rightarrow> bool" where
  "value_within d lo fend v \<longleftrightarrow>
     v = [] \<or> (\<exists>p n. lo + 4 \<le> p \<and> p + n \<le> fend + 50 \<and> v = utf8_decode (py_slice d p (p + n)))"

lemma value_within_Nil [simp]: "value_within d lo fend []"
  by (simp add: value_within_def)

lemma value_within_mono:
  assumes "value_within d lo' fend v" "lo \<le> lo'"
  shows "value_within d lo fend v"
  using assms(1) unfolding value_within_def
proof (elim disjE exE conjE)
  assume "v = []"
  then show "v = [] \<or> (\<exists>p n. lo + 4 \<le> p \<and> p + n \<le> fend + 50 \<and> v = utf8_decode (py_slice d p (p + n)))"
    by simp
next
  fix p n
  assume h: "lo' + 4 \<le> p" "p + n \<le> fend + 50" "v = utf8_decode (py_slice d p (p + n))"
  then have "lo + 4 \<le> p" using assms(2) by simp
  with h show "v = [] \<or> (\<exists>p n. lo + 4 \<le> p \<and> p + n \<le> fend + 50 \<and> v = utf8_decode (py_slice d p (p + n)))"
    by blast
qed

lemma read_column_within:
  "read_column d rp fend k = Inr vs \<Longrightarrow> list_all (value_within d rp fend) vs"
proof (induction k arbitrary: rp vs)
  case 0
  then show ?case by simp
next
  case (Suc k)
  show ?case
  proof (cases "fend < rp + 4")
    case True
    with Suc.prems obtain vs' where "read_column d rp fend k = Inr vs'" "vs = [] # vs'"
      by auto
    with Suc.IH show ?thesis by simp
  next
    case False
    with Suc.prems obtain vl where vl: "unpack_u32 d rp = Inr vl"
      by (auto simp: Let_def)
    show ?thesis
    proof (cases "0 < unat vl \<and> rp + 4 + unat vl \<le> fend + 50")
      case True
      with Suc.prems False vl obtain vs' where
        rest: "read_column d (rp + 4 + unat vl) fend k = Inr vs'"
        and vs: "vs = utf8_decode (py_slice d (rp + 4) (rp + 4 + unat vl)) # vs'"
        by (auto simp: Let_def)
      have tl: "list_all (value_within d rp fend) vs'"
        using Suc.IH [OF rest] by (rule list.pred_mono_strong) (auto elim: value_within_mono)
      have "value_within d rp fend (utf8_decode (py_slice d (rp + 4) (rp + 4 + unat vl)))"
        unfolding value_within_def using True by blast
      with tl vs show ?thesis by simp
    next
      case False': False
      with Suc.prems False vl obtain vs' where
        rest: "read_column d (rp + 4) fend k = Inr vs'" and vs: "vs = [] # vs'"
        by (auto simp: Let_def)
      have "list_all (value_within d rp fend) vs'"
        using Suc.IH [OF rest] by (rule list.pred_mono_strong) (auto elim: value_within_mono)
      with vs show ?thesis by simp
    qed
  qed
qed

text \<open>
  C6. Every non-empty value of a column is the decoding of a byte range that starts
  after the column's read position and ends at most 50 bytes past the column's end:
  the decoder may read a value across the boundary of its field, up to that slack.
\<close>

theorem read_column_values_within:
  assumes "read_column d rp fend k = Inr vs"
  shows "\<forall>v \<in> set vs. v = [] \<or>
           (\<exists>p n. rp + 4 \<le> p \<and> p + n \<le> fend + 50 \<and> v = utf8_decode (py_slice d p (p + n)))"
  using read_column_within [OF assms] by (simp add: list_all_iff value_within_def)

theorem read_column_values_within_witness:
  "read_column [3, 0, 0, 0, 65, 66, 67] 0 4 1 = Inr [[65, 66, 67]]
   \<and> (\<exists>p n. 0 + 4 \<le> p \<and> p + n \<le> 4 + 50 \<and> [65, 66, 67] = utf8_decode (py_slice [3, 0, 0, 0, 65, 66, 67] p (p + n)))"
proof -
  have ev: "read_column [3, 0, 0, 0, 65, 66, 67] 0 4 1 = Inr [[65, 66, 67]]"
    by (simp add: unpack_u32_def py_slice_def)
  show ?thesis using read_column_values_within [OF ev] ev by simp
qed


end
