(* ===== verification/Geodesy.thy ===== *)
theory Geodesy
  imports Prelude
begin

text \<open>
  The two coordinate conversions of \<^verbatim>\<open>src/scripts/03_parse_nlsc_tiles.py\<close>
  (repeated in \<^verbatim>\<open>07_parse_multi_campus.py\<close>): \<open>ecef_to_lonlat\<close> (lines 33--45),
  ten fixed iterations of the latitude refinement on the WGS84 ellipsoid, and
  \<open>twd97_to_wgs84\<close> (lines 48--86), the truncated series inverse of the TM2 projection
  of TWD97. Floats are modelled as real numbers: the theorems are about the formulas the
  code evaluates, not about rounding. \<open>math.atan2\<close> is \<open>atan2\<close> below (on reals there
  is no signed zero). The only Python exception the formulas can raise is the
  \<open>ZeroDivisionError\<close> of \<open>/ math.cos(phi1)\<close>, which \<open>twd97_to_wgs84\<close> returns as
  \<open>None\<close>. In \<open>ecef_to_lonlat\<close> the only divisor that can vanish is
  \<open>cos(lat)\<close>, and it vanishes only when \<open>p = 0\<close> (on the polar axis), where the
  dividend is \<open>p = 0\<close> as well: HOL's \<open>0 / 0 = 0\<close> and the float quotient
  \<open>0.0 / 6.1e-17 = 0.0\<close> agree there.
\<close>

definition atan2 :: "real \<Rightarrow> real \<Rightarrow> real" where
  "atan2 y x =
     (if 0 < x then arctan (y / x)
      else if x < 0 then (if 0 \<le> y then arctan (y / x) + pi else arctan (y / x) - pi)
      else if 0 < y then pi / 2 else if y < 0 then - (pi / 2) else 0)"

definition degrees :: "real \<Rightarrow> real" where
  "degrees x = x * 180 / pi"

definition radians :: "real \<Rightarrow> real" where
  "radians x = x * pi / 180"

subsection \<open>ECEF to WGS84\<close>

definition wgs84_a :: real where "wgs84_a = 6378137"
definition wgs84_f :: real where "wgs84_f = 1 / 298.257223563"
definition wgs84_e2 :: real where "wgs84_e2 = 2 * wgs84_f - wgs84_f * wgs84_f"

text \<open>One pass of \<open>for _ in range(10)\<close>: the new \<open>N\<close> from the old latitude, then the
  new latitude. The pair is \<open>(lat, N)\<close>; the step ignores the old \<open>N\<close>.\<close>

definition ecef_step :: "real \<Rightarrow> real \<Rightarrow> real \<times> real \<Rightarrow> real \<times> real" where
  "ecef_step z p st =
     (let lat = fst st; n = wgs84_a / sqrt (1 - wgs84_e2 * sin lat ^ 2)
      in (atan2 (z + wgs84_e2 * n * sin lat) p, n))"

definition ecef_to_lonlat :: "real \<Rightarrow> real \<Rightarrow> real \<Rightarrow> real \<times> real \<times> real" where
  "ecef_to_lonlat x y z =
     (let lon = atan2 y x; p = sqrt (x * x + y * y);
          lat0 = atan2 z (p * (1 - wgs84_e2));
          (lat, n) = (ecef_step z p ^^ 10) (lat0, 0);
          alt = p / cos lat - n
      in (degrees lon, degrees lat, alt))"

subsection \<open>TWD97 (TM2, central meridian 121 E) to WGS84\<close>

definition twd_a :: real where "twd_a = 6378137"
definition twd_f :: real where "twd_f = 1 / 298.257222101"
definition twd_k0 :: real where "twd_k0 = 0.9999"
definition twd_dx :: real where "twd_dx = 250000"

text \<open>The footpoint latitude \<open>phi1\<close> of the northing: \<open>mu\<close> and the three-term series.\<close>

definition twd97_footpoint :: "real \<Rightarrow> real" where
  "twd97_footpoint n =
     (let f = twd_f; a = twd_a; y = n - 0; m = y / twd_k0;
          mu = m / (a * (1 - f / 4 * (2 + f) - 3 / 64 * f * f * (1 + f)));
          e1 = (1 - sqrt (1 - (2 * f - f * f))) / (1 + sqrt (1 - (2 * f - f * f)))
      in mu + (3 * e1 / 2 - 27 * e1 ^ 3 / 32) * sin (2 * mu)
            + (21 * e1 ^ 2 / 16 - 55 * e1 ^ 4 / 32) * sin (4 * mu)
            + (151 * e1 ^ 3 / 96) * sin (6 * mu))"

definition twd97_to_wgs84 :: "real \<Rightarrow> real \<Rightarrow> (real \<times> real) option" where
  "twd97_to_wgs84 e n =
     (let f = twd_f; a = twd_a; k0 = twd_k0; lon0 = radians 121;
          x = e - twd_dx; phi1 = twd97_footpoint n;
          e2 = 2 * f - f * f; ep2 = e2 / (1 - e2);
          c1 = ep2 * cos phi1 ^ 2; t1 = tan phi1 ^ 2;
          n1 = a / sqrt (1 - e2 * sin phi1 ^ 2);
          r1 = a * (1 - e2) / ((1 - e2 * sin phi1 ^ 2) powr 1.5);
          d = x / (n1 * k0);
          lat = phi1 - (n1 * tan phi1 / r1) *
                  (d ^ 2 / 2 - (5 + 3 * t1 + 10 * c1 - 4 * c1 ^ 2 - 9 * ep2) * d ^ 4 / 24)
      in if cos phi1 = 0 then None
         else Some (degrees (lon0 + (d - (1 + 2 * t1 + c1) * d ^ 3 / 6
                      + (5 - 2 * c1 + 28 * t1 - 3 * c1 ^ 2 + 8 * ep2 + 24 * t1 ^ 2) * d ^ 5 / 120)
                      / cos phi1),
                    degrees lat))"

subsection \<open>Facts on the building blocks\<close>

lemma atan2_zero_pos [simp]: "0 < x \<Longrightarrow> atan2 0 x = 0"
  by (simp add: atan2_def)

lemma atan2_zero_zero [simp]: "atan2 0 0 = 0"
  by (simp add: atan2_def)

lemma atan2_bounds: "- pi < atan2 y x \<and> atan2 y x \<le> pi"
proof -
  have a: "- (pi / 2) < arctan t \<and> arctan t < pi / 2" for t
    using arctan_bounded [of t] by simp
  have neg: "arctan (y / x) \<le> 0" if "x < 0" "0 \<le> y"
    using that by (simp add: arctan_le_zero_iff divide_nonneg_neg)
  have pos: "0 < arctan (y / x)" if "x < 0" "y < 0"
    using that by (simp add: zero_less_arctan_iff divide_neg_neg)
  show ?thesis
    using a [of "y / x"] neg pos pi_gt_zero
    by (auto simp: atan2_def)
qed

lemma atan2_nonneg_x_bounds: "0 \<le> x \<Longrightarrow> - (pi / 2) \<le> atan2 y x \<and> atan2 y x \<le> pi / 2"
proof -
  have "- (pi / 2) < arctan t \<and> arctan t < pi / 2" for t
    using arctan_bounded [of t] by simp
  then show "0 \<le> x \<Longrightarrow> ?thesis"
    using pi_gt_zero by (auto simp: atan2_def less_eq_real_def)
qed

lemma degrees_mono_bounds:
  "lo \<le> t \<Longrightarrow> t \<le> hi \<Longrightarrow> degrees lo \<le> degrees t \<and> degrees t \<le> degrees hi"
  by (simp add: degrees_def divide_right_mono mult_right_mono)

lemma degrees_radians [simp]: "degrees (radians x) = x"
  by (simp add: degrees_def radians_def)

lemma wgs84_e2_bounds: "0 < wgs84_e2 \<and> wgs84_e2 < 1"
  by (simp add: wgs84_e2_def wgs84_f_def)

lemma ecef_step_lat: "fst (ecef_step z p st) = atan2 (z + wgs84_e2 * (wgs84_a / sqrt (1 - wgs84_e2 * sin (fst st) ^ 2)) * sin (fst st)) p"
  by (simp add: ecef_step_def Let_def)

lemma ecef_iter_lat:
  "\<exists>t. fst ((ecef_step z p ^^ Suc k) st) = atan2 t p"
  unfolding funpow.simps comp_def ecef_step_def Let_def fst_conv by (rule exI, rule refl)

lemma ecef_iter_equator:
  "0 < p \<Longrightarrow> (ecef_step 0 p ^^ Suc k) (0, c) = (0, wgs84_a)"
  by (induction k) (simp_all add: ecef_step_def)

lemma ecef_lat_bounds:
  assumes "0 \<le> p"
  shows "- (pi / 2) \<le> fst ((ecef_step z p ^^ Suc k) st) \<and> fst ((ecef_step z p ^^ Suc k) st) \<le> pi / 2"
  using ecef_iter_lat atan2_nonneg_x_bounds [OF assms] by metis

lemma ecef_lat_cos_pos:
  assumes "0 < p"
  shows "0 < cos (fst ((ecef_step z p ^^ Suc k) st))"
proof -
  obtain t where t: "fst ((ecef_step z p ^^ Suc k) st) = arctan (t / p)"
    using ecef_iter_lat assms by (metis atan2_def)
  show ?thesis
    unfolding t by (simp add: cos_arctan add_pos_nonneg)
qed

lemma ecef_iter_pole:
  assumes "0 < z"
  shows "(ecef_step z 0 ^^ Suc k) (pi / 2, c) = (pi / 2, wgs84_a / sqrt (1 - wgs84_e2))"
proof (induction k)
  have "0 < z + wgs84_e2 * (wgs84_a / sqrt (1 - wgs84_e2))"
    using assms wgs84_e2_bounds by (simp add: wgs84_a_def add_pos_nonneg)
  then have step: "ecef_step z 0 (pi / 2, c') = (pi / 2, wgs84_a / sqrt (1 - wgs84_e2))" for c'
    by (simp add: ecef_step_def atan2_def)
  case 0
  show ?case using step by simp
  case (Suc k)
  then show ?case using step by simp
qed

lemma twd97_footpoint_zero [simp]: "twd97_footpoint 0 = 0"
  by (simp add: twd97_footpoint_def Let_def)

lemma twd97_origin: "twd97_to_wgs84 250000 0 = Some (121, 0)"
  by (simp add: twd97_to_wgs84_def Let_def twd_dx_def degrees_def radians_def)

subsection \<open>Properties of the conversions\<close>

text \<open>Whatever the ECEF input, \<open>ecef_to_lonlat\<close> returns a longitude in
  \<open>(-180, 180]\<close> and a latitude in \<open>[-90, 90]\<close> degrees.\<close>

lemma ecef_to_lonlat_ranges:
  "- 180 < fst (ecef_to_lonlat x y z) \<and> fst (ecef_to_lonlat x y z) \<le> 180 \<and>
   - 90 \<le> fst (snd (ecef_to_lonlat x y z)) \<and> fst (snd (ecef_to_lonlat x y z)) \<le> 90"
proof -
  define p where "p = sqrt (x * x + y * y)"
  define st where "st = (ecef_step z p ^^ 10) (atan2 z (p * (1 - wgs84_e2)), 0)"
  have lat: "- (pi / 2) \<le> fst st \<and> fst st \<le> pi / 2"
    unfolding st_def using ecef_lat_bounds [where p=p and k=9] by (simp add: p_def)
  have "degrees (- pi) < degrees (atan2 y x)"
    using atan2_bounds [of y x] pi_gt_zero by (simp add: degrees_def pos_less_divide_eq)
  moreover have "degrees (atan2 y x) \<le> degrees pi"
    using degrees_mono_bounds [of "atan2 y x" "atan2 y x" pi] atan2_bounds [of y x] by simp
  moreover have "degrees (- (pi / 2)) \<le> degrees (fst st) \<and> degrees (fst st) \<le> degrees (pi / 2)"
    using degrees_mono_bounds lat by blast
  ultimately show ?thesis
    unfolding ecef_to_lonlat_def Let_def p_def [symmetric] st_def [symmetric]
    by (simp add: degrees_def split_def)
qed

text \<open>On the equatorial plane (\<open>z = 0\<close>, off the axis) the ten iterations stay at
  latitude 0 with \<open>N = a\<close>, so the altitude is the distance from the axis minus the
  equatorial radius.\<close>

theorem ecef_to_lonlat_equator:
  assumes "0 < x * x + y * y"
  shows "ecef_to_lonlat x y 0 = (degrees (atan2 y x), 0, sqrt (x * x + y * y) - wgs84_a)"
proof -
  have p: "0 < sqrt (x * x + y * y)" using assms by simp
  have lat0: "atan2 0 (sqrt (x * x + y * y) * (1 - wgs84_e2)) = 0"
    using p wgs84_e2_bounds by simp
  show ?thesis
    using ecef_iter_equator [OF p, where k=9 and c=0]
    by (simp add: ecef_to_lonlat_def Let_def lat0 degrees_def)
qed

theorem ecef_to_lonlat_equator_witness:
  "0 < 1 * 1 + 0 * (0::real) \<and> ecef_to_lonlat 1 0 0 = (0, 0, 1 - wgs84_a)"
  using ecef_to_lonlat_equator [of 1 0] by (simp add: degrees_def)

text \<open>C21: on the polar axis above the equator (\<open>x = y = 0\<close>, \<open>z > 0\<close>) the code
  returns latitude 90, but its altitude \<open>p / cos(lat) - N\<close> is \<open>-N\<close>, the negated
  polar radius of curvature, whatever \<open>z\<close> is: the formula does not give the height
  there.\<close>

theorem ecef_to_lonlat_pole:
  assumes "0 < z"
  shows "ecef_to_lonlat 0 0 z = (0, 90, - (wgs84_a / sqrt (1 - wgs84_e2)))"
proof -
  have lat0: "atan2 z 0 = pi / 2" using assms by (simp add: atan2_def)
  show ?thesis
    using ecef_iter_pole [OF assms, where k=9 and c=0]
    by (simp add: ecef_to_lonlat_def Let_def lat0 degrees_def)
qed

theorem ecef_to_lonlat_pole_witness:
  "0 < (6356752::real) \<and> ecef_to_lonlat 0 0 6356752 = (0, 90, - (wgs84_a / sqrt (1 - wgs84_e2)))"
  using ecef_to_lonlat_pole [of 6356752] by simp




text \<open>C19: the conversion is mirror-symmetric about the central meridian: moving the
  easting by \<open>x\<close> to the west instead of the east reflects the longitude about 121 E
  and keeps the latitude (the series is odd in \<open>D\<close> for the longitude and even for
  the latitude).\<close>

theorem twd97_to_wgs84_mirror:
  assumes "twd97_to_wgs84 (250000 + x) n = Some (lon, lat)"
  shows "twd97_to_wgs84 (250000 - x) n = Some (242 - lon, lat)"
proof -
  have odd3: "(- d) ^ 3 = - (d ^ 3)" and odd5: "(- d) ^ 5 = - (d ^ 5)"
    and even2: "(- d) ^ 2 = d ^ 2" and even4: "(- d) ^ 4 = d ^ 4" for d :: real
    by simp_all
  have neg: "(- x) / c = - (x / c)" for c by simp
  show ?thesis
    using assms
    by (auto simp: twd97_to_wgs84_def Let_def twd_dx_def degrees_def radians_def neg odd3 odd5
                   even2 even4 field_simps split: if_splits)
qed

theorem twd97_to_wgs84_mirror_witness:
  "twd97_to_wgs84 (250000 + 0) 0 = Some (121, 0) \<and> twd97_to_wgs84 (250000 - 0) 0 = Some (242 - 121, 0)"
  using twd97_to_wgs84_mirror [of 0 0 121 0] twd97_origin by simp

end
