(* ===== verification/TileFile.thy ===== *)
theory TileFile
  imports Attributes Geodesy
begin

text \<open>
  One tile file of \<^verbatim>\<open>src/scripts/03_parse_nlsc_tiles.py\<close>: \<open>parse_tile_header\<close>
  (lines 89--109), the tile number and the oriented bounding box of eight ECEF corners,
  and \<open>parse_tile_file\<close> (lines 258--321), which gunzips the file when it starts with
  the gzip magic, converts the non-zero corners to WGS84 and their bounding box, decodes
  the attribute table and adds a WGS84 position to every building that carries TWD97
  centre coordinates. The dictionary the function returns is the record
  \<open>tile_result\<close>; a key the code leaves out is \<open>None\<close> or the empty list. The two
  library routines the file only calls are parameters: \<open>gunzip\<close> (\<open>gzip.decompress\<close>,
  \<open>None\<close> when it raises) and \<open>f64\<close>, the value of the IEEE double that
  \<open>struct.unpack_from('<d')\<close> reads from eight bytes.
\<close>

record tile_header =
  th_level :: nat
  th_row :: nat
  th_col :: nat
  th_corners :: "(64 word \<times> 64 word \<times> 64 word) list"

definition u64_at :: "bytes \<Rightarrow> nat \<Rightarrow> 64 word" where
  "u64_at d off = of_nat (le_nat (take 8 (drop off d)))"

definition corner_at :: "bytes \<Rightarrow> nat \<Rightarrow> 64 word \<times> 64 word \<times> 64 word" where
  "corner_at d off = (u64_at d off, u64_at d (off + 8), u64_at d (off + 16))"

definition parse_tile_header :: "bytes \<Rightarrow> tile_header option" where
  "parse_tile_header d =
     (if length d < 12 then None
      else Some \<lparr>th_level = u32_at d 0, th_row = u32_at d 4, th_col = u32_at d 8,
                 th_corners = map (\<lambda>i. corner_at d (12 + i * 24))
                                  (filter (\<lambda>i. 12 + i * 24 + 24 \<le> length d) [0..<8])\<rparr>)"

definition gzip_magic :: bytes where
  "gzip_magic = [0x1f, 0x8b]"

definition tile_data :: "(bytes \<Rightarrow> bytes option) \<Rightarrow> bytes \<Rightarrow> bytes" where
  "tile_data gunzip raw =
     (if take 2 raw = gzip_magic then (case gunzip raw of Some d \<Rightarrow> d | None \<Rightarrow> raw) else raw)"

definition nonzero_corner :: "real \<times> real \<times> real \<Rightarrow> bool" where
  "nonzero_corner c = (case c of (x, y, z) \<Rightarrow> x \<noteq> 0 \<or> y \<noteq> 0 \<or> z \<noteq> 0)"

definition corners_wgs84 :: "(64 word \<Rightarrow> real) \<Rightarrow> tile_header \<Rightarrow> (real \<times> real \<times> real) list" where
  "corners_wgs84 f64 h =
     map (\<lambda>(x, y, z). ecef_to_lonlat x y z)
         (filter nonzero_corner (map (\<lambda>(a, b, c). (f64 a, f64 b, f64 c)) (th_corners h)))"

text \<open>\<open>result['bbox']\<close>: \<open>(lon_min, lon_max, lat_min, lat_max)\<close>.\<close>

definition bbox_of :: "(real \<times> real \<times> real) list \<Rightarrow> (real \<times> real \<times> real \<times> real) option" where
  "bbox_of cs =
     (if cs = [] then None
      else Some (Min (set (map fst cs)), Max (set (map fst cs)),
                 Min (set (map (fst \<circ> snd) cs)), Max (set (map (fst \<circ> snd) cs))))"

text \<open>Python truthiness and \<open>float()\<close> of a value read with \<open>bldg.get(k, '')\<close>.\<close>

definition jval_truthy :: "jval \<Rightarrow> bool" where
  "jval_truthy v = (case v of JStr s \<Rightarrow> s \<noteq> [] | JNum r \<Rightarrow> r \<noteq> 0)"

definition jval_float :: "jval \<Rightarrow> real option" where
  "jval_float v = (case v of JStr s \<Rightarrow> py_float s | JNum r \<Rightarrow> Some r)"

text \<open>The loop body of lines 308--317: a \<open>ValueError\<close> of \<open>float()\<close> or the
  \<open>ZeroDivisionError\<close> of the projection leaves the building as it is.\<close>

definition enrich_building :: "record_dict \<Rightarrow> record_dict" where
  "enrich_building b =
     (case (b (ascii ''CENT_E_97''), b (ascii ''CENT_N_97'')) of
        (Some e97, Some n97) \<Rightarrow>
          (if jval_truthy e97 \<and> jval_truthy n97 then
             (case (jval_float e97, jval_float n97) of
                (Some e, Some n) \<Rightarrow>
                  (case twd97_to_wgs84 e n of
                     Some (lon, lat) \<Rightarrow>
                       b(ascii ''lon'' \<mapsto> JNum (py_round lon 7), ascii ''lat'' \<mapsto> JNum (py_round lat 7))
                   | None \<Rightarrow> b)
              | _ \<Rightarrow> b)
           else b)
      | _ \<Rightarrow> b)"

record tile_result =
  tr_raw_size :: nat
  tr_size :: nat
  tr_header :: "tile_header option"
  tr_obb_wgs84 :: "(real \<times> real \<times> real) list"
  tr_bbox :: "(real \<times> real \<times> real \<times> real) option"
  tr_attrs :: "(nat \<times> ustr list \<times> record_dict list) option"

definition parse_tile_file ::
  "(bytes \<Rightarrow> bytes option) \<Rightarrow> (64 word \<Rightarrow> real) \<Rightarrow> bytes \<Rightarrow> py_error + tile_result" where
  "parse_tile_file gunzip f64 raw =
     (let d = tile_data gunzip raw; h = parse_tile_header d;
          obb = (case h of None \<Rightarrow> [] | Some hdr \<Rightarrow> corners_wgs84 f64 hdr)
      in ebind (parse_tile_attributes d) (\<lambda>attrs.
           Inr \<lparr>tr_raw_size = length raw, tr_size = length d, tr_header = h,
                tr_obb_wgs84 = obb, tr_bbox = bbox_of obb,
                tr_attrs = (case attrs of
                              None \<Rightarrow> None
                            | Some a \<Rightarrow> if 0 < ta_building_count a
                                        then Some (ta_building_count a, ta_fields a,
                                                   map enrich_building (ta_buildings a))
                                        else None)\<rparr>))"

subsection \<open>The header\<close>

lemma corner_slots:
  assumes "12 \<le> L"
  shows "filter (\<lambda>i. 12 + i * 24 + 24 \<le> L) [0..<8] = [0..<min 8 ((L - 12) div 24)]"
proof -
  have "12 + i * 24 + 24 \<le> L \<longleftrightarrow> i < (L - 12) div 24" for i
  proof -
    have "i < (L - 12) div 24 \<longleftrightarrow> Suc i \<le> (L - 12) div 24" by (simp add: Suc_le_eq)
    also have "\<dots> \<longleftrightarrow> Suc i * 24 \<le> L - 12" by (rule less_eq_div_iff_mult_less_eq) simp
    finally show ?thesis using assms by linarith
  qed
  then show ?thesis by (simp add: filter_upt_less [symmetric])
qed

lemma parse_tile_header_Some:
  "12 \<le> length d \<Longrightarrow> parse_tile_header d =
     Some \<lparr>th_level = u32_at d 0, th_row = u32_at d 4, th_col = u32_at d 8,
           th_corners = map (\<lambda>i. corner_at d (12 + i * 24)) [0..<min 8 ((length d - 12) div 24)]\<rparr>"
  using corner_slots [of "length d"] by (simp add: parse_tile_header_def)

lemma bbox_of_Some:
  assumes "bbox_of cs = Some (lo, hi, la, ha)"
  shows "cs \<noteq> [] \<and> (\<forall>c\<in>set cs. lo \<le> fst c \<and> fst c \<le> hi \<and> la \<le> fst (snd c) \<and> fst (snd c) \<le> ha)
         \<and> lo \<in> fst ` set cs \<and> hi \<in> fst ` set cs
         \<and> la \<in> (fst \<circ> snd) ` set cs \<and> ha \<in> (fst \<circ> snd) ` set cs"
proof -
  have ne: "cs \<noteq> []" using assms by (auto simp: bbox_of_def split: if_splits)
  then have vals: "lo = Min (fst ` set cs)" "hi = Max (fst ` set cs)"
      "la = Min ((fst \<circ> snd) ` set cs)" "ha = Max ((fst \<circ> snd) ` set cs)"
    using assms by (simp_all add: bbox_of_def)
  have fin: "finite (fst ` set cs)" "finite ((fst \<circ> snd) ` set cs)" by simp_all
  have nem: "fst ` set cs \<noteq> {}" "(fst \<circ> snd) ` set cs \<noteq> {}" using ne by simp_all
  show ?thesis
    unfolding vals using ne Min_in [OF fin(1) nem(1)] Max_in [OF fin(1) nem(1)]
      Min_in [OF fin(2) nem(2)] Max_in [OF fin(2) nem(2)]
    by (auto intro: Min_le Max_ge)
qed

lemma corners_wgs84_ranges:
  "c \<in> set (corners_wgs84 f64 h) \<Longrightarrow>
     - 180 < fst c \<and> fst c \<le> 180 \<and> - 90 \<le> fst (snd c) \<and> fst (snd c) \<le> 90"
  using ecef_to_lonlat_ranges by (auto simp: corners_wgs84_def)

lemma parse_tile_file_Inr:
  assumes "parse_tile_file gunzip f64 raw = Inr r"
  shows "\<exists>attrs. parse_tile_attributes (tile_data gunzip raw) = Inr attrs
     \<and> tr_header r = parse_tile_header (tile_data gunzip raw)
     \<and> tr_obb_wgs84 r = (case tr_header r of None \<Rightarrow> [] | Some h \<Rightarrow> corners_wgs84 f64 h)
     \<and> tr_bbox r = bbox_of (tr_obb_wgs84 r)
     \<and> tr_attrs r = (case attrs of None \<Rightarrow> None
                      | Some a \<Rightarrow> if 0 < ta_building_count a
                                  then Some (ta_building_count a, ta_fields a, map enrich_building (ta_buildings a))
                                  else None)"
proof (cases "parse_tile_attributes (tile_data gunzip raw)")
  case (Inr attrs)
  then show ?thesis using assms by (clarsimp simp: parse_tile_file_def Let_def)
qed (use assms in \<open>simp add: parse_tile_file_def Let_def\<close>)

lemma obb_wgs84_ranges:
  "c \<in> set (case h of None \<Rightarrow> [] | Some hdr \<Rightarrow> corners_wgs84 f64 hdr) \<Longrightarrow>
     - 180 < fst c \<and> fst c \<le> 180 \<and> - 90 \<le> fst (snd c) \<and> fst (snd c) \<le> 90"
  by (cases h) (simp_all add: corners_wgs84_ranges)

text \<open>A 40-byte tile head: level 7, row 2, column 3 and one complete corner
  whose first coordinate word is 1; the last four bytes do not complete a second corner.\<close>

definition sample_header :: bytes where
  "sample_header =
     [7,0,0,0, 2,0,0,0, 3,0,0,0,
      1,0,0,0,0,0,0,0, 0,0,0,0,0,0,0,0, 0,0,0,0,0,0,0,0,
      9,9,9,9]"

lemma sample_header_parsed:
  "parse_tile_header sample_header =
     Some \<lparr>th_level = 7, th_row = 2, th_col = 3, th_corners = [(1, 0, 0)]\<rparr>"
  by (simp add: parse_tile_header_def sample_header_def u32_at_def corner_at_def u64_at_def upt_rec)

lemma sample_header_no_table: "parse_tile_attributes sample_header = Inr None"
proof -
  have "find_sub sample_header build_id_marker = None"
    by (simp add: sample_header_def find_sub_def build_id_marker_def ascii_bytes_def)
  then show ?thesis by (simp add: parse_tile_attributes_def find_attribute_section_def)
qed

lemma sample_header_file:
  "parse_tile_file (\<lambda>_. None) (\<lambda>w. real (unat w)) sample_header =
     Inr \<lparr>tr_raw_size = 40, tr_size = 40,
          tr_header = Some \<lparr>th_level = 7, th_row = 2, th_col = 3, th_corners = [(1, 0, 0)]\<rparr>,
          tr_obb_wgs84 = [ecef_to_lonlat 1 0 0],
          tr_bbox = Some (fst (ecef_to_lonlat 1 0 0), fst (ecef_to_lonlat 1 0 0),
                          fst (snd (ecef_to_lonlat 1 0 0)), fst (snd (ecef_to_lonlat 1 0 0))),
          tr_attrs = None\<rparr>"
proof -
  have d: "tile_data (\<lambda>_. None) sample_header = sample_header"
    by (simp add: tile_data_def sample_header_def gzip_magic_def)
  have "length sample_header = 40" by (simp add: sample_header_def)
  then show ?thesis
    by (simp add: parse_tile_file_def d sample_header_parsed sample_header_no_table corners_wgs84_def
        nonzero_corner_def bbox_of_def)
qed

lemma sample_cent_floats:
  "py_float (ascii ''250000'') = Some 250000" "py_float (ascii ''0'') = Some 0"
  by (simp_all add: py_float_def py_strip_def is_py_space_def split_sign_def is_digit_def
      parse_exponent_def pow10_def ascii_def)

subsection \<open>Properties of one tile file\<close>

text \<open>C13: \<open>parse_tile_header\<close> gives up exactly on files shorter than 12 bytes;
  otherwise it reads the three little-endian 32-bit tile numbers and one corner for every
  complete 24-byte slot after them, at most eight, the \<open>i\<close>-th at offset
  \<open>12 + 24 i\<close>.\<close>

theorem parse_tile_header_layout:
  "(parse_tile_header d = None \<longleftrightarrow> length d < 12) \<and>
   (\<forall>h. parse_tile_header d = Some h \<longrightarrow>
      th_level h = u32_at d 0 \<and> th_row h = u32_at d 4 \<and> th_col h = u32_at d 8 \<and>
      length (th_corners h) = min 8 ((length d - 12) div 24) \<and>
      (\<forall>i < length (th_corners h). th_corners h ! i = corner_at d (12 + 24 * i)))"
proof (cases "length d < 12")
  case True
  then show ?thesis by (simp add: parse_tile_header_def)
next
  case False
  then show ?thesis by (simp add: parse_tile_header_Some mult.commute)
qed

theorem parse_tile_header_layout_witness:
  "parse_tile_header sample_header \<noteq> None \<and> length sample_header = 40 \<and>
   length (th_corners (the (parse_tile_header sample_header))) = min 8 ((40 - 12) div 24) \<and>
   th_corners (the (parse_tile_header sample_header)) ! 0 = corner_at sample_header 12"
proof -
  have "length sample_header = 40" by (simp add: sample_header_def)
  then show ?thesis
    using parse_tile_header_layout [of sample_header] sample_header_parsed by auto
qed



text \<open>C16: the TWD97 enrichment of a building changes no key other than
  \<open>lon\<close> and \<open>lat\<close>: the decoded attributes survive it unchanged.\<close>

theorem enrich_building_frame:
  assumes "k \<noteq> ascii ''lon''" and "k \<noteq> ascii ''lat''"
  shows "enrich_building b k = b k"
  using assms by (auto simp: enrich_building_def split: option.splits prod.splits)

theorem enrich_building_frame_witness:
  "ascii ''BUILD_ID'' \<noteq> ascii ''lon'' \<and> ascii ''BUILD_ID'' \<noteq> ascii ''lat'' \<and>
   enrich_building [ascii ''BUILD_ID'' \<mapsto> JStr (ascii ''X1'')] (ascii ''BUILD_ID'') = Some (JStr (ascii ''X1''))"
  using enrich_building_frame [of "ascii ''BUILD_ID''" "[ascii ''BUILD_ID'' \<mapsto> JStr (ascii ''X1'')]"]
  by (simp add: ascii_def)




end
