(* ===== verification/Dedup.thy ===== *)
theory Dedup
  imports TileFile "HOL-Library.List_Lexorder" "HOL-Library.Char_ord"
begin

text \<open>
  The tile walk of \<^verbatim>\<open>process_all_tiles\<close> (\<^verbatim>\<open>src/scripts/03_parse_nlsc_tiles.py\<close>,
  lines 324--371). \<open>os.walk\<close> is its result, a list of directories each with its file
  names, in the order the file system yields them; inside a directory the code sorts the
  names (\<open>sorted\<close> on \<open>str\<close>, the lexicographic order of \<open>List_Lexorder\<close> and
  \<open>Char_ord\<close>). Reading and parsing a file is the parameter \<open>parse rdir fname\<close>,
  which the code instantiates with \<open>parse_tile_file\<close> of the file \<open>rdir/fname\<close>; an exception it raises skips the
  file. The three accumulators of the code are the record \<open>dedup_state\<close>, and the
  per-file loop body is \<open>process_tile\<close>.
\<close>

definition py_endswith :: "string \<Rightarrow> string \<Rightarrow> bool" where
  "py_endswith s suf \<longleftrightarrow> length suf \<le> length s \<and> drop (length s - length suf) s = suf"

definition is_tile_name :: "string \<Rightarrow> bool" where
  "is_tile_name fname \<longleftrightarrow> py_endswith fname ''.bin'' \<and> fname \<noteq> ''LAYER.bin''"

text \<open>\<open>result.get('level', '?')\<close> and the f-string \<open>f'L{level}/R{row}_C{col}'\<close>.\<close>

definition show_opt :: "nat option \<Rightarrow> ustr" where
  "show_opt v = (case v of None \<Rightarrow> ascii ''?'' | Some n \<Rightarrow> show_nat n)"

definition tile_tag :: "nat option \<Rightarrow> nat option \<Rightarrow> nat option \<Rightarrow> ustr" where
  "tile_tag l r c = ascii ''L'' @ show_opt l @ ascii ''/R'' @ show_opt r @ ascii ''_C'' @ show_opt c"

record tile_entry =
  te_file :: "string \<times> string"
  te_level :: "nat option"
  te_row :: "nat option"
  te_col :: "nat option"
  te_count :: nat

record dedup_state =
  all_buildings :: "record_dict list"
  seen_ids :: "jval set"
  tile_info :: "tile_entry list"

definition empty_dedup :: dedup_state where
  "empty_dedup = \<lparr>all_buildings = [], seen_ids = {}, tile_info = []\<rparr>"

text \<open>The inner loop of lines 360--365: a building is kept when its \<open>BUILD_ID\<close> is
  truthy and not yet seen, tagged with its tile.\<close>

definition add_building :: "ustr \<Rightarrow> dedup_state \<Rightarrow> record_dict \<Rightarrow> dedup_state" where
  "add_building tag st b =
     (case b (ascii ''BUILD_ID'') of
        Some bid \<Rightarrow>
          if jval_truthy bid \<and> bid \<notin> seen_ids st
          then st\<lparr>seen_ids := insert bid (seen_ids st),
                  all_buildings := all_buildings st @ [b(ascii ''_tile'' \<mapsto> JStr tag)]\<rparr>
          else st
      | None \<Rightarrow> st)"

definition tile_count :: "tile_result \<Rightarrow> nat" where
  "tile_count r = (case tr_attrs r of None \<Rightarrow> 0 | Some (bc, _, _) \<Rightarrow> bc)"

definition tile_buildings :: "tile_result \<Rightarrow> record_dict list" where
  "tile_buildings r = (case tr_attrs r of None \<Rightarrow> [] | Some (_, _, bs) \<Rightarrow> bs)"

definition process_tile ::
  "(string \<Rightarrow> string \<Rightarrow> py_error + tile_result) \<Rightarrow> string \<Rightarrow> string \<Rightarrow> dedup_state \<Rightarrow> dedup_state" where
  "process_tile parse rdir fname st =
     (if \<not> is_tile_name fname then st
      else case parse rdir fname of
        Inl _ \<Rightarrow> st
      | Inr r \<Rightarrow>
          (let lv = map_option th_level (tr_header r); rw = map_option th_row (tr_header r);
               cl = map_option th_col (tr_header r); bc = tile_count r
           in if 0 < bc
              then fold (\<lambda>b st. add_building (tile_tag lv rw cl) st b) (tile_buildings r)
                     (st\<lparr>tile_info := tile_info st @
                          [\<lparr>te_file = (rdir, fname), te_level = lv, te_row = rw, te_col = cl, te_count = bc\<rparr>]\<rparr>)
              else st))"

definition process_all_tiles ::
  "(string \<Rightarrow> string \<Rightarrow> py_error + tile_result) \<Rightarrow> (string \<times> string list) list \<Rightarrow> dedup_state" where
  "process_all_tiles parse walk =
     fold (\<lambda>(rdir, files) st. fold (\<lambda>fname. process_tile parse rdir fname) (sort files) st) walk empty_dedup"

subsection \<open>The specification: first occurrence by identifier\<close>

text \<open>The reference definition of the deduplication: scan a list, keep an element when
  its key is defined and was not met before. The walk is then the list of files it visits,
  and the building stream the \<open>(tag, building)\<close> pairs of every tile that parses and
  has buildings, in that order.\<close>

fun dedup_first :: "('a \<Rightarrow> 'k option) \<Rightarrow> 'k set \<Rightarrow> 'a list \<Rightarrow> 'a list" where
  "dedup_first key S [] = []"
| "dedup_first key S (x # xs) =
     (case key x of
        None \<Rightarrow> dedup_first key S xs
      | Some k \<Rightarrow> if k \<in> S then dedup_first key S xs else x # dedup_first key (insert k S) xs)"

definition bid_key :: "ustr \<times> record_dict \<Rightarrow> jval option" where
  "bid_key p = (case snd p (ascii ''BUILD_ID'') of
                  Some v \<Rightarrow> if jval_truthy v then Some v else None
                | None \<Rightarrow> None)"

definition tag_building :: "ustr \<times> record_dict \<Rightarrow> record_dict" where
  "tag_building p = (snd p)(ascii ''_tile'' \<mapsto> JStr (fst p))"

definition walk_files :: "(string \<times> string list) list \<Rightarrow> (string \<times> string) list" where
  "walk_files walk = concat (map (\<lambda>(rdir, files). map (Pair rdir) (sort files)) walk)"

definition file_result :: "(string \<Rightarrow> string \<Rightarrow> py_error + tile_result) \<Rightarrow> string \<times> string \<Rightarrow> tile_result option" where
  "file_result parse f =
     (if \<not> is_tile_name (snd f) then None
      else case parse (fst f) (snd f) of
        Inl _ \<Rightarrow> None
      | Inr r \<Rightarrow> if 0 < tile_count r then Some r else None)"

definition result_tag :: "tile_result \<Rightarrow> ustr" where
  "result_tag r = tile_tag (map_option th_level (tr_header r)) (map_option th_row (tr_header r))
                           (map_option th_col (tr_header r))"

definition file_pairs :: "(string \<Rightarrow> string \<Rightarrow> py_error + tile_result) \<Rightarrow> string \<times> string \<Rightarrow> (ustr \<times> record_dict) list" where
  "file_pairs parse f =
     (case file_result parse f of None \<Rightarrow> [] | Some r \<Rightarrow> map (Pair (result_tag r)) (tile_buildings r))"

definition file_entries :: "(string \<Rightarrow> string \<Rightarrow> py_error + tile_result) \<Rightarrow> string \<times> string \<Rightarrow> tile_entry list" where
  "file_entries parse f =
     (case file_result parse f of
        None \<Rightarrow> []
      | Some r \<Rightarrow> [\<lparr>te_file = f, te_level = map_option th_level (tr_header r),
                   te_row = map_option th_row (tr_header r), te_col = map_option th_col (tr_header r),
                   te_count = tile_count r\<rparr>])"

definition tile_stream :: "(string \<Rightarrow> string \<Rightarrow> py_error + tile_result) \<Rightarrow> (string \<times> string list) list \<Rightarrow> (ustr \<times> record_dict) list" where
  "tile_stream parse walk = concat (map (file_pairs parse) (walk_files walk))"

subsection \<open>The reference definition\<close>

lemma dedup_first_keys:
  "x \<in> set (dedup_first key S xs) \<Longrightarrow> x \<in> set xs \<and> (\<exists>k. key x = Some k \<and> k \<notin> S)"
  by (induction xs arbitrary: S) (auto split: option.splits if_splits)

lemma dedup_first_distinct: "distinct (map key (dedup_first key S xs))"
proof (induction xs arbitrary: S)
  case (Cons x xs)
  then show ?case by (auto split: option.splits dest: dedup_first_keys)
qed simp

lemma dedup_first_first:
  "x \<in> set (dedup_first key S xs) \<Longrightarrow> find (\<lambda>y. key y = key x) xs = Some x"
proof (induction xs arbitrary: S)
  case (Cons y xs)
  show ?case
  proof (cases "key y")
    case None
    then show ?thesis using Cons dedup_first_keys [of x key S xs] by auto
  next
    case (Some k)
    then show ?thesis using Cons dedup_first_keys [of x key "insert k S" xs] dedup_first_keys [of x key S xs]
      by (auto split: if_splits)
  qed
qed simp

lemma dedup_first_complete:
  "x \<in> set xs \<Longrightarrow> key x = Some k \<Longrightarrow> k \<notin> S \<Longrightarrow> \<exists>y\<in>set (dedup_first key S xs). key y = Some k"
proof (induction xs arbitrary: S)
  case (Cons y xs)
  show ?case
  proof (cases "key y")
    case (Some a)
    show ?thesis
    proof (cases "a \<in> S \<or> a \<noteq> k")
      case True
      then have "k \<notin> (if a \<in> S then S else insert a S)" using Cons.prems(3) by auto
      moreover have "x \<in> set xs"
        using Cons.prems True Some \<open>k \<notin> S\<close> by auto
      ultimately show ?thesis using Cons.IH [of "if a \<in> S then S else insert a S"] Cons.prems(2) Some
        by (auto split: if_splits)
    next
      case False
      then show ?thesis using Some Cons.prems(3) by simp
    qed
  qed (use Cons in auto)
qed simp

definition keys_of :: "('a \<Rightarrow> 'k option) \<Rightarrow> 'a list \<Rightarrow> 'k set" where
  "keys_of key xs = {k. \<exists>x\<in>set xs. key x = Some k}"

lemma keys_of_simps [simp]:
  "keys_of key [] = {}"
  "keys_of key (x # xs) = (case key x of None \<Rightarrow> keys_of key xs | Some k \<Rightarrow> insert k (keys_of key xs))"
  "keys_of key (xs @ ys) = keys_of key xs \<union> keys_of key ys"
  by (auto simp: keys_of_def split: option.splits)

lemma dedup_first_append:
  "dedup_first key S (xs @ ys) = dedup_first key S xs @ dedup_first key (S \<union> keys_of key xs) ys"
  by (induction xs arbitrary: S) (auto simp: insert_absorb split: option.splits)

subsection \<open>The loop implements the specification\<close>

definition add_pair :: "dedup_state \<Rightarrow> ustr \<times> record_dict \<Rightarrow> dedup_state" where
  "add_pair st p = add_building (fst p) st (snd p)"

lemma add_pair_eq:
  "add_pair st p = (case bid_key p of
                      None \<Rightarrow> st
                    | Some k \<Rightarrow> if k \<in> seen_ids st then st
                                else st\<lparr>seen_ids := insert k (seen_ids st),
                                        all_buildings := all_buildings st @ [tag_building p]\<rparr>)"
  by (simp add: add_pair_def add_building_def bid_key_def tag_building_def split: option.split)

lemma fold_add_pair:
  "all_buildings (fold (\<lambda>p st. add_pair st p) xs st) =
     all_buildings st @ map tag_building (dedup_first bid_key (seen_ids st) xs)
   \<and> seen_ids (fold (\<lambda>p st. add_pair st p) xs st) = seen_ids st \<union> keys_of bid_key xs
   \<and> tile_info (fold (\<lambda>p st. add_pair st p) xs st) = tile_info st"
proof (induction xs arbitrary: st)
  case (Cons x xs)
  then show ?case by (auto simp: add_pair_eq split: option.splits)
qed simp

lemma process_tile_eq:
  "process_tile parse rdir fname st =
     fold (\<lambda>p st. add_pair st p) (file_pairs parse (rdir, fname))
          (st\<lparr>tile_info := tile_info st @ file_entries parse (rdir, fname)\<rparr>)"
  by (auto simp: process_tile_def file_pairs_def file_entries_def file_result_def result_tag_def
      add_pair_def fold_map comp_def Let_def split: sum.split)

lemma fold_process_tile:
  "all_buildings (fold (\<lambda>f. process_tile parse (fst f) (snd f)) fs st) =
     all_buildings st @ map tag_building (dedup_first bid_key (seen_ids st) (concat (map (file_pairs parse) fs)))
   \<and> seen_ids (fold (\<lambda>f. process_tile parse (fst f) (snd f)) fs st) =
     seen_ids st \<union> keys_of bid_key (concat (map (file_pairs parse) fs))
   \<and> tile_info (fold (\<lambda>f. process_tile parse (fst f) (snd f)) fs st) =
     tile_info st @ concat (map (file_entries parse) fs)"
proof (induction fs arbitrary: st)
  case (Cons f fs)
  show ?case
    using Cons.IH [of "process_tile parse (fst f) (snd f) st"]
      fold_add_pair [of "file_pairs parse f" "st\<lparr>tile_info := tile_info st @ file_entries parse f\<rparr>"]
    by (simp add: process_tile_eq dedup_first_append Un_assoc)
qed simp

lemma process_all_tiles_files:
  "process_all_tiles parse walk = fold (\<lambda>f. process_tile parse (fst f) (snd f)) (walk_files walk) empty_dedup"
proof -
  have "fold (\<lambda>(rdir, files) st. fold (\<lambda>fname. process_tile parse rdir fname) (sort files) st) walk st =
        fold (\<lambda>f. process_tile parse (fst f) (snd f)) (walk_files walk) st" for st
    by (induction walk arbitrary: st) (auto simp: walk_files_def fold_map comp_def)
  then show ?thesis by (simp add: process_all_tiles_def)
qed

lemma process_all_tiles_state:
  "all_buildings (process_all_tiles parse walk) = map tag_building (dedup_first bid_key {} (tile_stream parse walk))
   \<and> seen_ids (process_all_tiles parse walk) = keys_of bid_key (tile_stream parse walk)
   \<and> tile_info (process_all_tiles parse walk) = concat (map (file_entries parse) (walk_files walk))"
  using fold_process_tile [of parse "walk_files walk" empty_dedup]
  by (simp add: process_all_tiles_files empty_dedup_def tile_stream_def)

lemma tag_building_bid [simp]: "tag_building p (ascii ''BUILD_ID'') = snd p (ascii ''BUILD_ID'')"
  by (simp add: tag_building_def ascii_def)

lemma tag_building_tile [simp]: "tag_building p (ascii ''_tile'') = Some (JStr (fst p))"
  by (simp add: tag_building_def)

lemma bid_key_Some: "bid_key p = Some k \<Longrightarrow> snd p (ascii ''BUILD_ID'') = Some k \<and> jval_truthy k"
  by (auto simp: bid_key_def split: option.splits if_splits)

lemma dedup_first_bids:
  "map (\<lambda>b. b (ascii ''BUILD_ID'')) (map tag_building (dedup_first bid_key S xs)) =
   map bid_key (dedup_first bid_key S xs)"
proof -
  have "tag_building p (ascii ''BUILD_ID'') = bid_key p" if "p \<in> set (dedup_first bid_key S xs)" for p
    using dedup_first_keys [OF that] bid_key_Some by fastforce
  then show ?thesis by simp
qed

subsection \<open>A walk over two levels of detail\<close>

text \<open>The layout \<^verbatim>\<open>01_download_nlsc_tiles.py\<close> writes: \<open>LAYER.bin\<close> at the top and one
  directory \<open>L<level>\<close> of \<open>R<row>_C<col>.bin\<close> files per level. The same building
  \<open>X1\<close> is in a level-15 tile (height 10) and in a level-17 tile (height 12), and
  \<open>os.walk\<close> happens to list \<open>L15\<close> first.\<close>

definition lod_building :: "ustr \<Rightarrow> record_dict" where
  "lod_building h = [ascii ''BUILD_ID'' \<mapsto> JStr (ascii ''X1''), ascii ''BUILD_H'' \<mapsto> JStr h]"

definition lod_tile :: "nat \<Rightarrow> ustr \<Rightarrow> tile_result" where
  "lod_tile lvl h = \<lparr>tr_raw_size = 0, tr_size = 0,
     tr_header = Some \<lparr>th_level = lvl, th_row = 1, th_col = 1, th_corners = []\<rparr>,
     tr_obb_wgs84 = [], tr_bbox = None,
     tr_attrs = Some (1, [ascii ''BUILD_ID'', ascii ''BUILD_H''], [lod_building h])\<rparr>"

definition lod_parse :: "string \<Rightarrow> string \<Rightarrow> py_error + tile_result" where
  "lod_parse rdir fname =
     (if rdir = ''L15'' then Inr (lod_tile 15 (ascii ''10''))
      else if rdir = ''L17'' then Inr (lod_tile 17 (ascii ''12'')) else Inl StructError)"

definition lod_walk :: "(string \<times> string list) list" where
  "lod_walk = [(''.'', [''LAYER.bin'']), (''L15'', [''R1_C1.bin'']), (''L17'', [''R1_C1.bin''])]"

lemma lod_stream:
  "tile_stream lod_parse lod_walk =
     [(tile_tag (Some 15) (Some 1) (Some 1), lod_building (ascii ''10'')),
      (tile_tag (Some 17) (Some 1) (Some 1), lod_building (ascii ''12''))]"
  by (simp add: tile_stream_def walk_files_def lod_walk_def file_pairs_def file_result_def
      is_tile_name_def py_endswith_def lod_parse_def tile_count_def lod_tile_def tile_buildings_def
      result_tag_def)

lemma lod_keys: "bid_key (t, lod_building h) = Some (JStr (ascii ''X1''))"
  by (simp add: bid_key_def lod_building_def jval_truthy_def ascii_def)

lemma lod_all_buildings:
  "all_buildings (process_all_tiles lod_parse lod_walk) =
     [tag_building (tile_tag (Some 15) (Some 1) (Some 1), lod_building (ascii ''10''))]"
  using process_all_tiles_state [of lod_parse lod_walk] by (simp add: lod_stream lod_keys)

subsection \<open>Properties of the tile walk\<close>

text \<open>C8: the accumulating loop of \<open>process_all_tiles\<close> computes the reference
  deduplication: the buildings it returns are, in order, the first building of every
  truthy \<open>BUILD_ID\<close> in the stream of buildings of the tiles it visits, each tagged with
  its tile, and \<open>tile_info\<close> lists exactly the tiles that parse and have buildings.\<close>

theorem process_all_tiles_refines:
  "all_buildings (process_all_tiles parse walk) = map tag_building (dedup_first bid_key {} (tile_stream parse walk))
   \<and> tile_info (process_all_tiles parse walk) = concat (map (file_entries parse) (walk_files walk))"
  using process_all_tiles_state by blast

text \<open>C9: the state the walk returns satisfies the deduplication invariant: the
  \<open>BUILD_ID\<close>s of \<open>all_buildings\<close> are distinct and are exactly the ids in
  \<open>seen_ids\<close>, and every kept building carries its \<open>_tile\<close> tag.\<close>

theorem process_all_tiles_ids:
  "distinct (map (\<lambda>b. b (ascii ''BUILD_ID'')) (all_buildings (process_all_tiles parse walk)))
   \<and> Some ` seen_ids (process_all_tiles parse walk) =
       set (map (\<lambda>b. b (ascii ''BUILD_ID'')) (all_buildings (process_all_tiles parse walk)))
   \<and> (\<forall>b\<in>set (all_buildings (process_all_tiles parse walk)). b (ascii ''_tile'') \<noteq> None)"
proof -
  let ?xs = "tile_stream parse walk"
  have ids: "map (\<lambda>b. b (ascii ''BUILD_ID'')) (all_buildings (process_all_tiles parse walk)) =
      map bid_key (dedup_first bid_key {} ?xs)"
    using process_all_tiles_state dedup_first_bids by metis
  have "Some ` keys_of bid_key ?xs = set (map bid_key (dedup_first bid_key {} ?xs))"
  proof
    show "Some ` keys_of bid_key ?xs \<subseteq> set (map bid_key (dedup_first bid_key {} ?xs))"
      using dedup_first_complete [of _ ?xs bid_key _ "{}"] by (force simp: keys_of_def)
    show "set (map bid_key (dedup_first bid_key {} ?xs)) \<subseteq> Some ` keys_of bid_key ?xs"
      using dedup_first_keys [of _ bid_key "{}" ?xs] by (force simp: keys_of_def)
  qed
  then have "Some ` seen_ids (process_all_tiles parse walk) =
      set (map (\<lambda>b. b (ascii ''BUILD_ID'')) (all_buildings (process_all_tiles parse walk)))"
    unfolding ids using process_all_tiles_state by metis
  moreover have "distinct (map (\<lambda>b. b (ascii ''BUILD_ID'')) (all_buildings (process_all_tiles parse walk)))"
    unfolding ids by (rule dedup_first_distinct)
  moreover have "\<forall>b\<in>set (all_buildings (process_all_tiles parse walk)). b (ascii ''_tile'') \<noteq> None"
    using process_all_tiles_state by auto
  ultimately show ?thesis by blast
qed

theorem process_all_tiles_ids_witness:
  "distinct (map (\<lambda>b. b (ascii ''BUILD_ID'')) (all_buildings (process_all_tiles lod_parse lod_walk)))
   \<and> Some ` seen_ids (process_all_tiles lod_parse lod_walk) = {Some (JStr (ascii ''X1''))}
   \<and> [tag_building (tile_tag (Some 15) (Some 1) (Some 1), lod_building (ascii ''10''))] \<noteq> []"
proof -
  have "lod_building (ascii ''10'') (ascii ''BUILD_ID'') = Some (JStr (ascii ''X1''))"
    by (simp add: lod_building_def ascii_def)
  then show ?thesis
    using process_all_tiles_ids [of lod_parse lod_walk] lod_all_buildings by simp
qed

text \<open>C10: every kept building is its stream element tagged with its tile, and that
  element is the first of the stream with its \<open>BUILD_ID\<close>; every truthy
  \<open>BUILD_ID\<close> of the stream is kept.\<close>

theorem process_all_tiles_first_wins:
  "(\<forall>b\<in>set (all_buildings (process_all_tiles parse walk)).
      \<exists>p. b = tag_building p \<and> bid_key p \<noteq> None
          \<and> find (\<lambda>q. bid_key q = bid_key p) (tile_stream parse walk) = Some p)
   \<and> (\<forall>p\<in>set (tile_stream parse walk). bid_key p \<noteq> None \<longrightarrow>
      (\<exists>b\<in>set (all_buildings (process_all_tiles parse walk)). b (ascii ''BUILD_ID'') = bid_key p))"
proof -
  let ?xs = "tile_stream parse walk"
  have all: "all_buildings (process_all_tiles parse walk) = map tag_building (dedup_first bid_key {} ?xs)"
    using process_all_tiles_state by blast
  have "\<exists>p. b = tag_building p \<and> bid_key p \<noteq> None \<and> find (\<lambda>q. bid_key q = bid_key p) ?xs = Some p"
    if "b \<in> set (all_buildings (process_all_tiles parse walk))" for b
    using that dedup_first_keys [of _ bid_key "{}" ?xs] dedup_first_first [of _ bid_key "{}" ?xs]
    unfolding all by fastforce
  moreover have "\<exists>b\<in>set (all_buildings (process_all_tiles parse walk)). b (ascii ''BUILD_ID'') = bid_key p"
    if pin: "p \<in> set ?xs" and nn: "bid_key p \<noteq> None" for p
  proof -
    obtain k where k: "bid_key p = Some k" using nn by blast
    then obtain y where y: "y \<in> set (dedup_first bid_key {} ?xs)" "bid_key y = Some k"
      using dedup_first_complete [of p ?xs bid_key k "{}"] pin k by blast
    then show ?thesis using bid_key_Some [OF y(2)] k unfolding all by force
  qed
  ultimately show ?thesis by blast
qed

theorem process_all_tiles_first_wins_witness:
  "all_buildings (process_all_tiles lod_parse lod_walk) =
     [tag_building (tile_tag (Some 15) (Some 1) (Some 1), lod_building (ascii ''10''))]
   \<and> find (\<lambda>q. bid_key q = Some (JStr (ascii ''X1''))) (tile_stream lod_parse lod_walk) =
     Some (tile_tag (Some 15) (Some 1) (Some 1), lod_building (ascii ''10''))"
  using process_all_tiles_first_wins [of lod_parse lod_walk] lod_all_buildings
  by (simp add: lod_stream lod_keys)


end
