(* ===== verification/Fusion.thy ===== *)
theory Fusion
  imports Dedup
begin

text \<open>
  The fusion of OpenStreetMap footprints with the NLSC buildings,
  \<^verbatim>\<open>src/scripts/04_merge_datasets.py\<close>: the geometric helpers (lines 21--65) and the
  phases of \<open>main\<close> (lines 86--258): the polygons of the OSM features, point-in-polygon
  matching, nearest-centroid matching within 30 m, the tallest-match attributes of every
  footprint and the NLSC-only points inside the campus box. Floats are real numbers; the
  \<open>ValueError\<close>s that \<open>math.sqrt\<close> and \<open>math.asin\<close> raise outside their domains are
  kept as \<open>None\<close>.
\<close>

type_synonym point = "real \<times> real"

subsection \<open>Geometry\<close>

definition crosses :: "real \<Rightarrow> real \<Rightarrow> point \<Rightarrow> point \<Rightarrow> bool" where
  "crosses px py vi vj =
     (case (vi, vj) of ((xi, yi), (xj, yj)) \<Rightarrow>
        (yi > py) \<noteq> (yj > py) \<and> px < (xj - xi) * (py - yi) / (yj - yi) + xi)"

text \<open>The ray-casting loop: \<open>j\<close> trails \<open>i\<close> by one, starting at the last vertex.\<close>

fun pip_loop :: "real \<Rightarrow> real \<Rightarrow> point \<Rightarrow> point list \<Rightarrow> bool \<Rightarrow> bool" where
  "pip_loop px py vj [] inside = inside"
| "pip_loop px py vj (vi # rest) inside =
     pip_loop px py vi rest (if crosses px py vi vj then \<not> inside else inside)"

definition point_in_polygon :: "real \<Rightarrow> real \<Rightarrow> point list \<Rightarrow> bool" where
  "point_in_polygon px py polygon = (polygon \<noteq> [] \<and> pip_loop px py (last polygon) polygon False)"

definition polygon_centroid :: "point list \<Rightarrow> point" where
  "polygon_centroid polygon =
     (let n = length polygon in
      if n = 0 then (0, 0)
      else (let m = (if n > 1 \<and> fst (polygon ! 0) = fst (polygon ! (n - 1))
                           \<and> snd (polygon ! 0) = snd (polygon ! (n - 1)) then n - 1 else n)
            in (sum_list (map fst (take m polygon)) / real m, sum_list (map snd (take m polygon)) / real m)))"

definition earth_r :: real where "earth_r = 6371000"

definition haversine_a :: "real \<Rightarrow> real \<Rightarrow> real \<Rightarrow> real \<Rightarrow> real" where
  "haversine_a lon1 lat1 lon2 lat2 =
     (let dlat = radians (lat2 - lat1); dlon = radians (lon2 - lon1)
      in sin (dlat / 2) ^ 2 + cos (radians lat1) * cos (radians lat2) * sin (dlon / 2) ^ 2)"

definition haversine_m :: "real \<Rightarrow> real \<Rightarrow> real \<Rightarrow> real \<Rightarrow> real option" where
  "haversine_m lon1 lat1 lon2 lat2 =
     (let a = haversine_a lon1 lat1 lon2 lat2
      in if a < 0 \<or> 1 < a then None else Some (earth_r * 2 * arcsin (sqrt a)))"

fun shoelace_sum :: "point list \<Rightarrow> point \<Rightarrow> real" where
  "shoelace_sum [] p0 = 0"
| "shoelace_sum [p] p0 = fst p * snd p0 - fst p0 * snd p"
| "shoelace_sum (p # q # rest) p0 = fst p * snd q - fst q * snd p + shoelace_sum (q # rest) p0"

definition polygon_area :: "point list \<Rightarrow> real" where
  "polygon_area polygon = (if polygon = [] then 0 else \<bar>shoelace_sum polygon (hd polygon)\<bar> / 2)"

subsection \<open>The phases of \<open>main\<close>\<close>

text \<open>An OSM feature of the GeoJSON that \<^verbatim>\<open>02_extract_osm_buildings.py\<close> writes, and the
  per-polygon dictionary of lines 95--101. An NLSC building is a \<open>record_dict\<close> as
  \<^verbatim>\<open>03\<close> writes it; \<open>lon\<close> and \<open>lat\<close> are numbers there, and the model reads any
  other value of these keys as missing.\<close>

record osm_feature =
  of_geom_type :: ustr
  of_coords :: "point list list"
  of_props :: record_dict

record osm_poly =
  op_ring :: "point list"
  op_centroid :: point
  op_props :: record_dict
  op_feature :: osm_feature
  op_matches :: "nat list"

fun build_osm_polys :: "osm_feature list \<Rightarrow> py_error + osm_poly list" where
  "build_osm_polys [] = Inr []"
| "build_osm_polys (f # fs) =
     (if of_geom_type f \<noteq> ascii ''Polygon'' then build_osm_polys fs
      else case of_coords f of
        [] \<Rightarrow> Inl IndexError
      | ring # _ \<Rightarrow>
          ebind (build_osm_polys fs) (\<lambda>ps.
            Inr (\<lparr>op_ring = ring, op_centroid = polygon_centroid ring, op_props = of_props f,
                  op_feature = f, op_matches = []\<rparr> # ps)))"

definition nlsc_coords :: "record_dict \<Rightarrow> point option" where
  "nlsc_coords b =
     (case (b (ascii ''lon''), b (ascii ''lat'')) of
        (Some (JNum lon), Some (JNum lat)) \<Rightarrow> Some (lon, lat)
      | _ \<Rightarrow> None)"

record match_state =
  ms_polys :: "osm_poly list"
  ms_matched :: "nat set"
  ms_pip :: nat

definition append_match :: "nat \<Rightarrow> nat \<Rightarrow> osm_poly list \<Rightarrow> osm_poly list" where
  "append_match j i ps = ps[j := (ps ! j)\<lparr>op_matches := op_matches (ps ! j) @ [i]\<rparr>]"

text \<open>Phase 1 (lines 107--121): the first polygon containing the building's point.\<close>

definition phase1_step :: "match_state \<Rightarrow> nat \<times> record_dict \<Rightarrow> match_state" where
  "phase1_step st ib =
     (case nlsc_coords (snd ib) of
        None \<Rightarrow> st
      | Some (lon, lat) \<Rightarrow>
          (case first_index (\<lambda>q. point_in_polygon lon lat (op_ring q)) (ms_polys st) of
             None \<Rightarrow> st
           | Some j \<Rightarrow> st\<lparr>ms_polys := append_match j (fst ib) (ms_polys st),
                          ms_matched := insert (fst ib) (ms_matched st), ms_pip := Suc (ms_pip st)\<rparr>))"

definition enum :: "'a list \<Rightarrow> (nat \<times> 'a) list" where
  "enum xs = zip [0..<length xs] xs"

definition phase1 :: "osm_poly list \<Rightarrow> record_dict list \<Rightarrow> match_state" where
  "phase1 polys nlsc = fold (\<lambda>ib st. phase1_step st ib) (enum nlsc)
                         \<lparr>ms_polys = polys, ms_matched = {}, ms_pip = 0\<rparr>"

text \<open>Phase 2 (lines 131--153): the nearest centroid by a strict \<open><\<close> scan from
  \<open>best_dist = inf\<close> (\<open>None\<close>), kept when it is at most \<open>MAX_DIST = 30\<close> metres. A
  \<open>ValueError\<close> of the haversine aborts \<open>main\<close>.\<close>

definition max_dist :: real where "max_dist = 30"

fun nearest_from ::
  "real \<Rightarrow> real \<Rightarrow> nat \<Rightarrow> point list \<Rightarrow> (real \<times> nat) option \<Rightarrow> py_error + (real \<times> nat) option" where
  "nearest_from lon lat j [] best = Inr best"
| "nearest_from lon lat j (c # cs) best =
     (case haversine_m lon lat (fst c) (snd c) of
        None \<Rightarrow> Inl ValueError
      | Some d \<Rightarrow> nearest_from lon lat (Suc j) cs
                    (case best of None \<Rightarrow> Some (d, j) | Some (bd, bj) \<Rightarrow> if d < bd then Some (d, j) else best))"

fun phase2 :: "match_state \<Rightarrow> nat \<Rightarrow> (nat \<times> record_dict) list \<Rightarrow> py_error + match_state \<times> nat" where
  "phase2 st nn [] = Inr (st, nn)"
| "phase2 st nn ((i, b) # rest) =
     (if i \<in> ms_matched st then phase2 st nn rest
      else case nlsc_coords b of
        None \<Rightarrow> phase2 st nn rest
      | Some (lon, lat) \<Rightarrow>
          ebind (nearest_from lon lat 0 (map op_centroid (ms_polys st)) None) (\<lambda>best.
            case best of
              Some (d, j) \<Rightarrow>
                if d \<le> max_dist
                then phase2 (st\<lparr>ms_polys := append_match j i (ms_polys st),
                               ms_matched := insert i (ms_matched st)\<rparr>) (Suc nn) rest
                else phase2 st nn rest
            | None \<Rightarrow> phase2 st nn rest))"

text \<open>The merge of lines 166--208: the tallest matched building by a strict \<open>>\<close> scan
  from \<open>best_height = -1.0\<close>, a \<open>BUILD_H\<close> that \<open>float()\<close> rejects counting as 0.\<close>

definition bldg_height :: "record_dict \<Rightarrow> real" where
  "bldg_height b =
     (case b (ascii ''BUILD_H'') of
        None \<Rightarrow> 0
      | Some v \<Rightarrow> (case jval_float v of Some h \<Rightarrow> h | None \<Rightarrow> 0))"

fun tallest_from :: "record_dict list \<Rightarrow> real \<Rightarrow> record_dict option \<Rightarrow> nat list \<Rightarrow> record_dict option" where
  "tallest_from nlsc bh best [] = best"
| "tallest_from nlsc bh best (idx # rest) =
     (if bldg_height (nlsc ! idx) > bh then tallest_from nlsc (bldg_height (nlsc ! idx)) (Some (nlsc ! idx)) rest
      else tallest_from nlsc bh best rest)"

definition get_or_empty :: "record_dict \<Rightarrow> ustr \<Rightarrow> jval" where
  "get_or_empty b k = (case b k of None \<Rightarrow> JStr [] | Some v \<Rightarrow> v)"

definition nlsc_keys :: "ustr list" where
  "nlsc_keys = map ascii [''BUILD_ID'', ''BUILD_H'', ''BUILD_STR'', ''MODEL_LOD'', ''MODEL_NAME'',
                          ''MDATE'', ''M_MDATE'', ''CENT_E_97'', ''CENT_N_97'']"

definition merged_props :: "record_dict \<Rightarrow> record_dict \<Rightarrow> nat \<Rightarrow> record_dict" where
  "merged_props props best n =
     (let p = fold (\<lambda>k p. p(ascii ''nlsc_'' @ k \<mapsto> get_or_empty best k)) nlsc_keys props;
          p' = p(ascii ''nlsc_match_count'' \<mapsto> JNum (real n))
      in if ascii ''height'' \<notin> dom p' \<and>
            (case best (ascii ''BUILD_H'') of Some v \<Rightarrow> jval_truthy v | None \<Rightarrow> False)
         then p'(ascii ''height'' \<mapsto> the (best (ascii ''BUILD_H''))) else p')"

definition merge_feature :: "record_dict list \<Rightarrow> osm_poly \<Rightarrow> osm_feature" where
  "merge_feature nlsc q =
     (let f = op_feature q; ms = op_matches q in
      if ms = [] then f
      else case tallest_from nlsc (-1) None ms of
        Some best \<Rightarrow> if best \<noteq> Map.empty
                     then f\<lparr>of_props := merged_props (of_props f) best (length ms)\<rparr> else f
      | None \<Rightarrow> f)"

text \<open>The NLSC-only points of lines 211--241: unmatched buildings inside the campus box.\<close>

datatype out_feature = OsmOut osm_feature | PointOut point record_dict

definition in_campus :: "point \<Rightarrow> bool" where
  "in_campus p \<longleftrightarrow> 120.990 \<le> fst p \<and> fst p \<le> 121.005 \<and> 24.780 \<le> snd p \<and> snd p \<le> 24.795"

definition point_props :: "record_dict \<Rightarrow> record_dict" where
  "point_props b =
     [ascii ''source'' \<mapsto> JStr (ascii ''NLSC_only''),
      ascii ''BUILD_ID'' \<mapsto> get_or_empty b (ascii ''BUILD_ID''),
      ascii ''BUILD_H'' \<mapsto> get_or_empty b (ascii ''BUILD_H''),
      ascii ''BUILD_STR'' \<mapsto> get_or_empty b (ascii ''BUILD_STR''),
      ascii ''height'' \<mapsto> get_or_empty b (ascii ''BUILD_H''),
      ascii ''MODEL_NAME'' \<mapsto> get_or_empty b (ascii ''MODEL_NAME''),
      ascii ''MDATE'' \<mapsto> get_or_empty b (ascii ''MDATE'')]"

definition nlsc_only :: "nat set \<Rightarrow> (nat \<times> record_dict) list \<Rightarrow> out_feature list" where
  "nlsc_only matched ibs =
     concat (map (\<lambda>(i, b). if i \<in> matched then []
                          else case nlsc_coords b of
                                 None \<Rightarrow> []
                               | Some p \<Rightarrow> if in_campus p then [PointOut p (point_props b)] else []) ibs)"

record merge_output =
  mo_features :: "out_feature list"
  mo_osm_buildings :: nat
  mo_nlsc_buildings :: nat
  mo_with :: nat
  mo_without :: nat
  mo_multi :: nat
  mo_nlsc_only :: nat
  mo_pip :: nat
  mo_nn :: nat

definition merge_datasets :: "osm_feature list \<Rightarrow> record_dict list \<Rightarrow> py_error + merge_output" where
  "merge_datasets feats nlsc =
     ebind (build_osm_polys feats) (\<lambda>polys.
     ebind (phase2 (phase1 polys nlsc) 0 (enum nlsc)) (\<lambda>(st, nn).
       (let ps = ms_polys st; only = nlsc_only (ms_matched st) (enum nlsc);
            fs = map (OsmOut \<circ> merge_feature nlsc) ps @ only
        in Inr \<lparr>mo_features = fs, mo_osm_buildings = length ps, mo_nlsc_buildings = length nlsc,
                mo_with = length (filter (\<lambda>q. op_matches q \<noteq> []) ps),
                mo_without = length (filter (\<lambda>q. op_matches q = []) ps),
                mo_multi = length (filter (\<lambda>q. 1 < length (op_matches q)) ps),
                mo_nlsc_only = length only, mo_pip = ms_pip st, mo_nn = nn\<rparr>)))"

text \<open>The summary line 274 divides by the number of OSM polygons.\<close>

definition match_percentage :: "merge_output \<Rightarrow> py_error + real" where
  "match_percentage mo =
     (if mo_osm_buildings mo = 0 then Inl ZeroDivisionError
      else Inr (100 * real (mo_with mo) / real (mo_osm_buildings mo)))"

subsection \<open>The ray-casting test as a parity\<close>

definition ring_edges :: "point list \<Rightarrow> (point \<times> point) list" where
  "ring_edges ring = zip ring (last ring # ring)"

definition crossings :: "real \<Rightarrow> real \<Rightarrow> (point \<times> point) list \<Rightarrow> nat" where
  "crossings px py es = length (filter (\<lambda>e. crosses px py (fst e) (snd e)) es)"

lemma pip_loop_parity:
  "pip_loop px py vj ps b = (b \<noteq> odd (crossings px py (zip ps (vj # ps))))"
  by (induction px py vj ps b rule: pip_loop.induct) (auto simp: crossings_def)

lemma point_in_polygon_parity:
  "point_in_polygon px py ring \<longleftrightarrow> ring \<noteq> [] \<and> odd (crossings px py (ring_edges ring))"
  by (simp add: point_in_polygon_def pip_loop_parity ring_edges_def)

lemma crosses_degenerate [simp]: "\<not> crosses px py v v"
  by (simp add: crosses_def split: prod.splits)

lemma crosses_divisor: "crosses px py (xi, yi) (xj, yj) \<Longrightarrow> yj - yi \<noteq> 0"
  by (auto simp: crosses_def)

lemma crossings_Nil [simp]: "crossings px py [] = 0"
  by (simp add: crossings_def)

lemma crossings_append [simp]: "crossings px py (es @ fs) = crossings px py es + crossings px py fs"
  by (simp add: crossings_def)

lemma crossings_Cons [simp]:
  "crossings px py (e # es) = (if crosses px py (fst e) (snd e) then Suc 0 else 0) + crossings px py es"
  by (simp add: crossings_def)

lemma zip_snoc_shift:
  "zip (xs @ [a]) (y # xs @ [a]) = zip xs (y # xs) @ [(a, last (y # xs))]"
  by (induction xs arbitrary: y) auto

lemma ring_edges_rotate1:
  "crossings px py (ring_edges (rotate1 ring)) = crossings px py (ring_edges ring)"
proof (cases ring)
  case (Cons x xs)
  have "ring_edges (rotate1 ring) = zip xs (x # xs) @ [(x, last (x # xs))]"
    using zip_snoc_shift [of xs x x] by (simp add: Cons ring_edges_def)
  moreover have "ring_edges ring = (x, last (x # xs)) # zip xs (x # xs)"
    by (simp add: Cons ring_edges_def)
  ultimately show ?thesis by simp
qed (simp add: ring_edges_def)

lemma ring_edges_closed:
  assumes "xs \<noteq> []"
  shows "crossings px py (ring_edges (xs @ [hd xs])) = crossings px py (ring_edges xs)"
proof -
  obtain h t where xs: "xs = h # t" using assms by (cases xs) auto
  have "ring_edges (xs @ [hd xs]) = (h, h) # zip t (h # t) @ [(h, last xs)]"
    using zip_snoc_shift [of xs h h] by (simp add: xs ring_edges_def)
  moreover have "ring_edges xs = (h, last xs) # zip t (h # t)"
    by (simp add: xs ring_edges_def)
  ultimately show ?thesis by simp
qed

subsection \<open>The haversine formula stays in the domain of \<open>asin\<close>\<close>

lemma cos_radians_nonneg:
  assumes "\<bar>lat\<bar> \<le> 90"
  shows "0 \<le> cos (radians lat)"
proof (rule cos_ge_zero)
  have l: "- lat \<le> 90" "lat \<le> 90" using assms by (simp_all add: abs_le_iff)
  have "pi * (- 90) \<le> pi * lat" "pi * lat \<le> pi * 90"
    using mult_left_mono [OF l(1), of pi] mult_left_mono [OF l(2), of pi] pi_gt_zero by simp_all
  then show "- (pi / 2) \<le> radians lat" "radians lat \<le> pi / 2"
    by (simp_all add: radians_def field_simps)
qed

lemma haversine_a_bounds:
  assumes "\<bar>lat1\<bar> \<le> 90" and "\<bar>lat2\<bar> \<le> 90"
  shows "0 \<le> haversine_a lon1 lat1 lon2 lat2 \<and> haversine_a lon1 lat1 lon2 lat2 \<le> 1"
proof -
  define p1 p2 where "p1 = radians lat1" and "p2 = radians lat2"
  define s c x where "s = sin ((p2 - p1) / 2)" and "c = cos ((p2 - p1) / 2)"
    and "x = sin (radians (lon2 - lon1) / 2) ^ 2"
  have a: "haversine_a lon1 lat1 lon2 lat2 = s ^ 2 + cos p1 * cos p2 * x"
    by (simp add: haversine_a_def Let_def s_def x_def p1_def p2_def radians_def diff_divide_distrib left_diff_distrib)
  have c1: "0 \<le> cos p1" "0 \<le> cos p2"
    using assms cos_radians_nonneg by (simp_all add: p1_def p2_def)
  have x0: "0 \<le> x" by (simp add: x_def)
  have x1: "x \<le> 1"
    using sin_cos_squared_add [of "radians (lon2 - lon1) / 2"]
      zero_le_power2 [of "cos (radians (lon2 - lon1) / 2)"] unfolding x_def by linarith
  note x = x0 x1
  have sc: "s ^ 2 + c ^ 2 = 1" by (simp add: s_def c_def)
  have "cos p1 * cos p2 = (cos (p2 - p1) + cos (p1 + p2)) / 2"
    by (simp add: cos_diff cos_add)
  also have "\<dots> \<le> (cos (p2 - p1) + 1) / 2" by simp
  also have "cos (p2 - p1) = 2 * c ^ 2 - 1"
  proof -
    have e: "p2 - p1 = 2 * ((p2 - p1) / 2)" by simp
    show ?thesis by (subst e) (simp only: cos_double_cos c_def)
  qed
  finally have cc: "cos p1 * cos p2 \<le> c ^ 2" by simp
  have "cos p1 * cos p2 * x \<le> c ^ 2 * x" using cc x by (simp add: mult_right_mono)
  also have "\<dots> \<le> c ^ 2" using x by (simp add: mult_left_le)
  finally have up: "cos p1 * cos p2 * x \<le> c ^ 2" .
  have lo: "0 \<le> cos p1 * cos p2 * x" using c1 x by simp
  show ?thesis unfolding a using up lo sc by (simp add: add_nonneg_nonneg)
qed

subsection \<open>The nearest-centroid scan is an arg-min\<close>

definition nearest_ok :: "(point \<Rightarrow> real option) \<Rightarrow> point list \<Rightarrow> (real \<times> nat) option \<Rightarrow> bool" where
  "nearest_ok f pre best =
     (case best of
        None \<Rightarrow> pre = []
      | Some (d, j) \<Rightarrow> j < length pre \<and> f (pre ! j) = Some d \<and>
                      (\<forall>k<length pre. \<forall>d'. f (pre ! k) = Some d' \<longrightarrow> d \<le> d' \<and> (k < j \<longrightarrow> d < d')))"

lemma nearest_ok_snoc:
  assumes ok: "nearest_ok f pre best" and fc: "f c = Some d"
  shows "nearest_ok f (pre @ [c])
           (case best of None \<Rightarrow> Some (d, length pre)
            | Some (bd, bj) \<Rightarrow> if d < bd then Some (d, length pre) else best)"
proof (cases best)
  case None
  then show ?thesis using ok fc by (simp add: nearest_ok_def)
next
  case (Some b)
  obtain bd bj where b: "b = (bd, bj)" by (cases b)
  have old: "bj < length pre" "f (pre ! bj) = Some bd"
    "\<And>k d'. k < length pre \<Longrightarrow> f (pre ! k) = Some d' \<Longrightarrow> bd \<le> d' \<and> (k < bj \<longrightarrow> bd < d')"
    using ok Some b by (auto simp: nearest_ok_def)
  show ?thesis
  proof (cases "d < bd")
    case True
    have "d \<le> d' \<and> (k < length pre \<longrightarrow> d < d')"
      if "k < Suc (length pre)" "f ((pre @ [c]) ! k) = Some d'" for k d'
      using that old(3) [of k d'] True fc by (cases "k < length pre") (auto simp: nth_append)
    then show ?thesis using Some b True fc by (simp add: nearest_ok_def)
  next
    case False
    have all: "\<forall>k<length (pre @ [c]). \<forall>d'. f ((pre @ [c]) ! k) = Some d' \<longrightarrow> bd \<le> d' \<and> (k < bj \<longrightarrow> bd < d')"
    proof (intro allI impI)
      fix k d'
      assume "k < length (pre @ [c])" "f ((pre @ [c]) ! k) = Some d'"
      then show "bd \<le> d' \<and> (k < bj \<longrightarrow> bd < d')"
        using old(1) old(3) [of k d'] False fc by (cases "k < length pre") (auto simp: nth_append)
    qed
    have "(pre @ [c]) ! bj = pre ! bj" using old(1) by (simp add: nth_append)
    then show ?thesis using Some b False old(1,2) all unfolding nearest_ok_def by simp
  qed
qed

lemma nearest_from_ok:
  "nearest_from lon lat (length pre) cs best = Inr r \<Longrightarrow>
   nearest_ok (\<lambda>c. haversine_m lon lat (fst c) (snd c)) pre best \<Longrightarrow>
   nearest_ok (\<lambda>c. haversine_m lon lat (fst c) (snd c)) (pre @ cs) r"
proof (induction cs arbitrary: pre best)
  case (Cons c cs)
  obtain d where d: "haversine_m lon lat (fst c) (snd c) = Some d"
    using Cons.prems(1) by (cases "haversine_m lon lat (fst c) (snd c)") auto
  show ?case
    using Cons.IH [of "pre @ [c]"] Cons.prems d nearest_ok_snoc [OF Cons.prems(2) d]
    by simp
qed simp

subsection \<open>The matching phases implement a per-building assignment\<close>

text \<open>What each phase decides for one building, stated on the polygons' rings and
  centroids alone: the first polygon containing its point, and the nearest centroid
  when it is at most 30 m away.\<close>

definition ring_target :: "point list list \<Rightarrow> record_dict \<Rightarrow> nat option" where
  "ring_target rings b =
     (case nlsc_coords b of None \<Rightarrow> None | Some (lon, lat) \<Rightarrow> first_index (point_in_polygon lon lat) rings)"

definition near_target :: "point list \<Rightarrow> record_dict \<Rightarrow> py_error + nat option" where
  "near_target cents b =
     (case nlsc_coords b of
        None \<Rightarrow> Inr None
      | Some (lon, lat) \<Rightarrow>
          ebind (nearest_from lon lat 0 cents None) (\<lambda>best.
            Inr (case best of Some (d, j) \<Rightarrow> if d \<le> max_dist then Some j else None | None \<Rightarrow> None)))"

definition poly_shape :: "osm_poly \<Rightarrow> point list \<times> point \<times> record_dict \<times> osm_feature" where
  "poly_shape q = (op_ring q, op_centroid q, op_props q, op_feature q)"

lemma first_index_map: "first_index P (map f xs) = first_index (P \<circ> f) xs"
  by (induction xs) auto

lemma length_append_match [simp]: "length (append_match j i ps) = length ps"
  by (simp add: append_match_def)

lemma append_match_shape [simp]: "map poly_shape (append_match j i ps) = map poly_shape ps"
proof (rule nth_equalityI)
  fix k assume "k < length (map poly_shape (append_match j i ps))"
  then show "map poly_shape (append_match j i ps) ! k = map poly_shape ps ! k"
    by (cases "k = j") (simp_all add: append_match_def poly_shape_def)
qed simp

lemma append_match_nth:
  "k < length ps \<Longrightarrow> op_matches (append_match j i ps ! k) =
     (if k = j then op_matches (ps ! k) @ [i] else op_matches (ps ! k))"
  by (simp add: append_match_def nth_list_update)

lemma shape_rings: "map poly_shape ps = map poly_shape qs \<Longrightarrow> map op_ring ps = map op_ring qs"
  by (metis (no_types, lifting) list.map_comp poly_shape_def comp_apply fst_conv map_eq_conv)

lemma shape_cents: "map poly_shape ps = map poly_shape qs \<Longrightarrow> map op_centroid ps = map op_centroid qs"
proof -
  have "op_centroid = fst \<circ> snd \<circ> poly_shape" by (simp add: fun_eq_iff poly_shape_def)
  then show "map poly_shape ps = map poly_shape qs \<Longrightarrow> ?thesis" by (metis map_map)
qed

lemma phase1_step_eq:
  "phase1_step st ib =
     (case ring_target (map op_ring (ms_polys st)) (snd ib) of
        None \<Rightarrow> st
      | Some j \<Rightarrow> st\<lparr>ms_polys := append_match j (fst ib) (ms_polys st),
                     ms_matched := insert (fst ib) (ms_matched st), ms_pip := Suc (ms_pip st)\<rparr>)"
  by (simp add: phase1_step_def ring_target_def first_index_map comp_def split: option.split)

lemma ring_target_lt: "ring_target rings b = Some j \<Longrightarrow> j < length rings"
  by (auto simp: ring_target_def first_index_Some split: option.splits)

lemma phase1_fold:
  "map poly_shape (ms_polys (fold (\<lambda>ib st. phase1_step st ib) ibs st)) = map poly_shape (ms_polys st)
   \<and> (\<forall>j<length (ms_polys st). op_matches (ms_polys (fold (\<lambda>ib st. phase1_step st ib) ibs st) ! j) =
        op_matches (ms_polys st ! j) @
        map fst (filter (\<lambda>ib. ring_target (map op_ring (ms_polys st)) (snd ib) = Some j) ibs))
   \<and> ms_matched (fold (\<lambda>ib st. phase1_step st ib) ibs st) =
       ms_matched st \<union> fst ` {ib \<in> set ibs. ring_target (map op_ring (ms_polys st)) (snd ib) \<noteq> None}"
proof (induction ibs arbitrary: st)
  case (Cons ib ibs)
  define st1 where "st1 = phase1_step st ib"
  have shape: "map poly_shape (ms_polys st1) = map poly_shape (ms_polys st)"
    by (simp add: st1_def phase1_step_eq split: option.split)
  have rings: "map op_ring (ms_polys st1) = map op_ring (ms_polys st)"
    using shape by (rule shape_rings)
  have len: "length (ms_polys st1) = length (ms_polys st)"
    using shape by (metis length_map)
  have m1: "op_matches (ms_polys st1 ! j) = op_matches (ms_polys st ! j) @
      (if ring_target (map op_ring (ms_polys st)) (snd ib) = Some j then [fst ib] else [])"
    if "j < length (ms_polys st)" for j
    using that by (auto simp: st1_def phase1_step_eq append_match_nth split: option.split)
  have s1: "ms_matched st1 = ms_matched st \<union>
      (if ring_target (map op_ring (ms_polys st)) (snd ib) \<noteq> None then {fst ib} else {})"
    by (auto simp: st1_def phase1_step_eq split: option.split)
  show ?case
    using Cons.IH [of st1] shape rings len m1 s1 by (auto simp: st1_def [symmetric])
qed simp

lemma nearest_from_index:
  "nearest_from lon lat 0 cs None = Inr (Some (d, j)) \<Longrightarrow> j < length cs"
  using nearest_from_ok [of lon lat "[]" cs None "Some (d, j)"] by (simp add: nearest_ok_def)

lemma phase2_spec:
  assumes "phase2 st nn ibs = Inr (st', nn')" and "distinct (map fst ibs)"
  shows "map poly_shape (ms_polys st') = map poly_shape (ms_polys st)
    \<and> (\<forall>j<length (ms_polys st). op_matches (ms_polys st' ! j) = op_matches (ms_polys st ! j) @
          map fst (filter (\<lambda>ib. fst ib \<notin> ms_matched st \<and>
                      near_target (map op_centroid (ms_polys st)) (snd ib) = Inr (Some j)) ibs))"
  using assms
proof (induction ibs arbitrary: st nn)
  case (Cons ib rest)
  obtain i b where ib: "ib = (i, b)" by (cases ib)
  have dist: "distinct (map fst rest)" and fresh: "\<forall>x\<in>set rest. fst x \<noteq> i"
    using Cons.prems(2) ib by auto
  let ?cs = "map op_centroid (ms_polys st)"
  show ?case
  proof (cases "i \<in> ms_matched st \<or> nlsc_coords b = None")
    case True
    then have "phase2 st nn rest = Inr (st', nn')" using Cons.prems(1) ib by (auto split: if_splits)
    moreover have "\<not> (i \<notin> ms_matched st \<and> near_target ?cs b = Inr (Some j))" for j
      using True by (auto simp: near_target_def)
    ultimately show ?thesis using Cons.IH [OF _ dist] ib by auto
  next
    case False
    then obtain lon lat where c: "nlsc_coords b = Some (lon, lat)" and im: "i \<notin> ms_matched st" by auto
    obtain best where nb: "nearest_from lon lat 0 ?cs None = Inr best"
      using Cons.prems(1) ib c im by (cases "nearest_from lon lat 0 ?cs None") auto
    show ?thesis
    proof (cases "\<exists>d j0. best = Some (d, j0) \<and> d \<le> max_dist")
      case True
      then obtain d j0 where bj: "best = Some (d, j0)" "d \<le> max_dist" by blast
      have j0: "j0 < length (ms_polys st)" using nearest_from_index nb bj by fastforce
      define st1 where "st1 = st\<lparr>ms_polys := append_match j0 i (ms_polys st), ms_matched := insert i (ms_matched st)\<rparr>"
      have run: "phase2 st1 (Suc nn) rest = Inr (st', nn')"
        using Cons.prems(1) ib c im nb bj by (simp add: st1_def)
      have shape: "map poly_shape (ms_polys st1) = map poly_shape (ms_polys st)" by (simp add: st1_def)
      then have cs: "map op_centroid (ms_polys st1) = ?cs" by (rule shape_cents)
      have len: "length (ms_polys st1) = length (ms_polys st)" by (simp add: st1_def)
      have nt: "near_target ?cs b = Inr (Some j0)" using c nb bj by (simp add: near_target_def)
      have filt: "filter (\<lambda>ib. fst ib \<notin> ms_matched st1 \<and> near_target ?cs (snd ib) = Inr (Some j)) rest =
                  filter (\<lambda>ib. fst ib \<notin> ms_matched st \<and> near_target ?cs (snd ib) = Inr (Some j)) rest" for j
        using fresh by (auto simp: st1_def intro: filter_cong)
      show ?thesis
        using Cons.IH [OF run dist] shape cs len filt nt im ib j0
        by (auto simp: st1_def append_match_nth)
    next
      case False
      then have "phase2 st nn rest = Inr (st', nn')"
        using Cons.prems(1) ib c im nb by (auto split: option.splits if_splits)
      moreover have "near_target ?cs b \<noteq> Inr (Some j)" for j
        using False c nb by (auto simp: near_target_def split: option.splits)
      ultimately show ?thesis using Cons.IH [OF _ dist] ib by auto
    qed
  qed
qed simp

lemma enum_eq: "enum xs = map (\<lambda>i. (i, xs ! i)) [0..<length xs]"
  by (rule nth_equalityI) (simp_all add: enum_def)

lemma enum_filter:
  "map fst (filter (\<lambda>ib. P (fst ib) (snd ib)) (enum xs)) = filter (\<lambda>i. P i (xs ! i)) [0..<length xs]"
  by (simp add: enum_eq filter_map comp_def)

lemma distinct_enum: "distinct (map fst (enum xs))"
  by (simp add: enum_eq comp_def)

lemma build_osm_polys_Inr:
  "build_osm_polys feats = Inr polys \<Longrightarrow> \<forall>q\<in>set polys. op_matches q = []"
proof (induction feats arbitrary: polys)
  case (Cons f fs)
  then show ?case by (auto split: if_splits list.splits)
qed simp

lemma phase1_spec:
  assumes "\<forall>q\<in>set polys. op_matches q = []"
  shows "map poly_shape (ms_polys (phase1 polys nlsc)) = map poly_shape polys
    \<and> (\<forall>j<length polys. op_matches (ms_polys (phase1 polys nlsc) ! j) =
          filter (\<lambda>i. ring_target (map op_ring polys) (nlsc ! i) = Some j) [0..<length nlsc])
    \<and> ms_matched (phase1 polys nlsc) = {i. i < length nlsc \<and> ring_target (map op_ring polys) (nlsc ! i) \<noteq> None}"
proof -
  let ?st = "\<lparr>ms_polys = polys, ms_matched = {}, ms_pip = 0\<rparr>"
  have f: "map fst (filter (\<lambda>ib. ring_target (map op_ring polys) (snd ib) = Some j) (enum nlsc)) =
           filter (\<lambda>i. ring_target (map op_ring polys) (nlsc ! i) = Some j) [0..<length nlsc]" for j
    using enum_filter [of "\<lambda>i b. ring_target (map op_ring polys) b = Some j" nlsc] by simp
  have m: "fst ` {ib \<in> set (enum nlsc). ring_target (map op_ring polys) (snd ib) \<noteq> None} =
           {i. i < length nlsc \<and> ring_target (map op_ring polys) (nlsc ! i) \<noteq> None}"
    by (auto simp: enum_eq image_iff)
  show ?thesis
    using phase1_fold [of "enum nlsc" ?st] assms f m by (simp add: phase1_def)
qed

lemma phases_matches:
  assumes "build_osm_polys feats = Inr polys"
    and "phase2 (phase1 polys nlsc) 0 (enum nlsc) = Inr (st, nn)" and "j < length polys"
  shows "op_matches (ms_polys st ! j) =
     filter (\<lambda>i. ring_target (map op_ring polys) (nlsc ! i) = Some j) [0..<length nlsc] @
     filter (\<lambda>i. ring_target (map op_ring polys) (nlsc ! i) = None \<and>
                  near_target (map op_centroid polys) (nlsc ! i) = Inr (Some j)) [0..<length nlsc]"
proof -
  let ?s1 = "phase1 polys nlsc"
  have p1: "map poly_shape (ms_polys ?s1) = map poly_shape polys"
    "op_matches (ms_polys ?s1 ! j) = filter (\<lambda>i. ring_target (map op_ring polys) (nlsc ! i) = Some j) [0..<length nlsc]"
    "ms_matched ?s1 = {i. i < length nlsc \<and> ring_target (map op_ring polys) (nlsc ! i) \<noteq> None}"
    using phase1_spec [OF build_osm_polys_Inr [OF assms(1)], of nlsc] assms(3) by auto
  have len: "length (ms_polys ?s1) = length polys" using p1(1) by (metis length_map)
  have cs: "map op_centroid (ms_polys ?s1) = map op_centroid polys" using p1(1) by (rule shape_cents)
  have "op_matches (ms_polys st ! j) = op_matches (ms_polys ?s1 ! j) @
          map fst (filter (\<lambda>ib. fst ib \<notin> ms_matched ?s1 \<and>
                      near_target (map op_centroid polys) (snd ib) = Inr (Some j)) (enum nlsc))"
    using phase2_spec [OF assms(2) distinct_enum] assms(3) len cs by auto
  also have "map fst (filter (\<lambda>ib. fst ib \<notin> ms_matched ?s1 \<and>
                      near_target (map op_centroid polys) (snd ib) = Inr (Some j)) (enum nlsc)) =
     filter (\<lambda>i. ring_target (map op_ring polys) (nlsc ! i) = None \<and>
                  near_target (map op_centroid polys) (nlsc ! i) = Inr (Some j)) [0..<length nlsc]"
    unfolding enum_filter [of "\<lambda>i b. i \<notin> ms_matched ?s1 \<and> near_target (map op_centroid polys) b = Inr (Some j)"]
    by (rule filter_cong) (auto simp: p1(3))
  finally show ?thesis using p1(2) by simp
qed

lemma phases_matches_iff:
  assumes "build_osm_polys feats = Inr polys"
    and "phase2 (phase1 polys nlsc) 0 (enum nlsc) = Inr (st, nn)" and "j < length polys"
  shows "i \<in> set (op_matches (ms_polys st ! j)) \<longleftrightarrow> i < length nlsc \<and>
     (ring_target (map op_ring polys) (nlsc ! i) = Some j \<or>
      ring_target (map op_ring polys) (nlsc ! i) = None \<and> near_target (map op_centroid polys) (nlsc ! i) = Inr (Some j))"
  using phases_matches [OF assms] by auto

lemma tallest_from_gen:
  "(tallest_from nlsc bh best ms = best \<and> (\<forall>k\<in>set ms. bldg_height (nlsc ! k) \<le> bh)) \<or>
   (\<exists>i\<in>set ms. tallest_from nlsc bh best ms = Some (nlsc ! i) \<and> bh < bldg_height (nlsc ! i) \<and>
        (\<forall>k\<in>set ms. bldg_height (nlsc ! k) \<le> bldg_height (nlsc ! i)))"
proof (induction ms arbitrary: bh best)
  case (Cons idx rest)
  show ?case
  proof (cases "bldg_height (nlsc ! idx) > bh")
    case True
    then show ?thesis using Cons.IH [of "bldg_height (nlsc ! idx)" "Some (nlsc ! idx)"] by force
  next
    case False
    then show ?thesis using Cons.IH [of bh best] by force
  qed
qed simp

lemma build_osm_polys_length:
  "build_osm_polys feats = Inr polys \<Longrightarrow> length polys = length (filter (\<lambda>f. of_geom_type f = ascii ''Polygon'') feats)"
proof (induction feats arbitrary: polys)
  case (Cons f fs)
  then show ?case by (auto split: if_splits list.splits)
qed simp

lemma phases_length:
  assumes "phase2 (phase1 polys nlsc) 0 (enum nlsc) = Inr (st, nn)"
  shows "length (ms_polys st) = length polys"
proof -
  have "map poly_shape (ms_polys st) = map poly_shape (ms_polys (phase1 polys nlsc))"
    using phase2_spec [OF assms distinct_enum] by blast
  moreover have "map poly_shape (ms_polys (phase1 polys nlsc)) = map poly_shape polys"
    using phase1_fold [of "enum nlsc" "\<lparr>ms_polys = polys, ms_matched = {}, ms_pip = 0\<rparr>"]
    by (simp add: phase1_def)
  ultimately show ?thesis by (metis length_map)
qed

lemma merge_datasets_Inr:
  assumes "merge_datasets feats nlsc = Inr mo"
  shows "\<exists>polys st nn. build_osm_polys feats = Inr polys \<and> phase2 (phase1 polys nlsc) 0 (enum nlsc) = Inr (st, nn)
     \<and> mo_features mo = map (OsmOut \<circ> merge_feature nlsc) (ms_polys st) @ nlsc_only (ms_matched st) (enum nlsc)
     \<and> mo_osm_buildings mo = length (ms_polys st)
     \<and> mo_with mo = length (filter (\<lambda>q. op_matches q \<noteq> []) (ms_polys st))
     \<and> mo_without mo = length (filter (\<lambda>q. op_matches q = []) (ms_polys st))
     \<and> mo_multi mo = length (filter (\<lambda>q. 1 < length (op_matches q)) (ms_polys st))
     \<and> mo_nlsc_only mo = length (nlsc_only (ms_matched st) (enum nlsc))"
proof -
  obtain polys where p: "build_osm_polys feats = Inr polys"
    using assms by (cases "build_osm_polys feats") (auto simp: merge_datasets_def)
  obtain st nn where q: "phase2 (phase1 polys nlsc) 0 (enum nlsc) = Inr (st, nn)"
    using assms p by (cases "phase2 (phase1 polys nlsc) 0 (enum nlsc)") (auto simp: merge_datasets_def)
  show ?thesis using assms p q by (auto simp: merge_datasets_def Let_def)
qed

subsection \<open>A campus of one footprint\<close>

text \<open>A closed square footprint with corners \<open>(0, 0)\<close> and \<open>(2, 2)\<close>, one NLSC building
  at its centre and one without coordinates.\<close>

definition fx_ring :: "point list" where
  "fx_ring = [(0, 0), (2, 0), (2, 2), (0, 2), (0, 0)]"

definition fx_feature :: osm_feature where
  "fx_feature = \<lparr>of_geom_type = ascii ''Polygon'', of_coords = [fx_ring],
                 of_props = [ascii ''name'' \<mapsto> JStr (ascii ''A'')]\<rparr>"

definition fx_nlsc :: "record_dict list" where
  "fx_nlsc = [[ascii ''lon'' \<mapsto> JNum 1, ascii ''lat'' \<mapsto> JNum 1, ascii ''BUILD_H'' \<mapsto> JStr (ascii ''12'')],
              [ascii ''BUILD_H'' \<mapsto> JStr (ascii ''7'')]]"

lemma fx_centroid: "polygon_centroid fx_ring = (1, 1)"
  by (simp add: polygon_centroid_def fx_ring_def)

lemma fx_inside: "point_in_polygon 1 1 fx_ring"
  by (simp add: point_in_polygon_def fx_ring_def crosses_def)

lemma fx_polys:
  "build_osm_polys [fx_feature] = Inr [\<lparr>op_ring = fx_ring, op_centroid = (1, 1),
     op_props = of_props fx_feature, op_feature = fx_feature, op_matches = []\<rparr>]"
  by (simp add: fx_feature_def fx_centroid)

lemma fx_coords: "nlsc_coords (fx_nlsc ! 0) = Some (1, 1)" "nlsc_coords (fx_nlsc ! Suc 0) = None"
  by (simp_all add: nlsc_coords_def fx_nlsc_def ascii_def)

lemma fx_phases:
  "\<exists>st. phase2 (phase1 [\<lparr>op_ring = fx_ring, op_centroid = (1, 1),
     op_props = of_props fx_feature, op_feature = fx_feature, op_matches = []\<rparr>] fx_nlsc) 0 (enum fx_nlsc) = Inr (st, 0)"
proof -
  have "length fx_nlsc = 2" by (simp add: fx_nlsc_def)
  then show ?thesis
    by (simp add: phase1_def enum_eq upt_rec phase1_step_def fx_coords fx_inside append_match_def)
qed

text \<open>A degenerate footprint, the segment from \<open>(0, 0)\<close> to \<open>(2, 2)\<close>, contains no
  point; a building at its centroid \<open>(1, 1)\<close> is matched by distance.\<close>

definition fx2_feature :: osm_feature where
  "fx2_feature = \<lparr>of_geom_type = ascii ''Polygon'', of_coords = [[(0, 0), (2, 2)]],
                  of_props = Map.empty\<rparr>"

definition fx2_nlsc :: "record_dict list" where
  "fx2_nlsc = [[ascii ''lon'' \<mapsto> JNum 1, ascii ''lat'' \<mapsto> JNum 1]]"

lemma fx2_polys:
  "build_osm_polys [fx2_feature] = Inr [\<lparr>op_ring = [(0, 0), (2, 2)], op_centroid = (1, 1),
     op_props = Map.empty, op_feature = fx2_feature, op_matches = []\<rparr>]"
  by (simp add: fx2_feature_def polygon_centroid_def)

lemma fx2_coords: "nlsc_coords (fx2_nlsc ! 0) = Some (1, 1)"
  by (simp add: nlsc_coords_def fx2_nlsc_def ascii_def)

lemma fx2_outside: "\<not> point_in_polygon 1 1 [(0, 0), (2, 2)]"
  by (simp add: point_in_polygon_def crosses_def)

lemma haversine_same [simp]: "haversine_m lon lat lon lat = Some 0"
  by (simp add: haversine_m_def haversine_a_def radians_def)

lemma fx2_phases:
  "\<exists>st. phase2 (phase1 [\<lparr>op_ring = [(0, 0), (2, 2)], op_centroid = (1, 1),
     op_props = Map.empty, op_feature = fx2_feature, op_matches = []\<rparr>] fx2_nlsc) 0 (enum fx2_nlsc) = Inr (st, 1)"
proof -
  have "length fx2_nlsc = 1" by (simp add: fx2_nlsc_def)
  then show ?thesis
    by (simp add: phase1_def enum_eq phase1_step_def fx2_coords fx2_outside max_dist_def)
qed

subsection \<open>Properties of the fusion\<close>

text \<open>C22: after both matching phases every NLSC building is matched to at most one OSM
  footprint, and at most once.\<close>

theorem merge_matches_partition:
  assumes "build_osm_polys feats = Inr polys" and "phase2 (phase1 polys nlsc) 0 (enum nlsc) = Inr (st, nn)"
  shows "(\<forall>j<length polys. distinct (op_matches (ms_polys st ! j)))
    \<and> (\<forall>j k i. j < length polys \<longrightarrow> k < length polys \<longrightarrow> i \<in> set (op_matches (ms_polys st ! j))
         \<longrightarrow> i \<in> set (op_matches (ms_polys st ! k)) \<longrightarrow> j = k)"
proof -
  have "distinct (op_matches (ms_polys st ! j))" if "j < length polys" for j
    using phases_matches [OF assms that] by (auto simp: set_eq_iff)
  moreover have "j = k" if "j < length polys" "k < length polys" "i \<in> set (op_matches (ms_polys st ! j))"
      "i \<in> set (op_matches (ms_polys st ! k))" for i j k
    using that phases_matches_iff [OF assms that(1), of i] phases_matches_iff [OF assms that(2), of i] by auto
  ultimately show ?thesis by blast
qed

theorem merge_matches_partition_witness:
  "build_osm_polys [fx_feature] = Inr [\<lparr>op_ring = fx_ring, op_centroid = (1, 1),
     op_props = of_props fx_feature, op_feature = fx_feature, op_matches = []\<rparr>]
   \<and> (\<exists>st. phase2 (phase1 [\<lparr>op_ring = fx_ring, op_centroid = (1, 1),
     op_props = of_props fx_feature, op_feature = fx_feature, op_matches = []\<rparr>] fx_nlsc) 0 (enum fx_nlsc) = Inr (st, 0)
       \<and> distinct (op_matches (ms_polys st ! 0)))"
proof -
  obtain st where st: "phase2 (phase1 [\<lparr>op_ring = fx_ring, op_centroid = (1, 1),
     op_props = of_props fx_feature, op_feature = fx_feature, op_matches = []\<rparr>] fx_nlsc) 0 (enum fx_nlsc) = Inr (st, 0)"
    using fx_phases by blast
  show ?thesis using merge_matches_partition [OF fx_polys st] fx_polys st by auto
qed

text \<open>C23: point-in-polygon wins over distance: a building inside some footprint is
  matched to the first footprint that contains it and to no other.\<close>

theorem merge_inside_first_polygon:
  assumes "build_osm_polys feats = Inr polys" and "phase2 (phase1 polys nlsc) 0 (enum nlsc) = Inr (st, nn)"
    and "i < length nlsc" and "ring_target (map op_ring polys) (nlsc ! i) = Some k"
  shows "k < length polys \<and> i \<in> set (op_matches (ms_polys st ! k))
    \<and> (\<forall>j<length polys. i \<in> set (op_matches (ms_polys st ! j)) \<longrightarrow> j = k)"
proof -
  have k: "k < length polys" using ring_target_lt [OF assms(4)] by simp
  show ?thesis using k assms(3,4) phases_matches_iff [OF assms(1,2)] by auto
qed

theorem merge_inside_first_polygon_witness:
  "(0::nat) < length fx_nlsc \<and> ring_target (map op_ring [\<lparr>op_ring = fx_ring, op_centroid = (1, 1),
     op_props = of_props fx_feature, op_feature = fx_feature, op_matches = []\<rparr>]) (fx_nlsc ! 0) = Some 0
   \<and> (\<exists>st. phase2 (phase1 [\<lparr>op_ring = fx_ring, op_centroid = (1, 1),
     op_props = of_props fx_feature, op_feature = fx_feature, op_matches = []\<rparr>] fx_nlsc) 0 (enum fx_nlsc) = Inr (st, 0)
       \<and> 0 \<in> set (op_matches (ms_polys st ! 0)))"
proof -
  have rt: "ring_target (map op_ring [\<lparr>op_ring = fx_ring, op_centroid = (1, 1),
     op_props = of_props fx_feature, op_feature = fx_feature, op_matches = []\<rparr>]) (fx_nlsc ! 0) = Some 0"
    by (simp add: ring_target_def fx_coords fx_inside)
  have n: "(0::nat) < length fx_nlsc" by (simp add: fx_nlsc_def)
  obtain st where st: "phase2 (phase1 [\<lparr>op_ring = fx_ring, op_centroid = (1, 1),
     op_props = of_props fx_feature, op_feature = fx_feature, op_matches = []\<rparr>] fx_nlsc) 0 (enum fx_nlsc) = Inr (st, 0)"
    using fx_phases by blast
  show ?thesis using merge_inside_first_polygon [OF fx_polys st n rt] rt n st by auto
qed

lemma near_target_Some:
  assumes "near_target cents b = Inr (Some j)"
  shows "\<exists>lon lat d. nlsc_coords b = Some (lon, lat) \<and> d \<le> max_dist \<and>
           nearest_ok (\<lambda>c. haversine_m lon lat (fst c) (snd c)) cents (Some (d, j))"
proof -
  obtain lon lat where c: "nlsc_coords b = Some (lon, lat)"
    using assms by (auto simp: near_target_def split: option.splits)
  then obtain best where nb: "nearest_from lon lat 0 cents None = Inr best"
    using assms by (cases "nearest_from lon lat 0 cents None") (auto simp: near_target_def)
  then obtain d where bd: "best = Some (d, j)" "d \<le> max_dist"
    using assms c by (auto simp: near_target_def split: option.splits if_splits)
  have "nearest_ok (\<lambda>c. haversine_m lon lat (fst c) (snd c)) cents (Some (d, j))"
    using nearest_from_ok [of lon lat "[]" cents None] nb bd by (simp add: nearest_ok_def)
  then show ?thesis using c bd by blast
qed

text \<open>C24: a building matched by distance (it lies in no footprint) is matched to the
  footprint whose centroid is nearest to it, the first among equally near ones, and that
  centroid is at most \<open>MAX_DIST = 30\<close> m away.\<close>

theorem merge_nearest_within_max:
  assumes "build_osm_polys feats = Inr polys" and "phase2 (phase1 polys nlsc) 0 (enum nlsc) = Inr (st, nn)"
    and "j < length polys" and "i \<in> set (op_matches (ms_polys st ! j))"
    and "ring_target (map op_ring polys) (nlsc ! i) = None"
  shows "\<exists>lon lat d. nlsc_coords (nlsc ! i) = Some (lon, lat)
    \<and> haversine_m lon lat (fst (op_centroid (polys ! j))) (snd (op_centroid (polys ! j))) = Some d
    \<and> d \<le> max_dist
    \<and> (\<forall>k<length polys. \<forall>d'. haversine_m lon lat (fst (op_centroid (polys ! k))) (snd (op_centroid (polys ! k))) = Some d'
          \<longrightarrow> d \<le> d' \<and> (k < j \<longrightarrow> d < d'))"
proof -
  have "near_target (map op_centroid polys) (nlsc ! i) = Inr (Some j)"
    using phases_matches_iff [OF assms(1-3), of i] assms(4,5) by simp
  then obtain lon lat d where "nlsc_coords (nlsc ! i) = Some (lon, lat)" "d \<le> max_dist"
      "nearest_ok (\<lambda>c. haversine_m lon lat (fst c) (snd c)) (map op_centroid polys) (Some (d, j))"
    using near_target_Some by blast
  then show ?thesis by (auto simp: nearest_ok_def)
qed

theorem merge_nearest_within_max_witness:
  "build_osm_polys [fx2_feature] = Inr [\<lparr>op_ring = [(0, 0), (2, 2)], op_centroid = (1, 1),
     op_props = Map.empty, op_feature = fx2_feature, op_matches = []\<rparr>]
   \<and> ring_target [[(0, 0), (2, 2)]] (fx2_nlsc ! 0) = None
   \<and> (\<exists>st. phase2 (phase1 [\<lparr>op_ring = [(0, 0), (2, 2)], op_centroid = (1, 1),
     op_props = Map.empty, op_feature = fx2_feature, op_matches = []\<rparr>] fx2_nlsc) 0 (enum fx2_nlsc) = Inr (st, 1)
       \<and> 0 \<in> set (op_matches (ms_polys st ! 0)))
   \<and> haversine_m 1 1 1 1 = Some 0 \<and> 0 \<le> max_dist"
proof -
  obtain st where st: "phase2 (phase1 [\<lparr>op_ring = [(0, 0), (2, 2)], op_centroid = (1, 1),
     op_props = Map.empty, op_feature = fx2_feature, op_matches = []\<rparr>] fx2_nlsc) 0 (enum fx2_nlsc) = Inr (st, 1)"
    using fx2_phases by blast
  have rt: "ring_target [[(0, 0), (2, 2)]] (fx2_nlsc ! 0) = None"
    by (simp add: ring_target_def fx2_coords fx2_outside)
  have nt: "near_target [(1, 1)] (fx2_nlsc ! 0) = Inr (Some 0)"
    by (simp add: near_target_def fx2_coords max_dist_def)
  have m: "0 \<in> set (op_matches (ms_polys st ! 0))"
    using phases_matches_iff [OF fx2_polys st, of 0 0] rt nt by (simp add: fx2_nlsc_def)
  have "\<exists>lon lat d. nlsc_coords (fx2_nlsc ! 0) = Some (lon, lat) \<and> d \<le> max_dist"
    using merge_nearest_within_max [OF fx2_polys st _ m] rt by auto
  then show ?thesis using fx2_polys st rt m by (simp add: max_dist_def)
qed

text \<open>C27: the ray-casting test does not depend on where the ring starts: rotating
  the vertex list keeps every edge and so the parity of crossings.\<close>

theorem point_in_polygon_rotate1:
  "point_in_polygon px py (rotate1 ring) = point_in_polygon px py ring"
  by (simp add: point_in_polygon_parity ring_edges_rotate1)

text \<open>C28: the closing vertex of a GeoJSON ring makes no difference: the edge it adds
  is a single point, which no ray crosses.\<close>

theorem point_in_polygon_closing_vertex:
  assumes "xs \<noteq> []"
  shows "point_in_polygon px py (xs @ [hd xs]) = point_in_polygon px py xs"
  using ring_edges_closed [OF assms] assms by (simp add: point_in_polygon_parity)

theorem point_in_polygon_closing_vertex_witness:
  "[(0, 0), (2, 0), (2, 2), (0::real, 0::real)] \<noteq> [] \<and>
   point_in_polygon 1 1 fx_ring = point_in_polygon 1 1 [(0, 0), (2, 0), (2, 2), (0, 2)]"
  using point_in_polygon_closing_vertex [of "[(0, 0), (2, 0), (2, 2), (0, 2)]" 1 1]
  by (simp add: fx_ring_def)



lemma fx_heights: "bldg_height (fx_nlsc ! 0) = 12" "bldg_height (fx_nlsc ! Suc 0) = 7"
  by (simp_all add: bldg_height_def fx_nlsc_def ascii_def jval_float_def py_float_def py_strip_def
      is_py_space_def split_sign_def is_digit_def parse_exponent_def pow10_def)




lemma fx_merge: "\<exists>mo. merge_datasets [fx_feature] fx_nlsc = Inr mo"
proof -
  obtain st where st: "phase2 (phase1 [\<lparr>op_ring = fx_ring, op_centroid = (1, 1),
     op_props = of_props fx_feature, op_feature = fx_feature, op_matches = []\<rparr>] fx_nlsc) 0 (enum fx_nlsc) = Inr (st, 0)"
    using fx_phases by blast
  show ?thesis unfolding merge_datasets_def fx_polys by (simp add: st Let_def del: ebind_eq_Inr)
qed


text \<open>C30: with no \<open>Polygon\<close> feature in the OSM input the merge itself succeeds, but
  the summary line \<open>100 * osm_with_nlsc / len(osm_polys)\<close> raises
  \<open>ZeroDivisionError\<close> after the merged file is written.\<close>

theorem merge_summary_no_polygons:
  assumes "merge_datasets feats nlsc = Inr mo"
    and "\<forall>f\<in>set feats. of_geom_type f \<noteq> ascii ''Polygon''"
  shows "match_percentage mo = Inl ZeroDivisionError"
proof -
  obtain polys st nn where p: "build_osm_polys feats = Inr polys"
    and q: "phase2 (phase1 polys nlsc) 0 (enum nlsc) = Inr (st, nn)"
    and n: "mo_osm_buildings mo = length (ms_polys st)"
    using merge_datasets_Inr [OF assms(1)] by blast
  have "length polys = 0" using build_osm_polys_length [OF p] assms(2) by (simp add: filter_empty_conv)
  then show ?thesis using n phases_length [OF q] by (simp add: match_percentage_def)
qed

theorem merge_summary_no_polygons_witness:
  "\<exists>mo. merge_datasets [] fx_nlsc = Inr mo \<and> match_percentage mo = Inl ZeroDivisionError"
proof -
  have "length fx_nlsc = 2" by (simp add: fx_nlsc_def)
  then obtain mo where mo: "merge_datasets [] fx_nlsc = Inr mo"
    by (simp add: merge_datasets_def phase1_def enum_eq upt_rec phase1_step_def fx_coords Let_def)
  show ?thesis using merge_summary_no_polygons [OF mo] mo by simp
qed

end
