(* ===== verification/Client.thy ===== *)
theory Client
  imports PyText
begin

text \<open>
  What the three downloaders (\<^verbatim>\<open>src/scripts/01_download_nlsc_tiles.py\<close>,
  \<^verbatim>\<open>06_download_multi_campus.py\<close>, \<^verbatim>\<open>08_download_quadtree.py\<close>) share: the
  round-robin server choice \<open>get_server\<close> over the module-global \<open>server_idx\<close>, the
  request URLs, the retry loop of \<open>fetch_tile\<close>, and the effects on the file system.

  The network is an oracle \<open>net :: network\<close>: the reply to the request with sequence
  number \<open>n\<close> (the value of \<open>server_idx\<close> when it is sent, one per
  \<open>get_server()\<close> call) for a URL is either \<open>Reply status body\<close> or \<open>Raises\<close>, the
  exception that \<open>urlopen\<close> or \<open>read\<close> raises (time-outs, connection errors and the
  \<open>HTTPError\<close> of a 4xx/5xx status). The global state of a run is the record
  \<open>io_state\<close>: \<open>server_idx\<close>, the binary files written (\<open>disk\<close>) and the JSON
  documents written by \<open>json.dump\<close> (\<open>json_files\<close>, as values; their text encoding
  is not modelled). \<open>os.makedirs\<close> and \<open>time.sleep\<close> have no effect the model keeps.
\<close>

datatype http_reply = Reply nat bytes | Raises

type_synonym network = "nat \<Rightarrow> string \<Rightarrow> http_reply"

datatype pyjson = PNull | PInt int | PFloat real | PBool bool | PStr ustr | PList "pyjson list"
  | PDict "(ustr \<times> pyjson) list"

record io_state =
  server_idx :: nat
  disk :: "string \<rightharpoonup> bytes"
  json_files :: "string \<rightharpoonup> pyjson"

text \<open>The state when a script starts: \<open>server_idx = 0\<close>, nothing written.\<close>

definition empty_io :: io_state where
  "empty_io = \<lparr>server_idx = 0, disk = Map.empty, json_files = Map.empty\<rparr>"

definition servers :: "string list" where
  "servers = [''https://mapserver01.nlsc.gov.tw/oview//oview'',
              ''https://mapserver02.nlsc.gov.tw/oview//oview'',
              ''https://mapserver51.nlsc.gov.tw/oview//oview'']"

definition get_server :: "io_state \<Rightarrow> string \<times> io_state" where
  "get_server s = (servers ! (server_idx s mod length servers), s\<lparr>server_idx := Suc (server_idx s)\<rparr>)"

text \<open>\<open>str()\<close> of a Python \<open>int\<close>, as the f-strings of the URLs and paths print it.\<close>

definition str_int :: "int \<Rightarrow> string" where
  "str_int i = (if i < 0 then ''-'' else []) @ map char_of (show_nat (nat \<bar>i\<bar>))"

text \<open>\<open>os.path.join\<close> of POSIX: an absolute second part replaces the first.\<close>

definition path_join :: "string \<Rightarrow> string \<Rightarrow> string" where
  "path_join a b =
     (if take 1 b = ''/'' then b else if a = [] \<or> last a = CHR ''/'' then a @ b else a @ ''/'' @ b)"

definition write_file :: "string \<Rightarrow> bytes \<Rightarrow> io_state \<Rightarrow> io_state" where
  "write_file p d s = s\<lparr>disk := (disk s)(p \<mapsto> d)\<rparr>"

definition dump_json :: "string \<Rightarrow> pyjson \<Rightarrow> io_state \<Rightarrow> io_state" where
  "dump_json p j s = s\<lparr>json_files := (json_files s)(p \<mapsto> j)\<rparr>"

definition tile_file_name :: "int \<Rightarrow> int \<Rightarrow> string" where
  "tile_file_name row col = ''R'' @ str_int row @ ''_C'' @ str_int col @ ''.bin''"

definition level_dir :: "int \<Rightarrow> string" where
  "level_dir level = ''L'' @ str_int level"

definition tile_url :: "string \<Rightarrow> string \<Rightarrow> int \<Rightarrow> int \<Rightarrow> int \<Rightarrow> string \<Rightarrow> string" where
  "tile_url srv layer level row col docname =
     srv @ ''?type=modelset&format=integrate'' @ ''&name='' @ layer @ ''&level='' @ str_int level
       @ ''&Row='' @ str_int row @ ''&Col='' @ str_int col @ ''&docname='' @ docname @ ''&epsg=4326''"

definition layer_url :: "string \<Rightarrow> string \<Rightarrow> string" where
  "layer_url srv layer = srv @ ''?type=modelset&format=integrate'' @ ''&name='' @ layer @ ''&docname=LAYER''"

text \<open>
  The body of \<open>fetch_tile\<close>'s \<open>for attempt in range(retries + 1)\<close>, by the number of
  attempts left: a reply ends the loop (the data when the status is 200 and the body is not
  empty, \<open>None\<close> otherwise, with no retry), an exception moves to the next attempt and the
  next server.
\<close>

fun reply_data :: "http_reply \<Rightarrow> bytes option" where
  "reply_data (Reply st d) = (if st = 200 \<and> 0 < length d then Some d else None)"
| "reply_data Raises = None"

primrec fetch_attempts :: "network \<Rightarrow> (string \<Rightarrow> string) \<Rightarrow> nat \<Rightarrow> io_state \<Rightarrow> bytes option \<times> io_state" where
  "fetch_attempts net url 0 s = (None, s)"
| "fetch_attempts net url (Suc k) s =
     (case get_server s of (srv, s') \<Rightarrow>
        (case net (server_idx s) (url srv) of
           Reply st d \<Rightarrow> (reply_data (Reply st d), s')
         | Raises \<Rightarrow> fetch_attempts net url k s'))"

text \<open>\<open>if layer_data:\<close> -- \<open>None\<close> and the empty body are false.\<close>

definition truthy :: "bytes option \<Rightarrow> bool" where
  "truthy d \<longleftrightarrow> (case d of Some x \<Rightarrow> x \<noteq> [] | None \<Rightarrow> False)"

text \<open>The reply to request number \<open>n\<close> when every request goes to the URL \<open>url\<close> of its server.\<close>

definition attempt_reply :: "network \<Rightarrow> (string \<Rightarrow> string) \<Rightarrow> nat \<Rightarrow> http_reply" where
  "attempt_reply net url n = net n (url (servers ! (n mod length servers)))"

lemma get_server_simps [simp]:
  "fst (get_server s) = servers ! (server_idx s mod length servers)"
  "server_idx (snd (get_server s)) = Suc (server_idx s)"
  "disk (snd (get_server s)) = disk s"
  "json_files (snd (get_server s)) = json_files s"
  by (simp_all add: get_server_def)

lemma get_server_split: "get_server s = (servers ! (server_idx s mod length servers), s\<lparr>server_idx := Suc (server_idx s)\<rparr>)"
  by (simp add: get_server_def)

text \<open>
  The retry loop as a search: it returns the reply of the first request that did not
  raise, and the server index has advanced by the number of requests made.
\<close>

lemma fetch_attempts_first_reply:
  "fetch_attempts net url k s =
     (case first_index (\<lambda>n. attempt_reply net url n \<noteq> Raises) [server_idx s..<server_idx s + k] of
        None \<Rightarrow> (None, s\<lparr>server_idx := server_idx s + k\<rparr>)
      | Some j \<Rightarrow> (reply_data (attempt_reply net url (server_idx s + j)),
                  s\<lparr>server_idx := server_idx s + j + 1\<rparr>))"
proof (induction k arbitrary: s)
  case 0
  then show ?case by simp
next
  case (Suc k)
  have upt: "[server_idx s..<server_idx s + Suc k] = server_idx s # [Suc (server_idx s)..<Suc (server_idx s) + k]"
    by (simp add: upt_conv_Cons)
  show ?case
  proof (cases "attempt_reply net url (server_idx s)")
    case (Reply st d)
    then show ?thesis by (subst upt) (simp add: get_server_split attempt_reply_def del: upt_Suc)
  next
    case Raises
    then show ?thesis
      by (subst upt) (simp add: get_server_split Suc [of "s\<lparr>server_idx := Suc (server_idx s)\<rparr>"]
                    attempt_reply_def del: upt_Suc split: option.split)
  qed
qed

lemma fetch_attempts_files:
  "disk (snd (fetch_attempts net url k s)) = disk s \<and> json_files (snd (fetch_attempts net url k s)) = json_files s"
  by (simp add: fetch_attempts_first_reply split: option.split)

lemma fetch_attempts_idx_le:
  "server_idx (snd (fetch_attempts net url k s)) \<le> server_idx s + k"
  by (auto simp: fetch_attempts_first_reply first_index_Some split: option.split)

subsection \<open>File names are injective\<close>

text \<open>
  Different tiles get different files: \<open>str()\<close> of an \<open>int\<close> is injective, and the
  digits never contain the \<open>'_'\<close> that ends the row part of \<open>R{row}_C{col}.bin\<close>.
\<close>

lemma show_nat_inj: "show_nat a = show_nat b \<Longrightarrow> a = b"
  by (metis digits_value_show_nat)

lemma of_char_str_int:
  "map of_char (str_int i) = (if i < 0 then [45] else []) @ show_nat (nat \<bar>i\<bar>)"
proof -
  have "\<forall>x\<in>set (show_nat n). x < 256" for n
    using show_nat_digits [of n] by (auto simp: list_all_iff is_digit_def)
  then show ?thesis by (simp add: str_int_def map_idI)
qed

lemma show_nat_hd_digit: "\<exists>x xs. show_nat n = x # xs \<and> 48 \<le> x \<and> x \<le> 57"
  using show_nat_digits [of n] by (cases "show_nat n") (auto simp: is_digit_def)

lemma str_int_inj: "str_int i = str_int j \<Longrightarrow> i = j"
proof -
  assume eq: "str_int i = str_int j"
  then have m: "(if i < 0 then [45] else []) @ show_nat (nat \<bar>i\<bar>) = (if j < 0 then [45] else []) @ show_nat (nat \<bar>j\<bar>)"
    by (metis of_char_str_int)
  obtain x xs where x: "show_nat (nat \<bar>i\<bar>) = x # xs" "48 \<le> x" using show_nat_hd_digit by blast
  obtain y ys where y: "show_nat (nat \<bar>j\<bar>) = y # ys" "48 \<le> y" using show_nat_hd_digit by blast
  have "(i < 0) = (j < 0)" using m x y by (auto split: if_splits)
  moreover have "show_nat (nat \<bar>i\<bar>) = show_nat (nat \<bar>j\<bar>)" using m calculation by (simp split: if_splits)
  ultimately show "i = j" by (auto dest!: show_nat_inj)
qed

lemma str_int_no_underscore: "CHR ''_'' \<notin> set (str_int i)"
proof
  assume "CHR ''_'' \<in> set (str_int i)"
  then have "(of_char (CHR ''_'') :: nat) \<in> set (map of_char (str_int i))"
    unfolding set_map by (rule imageI)
  then show False
    using show_nat_digits [of "nat \<bar>i\<bar>"]
    by (auto simp: of_char_str_int list_all_iff is_digit_def split: if_splits)
qed

lemma takeWhile_str_int:
  "takeWhile (\<lambda>ch. ch \<noteq> CHR ''_'') (str_int i @ CHR ''_'' # rest) = str_int i"
  using str_int_no_underscore [of i] by (subst takeWhile_append2) auto

lemma tile_file_name_inj:
  "tile_file_name r c = tile_file_name r' c' \<Longrightarrow> r = r' \<and> c = c'"
proof -
  assume eq: "tile_file_name r c = tile_file_name r' c'"
  then have e: "str_int r @ CHR ''_'' # ''C'' @ str_int c @ ''.bin'' = str_int r' @ CHR ''_'' # ''C'' @ str_int c' @ ''.bin''"
    by (simp add: tile_file_name_def)
  have "str_int r = str_int r'"
    using arg_cong [OF e, of "takeWhile (\<lambda>ch. ch \<noteq> CHR ''_'')"] by (simp only: takeWhile_str_int)
  moreover then have "str_int c = str_int c'" using e by simp
  ultimately show ?thesis by (auto dest: str_int_inj)
qed

lemma path_join_inj:
  "take 1 b = take 1 b' \<Longrightarrow> take 1 b \<noteq> ''/'' \<Longrightarrow> path_join a b = path_join a b' \<Longrightarrow> b = b'"
  by (auto simp: path_join_def split: if_splits)

lemma take1_tile_file_name [simp]: "take (Suc 0) (tile_file_name r c) = ''R''"
  by (simp add: tile_file_name_def)

lemma tile_path_inj:
  "path_join a (tile_file_name r c) = path_join a (tile_file_name r' c') \<longleftrightarrow> r = r' \<and> c = c'"
proof
  assume "path_join a (tile_file_name r c) = path_join a (tile_file_name r' c')"
  then have "tile_file_name r c = tile_file_name r' c'" by (rule path_join_inj [rotated 2]) simp_all
  then show "r = r' \<and> c = c'" by (rule tile_file_name_inj)
qed simp

end
