(* ===== verification/RangeDownload.thy ===== *)
theory RangeDownload
  imports Client "HOL-Library.Product_Lexorder"
begin

text \<open>
  The range downloader \<^verbatim>\<open>src/scripts/01_download_nlsc_tiles.py\<close>: its fetchers
  (\<open>fetch_tile\<close> with retries, \<open>fetch_terrain_tile\<close>, \<open>fetch_layer_info\<close>,
  lines 65--128), \<open>compute_children\<close> (131--137), the row-major grid loop
  \<open>download_level_range\<close> (140--177) and the five steps of \<open>main\<close> (288--471): the
  layer metadata, the confirmed ranges of levels 5--7, the deeper levels below the
  campus core, the terrain tiles and the manifest. Python's \<open>int\<close>s of levels, rows and
  columns are \<^typ>\<open>int\<close>; a downloaded tile is the tuple \<open>(level, row, col, size)\<close>.
  Step 4 of \<open>main\<close> and \<open>analyze_binary\<close> (180--285) only read files and print.
\<close>

type_synonym tile_row = "int \<times> int \<times> int \<times> nat"

definition layer_name :: string where
  "layer_name = ''112_O''"

definition nycu_tile_ranges :: "(int \<times> int \<times> int \<times> int \<times> int) list" where
  "nycu_tile_ranges = [(5, 12, 15, 22, 25), (6, 24, 31, 44, 51), (7, 48, 63, 88, 103)]"

definition output_dir01 :: "string \<Rightarrow> string" where
  "output_dir01 project_dir =
     path_join (path_join (path_join project_dir ''data'') ''raw'') (''NLSC_3D_tiles_'' @ layer_name)"

definition fetch_tile :: "network \<Rightarrow> string \<Rightarrow> int \<Rightarrow> int \<Rightarrow> int \<Rightarrow> string \<Rightarrow> nat \<Rightarrow> io_state
    \<Rightarrow> bytes option \<times> io_state" where
  "fetch_tile net layer level row col docname retries s =
     fetch_attempts net (\<lambda>srv. tile_url srv layer level row col docname) (Suc retries) s"

definition terrain_url :: "string \<Rightarrow> string \<Rightarrow> int \<Rightarrow> int \<Rightarrow> int \<Rightarrow> string" where
  "terrain_url srv terrain_name level row col =
     srv @ ''?type=terrain&format=integrate'' @ ''&name='' @ terrain_name @ ''&level='' @ str_int level
       @ ''&Row='' @ str_int row @ ''&Col='' @ str_int col @ ''&docname=DEMNODE&epsg=4326''"

definition fetch_terrain_tile :: "network \<Rightarrow> int \<Rightarrow> int \<Rightarrow> int \<Rightarrow> string \<Rightarrow> io_state
    \<Rightarrow> bytes option \<times> io_state" where
  "fetch_terrain_tile net level row col terrain_name s =
     (case get_server s of (srv, s') \<Rightarrow>
        (case net (server_idx s) (terrain_url srv terrain_name level row col) of
           Reply st d \<Rightarrow> (if st = 200 \<and> 0 < length d then Some d else None, s')
         | Raises \<Rightarrow> (None, s')))"

text \<open>\<open>gzip.decompress\<close> is the parameter \<open>gunzip\<close>; when it raises the raw body is kept.\<close>

definition fetch_layer_info :: "(bytes \<Rightarrow> bytes option) \<Rightarrow> network \<Rightarrow> string \<Rightarrow> io_state
    \<Rightarrow> bytes option \<times> io_state" where
  "fetch_layer_info gunzip net layer s =
     (case get_server s of (srv, s') \<Rightarrow>
        (case net (server_idx s) (layer_url srv layer) of
           Reply st d \<Rightarrow> (if st = 200 then Some (case gunzip d of Some d' \<Rightarrow> d' | None \<Rightarrow> d) else None, s')
         | Raises \<Rightarrow> (None, s')))"

definition compute_children :: "int \<Rightarrow> int \<Rightarrow> int \<Rightarrow> int \<Rightarrow> int \<Rightarrow> int \<times> int \<times> int \<times> int \<times> int" where
  "compute_children level row_min row_max col_min col_max =
     (level + 1, row_min * 2, row_max * 2 + 1, col_min * 2, col_max * 2 + 1)"

text \<open>The two nested \<open>for\<close> loops of \<open>download_level_range\<close> run over this grid, row-major.\<close>

definition grid :: "int \<Rightarrow> int \<Rightarrow> int \<Rightarrow> int \<Rightarrow> (int \<times> int) list" where
  "grid row_min row_max col_min col_max = [(r, c). r \<leftarrow> [row_min..row_max], c \<leftarrow> [col_min..col_max]]"

definition range_step :: "network \<Rightarrow> string \<Rightarrow> int \<Rightarrow> string \<Rightarrow> int \<times> int
    \<Rightarrow> tile_row list \<times> io_state \<Rightarrow> tile_row list \<times> io_state" where
  "range_step net layer level tile_dir rc acc =
     (case rc of (row, col) \<Rightarrow> case acc of (downloaded, s) \<Rightarrow>
        (case fetch_tile net layer level row col ''NODE'' 2 s of
           (Some d, s') \<Rightarrow> (downloaded @ [(level, row, col, length d)],
                             write_file (path_join tile_dir (tile_file_name row col)) d s')
         | (None, s') \<Rightarrow> (downloaded, s')))"

definition download_level_range :: "network \<Rightarrow> string \<Rightarrow> int \<Rightarrow> int \<Rightarrow> int \<Rightarrow> int \<Rightarrow> int \<Rightarrow> string
    \<Rightarrow> io_state \<Rightarrow> tile_row list \<times> io_state" where
  "download_level_range net layer level row_min row_max col_min col_max output_dir s =
     fold (range_step net layer level (path_join output_dir (level_dir level)))
          (grid row_min row_max col_min col_max) ([], s)"

text \<open>Step 3: the descendants at \<open>target_level\<close> of the core \<open>R52-55, C96-99\<close> of level 7.\<close>

definition scale_range :: "int \<Rightarrow> int \<times> int \<times> int \<times> int \<Rightarrow> int \<times> int \<times> int \<times> int" where
  "scale_range scale rng =
     (case rng of (r0, r1, c0, c1) \<Rightarrow> (r0 * scale, r1 * scale + (scale - 1), c0 * scale, c1 * scale + (scale - 1)))"

definition core_l7 :: "int \<times> int \<times> int \<times> int" where
  "core_l7 = (52, 55, 96, 99)"

fun deeper_levels :: "network \<Rightarrow> string \<Rightarrow> int list \<Rightarrow> tile_row list \<times> io_state
    \<Rightarrow> tile_row list \<times> io_state" where
  "deeper_levels net output_dir [] acc = acc"
| "deeper_levels net output_dir (target_level # tls) (all, s) =
     (case scale_range (2 ^ nat (target_level - 7)) core_l7 of (rmin, rmax, cmin, cmax) \<Rightarrow>
        if (rmax - rmin + 1) * (cmax - cmin + 1) > 1000 then deeper_levels net output_dir tls (all, s)
        else (case download_level_range net layer_name target_level rmin rmax cmin cmax output_dir s of
                (tiles, s') \<Rightarrow> if length tiles = 0 then (all @ tiles, s')
                               else deeper_levels net output_dir tls (all @ tiles, s')))"

text \<open>Step 5: the terrain tiles of levels 7 and 8.\<close>

definition terrain_range :: "int \<Rightarrow> int \<times> int \<times> int \<times> int" where
  "terrain_range level = (if level = 7 then (52, 55, 96, 99) else (104, 111, 192, 199))"

definition terrain_step :: "network \<Rightarrow> string \<Rightarrow> int \<Rightarrow> int \<times> int
    \<Rightarrow> tile_row list \<times> io_state \<Rightarrow> tile_row list \<times> io_state" where
  "terrain_step net t_dir level rc acc =
     (case rc of (row, col) \<Rightarrow> case acc of (downloaded, s) \<Rightarrow>
        (case fetch_terrain_tile net level row col ''2023_10M'' s of
           (Some d, s') \<Rightarrow> if d \<noteq> [] then (downloaded @ [(level, row, col, length d)],
                                          write_file (path_join t_dir (tile_file_name row col)) d s')
                          else (downloaded, s')
         | (None, s') \<Rightarrow> (downloaded, s')))"

definition terrain_level :: "network \<Rightarrow> string \<Rightarrow> int \<Rightarrow> tile_row list \<times> io_state
    \<Rightarrow> tile_row list \<times> io_state" where
  "terrain_level net terrain_dir level acc =
     (case terrain_range level of (rmin, rmax, cmin, cmax) \<Rightarrow>
        fold (terrain_step net (path_join terrain_dir (level_dir level)) level) (grid rmin rmax cmin cmax) acc)"

definition tile_row_json :: "tile_row \<Rightarrow> pyjson" where
  "tile_row_json t = (case t of (l, r, c, n) \<Rightarrow>
     PDict [(ascii ''level'', PInt l), (ascii ''row'', PInt r), (ascii ''col'', PInt c), (ascii ''size'', PInt (int n))])"

definition manifest01 :: "tile_row list \<Rightarrow> tile_row list \<Rightarrow> pyjson" where
  "manifest01 all terrain =
     PDict [(ascii ''layer'', PStr (ascii layer_name)),
            (ascii ''target_area'', PDict [(ascii ''name'', PStr (ascii ''NYCU Guangfu Campus'')),
                                          (ascii ''lon_range'', PList [PFloat 120.990, PFloat 121.005]),
                                          (ascii ''lat_range'', PList [PFloat 24.780, PFloat 24.795])]),
            (ascii ''tile_ranges'', PDict (map (\<lambda>(k, r0, r1, c0, c1).
                 (map of_char (str_int k), PDict [(ascii ''row'', PList [PInt r0, PInt r1]),
                                                  (ascii ''col'', PList [PInt c0, PInt c1])])) nycu_tile_ranges)),
            (ascii ''building_tiles'', PList (map tile_row_json all)),
            (ascii ''terrain_tiles'', PList (map tile_row_json terrain)),
            (ascii ''total_building_tiles'', PInt (int (length all))),
            (ascii ''total_building_bytes'', PInt (int (sum_list (map (\<lambda>(l, r, c, n). n) all)))),
            (ascii ''total_terrain_tiles'', PInt (int (length terrain)))]"

text \<open>\<open>main\<close>, returning the building and terrain tiles downloaded and the final state.\<close>

definition main01 :: "(bytes \<Rightarrow> bytes option) \<Rightarrow> network \<Rightarrow> string \<Rightarrow> io_state
    \<Rightarrow> tile_row list \<times> tile_row list \<times> io_state" where
  "main01 gunzip net project_dir s0 =
     (let output_dir = output_dir01 project_dir;
          (layer_data, s1) = fetch_layer_info gunzip net layer_name s0;
          s2 = (case layer_data of Some d \<Rightarrow> if d \<noteq> [] then write_file (path_join output_dir ''LAYER.bin'') d s1 else s1
                                 | None \<Rightarrow> s1);
          (all, s3) = fold (\<lambda>(level, rmin, rmax, cmin, cmax) (all, s).
                              case download_level_range net layer_name level rmin rmax cmin cmax output_dir s of
                                (tiles, s') \<Rightarrow> (all @ tiles, s'))
                           (sort nycu_tile_ranges) ([], s2);
          (all, s4) = deeper_levels net output_dir [8, 9, 10] (all, s3);
          terrain_dir = path_join output_dir ''terrain'';
          (terrain, s5) = fold (terrain_level net terrain_dir) [7, 8] ([], s4)
      in (all, terrain, dump_json (path_join output_dir ''manifest.json'') (manifest01 all terrain) s5))"

subsection \<open>The grid loop\<close>

lemma grid_distinct: "distinct (grid r0 r1 c0 c1)"
  by (simp add: grid_def product_concat_map [symmetric] distinct_product)

lemma set_grid: "set (grid r0 r1 c0 c1) = {r0..r1} \<times> {c0..c1}"
  by (auto simp: grid_def)

lemma fetch_tile_disk [simp]: "disk (snd (fetch_tile net layer level r c dn k s)) = disk s"
  unfolding fetch_tile_def by (rule conjunct1 [OF fetch_attempts_files])

lemma range_step_cases:
  assumes st: "range_step net layer level dir (r, c) (acc, s) = (acc', s')"
  shows "(acc' = acc \<and> disk s' = disk s) \<or>
     (\<exists>d. acc' = acc @ [(level, r, c, length d)] \<and> disk s' = (disk s)(path_join dir (tile_file_name r c) \<mapsto> d))"
proof -
  obtain res s1 where f: "fetch_tile net layer level r c ''NODE'' 2 s = (res, s1)" by fastforce
  have "disk s1 = disk s" using fetch_tile_disk [of net layer level r c "''NODE''" 2 s] f by simp
  then show ?thesis using st f by (cases res) (auto simp: range_step_def write_file_def)
qed

text \<open>
  The loop invariant: the tiles it appends are at \<open>level\<close>, at distinct grid positions in
  the order of the grid, and the file of each holds its data to the end of the loop, since
  no later position has the same file name; the files of positions outside the loop are
  left alone.
\<close>

lemma range_fold_inv:
  assumes "fold (range_step net layer level dir) xs (acc, s) = (acc', s')" and "distinct xs"
  shows "\<exists>new. acc' = acc @ new \<and> distinct (map (\<lambda>(l, r, c, n). (r, c)) new) \<and>
           (\<forall>(l, r, c, n) \<in> set new. l = level \<and> (r, c) \<in> set xs \<and>
               map_option length (disk s' (path_join dir (tile_file_name r c))) = Some n) \<and>
           (\<forall>r c. (r, c) \<notin> set xs \<longrightarrow>
               disk s' (path_join dir (tile_file_name r c)) = disk s (path_join dir (tile_file_name r c)))"
  using assms
proof (induction xs arbitrary: acc s)
  case Nil
  then show ?case by simp
next
  case (Cons x xs)
  obtain r c where x: "x = (r, c)" by (cases x)
  obtain acc1 s1 where st: "range_step net layer level dir (r, c) (acc, s) = (acc1, s1)"
    by (cases "range_step net layer level dir (r, c) (acc, s)")
  have f: "fold (range_step net layer level dir) xs (acc1, s1) = (acc', s')"
    using Cons.prems(1) x st by simp
  obtain new where new: "acc' = acc1 @ new" "distinct (map (\<lambda>(l, r, c, n). (r, c)) new)"
      "\<forall>(l, r, c, n) \<in> set new. l = level \<and> (r, c) \<in> set xs \<and>
          map_option length (disk s' (path_join dir (tile_file_name r c))) = Some n"
      "\<forall>r c. (r, c) \<notin> set xs \<longrightarrow>
          disk s' (path_join dir (tile_file_name r c)) = disk s1 (path_join dir (tile_file_name r c))"
    using Cons.IH [OF f] Cons.prems(2) by auto
  have notin: "(r, c) \<notin> set xs" using Cons.prems(2) x by simp
  have notnew: "(r, c) \<notin> set (map (\<lambda>(l, r, c, n). (r, c)) new)" using new(3) notin by auto
  from range_step_cases [OF st] show ?case
  proof
    assume "acc1 = acc \<and> disk s1 = disk s"
    then show ?thesis using new x by auto
  next
    assume "\<exists>d. acc1 = acc @ [(level, r, c, length d)] \<and>
                disk s1 = (disk s)(path_join dir (tile_file_name r c) \<mapsto> d)"
    then obtain d where d: "acc1 = acc @ [(level, r, c, length d)]"
        "disk s1 = (disk s)(path_join dir (tile_file_name r c) \<mapsto> d)" by blast
    show ?thesis
      using new notin notnew x d
      by (rule_tac x = "(level, r, c, length d) # new" in exI) (auto simp: tile_path_inj)
  qed
qed

lemma download_level_range_levels:
  "fst ` set (fst (download_level_range net layer level r0 r1 c0 c1 out s)) \<subseteq> {level}"
proof (cases "download_level_range net layer level r0 r1 c0 c1 out s")
  case (Pair tiles s')
  show ?thesis
    using range_fold_inv [OF Pair [unfolded download_level_range_def] grid_distinct] Pair by fastforce
qed

subsection \<open>Level ranges\<close>

lemma div_bounds_iff:
  assumes "0 < (k::int)"
  shows "(lo * k \<le> r \<and> r \<le> hi * k + (k - 1)) \<longleftrightarrow> (lo \<le> r div k \<and> r div k \<le> hi)"
proof -
  have fl: "r div k = \<lfloor>real_of_int r / real_of_int k\<rfloor>" by (simp add: floor_divide_of_int_eq)
  have k: "0 < real_of_int k" using assms by simp
  have "lo \<le> r div k \<longleftrightarrow> real_of_int lo * real_of_int k \<le> real_of_int r"
    unfolding fl le_floor_iff using k by (simp add: pos_le_divide_eq)
  also have "\<dots> \<longleftrightarrow> lo * k \<le> r" by (metis of_int_le_iff of_int_mult)
  finally have a: "lo \<le> r div k \<longleftrightarrow> lo * k \<le> r" .
  have "r div k \<le> hi \<longleftrightarrow> real_of_int r < (real_of_int hi + 1) * real_of_int k"
    unfolding fl floor_le_iff using k by (simp add: pos_divide_less_eq)
  also have "\<dots> \<longleftrightarrow> r < (hi + 1) * k" by (metis of_int_less_iff of_int_mult of_int_add of_int_1)
  finally have b: "r div k \<le> hi \<longleftrightarrow> r < (hi + 1) * k" .
  have c: "r < (hi + 1) * k \<longleftrightarrow> r \<le> hi * k + (k - 1)" unfolding distrib_right by linarith
  show ?thesis using a b c by blast
qed

lemma deeper_levels_levels:
  "fst ` set (fst (deeper_levels net out tls (all, s))) \<subseteq>
     fst ` set all \<union> {l \<in> set tls. (case scale_range (2 ^ nat (l - 7)) core_l7 of (rmin, rmax, cmin, cmax)
                                      \<Rightarrow> (rmax - rmin + 1) * (cmax - cmin + 1) \<le> 1000)}"
proof (induction tls arbitrary: all s)
  case Nil
  then show ?case by simp
next
  case (Cons l tls)
  obtain rmin rmax cmin cmax where sr: "scale_range (2 ^ nat (l - 7)) core_l7 = (rmin, rmax, cmin, cmax)"
    by (cases "scale_range (2 ^ nat (l - 7)) core_l7") auto
  obtain tiles s' where dl: "download_level_range net layer_name l rmin rmax cmin cmax out s = (tiles, s')"
    by fastforce
  have lv: "fst ` set tiles \<subseteq> {l}"
    using download_level_range_levels [of net layer_name l rmin rmax cmin cmax out s] dl by simp
  let ?ok = "\<lambda>l. case scale_range (2 ^ nat (l - 7)) core_l7 of (rmin, rmax, cmin, cmax)
                 \<Rightarrow> (rmax - rmin + 1) * (cmax - cmin + 1) \<le> (1000::int)"
  show ?case
  proof (cases "(rmax - rmin + 1) * (cmax - cmin + 1) > 1000")
    case True
    then show ?thesis using Cons.IH [of all s] sr by auto
  next
    case False
    then have eq: "deeper_levels net out (l # tls) (all, s) =
        (if length tiles = 0 then (all @ tiles, s') else deeper_levels net out tls (all @ tiles, s'))"
      using sr dl by simp
    have lin: "l \<in> {x \<in> set (l # tls). ?ok x}" using False sr by auto
    have h1: "fst ` set (all @ tiles) \<subseteq> fst ` set all \<union> {x \<in> set (l # tls). ?ok x}"
      using lv lin by auto
    have h2: "{x \<in> set tls. ?ok x} \<subseteq> {x \<in> set (l # tls). ?ok x}" by auto
    show ?thesis
    proof (cases "tiles = []")
      case True
      then show ?thesis using eq by simp
    next
      case False
      then have e2: "deeper_levels net out (l # tls) (all, s) = deeper_levels net out tls (all @ tiles, s')"
        using eq by simp
      have "fst ` set (fst (deeper_levels net out tls (all @ tiles, s'))) \<subseteq>
            fst ` set (all @ tiles) \<union> {x \<in> set tls. ?ok x}" by (rule Cons.IH)
      also have "\<dots> \<subseteq> fst ` set all \<union> {x \<in> set (l # tls). ?ok x}"
        by (rule Un_least [OF h1 order_trans [OF h2 Un_upper2]])
      finally show ?thesis unfolding e2 .
    qed
  qed
qed

lemma ranges_fold_levels:
  "fst ` set (fst (fold (\<lambda>(level, rmin, rmax, cmin, cmax) (all, s).
                         case download_level_range net layer level rmin rmax cmin cmax out s of
                           (tiles, s') \<Rightarrow> (all @ tiles, s')) rs (all, s)))
     \<subseteq> fst ` set all \<union> fst ` set rs"
proof (induction rs arbitrary: all s)
  case Nil
  then show ?case by simp
next
  case (Cons rg rs)
  let ?F = "\<lambda>(level, rmin, rmax, cmin, cmax) (all, s).
              case download_level_range net layer level rmin rmax cmin cmax out s of
                (tiles, s') \<Rightarrow> (all @ tiles, s')"
  obtain level rmin rmax cmin cmax where rg: "rg = (level, rmin, rmax, cmin, cmax)" by (cases rg) auto
  obtain tiles s' where dl: "download_level_range net layer level rmin rmax cmin cmax out s = (tiles, s')"
    by fastforce
  have "fst ` set tiles \<subseteq> {level}"
    using download_level_range_levels [of net layer level rmin rmax cmin cmax out s] dl by simp
  then have h: "fst ` set (all @ tiles) \<union> fst ` set rs \<subseteq> fst ` set all \<union> fst ` set (rg # rs)"
    using rg by auto
  have "fold ?F (rg # rs) (all, s) = fold ?F rs (all @ tiles, s')" using rg dl by simp
  then show ?case using order_trans [OF Cons.IH [of "all @ tiles" s'] h] by simp
qed

lemma deeper_ok:
  "{l \<in> set [8, 9, 10]. case scale_range (2 ^ nat (l - 7)) core_l7 of (rmin, rmax, cmin, cmax)
                            \<Rightarrow> (rmax - rmin + 1) * (cmax - cmin + 1) \<le> (1000::int)} = {8, 9}"
  by (rule set_eqI) (auto simp: scale_range_def core_l7_def)

lemma main01_levels: "fst ` set (fst (main01 gunzip net project_dir s)) \<subseteq> {5, 6, 7, 8, 9}"
proof -
  let ?F = "\<lambda>(level, rmin, rmax, cmin, cmax) (all, s).
              case download_level_range net layer_name level rmin rmax cmin cmax (output_dir01 project_dir) s of
                (tiles, s') \<Rightarrow> (all @ tiles, s')"
  let ?s2 = "case fetch_layer_info gunzip net layer_name s of (layer_data, s1) \<Rightarrow>
              (case layer_data of Some d \<Rightarrow> if d \<noteq> [] then write_file (path_join (output_dir01 project_dir) ''LAYER.bin'') d s1 else s1
                                | None \<Rightarrow> s1)"
  have m: "fst (main01 gunzip net project_dir s) =
       fst (deeper_levels net (output_dir01 project_dir) [8, 9, 10] (fold ?F (sort nycu_tile_ranges) ([], ?s2)))"
    by (simp add: main01_def Let_def del: deeper_levels.simps split: prod.split)
  let ?fo = "fold ?F (sort nycu_tile_ranges) ([], ?s2)"
  have d: "fst ` set (fst (deeper_levels net (output_dir01 project_dir) [8, 9, 10] ?fo))
             \<subseteq> fst ` set (fst ?fo) \<union> {8, 9}"
    using deeper_levels_levels [of net "output_dir01 project_dir" "[8, 9, 10]" "fst ?fo" "snd ?fo"]
    unfolding deeper_ok by simp
  have f: "fst ` set (fst ?fo) \<subseteq> {5, 6, 7}"
    using ranges_fold_levels [of net layer_name "output_dir01 project_dir" "sort nycu_tile_ranges" "[]" ?s2]
    by (simp add: nycu_tile_ranges_def)
  show ?thesis unfolding m using d f by blast
qed

subsection \<open>Properties\<close>

text \<open>
  C31. \<open>fetch_tile\<close> makes at most \<open>retries + 1\<close> requests, one per server in turn, and
  returns what the first request that did not raise answered (the body if the status is
  200 and the body is not empty, \<open>None\<close> otherwise); if all of them raise it returns
  \<open>None\<close> after \<open>retries + 1\<close> requests.
\<close>

theorem fetch_tile_first_reply:
  "fetch_tile net layer level row col docname retries s =
     (case first_index (\<lambda>n. attempt_reply net (\<lambda>srv. tile_url srv layer level row col docname) n \<noteq> Raises)
            [server_idx s..<server_idx s + Suc retries] of
        None \<Rightarrow> (None, s\<lparr>server_idx := server_idx s + Suc retries\<rparr>)
      | Some j \<Rightarrow> (reply_data (attempt_reply net (\<lambda>srv. tile_url srv layer level row col docname) (server_idx s + j)),
                  s\<lparr>server_idx := server_idx s + j + 1\<rparr>))"
  unfolding fetch_tile_def by (rule fetch_attempts_first_reply)

text \<open>
  C32. \<open>download_level_range\<close> returns tiles of the requested level at distinct positions
  of the requested range, and when it returns, the file \<open>L{level}/R{row}_C{col}.bin\<close> of
  every tile it lists holds exactly as many bytes as the size it records: no later tile
  overwrites it.
\<close>

theorem download_level_range_files:
  assumes "download_level_range net layer level r0 r1 c0 c1 out s = (tiles, s')"
  shows "distinct (map (\<lambda>(l, r, c, n). (r, c)) tiles) \<and>
         (\<forall>(l, r, c, n) \<in> set tiles. l = level \<and> r0 \<le> r \<and> r \<le> r1 \<and> c0 \<le> c \<and> c \<le> c1 \<and>
            map_option length (disk s' (path_join (path_join out (level_dir level)) (tile_file_name r c))) = Some n)"
  using range_fold_inv [OF assms [unfolded download_level_range_def] grid_distinct] by (auto simp: set_grid)

theorem download_level_range_files_witness:
  "fst (download_level_range (\<lambda>n u. Reply 200 [1]) ''112_O'' 5 0 0 0 0 ''out'' empty_io) = [(5, 0, 0, 1)] \<and>
   map_option length (disk (snd (download_level_range (\<lambda>n u. Reply 200 [1]) ''112_O'' 5 0 0 0 0 ''out'' empty_io))
     (path_join (path_join ''out'' (level_dir 5)) (tile_file_name 0 0))) = Some 1"
proof -
  let ?r = "download_level_range (\<lambda>n u. Reply 200 [1]) ''112_O'' 5 0 0 0 0 ''out'' empty_io"
  have r: "fst ?r = [(5, 0, 0, 1)]"
    by (simp add: download_level_range_def grid_def range_step_def fetch_tile_def get_server_def eval_nat_numeral)
  have h: "?r = (fst ?r, snd ?r)" by simp
  from download_level_range_files [OF h] r show ?thesis by simp
qed


text \<open>
  C34. The range \<open>scale_range\<close> computes for a scale \<open>2^k\<close> (and \<open>compute_children\<close>
  for the scale 2) holds exactly the tiles whose ancestor, found by dividing row and column
  by the scale, lies in the original range: no descendant is missed and no other tile is
  requested.
\<close>

theorem scale_range_descendants:
  assumes "0 < scale" and "scale_range scale (r0, r1, c0, c1) = (rmin, rmax, cmin, cmax)"
  shows "((rmin \<le> r \<and> r \<le> rmax) \<longleftrightarrow> (r0 \<le> r div scale \<and> r div scale \<le> r1)) \<and>
         ((cmin \<le> c \<and> c \<le> cmax) \<longleftrightarrow> (c0 \<le> c div scale \<and> c div scale \<le> c1))"
  using assms div_bounds_iff [OF assms(1)] by (auto simp: scale_range_def)

theorem scale_range_descendants_witness:
  "scale_range 2 core_l7 = (104, 111, 192, 199) \<and>
   ((104 \<le> (111::int) \<and> (111::int) \<le> 111) \<longleftrightarrow> (52 \<le> (111::int) div 2 \<and> (111::int) div 2 \<le> 55)) \<and>
   ((192 \<le> (191::int) \<and> (191::int) \<le> 199) \<longleftrightarrow> (96 \<le> (191::int) div 2 \<and> (191::int) div 2 \<le> 99))"
proof -
  have sr: "scale_range 2 core_l7 = (104, 111, 192, 199)" by (simp add: scale_range_def core_l7_def)
  show ?thesis
    using scale_range_descendants [of 2 52 55 96 99 104 111 192 199 111 191] sr
    by (simp add: core_l7_def)
qed

end
