(* ===== verification/MultiCampus.thy ===== *)
theory MultiCampus
  imports RangeDownload "HOL-Library.AList"
begin

text \<open>
  The multi-campus downloader \<^verbatim>\<open>src/scripts/06_download_multi_campus.py\<close>: the campus
  table \<open>CAMPUSES\<close> (lines 39--64), \<open>lonlat_to_tile\<close> and \<open>bbox_to_tile_range\<close>
  (76--93), its copies of \<open>fetch_tile\<close> and \<open>fetch_layer_info\<close> (96--136),
  \<open>download_campus\<close> (139--308) with the fallback over layer years, the per-level grid
  loop that stops at the first empty level above the lowest, the deeper levels 8 and 9
  below the level-7 tiles found, and the manifest; and the campus loop of \<open>main\<close>
  (311--361). Campus names are code-point lists (\<open>ustr\<close>); levels are the naturals of
  the \<open>--levels\<close> option.
\<close>

record campus06 =
  cp_name :: ustr
  cp_center :: "real \<times> real"
  cp_bbox :: "real \<times> real \<times> real \<times> real"
  cp_layer :: string

definition campuses06 :: "(string \<times> campus06) list" where
  "campuses06 =
     [(''boai'', \<lparr>cp_name = [21338, 24859, 26657, 21312] @ ascii '' (Boai Campus)'',
                 cp_center = (120.9685, 24.8015), cp_bbox = (120.963, 120.975, 24.796, 24.807),
                 cp_layer = ''112_O''\<rparr>),
      (''yangming'', \<lparr>cp_name = [38525, 26126, 26657, 21312] @ ascii '' (Yangming Campus)'',
                 cp_center = (121.5155, 25.1195), cp_bbox = (121.508, 121.525, 25.112, 25.128),
                 cp_layer = ''109_A''\<rparr>),
      (''liujia'', \<lparr>cp_name = [20845, 23478, 26657, 21312] @ ascii '' (Liujia Campus)'',
                 cp_center = (121.0135, 24.8385), cp_bbox = (121.008, 121.020, 24.833, 24.845),
                 cp_layer = ''113_J''\<rparr>),
      (''gueiren'', \<lparr>cp_name = [27512, 20161, 26657, 21312] @ ascii '' (Gueiren Campus)'',
                 cp_center = (120.3045, 22.9325), cp_bbox = (120.298, 120.312, 22.926, 22.940),
                 cp_layer = ''112_D''\<rparr>)]"

text \<open>\<open>Col = floor(lon * 2^L / 160)\<close>, \<open>Row = floor(lat * 2^L / 60)\<close>; the result is \<open>(row, col)\<close>.\<close>

definition lonlat_to_tile :: "real \<Rightarrow> real \<Rightarrow> nat \<Rightarrow> int \<times> int" where
  "lonlat_to_tile lon lat level = (\<lfloor>lat * 2 ^ level / 60\<rfloor>, \<lfloor>lon * 2 ^ level / 160\<rfloor>)"

definition bbox_to_tile_range :: "real \<times> real \<times> real \<times> real \<Rightarrow> nat \<Rightarrow> int \<Rightarrow> int \<times> int \<times> int \<times> int" where
  "bbox_to_tile_range bbox level buffer_tiles =
     (case bbox of (lon_min, lon_max, lat_min, lat_max) \<Rightarrow>
        case lonlat_to_tile lon_min lat_min level of (r_min, c_min) \<Rightarrow>
        case lonlat_to_tile lon_max lat_max level of (r_max, c_max) \<Rightarrow>
          (r_min - buffer_tiles, r_max + buffer_tiles, c_min - buffer_tiles, c_max + buffer_tiles))"

definition fetch_tile06 :: "network \<Rightarrow> string \<Rightarrow> int \<Rightarrow> int \<Rightarrow> int \<Rightarrow> nat \<Rightarrow> io_state
    \<Rightarrow> bytes option \<times> io_state" where
  "fetch_tile06 net layer level row col retries s =
     fetch_attempts net (\<lambda>srv. tile_url srv layer level row col ''NODE'') (Suc retries) s"

definition fetch_layer_info06 :: "(bytes \<Rightarrow> bytes option) \<Rightarrow> network \<Rightarrow> string \<Rightarrow> io_state
    \<Rightarrow> bytes option \<times> io_state" where
  "fetch_layer_info06 gunzip net layer s =
     (case get_server s of (srv, s') \<Rightarrow>
        (case net (server_idx s) (layer_url srv layer) of
           Reply st d \<Rightarrow> (if st = 200 then Some (case gunzip d of Some d' \<Rightarrow> d' | None \<Rightarrow> d) else None, s')
         | Raises \<Rightarrow> (None, s')))"

text \<open>\<open>layer.split('_')[1]\<close>: the text between the first and the second \<open>'_'\<close>; \<open>IndexError\<close> without one.\<close>

definition split_field1 :: "string \<Rightarrow> py_error + string" where
  "split_field1 s = (case dropWhile (\<lambda>ch. ch \<noteq> CHR ''_'') s of
                       [] \<Rightarrow> Inl IndexError
                     | _ # rest \<Rightarrow> Inr (takeWhile (\<lambda>ch. ch \<noteq> CHR ''_'') rest))"

text \<open>The loop \<open>for year in ['112', '111', '110', '109']\<close> with its \<open>break\<close>.\<close>

fun try_years :: "(bytes \<Rightarrow> bytes option) \<Rightarrow> network \<Rightarrow> string \<Rightarrow> string list \<Rightarrow> io_state
    \<Rightarrow> py_error + (string \<times> bytes option \<times> io_state)" where
  "try_years gunzip net layer [] s = Inr (layer, None, s)"
| "try_years gunzip net layer (year # years) s =
     ebind (split_field1 layer) (\<lambda>suffix.
       (case fetch_layer_info06 gunzip net (year @ ''_'' @ suffix) s of
          (layer_data, s') \<Rightarrow> if truthy layer_data then Inr (year @ ''_'' @ suffix, layer_data, s')
                              else try_years gunzip net layer years s'))"

definition campus_step :: "network \<Rightarrow> string \<Rightarrow> int \<Rightarrow> string \<Rightarrow> int \<times> int
    \<Rightarrow> tile_row list \<times> io_state \<Rightarrow> tile_row list \<times> io_state" where
  "campus_step net layer level tile_dir rc acc =
     (case rc of (row, col) \<Rightarrow> case acc of (found, s) \<Rightarrow>
        (case fetch_tile06 net layer level row col 2 s of
           (Some d, s') \<Rightarrow> (found @ [(level, row, col, length d)],
                             write_file (path_join tile_dir (tile_file_name row col)) d s')
         | (None, s') \<Rightarrow> (found, s')))"

text \<open>
  \<open>for level in levels\<close>: the grid of \<open>bbox_to_tile_range(bbox, level, 1)\<close>, then
  \<open>break\<close> when nothing was found and the level is above \<open>min(levels)\<close>.
\<close>

fun levels_loop :: "network \<Rightarrow> string \<Rightarrow> real \<times> real \<times> real \<times> real \<Rightarrow> string \<Rightarrow> nat \<Rightarrow> nat list
    \<Rightarrow> tile_row list \<times> io_state \<Rightarrow> tile_row list \<times> io_state" where
  "levels_loop net layer bbox output_dir min_level [] acc = acc"
| "levels_loop net layer bbox output_dir min_level (level # levels) (all, s) =
     (case bbox_to_tile_range bbox level 1 of (r_min, r_max, c_min, c_max) \<Rightarrow>
        case fold (campus_step net layer (int level) (path_join output_dir (level_dir (int level))))
                  (grid r_min r_max c_min c_max) ([], s) of
          (found, s') \<Rightarrow> if length found = 0 \<and> level > min_level then (all @ found, s')
                         else levels_loop net layer bbox output_dir min_level levels (all @ found, s'))"

text \<open>Lines 230--285: levels 8 and 9 below the level-7 tiles found, at most 500 tiles a level.\<close>

fun deeper06 :: "network \<Rightarrow> string \<Rightarrow> string \<Rightarrow> int \<times> int \<times> int \<times> int \<Rightarrow> int list
    \<Rightarrow> tile_row list \<times> io_state \<Rightarrow> tile_row list \<times> io_state" where
  "deeper06 net layer output_dir core [] acc = acc"
| "deeper06 net layer output_dir core (target_level # tls) (all, s) =
     (case scale_range (2 ^ nat (target_level - 7)) core of (rmin, rmax, cmin, cmax) \<Rightarrow>
        if (rmax - rmin + 1) * (cmax - cmin + 1) > 500 then deeper06 net layer output_dir core tls (all, s)
        else (case fold (campus_step net layer target_level (path_join output_dir (level_dir target_level)))
                        (grid rmin rmax cmin cmax) ([], s) of
                (found, s') \<Rightarrow> if length found = 0 then (all @ found, s')
                               else deeper06 net layer output_dir core tls (all @ found, s')))"

definition core_of :: "tile_row list \<Rightarrow> int \<times> int \<times> int \<times> int" where
  "core_of l7 = (let rows = map (\<lambda>(l, r, c, n). r) l7; cols = map (\<lambda>(l, r, c, n). c) l7
                 in (Min (set rows), Max (set rows), Min (set cols), Max (set cols)))"

definition deeper_step06 :: "network \<Rightarrow> string \<Rightarrow> string \<Rightarrow> tile_row list \<times> io_state
    \<Rightarrow> tile_row list \<times> io_state" where
  "deeper_step06 net layer output_dir acc =
     (case acc of (all, s) \<Rightarrow>
        if all = [] then (all, s)
        else (let l7 = filter (\<lambda>(l, r, c, n). l = 7) all
              in if l7 = [] then (all, s) else deeper06 net layer output_dir (core_of l7) [8, 9] (all, s)))"

definition campus_tile_json :: "string \<Rightarrow> tile_row \<Rightarrow> pyjson" where
  "campus_tile_json key t = (case t of (l, r, c, n) \<Rightarrow>
     PDict [(ascii ''campus'', PStr (ascii key)), (ascii ''level'', PInt l), (ascii ''row'', PInt r),
            (ascii ''col'', PInt c), (ascii ''size'', PInt (int n))])"

definition manifest06 :: "string \<Rightarrow> campus06 \<Rightarrow> string \<Rightarrow> tile_row list \<Rightarrow> pyjson" where
  "manifest06 key campus layer all =
     (case cp_bbox campus of (lon_min, lon_max, lat_min, lat_max) \<Rightarrow>
        PDict [(ascii ''campus'', PStr (ascii key)), (ascii ''campus_name'', PStr (cp_name campus)),
               (ascii ''layer'', PStr (ascii layer)),
               (ascii ''bbox'', PDict [(ascii ''lon_min'', PFloat lon_min), (ascii ''lon_max'', PFloat lon_max),
                                       (ascii ''lat_min'', PFloat lat_min), (ascii ''lat_max'', PFloat lat_max)]),
               (ascii ''tiles'', PList (map (campus_tile_json key) all)),
               (ascii ''total_tiles'', PInt (int (length all))),
               (ascii ''total_bytes'', PInt (int (sum_list (map (\<lambda>(l, r, c, n). n) all))))])"

definition download_campus06 :: "(bytes \<Rightarrow> bytes option) \<Rightarrow> network \<Rightarrow> string \<Rightarrow> string \<Rightarrow> nat list
    \<Rightarrow> io_state \<Rightarrow> py_error + (tile_row list \<times> io_state)" where
  "download_campus06 gunzip net campus_key output_base_dir levels s0 =
     (case map_of campuses06 campus_key of
        None \<Rightarrow> Inl KeyError
      | Some campus \<Rightarrow>
          (case fetch_layer_info06 gunzip net (cp_layer campus) s0 of (layer_data, s1) \<Rightarrow>
             ebind (if truthy layer_data then Inr (cp_layer campus, layer_data, s1)
                    else try_years gunzip net (cp_layer campus) [''112'', ''111'', ''110'', ''109''] s1)
               (\<lambda>(layer, layer_data, s2).
                  if \<not> truthy layer_data then Inr ([], s2)
                  else
                    let output_dir = path_join output_base_dir (''NLSC_3D_tiles_'' @ layer @ ''_'' @ campus_key);
                        s3 = write_file (path_join output_dir ''LAYER.bin'') (the layer_data) s2;
                        (all, s4) = levels_loop net layer (cp_bbox campus) output_dir (Min (set levels)) levels ([], s3);
                        (all, s5) = deeper_step06 net layer output_dir (all, s4)
                    in Inr (all, dump_json (path_join output_dir ''manifest.json'') (manifest06 campus_key campus layer all) s5))))"

text \<open>\<open>main\<close>: the requested campus keys in order, unknown ones skipped; \<open>all_results\<close> is
  the dictionary from key to the tiles downloaded, in insertion order.\<close>

fun main06 :: "(bytes \<Rightarrow> bytes option) \<Rightarrow> network \<Rightarrow> string \<Rightarrow> nat list \<Rightarrow> string list
    \<Rightarrow> (string \<times> tile_row list) list \<times> io_state \<Rightarrow> py_error + ((string \<times> tile_row list) list \<times> io_state)" where
  "main06 gunzip net output_base_dir levels [] acc = Inr acc"
| "main06 gunzip net output_base_dir levels (key # keys) (results, s) =
     (if key \<notin> fst ` set campuses06 then main06 gunzip net output_base_dir levels keys (results, s)
      else ebind (download_campus06 gunzip net key output_base_dir levels s)
             (\<lambda>(tiles, s'). main06 gunzip net output_base_dir levels keys (AList.update key tiles results, s')))"

lemma lonlat_to_tile_mono:
  assumes "lon \<le> lon'" and "lat \<le> lat'"
  shows "fst (lonlat_to_tile lon lat level) \<le> fst (lonlat_to_tile lon' lat' level) \<and>
         snd (lonlat_to_tile lon lat level) \<le> snd (lonlat_to_tile lon' lat' level)"
proof -
  have p: "(0::real) \<le> 2 ^ level" by simp
  have "lat * 2 ^ level / 60 \<le> lat' * 2 ^ level / 60"
    using mult_right_mono [OF assms(2) p] by (simp add: divide_right_mono)
  moreover have "lon * 2 ^ level / 160 \<le> lon' * 2 ^ level / 160"
    using mult_right_mono [OF assms(1) p] by (simp add: divide_right_mono)
  ultimately show ?thesis by (simp add: lonlat_to_tile_def floor_mono)
qed

lemma split_field1_Inr: "CHR ''_'' \<in> set l \<Longrightarrow> \<exists>x. split_field1 l = Inr x"
  by (cases "dropWhile (\<lambda>ch. ch \<noteq> CHR ''_'') l") (auto simp: split_field1_def dropWhile_eq_Nil_conv)

lemma try_years_Inr: "CHR ''_'' \<in> set layer \<Longrightarrow> \<exists>r. try_years gunzip net layer years s = Inr r"
proof (induction years arbitrary: s)
  case Nil
  then show ?case by simp
next
  case (Cons year years)
  obtain x where x: "split_field1 layer = Inr x" using split_field1_Inr [OF Cons.prems] by blast
  show ?case using Cons.IH [OF Cons.prems] by (auto simp: x split: prod.split)
qed

lemma ebind_Inr_ex: "\<exists>y. m = Inr y \<Longrightarrow> (\<And>x. \<exists>y. f x = Inr y) \<Longrightarrow> \<exists>y. ebind m f = Inr y"
  by auto

lemma campuses06_layers: "(key, c) \<in> set campuses06 \<Longrightarrow> CHR ''_'' \<in> set (cp_layer c)"
  by (auto simp: campuses06_def)

subsection \<open>Properties\<close>

text \<open>
  C35. The tile range \<open>bbox_to_tile_range\<close> computes for a campus covers the campus: the
  tile of every point of the bounding box lies in the range, at least \<open>buffer_tiles\<close>
  tiles inside each of its edges.
\<close>

theorem bbox_to_tile_range_covers:
  assumes "lon_min \<le> lon" and "lon \<le> lon_max" and "lat_min \<le> lat" and "lat \<le> lat_max"
  shows "case bbox_to_tile_range (lon_min, lon_max, lat_min, lat_max) level b of (r0, r1, c0, c1) \<Rightarrow>
           case lonlat_to_tile lon lat level of (r, c) \<Rightarrow>
             r0 + b \<le> r \<and> r \<le> r1 - b \<and> c0 + b \<le> c \<and> c \<le> c1 - b"
  using lonlat_to_tile_mono [OF assms(1) assms(3), of level] lonlat_to_tile_mono [OF assms(2) assms(4), of level]
  by (cases "lonlat_to_tile lon lat level", cases "lonlat_to_tile lon_min lat_min level",
      cases "lonlat_to_tile lon_max lat_max level") (simp add: bbox_to_tile_range_def)

theorem bbox_to_tile_range_covers_witness:
  "case bbox_to_tile_range (120.963, 120.975, 24.796, 24.807) 7 1 of (r0, r1, c0, c1) \<Rightarrow>
     case lonlat_to_tile 120.9685 24.8015 7 of (r, c) \<Rightarrow>
       r0 + 1 \<le> r \<and> r \<le> r1 - 1 \<and> c0 + 1 \<le> c \<and> c \<le> c1 - 1"
  using bbox_to_tile_range_covers [where lon_min = "120.963" and lon = "120.9685" and lon_max = "120.975" and lat_min = "24.796"
      and lat = "24.8015" and lat_max = "24.807" and level = 7 and b = 1] by simp

text \<open>
  C36. Whatever the servers answer, \<open>download_campus\<close> of a campus of the table raises no
  exception: every layer of the table has the \<open>'_'\<close> that \<open>layer.split('_')[1]\<close> of
  the year fallback needs.
\<close>

theorem download_campus06_no_exception:
  assumes "key \<in> fst ` set campuses06"
  shows "\<exists>r. download_campus06 gunzip net key out levels s = Inr r"
proof -
  obtain c where c: "map_of campuses06 key = Some c"
    using assms by (auto dest: weak_map_of_SomeI)
  have u: "CHR ''_'' \<in> set (cp_layer c)" using campuses06_layers [OF map_of_SomeD [OF c]] .
  obtain ld s1 where f: "fetch_layer_info06 gunzip net (cp_layer c) s = (ld, s1)" by fastforce
  obtain r where t: "try_years gunzip net (cp_layer c) [''112'', ''111'', ''110'', ''109''] s1 = Inr r"
    using try_years_Inr [OF u] by blast
  have m: "\<exists>y. (if truthy ld then Inr (cp_layer c, ld, s1)
                   else try_years gunzip net (cp_layer c) [''112'', ''111'', ''110'', ''109''] s1) = Inr y"
    using t by (cases "truthy ld"; cases r) (auto simp del: try_years.simps)
  show ?thesis
    unfolding download_campus06_def c f option.case prod.case
    by (rule ebind_Inr_ex [OF m]) (auto simp: Let_def split: prod.split)
qed

theorem download_campus06_no_exception_witness:
  "\<exists>r. download_campus06 (\<lambda>d. None) (\<lambda>n u. Raises) ''boai'' ''raw'' [5, 6, 7] empty_io = Inr r"
  by (rule download_campus06_no_exception) (simp add: campuses06_def)

end
