(* ===== verification/Quadtree.thy ===== *)
theory Quadtree
  imports Client "HOL-Library.While_Combinator" "HOL-Library.AList"
begin

text \<open>
  The quadtree downloader \<^verbatim>\<open>src/scripts/08_download_quadtree.py\<close>: the campus table
  (lines 45--81), its copies of \<open>fetch_tile\<close> and \<open>fetch_layer_info\<close> (96--140), the
  tile geometry \<open>tile_geo_bbox\<close> and \<open>bbox_overlap\<close> (143--162), its header reader with the
  child list at offset 228 (165--192), the breadth-first traversal \<open>quadtree_download\<close>
  (195--293), \<open>find_working_layer\<close> (296--306), \<open>download_campus\<close> (309--398) and the
  campus loop of \<open>main\<close> (401--449).

  The traversal is a \<open>while queue:\<close> loop; its state, the locals \<open>queue\<close>, \<open>visited\<close>,
  \<open>downloaded\<close>, \<open>empty_count\<close>, \<open>requests_made\<close>, \<open>level_stats\<close> and the global I/O
  state, is the record \<open>qt_state\<close>, one iteration is \<open>bfs_step\<close>, and the loop is
  \<open>while_option\<close>, whose \<open>None\<close> would be a run that does not end. Levels, rows and
  columns of the traversal are naturals: they start at \<open>(0, 0, 0)\<close> and only grow by
  \<open>level + 1, 2 * row + dr, 2 * col + dc\<close>.
\<close>

type_synonym tile_key = "nat \<times> nat \<times> nat"

record campus08 =
  c8_name :: ustr
  c8_name_en :: string
  c8_center :: "real \<times> real"
  c8_bbox :: "real \<times> real \<times> real \<times> real"
  c8_layers :: "string list"

definition campuses08 :: "(string \<times> campus08) list" where
  "campuses08 =
     [(''guangfu'', \<lparr>c8_name = [20809, 24489, 26657, 21312], c8_name_en = ''Guangfu Campus'',
         c8_center = (120.997, 24.787), c8_bbox = (120.980, 121.015, 24.773, 24.800), c8_layers = [''112_O'']\<rparr>),
      (''boai'', \<lparr>c8_name = [21338, 24859, 26657, 21312], c8_name_en = ''Boai Campus'',
         c8_center = (120.968, 24.801), c8_bbox = (120.955, 120.982, 24.790, 24.815), c8_layers = [''112_O'']\<rparr>),
      (''yangming'', \<lparr>c8_name = [38525, 26126, 26657, 21312], c8_name_en = ''Yangming Campus'',
         c8_center = (121.516, 25.120), c8_bbox = (121.503, 121.530, 25.107, 25.133),
         c8_layers = [''113_A'', ''112_A'', ''111_A'', ''109_A'']\<rparr>),
      (''liujia'', \<lparr>c8_name = [20845, 23478, 26657, 21312], c8_name_en = ''Liujia Campus'',
         c8_center = (121.014, 24.839), c8_bbox = (121.002, 121.025, 24.828, 24.850),
         c8_layers = [''113_J'', ''112_J'', ''111_J_v4'']\<rparr>),
      (''gueiren'', \<lparr>c8_name = [27512, 20161, 26657, 21312], c8_name_en = ''Gueiren Campus'',
         c8_center = (120.305, 22.933), c8_bbox = (120.290, 120.320, 22.918, 22.948),
         c8_layers = [''112_D'', ''111_D'', ''113_D'']\<rparr>)]"

definition fetch_tile08 :: "network \<Rightarrow> string \<Rightarrow> int \<Rightarrow> int \<Rightarrow> int \<Rightarrow> nat \<Rightarrow> io_state
    \<Rightarrow> bytes option \<times> io_state" where
  "fetch_tile08 net layer level row col retries s =
     fetch_attempts net (\<lambda>srv. tile_url srv layer level row col ''NODE'') (Suc retries) s"

definition fetch_layer_info08 :: "(bytes \<Rightarrow> bytes option) \<Rightarrow> network \<Rightarrow> string \<Rightarrow> io_state
    \<Rightarrow> bytes option \<times> io_state" where
  "fetch_layer_info08 gunzip net layer s =
     (case get_server s of (srv, s') \<Rightarrow>
        (case net (server_idx s) (layer_url srv layer) of
           Reply st d \<Rightarrow> (if st = 200 \<and> 0 < length d
                          then Some (case gunzip d of Some d' \<Rightarrow> d' | None \<Rightarrow> d) else None, s')
         | Raises \<Rightarrow> (None, s')))"

type_synonym geo_bbox = "real \<times> real \<times> real \<times> real"

definition tile_geo_bbox :: "nat \<Rightarrow> nat \<Rightarrow> nat \<Rightarrow> geo_bbox" where
  "tile_geo_bbox level row col =
     (let lon_size = 160 / 2 ^ level; lat_size = 60 / 2 ^ level
      in (real col * lon_size, (real col + 1) * lon_size, real row * lat_size, (real row + 1) * lat_size))"

definition bbox_overlap :: "geo_bbox \<Rightarrow> geo_bbox \<Rightarrow> bool" where
  "bbox_overlap b1 b2 =
     (case b1 of (a0, a1, a2, a3) \<Rightarrow> case b2 of (b0, b1, b2, b3) \<Rightarrow>
        a0 < b1 \<and> a1 > b0 \<and> a2 < b3 \<and> a3 > b2)"

record tile_info08 =
  ti_size :: nat
  ti_lrc :: "(nat \<times> nat \<times> nat) option"
  ti_children :: "nat list"
  ti_has_build_id :: bool

definition parse_tile_header08 :: "(bytes \<Rightarrow> bytes option) \<Rightarrow> bytes \<Rightarrow> tile_info08" where
  "parse_tile_header08 gunzip data0 =
     (let data = (if take 2 data0 = [0x1f, 0x8b] then (case gunzip data0 of Some d \<Rightarrow> d | None \<Rightarrow> data0)
                  else data0);
          n = length data;
          children = (if 232 \<le> n then
                        (let cc = u32_at data 228 in
                         if 0 < cc \<and> cc \<le> 10
                         then map (\<lambda>i. u32_at data (232 + i * 4)) (filter (\<lambda>i. 232 + i * 4 + 4 \<le> n) [0..<cc])
                         else [])
                      else [])
      in \<lparr>ti_size = n,
          ti_lrc = (if 12 \<le> n then Some (u32_at data 0, u32_at data 4, u32_at data 8) else None),
          ti_children = children,
          ti_has_build_id = (find_sub data (ascii_bytes ''BUILD_ID'') \<noteq> None)\<rparr>)"

record qt_tile =
  qt_level :: nat
  qt_row :: nat
  qt_col :: nat
  qt_size :: nat
  qt_has_build_id :: bool
  qt_children :: "nat list"

definition qt_key :: "qt_tile \<Rightarrow> tile_key" where
  "qt_key t = (qt_level t, qt_row t, qt_col t)"

record qt_state =
  q_queue :: "tile_key list"
  q_visited :: "tile_key set"
  q_downloaded :: "qt_tile list"
  q_empty :: nat
  q_requests :: nat
  q_stats :: "nat \<rightharpoonup> nat \<times> nat \<times> nat"
  q_io :: io_state

definition expand_bbox :: "geo_bbox \<Rightarrow> real \<Rightarrow> geo_bbox" where
  "expand_bbox b margin = (case b of (b0, b1, b2, b3) \<Rightarrow> (b0 - margin, b1 + margin, b2 - margin, b3 + margin))"

definition children_of :: "tile_key \<Rightarrow> tile_key list" where
  "children_of k = (case k of (level, row, col) \<Rightarrow>
     [(level + 1, 2 * row + dr, 2 * col + dc). dr \<leftarrow> [0..<2], dc \<leftarrow> [0..<2]])"

text \<open>\<open>level_stats[level]\<close>: tiles, bytes and tiles with \<open>BUILD_ID\<close> per level.\<close>

definition add_stat :: "nat \<Rightarrow> nat \<Rightarrow> bool \<Rightarrow> (nat \<rightharpoonup> nat \<times> nat \<times> nat) \<Rightarrow> (nat \<rightharpoonup> nat \<times> nat \<times> nat)" where
  "add_stat level nbytes bldg stats =
     (let (t, b, w) = (case stats level of Some x \<Rightarrow> x | None \<Rightarrow> (0, 0, 0))
      in stats(level \<mapsto> (t + 1, b + nbytes, if bldg then w + 1 else w)))"

text \<open>One iteration of \<open>while queue:\<close> (lines 218--282).\<close>

definition bfs_step :: "(bytes \<Rightarrow> bytes option) \<Rightarrow> network \<Rightarrow> string \<Rightarrow> geo_bbox \<Rightarrow> string \<Rightarrow> int
    \<Rightarrow> qt_state \<Rightarrow> qt_state" where
  "bfs_step gunzip net layer expanded output_dir max_level st =
     (case q_queue st of [] \<Rightarrow> st
      | key # rest \<Rightarrow>
          (case key of (level, row, col) \<Rightarrow>
           if key \<in> q_visited st then st\<lparr>q_queue := rest\<rparr>
           else
             let visited = insert key (q_visited st) in
             if 2 \<le> level \<and> \<not> bbox_overlap (tile_geo_bbox level row col) expanded
             then st\<lparr>q_queue := rest, q_visited := visited\<rparr>
             else
               (case fetch_tile08 net layer (int level) (int row) (int col) 2 (q_io st) of (data, io1) \<Rightarrow>
                let st1 = st\<lparr>q_queue := rest, q_visited := visited, q_requests := Suc (q_requests st),
                              q_io := io1\<rparr> in
                (case data of
                   None \<Rightarrow> st1\<lparr>q_empty := Suc (q_empty st)\<rparr>
                 | Some d \<Rightarrow>
                     if length d < 12 then st1\<lparr>q_empty := Suc (q_empty st)\<rparr>
                     else
                       let info = parse_tile_header08 gunzip d;
                           io2 = write_file (path_join (path_join output_dir (level_dir (int level)))
                                                       (tile_file_name (int row) (int col))) d io1;
                           t = \<lparr>qt_level = level, qt_row = row, qt_col = col, qt_size = length d,
                                qt_has_build_id = ti_has_build_id info, qt_children = ti_children info\<rparr>;
                           queue = (if int level < max_level \<and> ti_children info \<noteq> []
                                    then rest @ filter (\<lambda>child. child \<notin> visited) (children_of key)
                                    else rest)
                       in st1\<lparr>q_queue := queue, q_downloaded := q_downloaded st @ [t],
                              q_stats := add_stat level (length d) (ti_has_build_id info) (q_stats st),
                              q_io := io2\<rparr>))))"

definition qt_init :: "io_state \<Rightarrow> qt_state" where
  "qt_init io = \<lparr>q_queue = [(0, 0, 0)], q_visited = {}, q_downloaded = [], q_empty = 0, q_requests = 0,
                 q_stats = Map.empty, q_io = io\<rparr>"

definition quadtree_download :: "(bytes \<Rightarrow> bytes option) \<Rightarrow> network \<Rightarrow> string \<Rightarrow> geo_bbox \<Rightarrow> string
    \<Rightarrow> int \<Rightarrow> real \<Rightarrow> io_state \<Rightarrow> (qt_tile list \<times> io_state) option" where
  "quadtree_download gunzip net layer target_bbox output_dir max_level margin io =
     map_option (\<lambda>st. (q_downloaded st, q_io st))
       (while_option (\<lambda>st. q_queue st \<noteq> [])
          (bfs_step gunzip net layer (expand_bbox target_bbox margin) output_dir max_level) (qt_init io))"

text \<open>\<open>find_working_layer\<close>: the first layer whose metadata has more than 10 bytes.\<close>

fun find_working_layer :: "(bytes \<Rightarrow> bytes option) \<Rightarrow> network \<Rightarrow> string list \<Rightarrow> io_state
    \<Rightarrow> (string \<times> bytes) option \<times> io_state" where
  "find_working_layer gunzip net [] s = (None, s)"
| "find_working_layer gunzip net (layer # layers) s =
     (case fetch_layer_info08 gunzip net layer s of (layer_data, s1) \<Rightarrow>
        if truthy layer_data \<and> length (the layer_data) > 10 then (Some (layer, the layer_data), s1)
        else find_working_layer gunzip net layers s1)"

text \<open>The \<open>for alt in remaining: ... break / else: return None\<close> of \<open>download_campus\<close>.\<close>

fun alt_layers :: "(bytes \<Rightarrow> bytes option) \<Rightarrow> network \<Rightarrow> string list \<Rightarrow> io_state
    \<Rightarrow> (string \<times> bytes) option \<times> io_state" where
  "alt_layers gunzip net [] s = (None, s)"
| "alt_layers gunzip net (alt # alts) s =
     (case fetch_layer_info08 gunzip net alt s of (layer_data, s1) \<Rightarrow>
        if truthy layer_data \<and> length (the layer_data) > 10 then (Some (alt, the layer_data), s1)
        else alt_layers gunzip net alts s1)"

definition qt_tile_json :: "qt_tile \<Rightarrow> pyjson" where
  "qt_tile_json t =
     PDict [(ascii ''level'', PInt (int (qt_level t))), (ascii ''row'', PInt (int (qt_row t))),
            (ascii ''col'', PInt (int (qt_col t))), (ascii ''size'', PInt (int (qt_size t))),
            (ascii ''has_build_id'', PBool (qt_has_build_id t)),
            (ascii ''children'', PList (map (\<lambda>n. PInt (int n)) (qt_children t)))]"

definition manifest08 :: "string \<Rightarrow> campus08 \<Rightarrow> string \<Rightarrow> int \<Rightarrow> real \<Rightarrow> qt_tile list \<Rightarrow> pyjson" where
  "manifest08 key campus layer max_level margin tiles =
     (case c8_bbox campus of (lon_min, lon_max, lat_min, lat_max) \<Rightarrow>
        PDict [(ascii ''campus'', PStr (ascii key)), (ascii ''name'', PStr (c8_name campus)),
               (ascii ''name_en'', PStr (ascii (c8_name_en campus))), (ascii ''layer'', PStr (ascii layer)),
               (ascii ''method'', PStr (ascii ''quadtree_bfs_from_root'')),
               (ascii ''max_level'', PInt max_level), (ascii ''margin'', PFloat margin),
               (ascii ''bbox'', PDict [(ascii ''lon_min'', PFloat lon_min), (ascii ''lon_max'', PFloat lon_max),
                                       (ascii ''lat_min'', PFloat lat_min), (ascii ''lat_max'', PFloat lat_max)]),
               (ascii ''tiles'', PList (map qt_tile_json tiles)),
               (ascii ''total_tiles'', PInt (int (length tiles))),
               (ascii ''total_bytes'', PInt (int (sum_list (map qt_size tiles)))),
               (ascii ''tiles_with_build_id'', PInt (int (length (filter qt_has_build_id tiles))))])"

text \<open>
  The body of \<open>download_campus\<close>'s layer loop once a layer is chosen (lines 343--389):
  \<open>LAYER.bin\<close>, the traversal, the manifest, and the entry \<open>(tiles, bytes, bldg_tiles)\<close>
  of \<open>results\<close>; \<open>None\<close> only if the traversal did not end.
\<close>

definition process_layer :: "(bytes \<Rightarrow> bytes option) \<Rightarrow> network \<Rightarrow> string \<Rightarrow> campus08 \<Rightarrow> string
    \<Rightarrow> int \<Rightarrow> real \<Rightarrow> string \<Rightarrow> bytes \<Rightarrow> io_state \<Rightarrow> ((nat \<times> nat \<times> nat) \<times> io_state) option" where
  "process_layer gunzip net key campus raw_dir max_level margin layer layer_data s =
     (let output_dir = path_join raw_dir (''NLSC_quadtree_'' @ layer @ ''_'' @ key);
          s1 = write_file (path_join output_dir ''LAYER.bin'') layer_data s
      in map_option (\<lambda>(tiles, s2).
            ((length tiles, sum_list (map qt_size tiles), length (filter qt_has_build_id tiles)),
             dump_json (path_join output_dir ''manifest.json'') (manifest08 key campus layer max_level margin tiles) s2))
           (quadtree_download gunzip net layer (c8_bbox campus) output_dir max_level margin s1))"

text \<open>
  \<open>for layer in layers_to_try\<close>: a layer whose metadata is missing or shorter than 10 bytes
  is skipped with \<open>--all-layers\<close>, and otherwise replaced by the first alternative with
  more than 10 bytes (\<open>None\<close>, Python's, when there is none). The outer \<open>option\<close> is the
  traversal's.
\<close>

fun layers_loop08 :: "(bytes \<Rightarrow> bytes option) \<Rightarrow> network \<Rightarrow> string \<Rightarrow> campus08 \<Rightarrow> string \<Rightarrow> int \<Rightarrow> real
    \<Rightarrow> bool \<Rightarrow> string list \<Rightarrow> (string \<times> nat \<times> nat \<times> nat) list \<Rightarrow> io_state
    \<Rightarrow> ((string \<times> nat \<times> nat \<times> nat) list option \<times> io_state) option" where
  "layers_loop08 gunzip net key campus raw_dir max_level margin try_all [] results s = Some (Some results, s)"
| "layers_loop08 gunzip net key campus raw_dir max_level margin try_all (layer # layers) results s =
     (case fetch_layer_info08 gunzip net layer s of (layer_data, s1) \<Rightarrow>
        if \<not> truthy layer_data \<or> length (the layer_data) < 10 then
          (if \<not> try_all then
             (case alt_layers gunzip net (tl (c8_layers campus)) s1 of
                (None, s2) \<Rightarrow> Some (None, s2)
              | (Some (alt, d), s2) \<Rightarrow>
                  map_option (\<lambda>(st, s3). (Some (AList.update alt st results), s3))
                    (process_layer gunzip net key campus raw_dir max_level margin alt d s2))
           else layers_loop08 gunzip net key campus raw_dir max_level margin try_all layers results s1)
        else
          (case process_layer gunzip net key campus raw_dir max_level margin layer (the layer_data) s1 of
             None \<Rightarrow> None
           | Some (st, s3) \<Rightarrow>
               if \<not> try_all then Some (Some (AList.update layer st results), s3)
               else layers_loop08 gunzip net key campus raw_dir max_level margin try_all layers
                      (AList.update layer st results) s3))"

definition download_campus08 :: "(bytes \<Rightarrow> bytes option) \<Rightarrow> network \<Rightarrow> string \<Rightarrow> string \<Rightarrow> int \<Rightarrow> real
    \<Rightarrow> bool \<Rightarrow> io_state \<Rightarrow> py_error + ((string \<times> nat \<times> nat \<times> nat) list option \<times> io_state) option" where
  "download_campus08 gunzip net campus_key raw_dir max_level margin try_all_layers s =
     (case map_of campuses08 campus_key of
        None \<Rightarrow> Inl KeyError
      | Some campus \<Rightarrow>
          Inr (layers_loop08 gunzip net campus_key campus raw_dir max_level margin try_all_layers
                 (if try_all_layers then c8_layers campus else take 1 (c8_layers campus)) [] s))"

text \<open>\<open>main\<close>: unknown keys are skipped; a campus enters \<open>all_results\<close> when its result is a
  non-empty dictionary.\<close>

fun main08 :: "(bytes \<Rightarrow> bytes option) \<Rightarrow> network \<Rightarrow> string \<Rightarrow> int \<Rightarrow> real \<Rightarrow> bool \<Rightarrow> string list
    \<Rightarrow> (string \<times> (string \<times> nat \<times> nat \<times> nat) list) list \<Rightarrow> io_state
    \<Rightarrow> (py_error + (string \<times> (string \<times> nat \<times> nat \<times> nat) list) list \<times> io_state) option" where
  "main08 gunzip net raw_dir max_level margin all_layers [] all_results s = Some (Inr (all_results, s))"
| "main08 gunzip net raw_dir max_level margin all_layers (key # keys) all_results s =
     (if key \<notin> fst ` set campuses08 then main08 gunzip net raw_dir max_level margin all_layers keys all_results s
      else (case download_campus08 gunzip net key raw_dir max_level margin all_layers s of
              Inl e \<Rightarrow> Some (Inl e)
            | Inr None \<Rightarrow> None
            | Inr (Some (result, s')) \<Rightarrow>
                main08 gunzip net raw_dir max_level margin all_layers keys
                  (case result of Some r \<Rightarrow> if r \<noteq> [] then AList.update key r all_results else all_results
                                | None \<Rightarrow> all_results) s'))"

text \<open>
  Vocabulary of the proofs: the finite set of tiles a traversal can reach, the invariant
  that queue and visited set stay in it, the measure that each iteration decreases, and the
  safety invariant of the downloaded list.
\<close>

definition qt_universe :: "nat \<Rightarrow> tile_key set" where
  "qt_universe lmax = {(l, r, c). l \<le> lmax \<and> r < 2 ^ l \<and> c < 2 ^ l}"

definition qt_bounded :: "nat \<Rightarrow> qt_state \<Rightarrow> bool" where
  "qt_bounded lmax st \<longleftrightarrow> set (q_queue st) \<subseteq> qt_universe lmax \<and> q_visited st \<subseteq> qt_universe lmax"

definition qt_measure :: "nat \<Rightarrow> qt_state \<Rightarrow> nat" where
  "qt_measure lmax st = 5 * card (qt_universe lmax - q_visited st) + length (q_queue st)"

definition parent_of :: "tile_key \<Rightarrow> tile_key" where
  "parent_of k = (case k of (l, r, c) \<Rightarrow> (l - 1, r div 2, c div 2))"

definition parents_before :: "qt_tile list \<Rightarrow> bool" where
  "parents_before ts \<longleftrightarrow>
     (\<forall>i < length ts. 0 < qt_level (ts ! i) \<longrightarrow>
        (\<exists>j < i. qt_key (ts ! j) = parent_of (qt_key (ts ! i)) \<and> qt_children (ts ! j) \<noteq> []))"

definition qt_safe :: "geo_bbox \<Rightarrow> qt_state \<Rightarrow> bool" where
  "qt_safe ebb st \<longleftrightarrow>
     distinct (map qt_key (q_downloaded st)) \<and> qt_key ` set (q_downloaded st) \<subseteq> q_visited st \<and>
     (\<forall>t \<in> set (q_downloaded st). 2 \<le> qt_level t \<longrightarrow> bbox_overlap (tile_geo_bbox (qt_level t) (qt_row t) (qt_col t)) ebb) \<and>
     parents_before (q_downloaded st) \<and>
     (\<forall>k \<in> set (q_queue st). k = (0, 0, 0) \<or>
        (0 < fst k \<and> (\<exists>t \<in> set (q_downloaded st). qt_key t = parent_of k \<and> qt_children t \<noteq> [])))"

text \<open>A fixture: the root tile as a 12-byte reply makes it.\<close>

definition qt_root_tile :: qt_tile where
  "qt_root_tile = \<lparr>qt_level = 0, qt_row = 0, qt_col = 0, qt_size = 12, qt_has_build_id = False, qt_children = []\<rparr>"

subsection \<open>The traversal ends\<close>

text \<open>
  Every key the traversal queues lies in the finite set of tiles of levels up to
  \<open>max_level\<close> (level 0 when \<open>max_level \<le> 0\<close>), with row and column below \<open>2^level\<close>.
  Each iteration either pops a visited key, which shortens the queue, or visits a new key of
  that set and queues at most its four children: \<open>5 * |unvisited| + |queue|\<close> decreases.
\<close>

lemma finite_qt_universe: "finite (qt_universe lmax)"
proof -
  have "qt_universe lmax \<subseteq> {0..lmax} \<times> {0..<2 ^ lmax} \<times> {0..<2 ^ lmax}"
  proof
    fix k assume "k \<in> qt_universe lmax"
    then obtain l r c where k: "k = (l, r, c)" "l \<le> lmax" "r < 2 ^ l" "c < 2 ^ l"
      by (auto simp: qt_universe_def)
    have "(2::nat) ^ l \<le> 2 ^ lmax" using k(2) by (simp add: power_increasing)
    then have "r < 2 ^ lmax" "c < 2 ^ lmax" using k(3,4) by linarith+
    then show "k \<in> {0..lmax} \<times> {0..<2 ^ lmax} \<times> {0..<2 ^ lmax}" using k by auto
  qed
  then show ?thesis by (rule finite_subset) simp
qed

lemma children_of_universe:
  "(l, r, c) \<in> qt_universe lmax \<Longrightarrow> l < lmax \<Longrightarrow> set (children_of (l, r, c)) \<subseteq> qt_universe lmax"
  by (auto simp: children_of_def qt_universe_def)

lemma length_children_of: "length (children_of k) = 4"
  by (cases k) (simp add: children_of_def upt_rec)

lemma bfs_step_shape:
  assumes "q_queue st = key # rest"
  shows "q_visited (bfs_step gunzip net layer ebb out max_level st) = insert key (q_visited st) \<and>
         (\<exists>extra. q_queue (bfs_step gunzip net layer ebb out max_level st) = rest @ extra \<and>
            set extra \<subseteq> set (children_of key) \<and> length extra \<le> 4 \<and>
            (extra \<noteq> [] \<longrightarrow> key \<notin> q_visited st \<and> int (fst key) < max_level))"
proof (cases key)
  case (fields l r c)
  have len: "length (filter P (children_of key)) \<le> 4" for P
    using length_filter_le [of P "children_of key"] by (simp add: length_children_of)
  show ?thesis
    using assms len
    by (auto simp: bfs_step_def Let_def fields split: prod.split option.split)
qed

lemma bfs_step_bounded:
  assumes b: "qt_bounded (nat max_level) st" and q: "q_queue st \<noteq> []"
  shows "qt_bounded (nat max_level) (bfs_step gunzip net layer ebb out max_level st) \<and>
         qt_measure (nat max_level) (bfs_step gunzip net layer ebb out max_level st) < qt_measure (nat max_level) st"
proof -
  let ?U = "qt_universe (nat max_level)" and ?st' = "bfs_step gunzip net layer ebb out max_level st"
  obtain key rest where kr: "q_queue st = key # rest" using q by (cases "q_queue st") auto
  obtain l r c where key: "key = (l, r, c)" by (cases key) auto
  obtain extra where v: "q_visited ?st' = insert key (q_visited st)" and e: "q_queue ?st' = rest @ extra"
      "set extra \<subseteq> set (children_of key)" "length extra \<le> 4"
      "extra \<noteq> [] \<Longrightarrow> key \<notin> q_visited st \<and> int (fst key) < max_level"
    using bfs_step_shape [OF kr, of gunzip net layer ebb out max_level] by blast
  have kU: "key \<in> ?U" using b kr by (simp add: qt_bounded_def)
  have "set extra \<subseteq> ?U"
  proof (cases "extra = []")
    case False
    then have "l < nat max_level" using e(4) key by auto
    then show ?thesis using e(2) children_of_universe [of l r c] kU key by blast
  qed simp
  then have bounded: "qt_bounded (nat max_level) ?st'" using b kr v e(1) kU by (auto simp: qt_bounded_def)
  have fin: "finite (?U - q_visited st)" using finite_qt_universe by blast
  show ?thesis
  proof (cases "key \<in> q_visited st")
    case True
    then have "extra = []" using e(4) by blast
    then show ?thesis using bounded True v e(1) kr by (simp add: qt_measure_def insert_absorb)
  next
    case False
    then have "key \<in> ?U - q_visited st" using kU by blast
    then have "card (?U - insert key (q_visited st)) + 1 = card (?U - q_visited st)"
      using fin by (metis Diff_insert card_Diff1_less_iff card_Suc_Diff1 Suc_eq_plus1)
    then show ?thesis using bounded v e(1,3) kr by (simp add: qt_measure_def)
  qed
qed

lemma qt_init_bounded: "qt_bounded lmax (qt_init io)"
  by (simp add: qt_bounded_def qt_init_def qt_universe_def)

lemma qt_while_Some:
  "\<exists>st. while_option (\<lambda>st. q_queue st \<noteq> []) (bfs_step gunzip net layer ebb out max_level) (qt_init io) = Some st"
proof (rule measure_while_option_Some [where P = "qt_bounded (nat max_level)" and f = "qt_measure (nat max_level)"])
  fix s assume "qt_bounded (nat max_level) s" and "q_queue s \<noteq> []"
  then show "qt_bounded (nat max_level) (bfs_step gunzip net layer ebb out max_level s) \<and>
      qt_measure (nat max_level) (bfs_step gunzip net layer ebb out max_level s) < qt_measure (nat max_level) s"
    by (rule bfs_step_bounded)
qed (rule qt_init_bounded)

subsection \<open>What the traversal downloads\<close>

lemma parents_before_snoc:
  assumes "parents_before ts"
    and "0 < qt_level t \<Longrightarrow> \<exists>t' \<in> set ts. qt_key t' = parent_of (qt_key t) \<and> qt_children t' \<noteq> []"
  shows "parents_before (ts @ [t])"
  unfolding parents_before_def
proof (intro allI impI)
  fix i assume i: "i < length (ts @ [t])" and l: "0 < qt_level ((ts @ [t]) ! i)"
  show "\<exists>j < i. qt_key ((ts @ [t]) ! j) = parent_of (qt_key ((ts @ [t]) ! i)) \<and> qt_children ((ts @ [t]) ! j) \<noteq> []"
  proof (cases "i < length ts")
    case True
    then have li: "0 < qt_level (ts ! i)" using l by (simp add: nth_append)
    then obtain j where j: "j < i" "qt_key (ts ! j) = parent_of (qt_key (ts ! i))" "qt_children (ts ! j) \<noteq> []"
      using assms(1) True unfolding parents_before_def by blast
    then show ?thesis using True by (rule_tac x = j in exI) (simp add: nth_append)
  next
    case False
    then have i': "i = length ts" using i by simp
    then obtain j where "j < length ts" "qt_key (ts ! j) = parent_of (qt_key t)" "qt_children (ts ! j) \<noteq> []"
      using assms(2) l by (auto simp: in_set_conv_nth)
    then show ?thesis using i' by (rule_tac x = j in exI) (simp add: nth_append)
  qed
qed

lemma half_plus_bit: "d < 2 \<Longrightarrow> (2 * r + d) div 2 = (r::nat)"
  by (auto simp: less_2_cases_iff)

lemma set_children_of:
  "set (children_of (l, r, c)) = {(l + 1, 2 * r + dr, 2 * c + dc) | dr dc. dr < 2 \<and> dc < 2}"
  by (auto simp: children_of_def)

lemma parent_of_children:
  assumes "k' \<in> set (children_of k)"
  shows "parent_of k' = k \<and> 0 < fst k'"
proof -
  obtain l r c where k: "k = (l, r, c)" by (cases k) auto
  have "k' \<in> {(l + 1, 2 * r + dr, 2 * c + dc) | dr dc. dr < 2 \<and> dc < 2}"
    using assms unfolding k set_children_of .
  then obtain dr dc where "dr < 2" "dc < 2" "k' = (l + 1, 2 * r + dr, 2 * c + dc)" by blast
  then show ?thesis using k by (simp add: parent_of_def half_plus_bit)
qed

lemma bfs_step_cases:
  assumes "q_queue st = key # rest"
  shows "(q_downloaded (bfs_step gunzip net layer ebb out max_level st) = q_downloaded st \<and>
          q_queue (bfs_step gunzip net layer ebb out max_level st) = rest) \<or>
         (\<exists>t. key \<notin> q_visited st \<and> qt_key t = key \<and>
            (2 \<le> fst key \<longrightarrow> bbox_overlap (tile_geo_bbox (qt_level t) (qt_row t) (qt_col t)) ebb) \<and>
            q_downloaded (bfs_step gunzip net layer ebb out max_level st) = q_downloaded st @ [t] \<and>
            q_queue (bfs_step gunzip net layer ebb out max_level st) =
              rest @ (if int (fst key) < max_level \<and> qt_children t \<noteq> []
                      then filter (\<lambda>k. k \<notin> insert key (q_visited st)) (children_of key) else []))"
proof -
  obtain l r c where key: "key = (l, r, c)" by (cases key) auto
  let ?st' = "bfs_step gunzip net layer ebb out max_level st"
  let ?vis = "insert key (q_visited st)"
  show ?thesis
  proof (cases "key \<in> q_visited st \<or> (2 \<le> l \<and> \<not> bbox_overlap (tile_geo_bbox l r c) ebb)")
    case True
    then show ?thesis using assms key by (auto simp: bfs_step_def Let_def)
  next
    case False
    have ov: "(2 \<le> l \<and> \<not> bbox_overlap (tile_geo_bbox l r c) ebb) = False" using False by simp
    obtain data io1 where f: "fetch_tile08 net layer (int l) (int r) (int c) 2 (q_io st) = (data, io1)"
      by fastforce
    show ?thesis
    proof (cases "data = None \<or> (\<exists>d. data = Some d \<and> length d < 12)")
      case True
      then show ?thesis using assms key False f by (auto simp: bfs_step_def Let_def)
    next
      case nd: False
      then obtain d where d: "data = Some d" "\<not> length d < 12" by auto
      let ?info = "parse_tile_header08 gunzip d"
      let ?t = "\<lparr>qt_level = l, qt_row = r, qt_col = c, qt_size = length d,
                 qt_has_build_id = ti_has_build_id ?info, qt_children = ti_children ?info\<rparr>"
      have "q_downloaded ?st' = q_downloaded st @ [?t]"
        using assms key False f d by (simp add: bfs_step_def Let_def ov)
      moreover have "q_queue ?st' = rest @ (if int l < max_level \<and> ti_children ?info \<noteq> []
                        then filter (\<lambda>k. k \<notin> ?vis) (children_of key) else [])"
        using assms key False f d by (simp add: bfs_step_def Let_def ov)
      ultimately show ?thesis using False key
        by (intro disjI2 exI [of _ ?t]) (simp add: qt_key_def)
    qed
  qed
qed

lemma qt_init_safe: "qt_safe ebb (qt_init io)"
  by (simp add: qt_safe_def qt_init_def parents_before_def)

lemma bfs_step_safe:
  assumes s: "qt_safe ebb st" and q: "q_queue st \<noteq> []"
  shows "qt_safe ebb (bfs_step gunzip net layer ebb out max_level st)"
proof -
  let ?st' = "bfs_step gunzip net layer ebb out max_level st"
  obtain key rest where kr: "q_queue st = key # rest" using q by (cases "q_queue st") auto
  have v: "q_visited ?st' = insert key (q_visited st)"
    using bfs_step_shape [OF kr, of gunzip net layer ebb out max_level] by blast
  have hk: "key = (0, 0, 0) \<or> (0 < fst key \<and> (\<exists>t \<in> set (q_downloaded st). qt_key t = parent_of key \<and> qt_children t \<noteq> []))"
    using s kr by (simp add: qt_safe_def)
  from bfs_step_cases [OF kr, of gunzip net layer ebb out max_level] show ?thesis
  proof
    assume "q_downloaded ?st' = q_downloaded st \<and> q_queue ?st' = rest"
    then show ?thesis using s kr v by (auto simp: qt_safe_def)
  next
    assume "\<exists>t. key \<notin> q_visited st \<and> qt_key t = key \<and>
            (2 \<le> fst key \<longrightarrow> bbox_overlap (tile_geo_bbox (qt_level t) (qt_row t) (qt_col t)) ebb) \<and>
            q_downloaded ?st' = q_downloaded st @ [t] \<and>
            q_queue ?st' = rest @ (if int (fst key) < max_level \<and> qt_children t \<noteq> []
                      then filter (\<lambda>k. k \<notin> insert key (q_visited st)) (children_of key) else [])"
    then obtain t where t: "key \<notin> q_visited st" "qt_key t = key"
        "2 \<le> fst key \<longrightarrow> bbox_overlap (tile_geo_bbox (qt_level t) (qt_row t) (qt_col t)) ebb"
        "q_downloaded ?st' = q_downloaded st @ [t]"
        "q_queue ?st' = rest @ (if int (fst key) < max_level \<and> qt_children t \<noteq> []
                      then filter (\<lambda>k. k \<notin> insert key (q_visited st)) (children_of key) else [])"
      by blast
    have lev: "qt_level t = fst key" using t(2) by (auto simp: qt_key_def)
    have dist: "distinct (map qt_key (q_downloaded st @ [t]))" using s t(1,2) by (auto simp: qt_safe_def)
    have par: "parents_before (q_downloaded st @ [t])"
    proof (rule parents_before_snoc)
      show "parents_before (q_downloaded st)" using s by (simp add: qt_safe_def)
    next
      assume "0 < qt_level t"
      then show "\<exists>t' \<in> set (q_downloaded st). qt_key t' = parent_of (qt_key t) \<and> qt_children t' \<noteq> []"
        using hk lev t(2) by auto
    qed
    have queue: "\<forall>k \<in> set (q_queue ?st'). k = (0, 0, 0) \<or>
        (0 < fst k \<and> (\<exists>t' \<in> set (q_downloaded st @ [t]). qt_key t' = parent_of k \<and> qt_children t' \<noteq> []))"
    proof
      fix k assume k: "k \<in> set (q_queue ?st')"
      show "k = (0, 0, 0) \<or> (0 < fst k \<and> (\<exists>t' \<in> set (q_downloaded st @ [t]). qt_key t' = parent_of k \<and> qt_children t' \<noteq> []))"
      proof (cases "k \<in> set rest")
        case True
        then show ?thesis using s kr by (auto simp: qt_safe_def)
      next
        case False
        then have "k \<in> set (children_of key)" and ch: "qt_children t \<noteq> []"
          using k t(5) by (auto split: if_splits)
        then show ?thesis using parent_of_children [of k key] t(2) ch by auto
      qed
    qed
    show ?thesis
      unfolding qt_safe_def using s t(2,3,4) v lev dist par queue by (auto simp: qt_safe_def)
  qed
qed

lemma qt_while_inv:
  assumes "while_option (\<lambda>st. q_queue st \<noteq> []) (bfs_step gunzip net layer ebb out max_level) (qt_init io) = Some st"
  shows "qt_bounded (nat max_level) st \<and> qt_safe ebb st"
proof (rule while_option_rule [where P = "\<lambda>st. qt_bounded (nat max_level) st \<and> qt_safe ebb st", OF _ assms])
  fix s assume "qt_bounded (nat max_level) s \<and> qt_safe ebb s" and "q_queue s \<noteq> []"
  then show "qt_bounded (nat max_level) (bfs_step gunzip net layer ebb out max_level s) \<and>
             qt_safe ebb (bfs_step gunzip net layer ebb out max_level s)"
    using bfs_step_bounded bfs_step_safe by blast
qed (simp add: qt_init_bounded qt_init_safe)

subsection \<open>Properties\<close>

text \<open>
  C37. The breadth-first traversal \<open>quadtree_download\<close> always ends, whatever the servers
  answer, the margin and the maximum level: the \<open>while queue:\<close> loop returns.
\<close>

theorem quadtree_download_terminates:
  "\<exists>r. quadtree_download gunzip net layer bbox out max_level margin io = Some r"
proof -
  obtain st where "while_option (\<lambda>st. q_queue st \<noteq> [])
      (bfs_step gunzip net layer (expand_bbox bbox margin) out max_level) (qt_init io) = Some st"
    using qt_while_Some by blast
  then show ?thesis by (simp add: quadtree_download_def)
qed

text \<open>
  C38. The tiles \<open>quadtree_download\<close> returns are distinct, of level at most
  \<open>max_level\<close> (0 when it is not positive), those of level 2 and more overlap the target
  box expanded by the margin, and every tile below the root comes after its parent, which
  was downloaded with a non-empty child list.
\<close>

theorem quadtree_download_safe:
  assumes "quadtree_download gunzip net layer bbox out max_level margin io = Some (tiles, io')"
  shows "distinct (map qt_key tiles) \<and> parents_before tiles \<and>
         (\<forall>t \<in> set tiles. qt_level t \<le> nat max_level \<and>
            (2 \<le> qt_level t \<longrightarrow> bbox_overlap (tile_geo_bbox (qt_level t) (qt_row t) (qt_col t)) (expand_bbox bbox margin)))"
proof -
  obtain st where w: "while_option (\<lambda>st. q_queue st \<noteq> [])
      (bfs_step gunzip net layer (expand_bbox bbox margin) out max_level) (qt_init io) = Some st"
      and tl: "tiles = q_downloaded st"
    using assms by (auto simp: quadtree_download_def)
  have inv: "qt_bounded (nat max_level) st" "qt_safe (expand_bbox bbox margin) st"
    using qt_while_inv [OF w] by auto
  have lv: "qt_level t \<le> nat max_level" if "t \<in> set tiles" for t
  proof -
    have "qt_key t \<in> qt_universe (nat max_level)"
      using inv that tl by (auto simp: qt_safe_def qt_bounded_def)
    then show ?thesis by (simp add: qt_key_def qt_universe_def)
  qed
  show ?thesis using inv lv tl by (auto simp: qt_safe_def)
qed

theorem quadtree_download_safe_witness:
  "\<exists>io'. quadtree_download (\<lambda>d. None) (\<lambda>n u. Reply 200 [0, 0, 0, 0, 0, 0, 0, 0, 0, 0, 0, 0]) ''112_O''
            (120.980, 121.015, 24.773, 24.800) ''out'' 15 0.02 empty_io = Some ([qt_root_tile], io') \<and>
          distinct (map qt_key [qt_root_tile]) \<and> parents_before [qt_root_tile] \<and> qt_level qt_root_tile \<le> nat 15"
proof -
  let ?q = "quadtree_download (\<lambda>d. None) (\<lambda>n u. Reply 200 [0, 0, 0, 0, 0, 0, 0, 0, 0, 0, 0, 0]) ''112_O''
              (120.980, 121.015, 24.773, 24.800) ''out'' 15 0.02 empty_io"
  have run: "\<exists>io'. ?q = Some ([qt_root_tile], io')"
    unfolding quadtree_download_def qt_init_def
    apply (subst while_option_unfold)
    apply (subst while_option_unfold)
    apply (simp add: bfs_step_def Let_def fetch_tile08_def get_server_def
                     parse_tile_header08_def qt_root_tile_def find_sub_def ascii_bytes_def numeral_3_eq_3)
    done
  then obtain io' where r: "?q = Some ([qt_root_tile], io')" by blast
  show ?thesis using r quadtree_download_safe [OF r] by auto
qed

end
