(* ===== verification/PyList.thy ===== *)
theory PyList
  imports Prelude "HOL-Library.Multiset"
begin

text \<open>
  Python's loops whose body may raise, and \<open>list.sort(key=...)\<close>, shared by the scripts
  that accumulate over a list and sort their output (\<^verbatim>\<open>05_export_building_table.py\<close>,
  \<^verbatim>\<open>07_parse_multi_campus.py\<close>). A \<open>for\<close> loop that threads a state and stops at
  the first exception is \<open>efold\<close>; a list comprehension whose element expression may
  raise is \<open>emap\<close>. \<open>list.sort\<close> computes the key of every element before it compares
  any two, so one raising key aborts the sort, and it is stable: \<open>py_sort_key\<close> is
  HOL's stable \<open>sort_key\<close> on the keys once they are all computed. \<open>py_join\<close> is
  \<open>str.join\<close>.
\<close>

fun efold :: "('s \<Rightarrow> 'a \<Rightarrow> py_error + 's) \<Rightarrow> 'a list \<Rightarrow> 's \<Rightarrow> py_error + 's" where
  "efold f [] st = Inr st"
| "efold f (x # xs) st = ebind (f st x) (efold f xs)"

fun emap :: "('a \<Rightarrow> py_error + 'b) \<Rightarrow> 'a list \<Rightarrow> py_error + 'b list" where
  "emap f [] = Inr []"
| "emap f (x # xs) = ebind (f x) (\<lambda>y. ebind (emap f xs) (\<lambda>ys. Inr (y # ys)))"

text \<open>\<open>sep.join(xs)\<close>.\<close>

fun py_join :: "ustr \<Rightarrow> ustr list \<Rightarrow> ustr" where
  "py_join sep [] = []"
| "py_join sep [x] = x"
| "py_join sep (x # y # xs) = x @ sep @ py_join sep (y # xs)"

definition py_sort_key :: "('a \<Rightarrow> py_error + 'k::linorder) \<Rightarrow> 'a list \<Rightarrow> py_error + 'a list" where
  "py_sort_key k xs = ebind (emap k xs) (\<lambda>ks. Inr (map fst (sort_key snd (zip xs ks))))"

lemma efold_inv:
  assumes "efold f xs st = Inr st'" and "P st" and "\<And>s x s'. P s \<Longrightarrow> f s x = Inr s' \<Longrightarrow> P s'"
  shows "P st'"
  using assms by (induction xs arbitrary: st) (auto simp: ebind_def split: sum.splits)

lemma emap_Inr: "emap f xs = Inr ys \<Longrightarrow> length ys = length xs \<and> (\<forall>i < length xs. f (xs ! i) = Inr (ys ! i))"
proof (induction xs arbitrary: ys)
  case (Cons x xs)
  then show ?case by (auto simp: ebind_def nth_Cons split: sum.splits nat.split)
qed simp

lemma emap_Inr_map: "emap f xs = Inr ys \<Longrightarrow> ys = map (\<lambda>x. projr (f x)) xs"
proof (induction xs arbitrary: ys)
  case (Cons x xs)
  then show ?case by (auto simp: ebind_def split: sum.splits)
qed simp

lemma emap_Inl_iff: "(\<exists>e. emap f xs = Inl e) \<longleftrightarrow> (\<exists>x \<in> set xs. \<exists>e. f x = Inl e)"
  by (induction xs) (auto simp: ebind_def split: sum.splits)

lemma emap_all_Inr: "\<forall>x \<in> set xs. f x = Inr (g x) \<Longrightarrow> emap f xs = Inr (map g xs)"
  by (induction xs) simp_all

lemma emap_Inr_list_all2:
  "emap f xs = Inr ys \<Longrightarrow> (\<And>x y. f x = Inr y \<Longrightarrow> P x y) \<Longrightarrow> list_all2 P xs ys"
proof (induction xs arbitrary: ys)
  case (Cons x xs)
  then show ?case by (auto simp: ebind_def split: sum.splits)
qed simp

lemma sort_key_zip_map: "map fst (sort_key snd (zip xs (map g xs))) = sort_key g xs"
proof (induction xs)
  case (Cons x xs)
  have ins: "map fst (insort_key snd (x, g x) ps) = insort_key g x (map fst ps)"
    if "\<forall>p \<in> set ps. snd p = g (fst p)" for ps :: "('a \<times> 'b) list"
    using that by (induction ps) auto
  have "\<forall>p \<in> set (sort_key snd (zip xs (map g xs))). snd p = g (fst p)"
    by (auto simp: set_sort set_zip)
  then show ?case using Cons by (simp add: ins)
qed simp

text \<open>\<open>list.sort(key=k)\<close> succeeds exactly when every key does, and then it is the
  stable sort by the computed keys.\<close>

lemma py_sort_key_Inr:
  assumes "py_sort_key k xs = Inr ys"
  shows "(\<forall>x \<in> set xs. \<exists>v. k x = Inr v) \<and> ys = sort_key (\<lambda>x. projr (k x)) xs"
proof -
  obtain ks where ks: "emap k xs = Inr ks" and ys: "ys = map fst (sort_key snd (zip xs ks))"
    using assms by (auto simp: py_sort_key_def ebind_def split: sum.splits)
  have ok: "\<forall>x \<in> set xs. \<exists>v. k x = Inr v"
  proof
    fix x assume "x \<in> set xs"
    then obtain i where "i < length xs" "x = xs ! i" by (auto simp: in_set_conv_nth)
    then show "\<exists>v. k x = Inr v" using emap_Inr [OF ks] by blast
  qed
  have "ks = map (\<lambda>x. projr (k x)) xs" by (rule emap_Inr_map [OF ks])
  then show ?thesis using ok ys by (simp add: sort_key_zip_map)
qed

lemma py_sort_key_Inl_iff: "(\<exists>e. py_sort_key k xs = Inl e) \<longleftrightarrow> (\<exists>x \<in> set xs. \<exists>e. k x = Inl e)"
  using emap_Inl_iff [of k xs] by (auto simp: py_sort_key_def ebind_def split: sum.splits)

lemma py_sort_key_all_Inr: "\<forall>x \<in> set xs. k x = Inr (g x) \<Longrightarrow> py_sort_key k xs = Inr (sort_key g xs)"
  by (drule emap_all_Inr) (simp add: py_sort_key_def sort_key_zip_map)

lemma py_sort_key_mset_sorted:
  assumes "py_sort_key k xs = Inr ys"
  shows "mset ys = mset xs \<and> sorted (map (\<lambda>y. projr (k y)) ys)"
  using py_sort_key_Inr [OF assms] by simp

end
