(* ===== verification/CampusParse.thy ===== *)
theory CampusParse
  imports Dedup Client PyList "HOL-Library.AList"
begin

text \<open>
  The multi-campus parser \<^verbatim>\<open>src/scripts/07_parse_multi_campus.py\<close>. Its parsing
  functions \<open>ecef_to_lonlat\<close>, \<open>twd97_to_wgs84\<close>, \<open>find_attribute_section\<close> and
  \<open>parse_tile_attributes\<close> (lines 21--163) repeat those of \<^verbatim>\<open>03_parse_nlsc_tiles.py\<close>
  statement for statement, so their models are those of the theories \<open>Geodesy\<close>,
  \<open>Locator\<close> and \<open>Attributes\<close>. New here are its \<open>parse_tile_file\<close> (166--200, without
  the corner box of \<^verbatim>\<open>03\<close>), the campus table (203--232), \<open>process_campus\<close>
  (235--364), which filters the buildings by the campus box before deduplicating them,
  keeps buildings without \<open>BUILD_ID\<close>, and sorts them by height, and the campus loop of
  \<open>main\<close> (367--405). The directory test, the walk and the reading of a file are the
  parameters \<open>isdir\<close>, \<open>walk\<close> and \<open>parse\<close>.
\<close>

definition ecef_to_lonlat07 :: "real \<Rightarrow> real \<Rightarrow> real \<Rightarrow> real \<times> real \<times> real" where
  "ecef_to_lonlat07 = ecef_to_lonlat"

definition twd97_to_wgs84_07 :: "real \<Rightarrow> real \<Rightarrow> (real \<times> real) option" where
  "twd97_to_wgs84_07 = twd97_to_wgs84"

definition find_attribute_section07 :: "bytes \<Rightarrow> py_error + attr_info option" where
  "find_attribute_section07 = find_attribute_section"

definition parse_tile_attributes07 :: "bytes \<Rightarrow> py_error + tile_attrs option" where
  "parse_tile_attributes07 = parse_tile_attributes"

record tile07 =
  t7_raw_size :: nat
  t7_size :: nat
  t7_lrc :: "(nat \<times> nat \<times> nat) option"
  t7_attrs :: "(nat \<times> ustr list \<times> record_dict list) option"

text \<open>\<open>parse_tile_file\<close> of \<^verbatim>\<open>07\<close>: the buildings are kept, and enriched with
  \<open>lon\<close>/\<open>lat\<close>, only when the table has buildings.\<close>

definition parse_tile_file07 :: "(bytes \<Rightarrow> bytes option) \<Rightarrow> bytes \<Rightarrow> py_error + tile07" where
  "parse_tile_file07 gunzip raw =
     (let d = tile_data gunzip raw
      in ebind (parse_tile_attributes07 d) (\<lambda>attrs.
           Inr \<lparr>t7_raw_size = length raw, t7_size = length d,
                t7_lrc = (if 12 \<le> length d then Some (u32_at d 0, u32_at d 4, u32_at d 8) else None),
                t7_attrs = (case attrs of
                              Some a \<Rightarrow> if 0 < ta_building_count a
                                        then Some (ta_building_count a, ta_fields a, map enrich_building (ta_buildings a))
                                        else None
                            | None \<Rightarrow> None)\<rparr>))"

record campus07 =
  c7_name :: ustr
  c7_name_en :: string
  c7_tiles_dir :: string
  c7_layer :: string
  c7_bbox :: "real \<times> real \<times> real \<times> real"

definition campuses07 :: "(string \<times> campus07) list" where
  "campuses07 =
     [(''boai'', \<lparr>c7_name = [21338, 24859, 26657, 21312], c7_name_en = ''Boai Campus'',
         c7_tiles_dir = ''NLSC_3D_tiles_112_O_boai'', c7_layer = ''112_O'',
         c7_bbox = (120.960, 120.978, 24.793, 24.810)\<rparr>),
      (''yangming'', \<lparr>c7_name = [38525, 26126, 26657, 21312], c7_name_en = ''Yangming Campus'',
         c7_tiles_dir = ''NLSC_3D_tiles_109_A_yangming'', c7_layer = ''109_A'',
         c7_bbox = (121.505, 121.528, 25.109, 25.131)\<rparr>),
      (''liujia'', \<lparr>c7_name = [20845, 23478, 26657, 21312], c7_name_en = ''Liujia Campus'',
         c7_tiles_dir = ''NLSC_3D_tiles_113_J_liujia'', c7_layer = ''113_J'',
         c7_bbox = (121.005, 121.023, 24.830, 24.848)\<rparr>),
      (''gueiren'', \<lparr>c7_name = [27512, 20161, 26657, 21312], c7_name_en = ''Gueiren Campus'',
         c7_tiles_dir = ''NLSC_3D_tiles_112_D_gueiren'', c7_layer = ''112_D'',
         c7_bbox = (120.295, 120.315, 22.923, 22.943)\<rparr>)]"

text \<open>The files of the walk, directory by directory, each directory's names sorted.\<close>

definition tile_files07 :: "(string \<times> string list) list \<Rightarrow> string list" where
  "tile_files07 walk = concat (map (\<lambda>(rdir, files). map (path_join rdir) (filter is_tile_name (sort files))) walk)"

text \<open>A \<open>min\<close> or \<open><=\<close> between a float and a string raises \<open>TypeError\<close>.\<close>

definition num_of :: "jval \<Rightarrow> py_error + real" where
  "num_of v = (case v of JNum x \<Rightarrow> Inr x | JStr _ \<Rightarrow> Inl TypeError)"

record campus_state =
  cs_buildings :: "record_dict list"
  cs_seen :: "jval set"
  cs_raw :: nat
  cs_tiles_with_data :: nat

definition empty_campus_state :: campus_state where
  "empty_campus_state = \<lparr>cs_buildings = [], cs_seen = {}, cs_raw = 0, cs_tiles_with_data = 0\<rparr>"

text \<open>The body of \<open>for bldg in result.get('buildings', [])\<close> (lines 281--311).\<close>

definition campus_building_step :: "real \<times> real \<times> real \<times> real \<Rightarrow> ustr \<Rightarrow> campus_state \<Rightarrow> record_dict
    \<Rightarrow> py_error + campus_state" where
  "campus_building_step bbox tag st b =
     (case bbox of (lon_min, lon_max, lat_min, lat_max) \<Rightarrow>
      let st1 = st\<lparr>cs_raw := Suc (cs_raw st)\<rparr>;
          bid = (case b (ascii ''BUILD_ID'') of Some v \<Rightarrow> v | None \<Rightarrow> JStr [])
      in case (b (ascii ''lon''), b (ascii ''lat'')) of
           (Some lo, Some la) \<Rightarrow>
             ebind (num_of lo) (\<lambda>lon. ebind (num_of la) (\<lambda>lat.
               if \<not> (lon_min \<le> lon \<and> lon \<le> lon_max \<and> lat_min \<le> lat \<and> lat \<le> lat_max) then Inr st1
               else if jval_truthy bid \<and> bid \<in> cs_seen st1 then Inr st1
               else Inr (st1\<lparr>cs_seen := (if jval_truthy bid then insert bid (cs_seen st1) else cs_seen st1),
                             cs_buildings := cs_buildings st1 @ [b(ascii ''_tile'' \<mapsto> JStr tag)]\<rparr>)))
         | _ \<Rightarrow> Inr st1)"

text \<open>The body of \<open>for i, filepath in enumerate(tile_files)\<close> (lines 266--316): a file
  that raises while parsing is skipped, an exception of the building loop is not caught.\<close>

definition campus_file_step :: "(string \<Rightarrow> py_error + tile07) \<Rightarrow> real \<times> real \<times> real \<times> real
    \<Rightarrow> campus_state \<Rightarrow> string \<Rightarrow> py_error + campus_state" where
  "campus_file_step parse bbox st filepath =
     (case parse filepath of
        Inl _ \<Rightarrow> Inr st
      | Inr r \<Rightarrow>
          (case t7_attrs r of
             None \<Rightarrow> Inr st
           | Some (bc, _, bldgs) \<Rightarrow>
               if bc = 0 then Inr st
               else efold (campus_building_step bbox
                             (tile_tag (map_option fst (t7_lrc r)) (map_option (fst \<circ> snd) (t7_lrc r))
                                       (map_option (snd \<circ> snd) (t7_lrc r))))
                          bldgs (st\<lparr>cs_tiles_with_data := Suc (cs_tiles_with_data st)\<rparr>)))"

text \<open>\<open>-float(x.get('BUILD_H', '0') or '0')\<close>: the sort key; \<open>float\<close> raises \<open>ValueError\<close>
  on a height that is not a number.\<close>

definition height_of :: "record_dict \<Rightarrow> py_error + real" where
  "height_of b =
     (case b (ascii ''BUILD_H'') of
        None \<Rightarrow> Inr 0
      | Some v \<Rightarrow> if \<not> jval_truthy v then Inr 0
                  else (case jval_float v of Some h \<Rightarrow> Inr h | None \<Rightarrow> Inl ValueError))"

text \<open>\<open>all_buildings.sort(key=...)\<close>: \<open>py_sort_key\<close> computes every key first, then sorts stably.\<close>

definition height_key :: "record_dict \<Rightarrow> py_error + real" where
  "height_key b = ebind (height_of b) (\<lambda>h. Inr (- h))"

definition sort_by_height :: "record_dict list \<Rightarrow> py_error + record_dict list" where
  "sort_by_height bs = py_sort_key height_key bs"

text \<open>Vocabulary of the properties: a building kept for a campus box, and its height as
  the sort uses it.\<close>

definition in_box :: "real \<times> real \<times> real \<times> real \<Rightarrow> record_dict \<Rightarrow> bool" where
  "in_box bbox b \<longleftrightarrow> (case bbox of (lon_min, lon_max, lat_min, lat_max) \<Rightarrow>
     \<exists>lon lat. b (ascii ''lon'') = Some (JNum lon) \<and> b (ascii ''lat'') = Some (JNum lat) \<and>
               lon_min \<le> lon \<and> lon \<le> lon_max \<and> lat_min \<le> lat \<and> lat \<le> lat_max)"

definition kept_ids :: "record_dict list \<Rightarrow> jval list" where
  "kept_ids bs = filter jval_truthy (map (\<lambda>b. case b (ascii ''BUILD_ID'') of Some v \<Rightarrow> v | None \<Rightarrow> JStr []) bs)"

definition height_val :: "record_dict \<Rightarrow> real" where
  "height_val b = (case height_of b of Inr h \<Rightarrow> h | Inl _ \<Rightarrow> 0)"

definition campus_ok :: "real \<times> real \<times> real \<times> real \<Rightarrow> campus_state \<Rightarrow> bool" where
  "campus_ok bbox st \<longleftrightarrow> (\<forall>b \<in> set (cs_buildings st). in_box bbox b) \<and>
     distinct (kept_ids (cs_buildings st)) \<and> set (kept_ids (cs_buildings st)) \<subseteq> cs_seen st"

record campus_output =
  co_campus :: string
  co_name :: ustr
  co_name_en :: string
  co_layer :: string
  co_bbox :: "real \<times> real \<times> real \<times> real"
  co_total_raw :: nat
  co_buildings :: "record_dict list"
  co_total :: nat

definition process_campus07 :: "(string \<Rightarrow> bool) \<Rightarrow> (string \<Rightarrow> (string \<times> string list) list)
    \<Rightarrow> (string \<Rightarrow> py_error + tile07) \<Rightarrow> string \<Rightarrow> string \<Rightarrow> py_error + campus_output option" where
  "process_campus07 isdir walk parse campus_key raw_dir =
     (case map_of campuses07 campus_key of
        None \<Rightarrow> Inl KeyError
      | Some campus \<Rightarrow>
          (let tiles_dir = path_join raw_dir (c7_tiles_dir campus) in
           if \<not> isdir tiles_dir then Inr None
           else ebind (efold (campus_file_step parse (c7_bbox campus)) (tile_files07 (walk tiles_dir)) empty_campus_state)
                  (\<lambda>st. ebind (sort_by_height (cs_buildings st)) (\<lambda>sorted_bs.
                     Inr (Some \<lparr>co_campus = campus_key, co_name = c7_name campus, co_name_en = c7_name_en campus,
                                co_layer = c7_layer campus, co_bbox = c7_bbox campus, co_total_raw = cs_raw st,
                                co_buildings = sorted_bs, co_total = length sorted_bs\<rparr>)))))"

text \<open>\<open>main\<close>: unknown keys skipped, \<open>results[key] = result\<close> when the campus was parsed.\<close>

fun main07 :: "(string \<Rightarrow> bool) \<Rightarrow> (string \<Rightarrow> (string \<times> string list) list) \<Rightarrow> (string \<Rightarrow> py_error + tile07)
    \<Rightarrow> string \<Rightarrow> string list \<Rightarrow> (string \<times> campus_output) list \<Rightarrow> py_error + (string \<times> campus_output) list" where
  "main07 isdir walk parse raw_dir [] results = Inr results"
| "main07 isdir walk parse raw_dir (key # keys) results =
     (if key \<notin> fst ` set campuses07 then main07 isdir walk parse raw_dir keys results
      else ebind (process_campus07 isdir walk parse key raw_dir)
             (\<lambda>r. main07 isdir walk parse raw_dir keys
                    (case r of Some out \<Rightarrow> AList.update key out results | None \<Rightarrow> results)))"

text \<open>A fixture: one directory with one tile of one building inside the Boai box.\<close>

definition fx7_building :: record_dict where
  "fx7_building = [ascii ''BUILD_ID'' \<mapsto> JStr (ascii ''A1''), ascii ''lon'' \<mapsto> JNum 120.97, ascii ''lat'' \<mapsto> JNum 24.8]"

definition fx7_parse :: "string \<Rightarrow> py_error + tile07" where
  "fx7_parse f = Inr \<lparr>t7_raw_size = 40, t7_size = 40, t7_lrc = Some (7, 1, 1),
                       t7_attrs = Some (1, [ascii ''BUILD_ID''], [fx7_building])\<rparr>"

definition fx7_walk :: "string \<Rightarrow> (string \<times> string list) list" where
  "fx7_walk d = [(d, [''R1_C1.bin''])]"

subsection \<open>The buildings a campus keeps\<close>

lemma campus_building_step_ok:
  assumes ok: "campus_ok bbox st" and st: "campus_building_step bbox tag st b = Inr st'"
  shows "campus_ok bbox st'"
proof -
  obtain lon_min lon_max lat_min lat_max where bb: "bbox = (lon_min, lon_max, lat_min, lat_max)"
    by (cases bbox) auto
  let ?bid = "case b (ascii ''BUILD_ID'') of Some v \<Rightarrow> v | None \<Rightarrow> JStr []"
  show ?thesis
  proof (cases "\<exists>lo la. b (ascii ''lon'') = Some lo \<and> b (ascii ''lat'') = Some la")
    case False
    then have "st' = st\<lparr>cs_raw := Suc (cs_raw st)\<rparr>"
      using st bb by (auto simp: campus_building_step_def Let_def split: option.splits)
    then show ?thesis using ok by (simp add: campus_ok_def)
  next
    case True
    then obtain lo la where l: "b (ascii ''lon'') = Some lo" "b (ascii ''lat'') = Some la" by blast
    obtain lon lat where n: "lo = JNum lon" "la = JNum lat"
      using st bb l by (cases lo; cases la) (auto simp: campus_building_step_def Let_def num_of_def)
    let ?inside = "lon_min \<le> lon \<and> lon \<le> lon_max \<and> lat_min \<le> lat \<and> lat \<le> lat_max"
    show ?thesis
    proof (cases "\<not> ?inside \<or> (jval_truthy ?bid \<and> ?bid \<in> cs_seen st)")
      case True
      then have "st' = st\<lparr>cs_raw := Suc (cs_raw st)\<rparr>"
        using st bb l n by (auto simp: campus_building_step_def Let_def num_of_def split: if_splits)
      then show ?thesis using ok by (simp add: campus_ok_def)
    next
      case False
      then have st': "st' = st\<lparr>cs_raw := Suc (cs_raw st),
                           cs_seen := (if jval_truthy ?bid then insert ?bid (cs_seen st) else cs_seen st),
                           cs_buildings := cs_buildings st @ [b(ascii ''_tile'' \<mapsto> JStr tag)]\<rparr>"
        using st bb l n False by (auto simp: campus_building_step_def Let_def num_of_def split: if_splits)
      have box: "in_box bbox (b(ascii ''_tile'' \<mapsto> JStr tag))"
        using False bb l n by (simp add: in_box_def ascii_def)
      have ids: "kept_ids (cs_buildings st @ [b(ascii ''_tile'' \<mapsto> JStr tag)]) =
                 kept_ids (cs_buildings st) @ (if jval_truthy ?bid then [?bid] else [])"
        by (simp add: kept_ids_def ascii_def)
      show ?thesis using ok False box unfolding st' campus_ok_def by (auto simp: ids)
    qed
  qed
qed

lemma efold_building_ok:
  "campus_ok bbox st \<Longrightarrow> efold (campus_building_step bbox tag) bs st = Inr st' \<Longrightarrow> campus_ok bbox st'"
  by (erule efold_inv [where P = "campus_ok bbox", rotated]) (rule campus_building_step_ok)

lemma campus_file_step_ok:
  assumes ok: "campus_ok bbox st" and st: "campus_file_step parse bbox st f = Inr st'"
  shows "campus_ok bbox st'"
proof (cases "\<exists>r bc fs bldgs. parse f = Inr r \<and> t7_attrs r = Some (bc, fs, bldgs) \<and> bc \<noteq> 0")
  case True
  then obtain r bc fs bldgs where r: "parse f = Inr r" "t7_attrs r = Some (bc, fs, bldgs)" "bc \<noteq> 0" by blast
  let ?tag = "tile_tag (map_option fst (t7_lrc r)) (map_option (fst \<circ> snd) (t7_lrc r)) (map_option (snd \<circ> snd) (t7_lrc r))"
  have e: "efold (campus_building_step bbox ?tag) bldgs (st\<lparr>cs_tiles_with_data := Suc (cs_tiles_with_data st)\<rparr>) = Inr st'"
    using st r by (simp add: campus_file_step_def)
  have "campus_ok bbox (st\<lparr>cs_tiles_with_data := Suc (cs_tiles_with_data st)\<rparr>)"
    using ok by (simp add: campus_ok_def)
  then show ?thesis using efold_building_ok e by blast
next
  case False
  then have "st' = st" using st by (auto simp: campus_file_step_def split: sum.splits option.splits)
  then show ?thesis using ok by simp
qed

lemma sort_by_height_Inr:
  assumes "sort_by_height bs = Inr bs'"
  shows "mset bs' = mset bs \<and> sorted (map (\<lambda>b. - height_val b) bs')"
proof -
  have s: "py_sort_key height_key bs = Inr bs'" using assms by (simp add: sort_by_height_def)
  have ok: "\<forall>b \<in> set bs. \<exists>v. height_key b = Inr v" using py_sort_key_Inr [OF s] by blast
  have m: "mset bs' = mset bs" and srt: "sorted (map (\<lambda>y. projr (height_key y)) bs')"
    using py_sort_key_mset_sorted [OF s] by auto
  have "\<forall>b \<in> set bs'. projr (height_key b) = - height_val b"
  proof
    fix b assume "b \<in> set bs'"
    then have "b \<in> set bs" using m by (metis set_mset_mset)
    then obtain v where "height_key b = Inr v" using ok by blast
    then show "projr (height_key b) = - height_val b"
      by (auto simp: height_key_def height_val_def ebind_def split: sum.splits)
  qed
  then have eq: "map (\<lambda>y. projr (height_key y)) bs' = map (\<lambda>b. - height_val b) bs'"
    by (simp only: map_eq_conv)
  show ?thesis using m srt unfolding eq by simp
qed

lemma kept_ids_mset: "mset bs' = mset bs \<Longrightarrow> distinct (kept_ids bs') = distinct (kept_ids bs)"
  unfolding kept_ids_def by (rule mset_eq_imp_distinct_iff) (simp add: mset_filter mset_map)

subsection \<open>Properties\<close>

text \<open>
  C39. When \<open>process_campus\<close> of \<^verbatim>\<open>07\<close> returns a campus, every building it keeps has
  numeric \<open>lon\<close> and \<open>lat\<close> inside the campus box, the truthy \<open>BUILD_ID\<close>s of the kept
  buildings are distinct (buildings without one are all kept), the list is sorted by
  height, tallest first, and \<open>total\<close> is its length.
\<close>

theorem process_campus07_output:
  assumes "process_campus07 isdir walk parse campus_key raw_dir = Inr (Some out)"
  shows "(\<forall>b \<in> set (co_buildings out). in_box (co_bbox out) b) \<and> distinct (kept_ids (co_buildings out)) \<and>
         sorted (map (\<lambda>b. - height_val b) (co_buildings out)) \<and> co_total out = length (co_buildings out)"
proof -
  obtain campus where c: "map_of campuses07 campus_key = Some campus"
    using assms by (auto simp: process_campus07_def split: option.splits)
  let ?tiles_dir = "path_join raw_dir (c7_tiles_dir campus)"
  obtain st sorted_bs where
      e: "efold (campus_file_step parse (c7_bbox campus)) (tile_files07 (walk ?tiles_dir)) empty_campus_state = Inr st"
      and s: "sort_by_height (cs_buildings st) = Inr sorted_bs"
      and out: "out = \<lparr>co_campus = campus_key, co_name = c7_name campus, co_name_en = c7_name_en campus,
                       co_layer = c7_layer campus, co_bbox = c7_bbox campus, co_total_raw = cs_raw st,
                       co_buildings = sorted_bs, co_total = length sorted_bs\<rparr>"
    using assms c by (auto simp: process_campus07_def Let_def ebind_def split: if_splits sum.splits)
  have ok: "campus_ok (c7_bbox campus) st"
  proof (rule efold_inv [OF e])
    show "campus_ok (c7_bbox campus) empty_campus_state"
      by (simp add: campus_ok_def empty_campus_state_def kept_ids_def)
  next
    fix s x s' assume "campus_ok (c7_bbox campus) s" and "campus_file_step parse (c7_bbox campus) s x = Inr s'"
    then show "campus_ok (c7_bbox campus) s'" by (rule campus_file_step_ok)
  qed
  have so: "mset sorted_bs = mset (cs_buildings st) \<and> sorted (map (\<lambda>b. - height_val b) sorted_bs)"
    by (rule sort_by_height_Inr [OF s])
  have "set sorted_bs = set (cs_buildings st)" using so by (metis set_mset_mset)
  then show ?thesis using ok so kept_ids_mset [of sorted_bs "cs_buildings st"] out
    by (auto simp: campus_ok_def)
qed

theorem process_campus07_output_witness:
  "\<exists>out. process_campus07 (\<lambda>d. True) fx7_walk fx7_parse ''boai'' ''raw'' = Inr (Some out) \<and>
     co_buildings out = [fx7_building(ascii ''_tile'' \<mapsto> JStr (tile_tag (Some 7) (Some 1) (Some 1)))] \<and>
     in_box (co_bbox out) (fx7_building(ascii ''_tile'' \<mapsto> JStr (tile_tag (Some 7) (Some 1) (Some 1)))) \<and>
     co_total out = 1"
proof -
  let ?b = "fx7_building(ascii ''_tile'' \<mapsto> JStr (tile_tag (Some 7) (Some 1) (Some 1)))"
  have run: "\<exists>out. process_campus07 (\<lambda>d. True) fx7_walk fx7_parse ''boai'' ''raw'' = Inr (Some out) \<and>
               co_buildings out = [?b]"
    by (simp add: process_campus07_def campuses07_def tile_files07_def fx7_walk_def is_tile_name_def
         py_endswith_def campus_file_step_def fx7_parse_def campus_building_step_def empty_campus_state_def
         num_of_def fx7_building_def ascii_def jval_truthy_def sort_by_height_def py_sort_key_def height_key_def height_of_def Let_def ebind_def)
  then obtain out where o: "process_campus07 (\<lambda>d. True) fx7_walk fx7_parse ''boai'' ''raw'' = Inr (Some out)"
      and b: "co_buildings out = [?b]" by blast
  show ?thesis using process_campus07_output [OF o] o b by simp
qed

end
