(* ===== verification/Export.thy ===== *)
theory Export
  imports Fusion Client PyList
begin

text \<open>
  The building table of \<^verbatim>\<open>src/scripts/05_export_building_table.py\<close>: the planar
  shoelace area and bounding-box size of a footprint in metres (lines 23--55), one row
  per \<open>Polygon\<close> feature of the 3D GeoJSON (lines 71--134), the sort by height
  (line 137), the CSV table (lines 143--168), the two sheets and the summary statistics
  of the Excel workbook (lines 195--290) and the printed top 20 (lines 311--315).

  Property values are JSON values (\<open>pyjson\<close>), since the GeoJSON this script reads is
  written outside the repository; Python's \<open>str()\<close> of a value that is not a string is
  the parameter \<open>repr\<close>. Every exception the script can raise is a branch: a
  \<open>Polygon\<close> without rings (\<open>IndexError\<close>), an unhashable structure code
  (\<open>TypeError\<close>), a height \<open>float()\<close> rejects (\<open>ValueError\<close>), a list or dict cell
  openpyxl cannot store, the \<open>max()\<close> of no rows, and an \<open>f\<close> format on a string.
  The outcome of \<open>main\<close> is what was written (the CSV table, the workbook) and the
  exception that ended the run, if any.
\<close>

subsection \<open>Footprint geometry\<close>

definition deg_lon_to_m :: real where "deg_lon_to_m = 101235"

definition deg_lat_to_m :: real where "deg_lat_to_m = 110574"

text \<open>The loop \<open>for i in range(n - 1)\<close> over consecutive vertices of the closed ring.\<close>

fun shoelace_loop :: "point list \<Rightarrow> real \<Rightarrow> real" where
  "shoelace_loop (p # q # rest) area =
     shoelace_loop (q # rest)
       (area + (fst p * deg_lon_to_m * (snd q * deg_lat_to_m) - fst q * deg_lon_to_m * (snd p * deg_lat_to_m)))"
| "shoelace_loop _ area = area"

definition shoelace_area_m2 :: "point list \<Rightarrow> real" where
  "shoelace_area_m2 coords =
     (if length coords < 3 then 0
      else let cs = (if coords ! 0 \<noteq> last coords then coords @ [coords ! 0] else coords)
           in \<bar>shoelace_loop cs 0\<bar> / 2)"

definition bounding_box_dims :: "point list \<Rightarrow> real \<times> real" where
  "bounding_box_dims coords =
     (if coords = [] then (0, 0)
      else let lons = map fst coords; lats = map snd coords
           in (py_round ((Max (set lons) - Min (set lons)) * deg_lon_to_m) 1,
               py_round ((Max (set lats) - Min (set lats)) * deg_lat_to_m) 1))"

subsection \<open>Python on JSON values\<close>

text \<open>Truth value, \<open>float()\<close>, \<open>str()\<close> and \<open>int()\<close> of a string as the script applies them.
  \<open>int()\<close> accepts white space, a sign and decimal digits (digit separators \<open>_\<close> are
  read as \<open>ValueError\<close>, as in \<open>py_float\<close>).\<close>

definition py_truthy :: "pyjson \<Rightarrow> bool" where
  "py_truthy v = (case v of PNull \<Rightarrow> False | PInt i \<Rightarrow> i \<noteq> 0 | PFloat x \<Rightarrow> x \<noteq> 0 | PBool b \<Rightarrow> b | PStr s \<Rightarrow> s \<noteq> []
                   | PList xs \<Rightarrow> xs \<noteq> [] | PDict d \<Rightarrow> d \<noteq> [])"

definition py_float_of :: "pyjson \<Rightarrow> py_error + real" where
  "py_float_of v =
     (case v of PNull \<Rightarrow> Inl TypeError | PInt i \<Rightarrow> Inr (of_int i) | PFloat x \<Rightarrow> Inr x | PBool b \<Rightarrow> Inr (if b then 1 else 0)
      | PStr s \<Rightarrow> (case py_float s of Some x \<Rightarrow> Inr x | None \<Rightarrow> Inl ValueError)
      | PList _ \<Rightarrow> Inl TypeError | PDict _ \<Rightarrow> Inl TypeError)"

definition py_str :: "(pyjson \<Rightarrow> ustr) \<Rightarrow> pyjson \<Rightarrow> ustr" where
  "py_str repr v = (case v of PStr s \<Rightarrow> s | _ \<Rightarrow> repr v)"

definition py_int :: "ustr \<Rightarrow> int option" where
  "py_int u =
     (let (sg, r) = split_sign (py_strip u)
      in if r \<noteq> [] \<and> list_all is_digit r then Some (sg * int (digits_value r 0)) else None)"

text \<open>\<open>int(x)\<close> of a float truncates towards zero.\<close>

definition py_trunc :: "real \<Rightarrow> int" where
  "py_trunc x = (if 0 \<le> x then \<lfloor>x\<rfloor> else \<lceil>x\<rceil>)"

definition pget :: "(ustr \<rightharpoonup> pyjson) \<Rightarrow> ustr \<Rightarrow> pyjson \<Rightarrow> pyjson" where
  "pget props k d = (case props k of Some v \<Rightarrow> v | None \<Rightarrow> d)"

subsection \<open>One row per footprint\<close>

record feature05 =
  f5_props :: "ustr \<rightharpoonup> pyjson"
  f5_geom_type :: ustr
  f5_rings :: "point list list"

record export_row =
  er_name :: pyjson
  er_name_en :: pyjson
  er_height :: pyjson
  er_floors :: ustr
  er_width :: real
  er_length :: real
  er_area :: real
  er_total_floor_area :: "real option"
  er_structure :: pyjson
  er_building_type :: pyjson
  er_nlsc_h :: pyjson
  er_build_id :: pyjson
  er_osm_id :: pyjson

text \<open>Lines 91--98: \<open>floors\<close> is \<open>str(floors_raw)\<close> and \<open>floors_num\<close> its \<open>int()\<close> after
  removing \<open>'>'\<close>, 0 when that raises.\<close>

definition parse_floors :: "(pyjson \<Rightarrow> ustr) \<Rightarrow> pyjson \<Rightarrow> ustr \<times> int" where
  "parse_floors repr floors_raw =
     (if \<not> py_truthy floors_raw then ([], 0)
      else let floors = py_str repr floors_raw
           in (floors, case py_int (py_strip (filter (\<lambda>c. c \<noteq> 62) floors)) of Some n \<Rightarrow> n | None \<Rightarrow> 0))"

definition str_map :: "(ustr \<times> ustr) list" where
  "str_map = [(ascii ''R'', [37628,31563,28151,20957,22303,40,82,67,41]),
              (ascii ''S'', [37628,39592,40,83,41]),
              (ascii ''B'', [30938,36896]),
              (ascii ''W'', [26408,36896]),
              (ascii ''M'', [37329,23660,47,28151,21512]),
              (ascii ''T'', [33256,26178])]"

text \<open>Line 118: \<open>str_map.get(build_str, build_str) if build_str else ''\<close>; a list or dict
  is unhashable.\<close>

definition structure_of :: "pyjson \<Rightarrow> py_error + pyjson" where
  "structure_of build_str =
     (if \<not> py_truthy build_str then Inr (PStr [])
      else case build_str of
             PStr s \<Rightarrow> Inr (case map_of str_map s of Some z \<Rightarrow> PStr z | None \<Rightarrow> build_str)
           | PList _ \<Rightarrow> Inl TypeError
           | PDict _ \<Rightarrow> Inl TypeError
           | _ \<Rightarrow> Inr build_str)"

definition export_row_of :: "(pyjson \<Rightarrow> ustr) \<Rightarrow> feature05 \<Rightarrow> py_error + export_row option" where
  "export_row_of repr feat =
     (if f5_geom_type feat \<noteq> ascii ''Polygon'' then Inr None
      else case f5_rings feat of
        [] \<Rightarrow> Inl IndexError
      | ring # _ \<Rightarrow>
          (let props = f5_props feat;
               fl = parse_floors repr (pget props (ascii ''building:levels'') (PStr []));
               dims = bounding_box_dims ring;
               area = py_round (shoelace_area_m2 ring) 1;
               tfa = (if 0 < snd fl \<and> 0 < area then Some (py_round (area * of_int (snd fl)) 0) else None)
           in ebind (structure_of (pget props (ascii ''nlsc_BUILD_STR'') (PStr []))) (\<lambda>structure.
                Inr (Some \<lparr>er_name = pget props (ascii ''display_name'') (PStr []),
                           er_name_en = pget props (ascii ''display_name_en'') (PStr []),
                           er_height = pget props (ascii ''height_m'') (PInt 0),
                           er_floors = fst fl, er_width = fst dims, er_length = snd dims,
                           er_area = area, er_total_floor_area = tfa, er_structure = structure,
                           er_building_type = pget props (ascii ''building'') (PStr []),
                           er_nlsc_h = pget props (ascii ''nlsc_BUILD_H'') (PStr []),
                           er_build_id = pget props (ascii ''nlsc_BUILD_ID'') (PStr []),
                           er_osm_id = pget props (ascii ''osm_id'') (PStr [])\<rparr>))))"

definition rows_step :: "(pyjson \<Rightarrow> ustr) \<Rightarrow> export_row list \<Rightarrow> feature05 \<Rightarrow> py_error + export_row list" where
  "rows_step repr rows feat =
     ebind (export_row_of repr feat) (\<lambda>r. Inr (case r of None \<Rightarrow> rows | Some row \<Rightarrow> rows @ [row]))"

text \<open>Line 137: the key \<open>-float(r['height_m'] or 0)\<close>.\<close>

definition height_key05 :: "export_row \<Rightarrow> py_error + real" where
  "height_key05 r = (if py_truthy (er_height r) then ebind (py_float_of (er_height r)) (\<lambda>x. Inr (- x)) else Inr 0)"

definition export_rows :: "(pyjson \<Rightarrow> ustr) \<Rightarrow> feature05 list \<Rightarrow> py_error + export_row list" where
  "export_rows repr feats = ebind (efold (rows_step repr) feats []) (py_sort_key height_key05)"

subsection \<open>The CSV table and the workbook\<close>

definition fieldnames05 :: "ustr list" where
  "fieldnames05 = map ascii [''name'', ''name_en'', ''height_m'', ''floors'', ''width_m'', ''length_m'',
     ''footprint_area_m2'', ''total_floor_area_m2'', ''structure'', ''building_type'', ''nlsc_BUILD_H'',
     ''nlsc_BUILD_ID'', ''osm_id'']"

definition headers_zh :: "(ustr \<times> ustr) list" where
  "headers_zh = zip fieldnames05
     [[24314,31689,21517,31281], [33521,25991,21517,31281], [39640,24230,40,109,41], [27155,23652],
      [26481,35199,23532,40,109,41], [21335,21271,38263,40,109,41], [25237,24433,38754,31309,40,109,178,41],
      [20272,31639,32317,27155,22320,26495,38754,31309,40,109,178,41], [32080,27083,39006,22411],
      [79,83,77,24314,31689,39006,22411], [78,76,83,67,39640,24230], [78,76,83,67,24314,29289,73,68],
      [79,83,77,32,73,68]]"

text \<open>The row dictionary read in the order of \<open>fieldnames\<close>; \<open>''\<close> is the empty string.\<close>

definition row_values :: "export_row \<Rightarrow> pyjson list" where
  "row_values r =
     [er_name r, er_name_en r, er_height r, PStr (er_floors r), PFloat (er_width r), PFloat (er_length r),
      PFloat (er_area r), (case er_total_floor_area r of Some x \<Rightarrow> PFloat x | None \<Rightarrow> PStr []),
      er_structure r, er_building_type r, er_nlsc_h r, er_build_id r, er_osm_id r]"

text \<open>Lines 164--168: the Chinese header row, then one row per building.\<close>

definition csv_table :: "export_row list \<Rightarrow> pyjson list list" where
  "csv_table rows = map (\<lambda>f. PStr (the (map_of headers_zh f))) fieldnames05 # map row_values rows"

text \<open>Lines 206--217: the cell value of a field; a conversion that raises leaves the value.\<close>

definition xl_value :: "ustr \<Rightarrow> pyjson \<Rightarrow> pyjson" where
  "xl_value f v =
     (if f \<in> set (map ascii [''height_m'', ''width_m'', ''length_m'', ''footprint_area_m2'']) then
        (if py_truthy v then (case py_float_of v of Inr x \<Rightarrow> PFloat x | Inl _ \<Rightarrow> v) else PStr [])
      else if f = ascii ''total_floor_area_m2'' then
        (if py_truthy v then (case py_float_of v of Inr x \<Rightarrow> PInt (py_trunc x) | Inl _ \<Rightarrow> v) else PStr [])
      else v)"

definition sheet_rows :: "export_row list \<Rightarrow> pyjson list list" where
  "sheet_rows rows = map (\<lambda>r. map2 xl_value fieldnames05 (row_values r)) rows"

text \<open>openpyxl stores numbers, booleans and strings; a list or dict raises \<open>ValueError\<close>.\<close>

definition xl_cell_ok :: "pyjson \<Rightarrow> bool" where
  "xl_cell_ok v = (case v of PList _ \<Rightarrow> False | PDict _ \<Rightarrow> False | _ \<Rightarrow> True)"

definition named_rows :: "export_row list \<Rightarrow> export_row list" where
  "named_rows rows = filter (\<lambda>r. py_truthy (er_name r)) rows"

text \<open>\<open>max(rows, key=k)\<close>: the first row of greatest key; \<open>ValueError\<close> on no rows.\<close>

fun py_max_key :: "('a \<Rightarrow> real) \<Rightarrow> 'a list \<Rightarrow> py_error + 'a" where
  "py_max_key k [] = Inl ValueError"
| "py_max_key k (x # xs) = Inr (foldl (\<lambda>m y. if k m < k y then y else m) x xs)"

record stats05 =
  st_total :: nat
  st_named :: nat
  st_with_nlsc_h :: nat
  st_with_floors :: nat
  st_tallest :: "(pyjson \<times> pyjson) option"
  st_avg_height :: real
  st_avg_area :: real
  st_largest :: "pyjson \<times> real"

text \<open>Lines 275--290, in the order Python evaluates them: the averages divide by
  \<open>max(1, count)\<close>, \<open>float()\<close> of a height may raise, and \<open>max()\<close> of no rows raises.\<close>

definition stats_of :: "export_row list \<Rightarrow> py_error + stats05" where
  "stats_of rows =
     (let hs = filter py_truthy (map er_height rows);
          areas = filter (\<lambda>a. a \<noteq> 0) (map er_area rows)
      in ebind (emap py_float_of hs) (\<lambda>hvals.
         ebind (py_max_key er_area rows) (\<lambda>mr.
         Inr \<lparr>st_total = length rows, st_named = length (named_rows rows),
              st_with_nlsc_h = length (filter (\<lambda>r. py_truthy (er_nlsc_h r)) rows),
              st_with_floors = length (filter (\<lambda>r. er_floors r \<noteq> []) rows),
              st_tallest = (case rows of [] \<Rightarrow> None | r # _ \<Rightarrow> Some (er_name r, er_height r)),
              st_avg_height = py_round (sum_list hvals / real (max 1 (length hs))) 1,
              st_avg_area = py_round (sum_list areas / real (max 1 (length areas))) 1,
              st_largest = (er_name mr, er_area mr)\<rparr>)))"

record workbook05 =
  wb_all :: "pyjson list list"
  wb_named :: "pyjson list list"
  wb_stats :: stats05

text \<open>Sheet 1 is filled before sheet 2 and the statistics; \<open>wb.save\<close> runs last.\<close>

definition workbook_of :: "export_row list \<Rightarrow> py_error + workbook05" where
  "workbook_of rows =
     (if \<not> list_all (list_all xl_cell_ok) (sheet_rows rows) then Inl ValueError
      else ebind (stats_of rows) (\<lambda>st.
             Inr \<lparr>wb_all = sheet_rows rows, wb_named = sheet_rows (named_rows rows), wb_stats = st\<rparr>))"

text \<open>Lines 311--315: \<open>{r["name"]:<16}\<close> rejects \<open>None\<close>, a list or dict (\<open>TypeError\<close>) and
  \<open>{r["height_m"]:>6.1f}\<close> a string (\<open>ValueError\<close>) as well.\<close>

definition fmt_align :: "pyjson \<Rightarrow> py_error + unit" where
  "fmt_align v = (case v of PNull \<Rightarrow> Inl TypeError | PList _ \<Rightarrow> Inl TypeError | PDict _ \<Rightarrow> Inl TypeError | _ \<Rightarrow> Inr ())"

definition fmt_float :: "pyjson \<Rightarrow> py_error + unit" where
  "fmt_float v = (case v of PNull \<Rightarrow> Inl TypeError | PStr _ \<Rightarrow> Inl ValueError | PList _ \<Rightarrow> Inl TypeError | PDict _ \<Rightarrow> Inl TypeError
                    | _ \<Rightarrow> Inr ())"

definition print_top20 :: "export_row list \<Rightarrow> py_error + unit" where
  "print_top20 rows = efold (\<lambda>u r. ebind (fmt_align (er_name r)) (\<lambda>_. fmt_float (er_height r))) (take 20 rows) ()"

record export05 =
  ex_csv :: "pyjson list list option"
  ex_xlsx :: "workbook05 option"
  ex_error :: "py_error option"

definition err_of :: "py_error + unit \<Rightarrow> py_error option" where
  "err_of r = (case r of Inl e \<Rightarrow> Some e | Inr _ \<Rightarrow> None)"

text \<open>\<open>main\<close>: the CSV is written once the rows are sorted; the workbook only when
  openpyxl imports and nothing in its block raises (only \<open>ImportError\<close> is caught).\<close>

definition main05 :: "(pyjson \<Rightarrow> ustr) \<Rightarrow> bool \<Rightarrow> feature05 list \<Rightarrow> export05" where
  "main05 repr has_openpyxl feats =
     (case export_rows repr feats of
        Inl e \<Rightarrow> \<lparr>ex_csv = None, ex_xlsx = None, ex_error = Some e\<rparr>
      | Inr rows \<Rightarrow>
          (if \<not> has_openpyxl then
             \<lparr>ex_csv = Some (csv_table rows), ex_xlsx = None, ex_error = err_of (print_top20 rows)\<rparr>
           else case workbook_of rows of
             Inl e \<Rightarrow> \<lparr>ex_csv = Some (csv_table rows), ex_xlsx = None, ex_error = Some e\<rparr>
           | Inr wb \<Rightarrow> \<lparr>ex_csv = Some (csv_table rows), ex_xlsx = Some wb, ex_error = err_of (print_top20 rows)\<rparr>))"

text \<open>A fixture: a unit square footprint 10 m high among a point feature.\<close>

definition fx5_square :: feature05 where
  "fx5_square = \<lparr>f5_props = [ascii ''display_name'' \<mapsto> PStr (ascii ''A''), ascii ''height_m'' \<mapsto> PFloat 10],
                  f5_geom_type = ascii ''Polygon'', f5_rings = [[(0, 0), (1, 0), (1, 1), (0, 1)]]\<rparr>"

definition fx5_point :: feature05 where
  "fx5_point = \<lparr>f5_props = Map.empty, f5_geom_type = ascii ''Point'', f5_rings = []\<rparr>"

subsection \<open>The area of \<^verbatim>\<open>05\<close> is the area of \<^verbatim>\<open>04\<close> in square metres\<close>

lemma shoelace_loop_sum:
  "xs \<noteq> [] \<Longrightarrow> shoelace_loop xs acc = acc + deg_lon_to_m * deg_lat_to_m * shoelace_sum (butlast xs) (last xs)"
proof (induction xs acc rule: shoelace_loop.induct)
  case (1 p q rest area)
  show ?case
  proof (cases rest)
    case Nil
    then show ?thesis by (simp add: algebra_simps)
  next
    case (Cons r rest')
    then show ?thesis using 1 by (simp add: algebra_simps)
  qed
qed simp_all

lemma shoelace_sum_snoc:
  "ys \<noteq> [] \<Longrightarrow> shoelace_sum (ys @ [y]) p0 = shoelace_sum ys y + (fst y * snd p0 - fst p0 * snd y)"
proof (induction ys p0 rule: shoelace_sum.induct)
  case (3 p q rest p0)
  then show ?case by simp
qed simp_all

lemma polygon_area_short:
  assumes "length coords < 3"
  shows "polygon_area coords = 0"
proof -
  consider "coords = []" | p where "coords = [p]" | p q where "coords = [p, q]"
    using assms by (cases coords; cases "tl coords") auto
  then show ?thesis by cases (auto simp: polygon_area_def algebra_simps)
qed

lemma deg_scale_pos: "0 < deg_lon_to_m * deg_lat_to_m"
  by (simp add: deg_lon_to_m_def deg_lat_to_m_def)

lemma shoelace_area_m2_polygon_area:
  "shoelace_area_m2 coords = deg_lon_to_m * deg_lat_to_m * polygon_area coords"
proof (cases "length coords < 3")
  case True
  then show ?thesis by (simp add: shoelace_area_m2_def polygon_area_short)
next
  case False
  then obtain h t where c: "coords = h # t" by (cases coords) auto
  have t: "t \<noteq> []" using False c by auto
  have abs: "\<bar>deg_lon_to_m * deg_lat_to_m * x\<bar> / 2 = deg_lon_to_m * deg_lat_to_m * (\<bar>x\<bar> / 2)" for x
    by (simp add: abs_mult deg_lon_to_m_def deg_lat_to_m_def)
  show ?thesis
  proof (cases "coords ! 0 = last coords")
    case True
    then have hl: "last t = h" using c t by simp
    have bt: "butlast coords \<noteq> []" using c t by simp
    have "coords = butlast coords @ [h]" using c t hl by (metis append_butlast_last_id last_ConsR list.discI)
    then have "shoelace_sum coords h = shoelace_sum (butlast coords) h"
      using shoelace_sum_snoc [OF bt, of h h] by simp
    then show ?thesis using False True c t hl
      by (simp add: shoelace_area_m2_def shoelace_loop_sum polygon_area_def abs)
  next
    case False
    then show ?thesis using \<open>\<not> length coords < 3\<close> c
      by (simp add: shoelace_area_m2_def shoelace_loop_sum polygon_area_def abs)
  qed
qed

subsection \<open>Rows, sort and outcome\<close>

lemma export_row_of_Inr:
  assumes "export_row_of repr f = Inr r"
  shows "(r = None \<longleftrightarrow> f5_geom_type f \<noteq> ascii ''Polygon'') \<and>
         (\<forall>row. r = Some row \<longrightarrow> er_area row = py_round (shoelace_area_m2 (hd (f5_rings f))) 1)"
  using assms by (auto simp: export_row_of_def Let_def ebind_def split: list.splits sum.splits if_splits)

lemma rows_step_Inr:
  "rows_step repr acc f = Inr acc' \<Longrightarrow>
   \<exists>r. export_row_of repr f = Inr r \<and> acc' = (case r of None \<Rightarrow> acc | Some row \<Rightarrow> acc @ [row])"
  by (auto simp: rows_step_def ebind_def split: sum.splits)

lemma rows_fold_areas:
  "efold (rows_step repr) feats acc = Inr rows \<Longrightarrow>
   map er_area rows = map er_area acc @
     map (\<lambda>f. py_round (shoelace_area_m2 (hd (f5_rings f))) 1) (filter (\<lambda>f. f5_geom_type f = ascii ''Polygon'') feats)"
proof (induction feats arbitrary: acc)
  case (Cons f feats)
  obtain acc' where st: "rows_step repr acc f = Inr acc'" and rest0: "efold (rows_step repr) feats acc' = Inr rows"
    using Cons.prems by (auto simp: ebind_def split: sum.splits)
  obtain r where r: "export_row_of repr f = Inr r"
    and rest: "efold (rows_step repr) feats (case r of None \<Rightarrow> acc | Some row \<Rightarrow> acc @ [row]) = Inr rows"
    using rows_step_Inr [OF st] rest0 by blast
  show ?case using Cons.IH [OF rest] export_row_of_Inr [OF r] by (cases r) auto
qed simp

lemma rows_fold_empty:
  "\<forall>f \<in> set feats. f5_geom_type f \<noteq> ascii ''Polygon'' \<Longrightarrow> efold (rows_step repr) feats acc = Inr acc"
  by (induction feats) (simp_all add: rows_step_def export_row_of_def)

text \<open>C40. The table of \<^verbatim>\<open>05\<close> has one row per \<open>Polygon\<close> feature, whose footprint area is
  the area \<^verbatim>\<open>04\<close> computes for the same ring in square degrees, scaled to square metres by
  the two conversion factors and rounded to 0.1; the rows are sorted by descending height.\<close>

theorem export_rows_areas:
  assumes "export_rows repr feats = Inr rows"
  shows "mset (map er_area rows) =
           mset (map (\<lambda>f. py_round (deg_lon_to_m * deg_lat_to_m * polygon_area (hd (f5_rings f))) 1)
                     (filter (\<lambda>f. f5_geom_type f = ascii ''Polygon'') feats)) \<and>
         (\<forall>r \<in> set rows. \<exists>h. py_float_of (er_height r) = Inr h \<or> \<not> py_truthy (er_height r)) \<and>
         sorted (map (\<lambda>r. projr (height_key05 r)) rows)"
proof -
  obtain rows0 where f: "efold (rows_step repr) feats [] = Inr rows0" and s: "py_sort_key height_key05 rows0 = Inr rows"
    using assms by (auto simp: export_rows_def ebind_def split: sum.splits)
  have m: "mset rows = mset rows0" and srt: "sorted (map (\<lambda>r. projr (height_key05 r)) rows)"
    using py_sort_key_mset_sorted [OF s] by auto
  have keys: "\<forall>r \<in> set rows0. \<exists>v. height_key05 r = Inr v" using py_sort_key_Inr [OF s] by blast
  have "mset (map er_area rows) = mset (map er_area rows0)" using m by (metis mset_map)
  also have "map er_area rows0 = map (\<lambda>f. py_round (shoelace_area_m2 (hd (f5_rings f))) 1)
                                   (filter (\<lambda>f. f5_geom_type f = ascii ''Polygon'') feats)"
    using rows_fold_areas [OF f] by simp
  finally have areas: "mset (map er_area rows) = mset (map (\<lambda>f. py_round (deg_lon_to_m * deg_lat_to_m * polygon_area (hd (f5_rings f))) 1)
                     (filter (\<lambda>f. f5_geom_type f = ascii ''Polygon'') feats))"
    by (simp add: shoelace_area_m2_polygon_area)
  have "\<forall>r \<in> set rows. \<exists>h. py_float_of (er_height r) = Inr h \<or> \<not> py_truthy (er_height r)"
  proof
    fix r assume "r \<in> set rows"
    then have "r \<in> set rows0" using m by (metis set_mset_mset)
    then obtain v where "height_key05 r = Inr v" using keys by blast
    then show "\<exists>h. py_float_of (er_height r) = Inr h \<or> \<not> py_truthy (er_height r)"
      by (auto simp: height_key05_def ebind_def split: sum.splits if_splits)
  qed
  then show ?thesis using areas srt by blast
qed

theorem export_rows_areas_witness:
  "\<exists>rows. export_rows (\<lambda>v. []) [fx5_point, fx5_square] = Inr rows \<and>
     mset (map er_area rows) = {# py_round (deg_lon_to_m * deg_lat_to_m * polygon_area [(0, 0), (1, 0), (1, 1), (0, 1)]) 1 #}"
proof -
  have "\<exists>rows. export_rows (\<lambda>v. []) [fx5_point, fx5_square] = Inr rows"
    by (simp add: export_rows_def rows_step_def export_row_of_def fx5_point_def fx5_square_def ascii_def
        Let_def structure_of_def pget_def py_truthy_def py_sort_key_def height_key05_def py_float_of_def)
  then obtain rows where r: "export_rows (\<lambda>v. []) [fx5_point, fx5_square] = Inr rows" by blast
  have a: "mset (map er_area rows) = {# py_round (deg_lon_to_m * deg_lat_to_m * polygon_area [(0, 0), (1, 0), (1, 1), (0, 1)]) 1 #}"
    using export_rows_areas [OF r] by (simp add: fx5_point_def fx5_square_def ascii_def)
  show ?thesis by (rule exI [of _ rows], rule conjI [OF r a])
qed

text \<open>An input without \<open>Polygon\<close> features: the CSV holds the header row only, and with
  openpyxl installed \<open>max()\<close> of the empty row list raises \<open>ValueError\<close>, so the run ends
  with an exception and no workbook.\<close>

lemma main05_no_polygons:
  assumes "\<forall>f \<in> set feats. f5_geom_type f \<noteq> ascii ''Polygon''"
  shows "main05 repr True feats =
           \<lparr>ex_csv = Some [map (\<lambda>f. PStr (the (map_of headers_zh f))) fieldnames05], ex_xlsx = None,
            ex_error = Some ValueError\<rparr>"
  using rows_fold_empty [OF assms, of repr "[]"]
  by (simp add: main05_def export_rows_def py_sort_key_def workbook_of_def stats_of_def sheet_rows_def csv_table_def)

end
