(* ===== verification/Osm.thy ===== *)
theory Osm
  imports Fusion
begin

text \<open>
  The OSM footprint extractor \<^verbatim>\<open>src/scripts/02_extract_osm_buildings.py\<close>. Its two
  osmium passes are folds over the node and the way streams of the PBF file: the
  \<open>NodeCollector\<close> caches the nodes of a box 0.01 degree wider than the campus box
  (a later node of the same id replaces an earlier one, as the dictionary assignment
  does), and \<open>BuildingExtractor.way\<close> turns a way tagged \<open>building\<close> into a closed
  polygon feature when at least three of its nodes are cached and their mean lies in the
  campus box. The features are the \<open>osm_feature\<close>s that \<^verbatim>\<open>04_merge_datasets.py\<close>
  (theory \<open>Fusion\<close>) reads back: \<open>osm_id\<close> is a number, every tag a string.
\<close>

definition min_lon02 :: real where "min_lon02 = 120.990"
definition max_lon02 :: real where "max_lon02 = 121.005"
definition min_lat02 :: real where "min_lat02 = 24.780"
definition max_lat02 :: real where "max_lat02 = 24.795"

subsection \<open>Pass 1: the node cache\<close>

record osm_node =
  on_id :: int
  on_lon :: real
  on_lat :: real

definition collect_node :: "(int \<rightharpoonup> point) \<Rightarrow> osm_node \<Rightarrow> (int \<rightharpoonup> point)" where
  "collect_node nodes n =
     (if min_lon02 - 0.01 \<le> on_lon n \<and> on_lon n \<le> max_lon02 + 0.01 \<and>
         min_lat02 - 0.01 \<le> on_lat n \<and> on_lat n \<le> max_lat02 + 0.01
      then nodes(on_id n \<mapsto> (on_lon n, on_lat n)) else nodes)"

definition collect_nodes :: "osm_node list \<Rightarrow> (int \<rightharpoonup> point)" where
  "collect_nodes ns = foldl collect_node Map.empty ns"

subsection \<open>Pass 2: ways to footprints\<close>

record osm_way =
  ow_id :: int
  ow_tags :: "ustr \<rightharpoonup> ustr"
  ow_nodes :: "int list"

definition useful_tags02 :: "ustr list" where
  "useful_tags02 = map ascii [''name'', ''name:en'', ''name:zh'', ''height'', ''building:levels'',
                              ''addr:street'', ''addr:housenumber'', ''amenity'', ''operator'']"

text \<open>The properties: \<open>osm_id\<close>, \<open>building\<close>, then every useful tag present.\<close>

definition way_props :: "osm_way \<Rightarrow> record_dict" where
  "way_props w =
     fold (\<lambda>k p. case ow_tags w k of Some v \<Rightarrow> p(k \<mapsto> JStr v) | None \<Rightarrow> p) useful_tags02
       [ascii ''osm_id'' \<mapsto> JNum (of_int (ow_id w)),
        ascii ''building'' \<mapsto> JStr (case ow_tags w (ascii ''building'') of Some v \<Rightarrow> v | None \<Rightarrow> ascii ''yes'')]"

definition way_feature :: "(int \<rightharpoonup> point) \<Rightarrow> osm_way \<Rightarrow> osm_feature option" where
  "way_feature nodes w =
     (if ow_tags w (ascii ''building'') = None then None
      else let coords = List.map_filter nodes (ow_nodes w) in
        if length coords < 3 then None
        else let avg_lon = sum_list (map fst coords) / real (length coords);
                 avg_lat = sum_list (map snd coords) / real (length coords) in
          if \<not> (min_lon02 \<le> avg_lon \<and> avg_lon \<le> max_lon02 \<and> min_lat02 \<le> avg_lat \<and> avg_lat \<le> max_lat02)
          then None
          else let ring = (if coords ! 0 \<noteq> last coords then coords @ [coords ! 0] else coords)
               in Some \<lparr>of_geom_type = ascii ''Polygon'', of_coords = [ring], of_props = way_props w\<rparr>)"

definition extract_buildings :: "(int \<rightharpoonup> point) \<Rightarrow> osm_way list \<Rightarrow> osm_feature list" where
  "extract_buildings nodes ws = List.map_filter (way_feature nodes) ws"

record geojson02 =
  gj_name :: string
  gj_crs :: string
  gj_features :: "osm_feature list"

definition main02 :: "osm_node list \<Rightarrow> osm_way list \<Rightarrow> geojson02" where
  "main02 ns ws =
     \<lparr>gj_name = ''NYCU_Guangfu_Campus_Buildings'', gj_crs = ''urn:ogc:def:crs:EPSG::4326'',
      gj_features = extract_buildings (collect_nodes ns) ws\<rparr>"

text \<open>A fixture: a closed way of three cached nodes near the east edge of the box.\<close>

definition fx2_nodes :: "osm_node list" where
  "fx2_nodes = [\<lparr>on_id = 1, on_lon = 121.004, on_lat = 24.79\<rparr>, \<lparr>on_id = 2, on_lon = 121.006, on_lat = 24.79\<rparr>,
                \<lparr>on_id = 3, on_lon = 121.006, on_lat = 24.791\<rparr>]"

definition fx2_way :: osm_way where
  "fx2_way = \<lparr>ow_id = 7, ow_tags = [ascii ''building'' \<mapsto> ascii ''yes''], ow_nodes = [1, 2, 3, 1]\<rparr>"

subsection \<open>The node cache\<close>

definition in_ext_box02 :: "point \<Rightarrow> bool" where
  "in_ext_box02 p \<longleftrightarrow> min_lon02 - 0.01 \<le> fst p \<and> fst p \<le> max_lon02 + 0.01 \<and>
                       min_lat02 - 0.01 \<le> snd p \<and> snd p \<le> max_lat02 + 0.01"

lemma foldl_collect_node:
  "foldl collect_node m ns i = Some p \<Longrightarrow>
   m i = Some p \<or> (\<exists>n \<in> set ns. on_id n = i \<and> (on_lon n, on_lat n) = p \<and> in_ext_box02 p)"
proof (induction ns arbitrary: m)
  case (Cons n ns)
  then have "collect_node m n i = Some p \<or> (\<exists>n \<in> set ns. on_id n = i \<and> (on_lon n, on_lat n) = p \<and> in_ext_box02 p)"
    by simp
  then show ?case by (auto simp: collect_node_def in_ext_box02_def split: if_splits)
qed simp

text \<open>Every cached location is that of a node of the stream with the same id, inside the
  widened box.\<close>

lemma collect_nodes_Some:
  "collect_nodes ns i = Some p \<Longrightarrow> \<exists>n \<in> set ns. on_id n = i \<and> (on_lon n, on_lat n) = p \<and> in_ext_box02 p"
  using foldl_collect_node [of Map.empty ns i p] by (simp add: collect_nodes_def)

subsection \<open>The footprints\<close>

lemma set_map_filter_ran: "set (List.map_filter m xs) \<subseteq> ran m"
  by (induction xs) (auto simp: List.map_filter_simps ranI split: option.splits)

lemma way_feature_Some:
  assumes "way_feature nodes w = Some f"
  shows "of_geom_type f = ascii ''Polygon'' \<and> of_props f (ascii ''osm_id'') = Some (JNum (of_int (ow_id w))) \<and>
         (\<exists>coords. coords = List.map_filter nodes (ow_nodes w) \<and> 3 \<le> length coords \<and>
            of_coords f = [if coords ! 0 \<noteq> last coords then coords @ [coords ! 0] else coords] \<and>
            min_lon02 \<le> sum_list (map fst coords) / real (length coords) \<and>
            sum_list (map fst coords) / real (length coords) \<le> max_lon02 \<and>
            min_lat02 \<le> sum_list (map snd coords) / real (length coords) \<and>
            sum_list (map snd coords) / real (length coords) \<le> max_lat02)"
proof -
  have osm: "way_props w (ascii ''osm_id'') = Some (JNum (of_int (ow_id w)))"
  proof -
    have "\<forall>k \<in> set useful_tags02. k \<noteq> ascii ''osm_id''" by (simp add: useful_tags02_def ascii_def)
    moreover have "\<And>ks p. \<forall>k \<in> set ks. k \<noteq> ascii ''osm_id'' \<Longrightarrow>
        fold (\<lambda>k p. case ow_tags w k of Some v \<Rightarrow> p(k \<mapsto> JStr v) | None \<Rightarrow> p) ks p (ascii ''osm_id'') = p (ascii ''osm_id'')"
    proof -
      fix ks p show "\<forall>k \<in> set ks. k \<noteq> ascii ''osm_id'' \<Longrightarrow> fold (\<lambda>k p. case ow_tags w k of Some v \<Rightarrow> p(k \<mapsto> JStr v) | None \<Rightarrow> p) ks p (ascii ''osm_id'') = p (ascii ''osm_id'')"
        by (induction ks arbitrary: p) (auto split: option.splits)
    qed
    ultimately show ?thesis by (simp add: way_props_def ascii_def)
  qed
  show ?thesis using assms osm by (auto simp: way_feature_def Let_def split: if_splits)
qed

lemma ring_closed:
  assumes "3 \<le> length coords"
  shows "hd (if coords ! 0 \<noteq> last coords then coords @ [coords ! 0] else coords) =
         last (if coords ! 0 \<noteq> last coords then coords @ [coords ! 0] else coords) \<and>
         3 \<le> length (if coords ! 0 \<noteq> last coords then coords @ [coords ! 0] else coords)"
  using assms by (cases coords) auto

text \<open>Every feature of \<^verbatim>\<open>02\<close> is a closed ring of at least three cached node locations.\<close>

lemma extract_buildings_rings:
  assumes "f \<in> set (extract_buildings nodes ws)"
  shows "of_geom_type f = ascii ''Polygon'' \<and>
         (\<exists>ring. of_coords f = [ring] \<and> 3 \<le> length ring \<and> hd ring = last ring \<and> set ring \<subseteq> ran nodes)"
proof -
  obtain w where "w \<in> set ws" and wf: "way_feature nodes w = Some f"
    using assms by (auto simp: extract_buildings_def List.map_filter_def)
  from way_feature_Some [OF wf] obtain coords where c: "coords = List.map_filter nodes (ow_nodes w)"
    and len: "3 \<le> length coords"
    and r: "of_coords f = [if coords ! 0 \<noteq> last coords then coords @ [coords ! 0] else coords]"
    and ty: "of_geom_type f = ascii ''Polygon''" by blast
  have "set coords \<subseteq> ran nodes" unfolding c by (rule set_map_filter_ran)
  moreover have "coords ! 0 \<in> set coords" by (intro nth_mem) (use len in linarith)
  ultimately have "set (if coords ! 0 \<noteq> last coords then coords @ [coords ! 0] else coords) \<subseteq> ran nodes"
    by auto
  then show ?thesis using ty r ring_closed [OF len] by blast
qed

text \<open>The interface with \<^verbatim>\<open>04\<close>: its polygon table takes every feature of \<^verbatim>\<open>02\<close>,
  never raising \<open>IndexError\<close>, and keeps their rings in order.\<close>

lemma build_osm_polys_main02:
  "\<exists>ps. build_osm_polys (gj_features (main02 ns ws)) = Inr ps \<and>
        map op_ring ps = map (hd \<circ> of_coords) (gj_features (main02 ns ws))"
proof -
  have "\<forall>f \<in> set fs. of_geom_type f = ascii ''Polygon'' \<and> of_coords f \<noteq> [] \<Longrightarrow>
        \<exists>ps. build_osm_polys fs = Inr ps \<and> map op_ring ps = map (hd \<circ> of_coords) fs" for fs
    by (induction fs) (auto split: list.splits)
  moreover have "\<forall>f \<in> set (gj_features (main02 ns ws)). of_geom_type f = ascii ''Polygon'' \<and> of_coords f \<noteq> []"
    using extract_buildings_rings by (fastforce simp: main02_def)
  ultimately show ?thesis by blast
qed

text \<open>The centroid test of \<^verbatim>\<open>02\<close> averages the node list of the way; OSM closes a
  building way by repeating its first node, which the mean then counts twice, whereas
  \<^verbatim>\<open>04\<close>'s \<open>polygon_centroid\<close> drops the closing vertex. The fixture is kept by
  \<^verbatim>\<open>02\<close> (mean longitude 121.005) although its centroid in \<^verbatim>\<open>04\<close> lies east of the box.\<close>

lemma centroid_filter_counts_first_node_twice:
  "\<exists>f. extract_buildings (collect_nodes fx2_nodes) [fx2_way] = [f] \<and>
       max_lon02 < fst (polygon_centroid (hd (of_coords f)))"
proof -
  let ?a = "(121.004, 24.79) :: point" and ?b = "(121.006, 24.79) :: point" and ?c = "(121.006, 24.791) :: point"
  have n: "collect_nodes fx2_nodes 1 = Some ?a" "collect_nodes fx2_nodes 2 = Some ?b"
    "collect_nodes fx2_nodes 3 = Some ?c"
    by (simp_all add: collect_nodes_def collect_node_def fx2_nodes_def min_lon02_def max_lon02_def
        min_lat02_def max_lat02_def)
  have c: "List.map_filter (collect_nodes fx2_nodes) (ow_nodes fx2_way) = [?a, ?b, ?c, ?a]"
    by (simp add: n fx2_way_def List.map_filter_simps)
  have f: "way_feature (collect_nodes fx2_nodes) fx2_way =
           Some \<lparr>of_geom_type = ascii ''Polygon'', of_coords = [[?a, ?b, ?c, ?a]], of_props = way_props fx2_way\<rparr>"
    unfolding way_feature_def Let_def c
    by (simp add: fx2_way_def min_lon02_def max_lon02_def min_lat02_def max_lat02_def)
  have "max_lon02 < fst (polygon_centroid [?a, ?b, ?c, ?a])"
    by (simp add: polygon_centroid_def max_lon02_def)
  then show ?thesis using f by (simp add: extract_buildings_def List.map_filter_def)
qed

end
