(* ===== verification/RoomBoundary.thy ===== *)
theory RoomBoundary
  imports Export Geodesy "HOL-Library.AList" "HOL-Library.List_Lexorder"
begin

text \<open>
  The room boundary extraction of \<^verbatim>\<open>src/scripts/extract_room_boundaries.py\<close>: the
  inverse TM2 projection \<open>tm2_to_wgs84\<close> (lines 68--146), the conversion of GeoJSON
  geometries, their WKT text and centroid (lines 149--242), one room entry per WFS feature
  with its name taken from the room catalog (lines 254--328), and \<open>main\<close> (lines
  366--607): the index of the WFS files, the building order, the per-floor and
  per-building statistics, the floor files, the sample of \<open>getBound\<close> queries and the
  combined GeoJSON.

  A geometry is a typed GeoJSON geometry: positions are pairs (a longer position has
  its extra numbers ignored, as the code only reads \<open>p[0]\<close> and \<open>p[1]\<close>), and a
  geometry of another type is kept by its type name. The text of a float in a WKT string
  is Python's \<open>repr\<close>, the parameter \<open>fstr\<close>. The JSON room catalog is an association
  list in its file order, the WFS file of a floor is read by the parameter \<open>load\<close>, and
  the answers of the public API come from an oracle indexed by the query number. The
  time stamps of the summary are not modelled.
\<close>

subsection \<open>EPSG:3826 to EPSG:4326\<close>

definition grs80_a :: real where "grs80_a = 6378137"
definition grs80_f :: real where "grs80_f = 1 / 298.257222101"
definition grs80_e2 :: real where "grs80_e2 = 2 * grs80_f - grs80_f ^ 2"
definition grs80_e_prime2 :: real where "grs80_e_prime2 = grs80_e2 / (1 - grs80_e2)"
definition tm2_central_meridian :: real where "tm2_central_meridian = 121"
definition tm2_scale_factor :: real where "tm2_scale_factor = 0.9999"
definition tm2_false_easting :: real where "tm2_false_easting = 250000"
definition tm2_false_northing :: real where "tm2_false_northing = 0"

text \<open>The meridional arc divisor of line 102 and the footpoint latitude of lines 101--112.\<close>

definition tm2_mu_den :: real where
  "tm2_mu_den = grs80_a * (1 - grs80_e2 / 4 - 3 * grs80_e2 ^ 2 / 64 - 5 * grs80_e2 ^ 3 / 256)"

definition tm2_footpoint :: "real \<Rightarrow> real" where
  "tm2_footpoint y =
     (let e2 = grs80_e2; mu = y / tm2_mu_den;
          e1 = (1 - sqrt (1 - e2)) / (1 + sqrt (1 - e2))
      in mu + (3 * e1 / 2 - 27 * e1 ^ 3 / 32) * sin (2 * mu)
            + (21 * e1 ^ 2 / 16 - 55 * e1 ^ 4 / 32) * sin (4 * mu)
            + (151 * e1 ^ 3 / 96) * sin (6 * mu)
            + (1097 * e1 ^ 4 / 512) * sin (8 * mu))"

text \<open>The division by \<open>cos_phi1\<close> raises \<open>ZeroDivisionError\<close> when it is zero; the other
  divisors are positive.\<close>

definition tm2_to_wgs84 :: "real \<Rightarrow> real \<Rightarrow> py_error + real \<times> real" where
  "tm2_to_wgs84 easting northing =
     (let x = (easting - tm2_false_easting) / tm2_scale_factor;
          y = (northing - tm2_false_northing) / tm2_scale_factor;
          a = grs80_a; e2 = grs80_e2; e_prime2 = grs80_e_prime2;
          phi1 = tm2_footpoint y;
          sin_phi1 = sin phi1; cos_phi1 = cos phi1; tan_phi1 = tan phi1;
          n1 = a / sqrt (1 - e2 * sin_phi1 ^ 2);
          t1 = tan_phi1 ^ 2;
          c1 = e_prime2 * cos_phi1 ^ 2;
          r1 = a * (1 - e2) / (1 - e2 * sin_phi1 ^ 2) powr 1.5;
          d = x / n1;
          lat = phi1 - (n1 * tan_phi1 / r1) *
                  (d ^ 2 / 2 - (5 + 3 * t1 + 10 * c1 - 4 * c1 ^ 2 - 9 * e_prime2) * d ^ 4 / 24
                   + (61 + 90 * t1 + 298 * c1 + 45 * t1 ^ 2 - 252 * e_prime2 - 3 * c1 ^ 2) * d ^ 6 / 720)
      in if cos_phi1 = 0 then Inl ZeroDivisionError
         else let lon = (d - (1 + 2 * t1 + c1) * d ^ 3 / 6
                         + (5 - 2 * c1 + 28 * t1 - 3 * c1 ^ 2 + 8 * e_prime2 + 24 * t1 ^ 2) * d ^ 5 / 120) / cos_phi1
              in Inr (py_round (tm2_central_meridian + degrees lon) 10, py_round (degrees lat) 10))"

subsection \<open>Geometries\<close>

datatype geometry = GPoint point | GPolygon "point list list" | GMultiPolygon "point list list list"
  | GOther ustr

definition convert_point :: "point \<Rightarrow> py_error + point" where
  "convert_point p = tm2_to_wgs84 (fst p) (snd p)"

definition convert_coordinates :: "geometry \<Rightarrow> py_error + geometry" where
  "convert_coordinates g =
     (case g of
        GPoint p \<Rightarrow> ebind (convert_point p) (\<lambda>q. Inr (GPoint q))
      | GMultiPolygon polys \<Rightarrow> ebind (emap (emap (emap convert_point)) polys) (\<lambda>ps. Inr (GMultiPolygon ps))
      | GPolygon rings \<Rightarrow> ebind (emap (emap convert_point) rings) (\<lambda>rs. Inr (GPolygon rs))
      | GOther t \<Rightarrow> Inr g)"

definition wkt_ring :: "(real \<Rightarrow> ustr) \<Rightarrow> point list \<Rightarrow> ustr" where
  "wkt_ring fstr ring = ascii ''('' @ py_join (ascii '', '') (map (\<lambda>p. fstr (fst p) @ ascii '' '' @ fstr (snd p)) ring) @ ascii '')''"

definition geometry_to_wkt :: "(real \<Rightarrow> ustr) \<Rightarrow> geometry \<Rightarrow> ustr" where
  "geometry_to_wkt fstr g =
     (case g of
        GPoint c \<Rightarrow> ascii ''POINT('' @ fstr (fst c) @ ascii '' '' @ fstr (snd c) @ ascii '')''
      | GPolygon rings \<Rightarrow> ascii ''POLYGON('' @ py_join (ascii '', '') (map (wkt_ring fstr) rings) @ ascii '')''
      | GMultiPolygon polys \<Rightarrow>
          ascii ''MULTIPOLYGON('' @
            py_join (ascii '', '') (map (\<lambda>poly. ascii ''('' @ py_join (ascii '', '') (map (wkt_ring fstr) poly) @ ascii '')'') polys)
          @ ascii '')''
      | GOther _ \<Rightarrow> [])"

text \<open>The mean of all positions of all rings (closing positions included); a point is
  returned as it is.\<close>

definition compute_centroid :: "geometry \<Rightarrow> point option" where
  "compute_centroid g =
     (case g of
        GPoint c \<Rightarrow> Some c
      | _ \<Rightarrow>
          (let coords = (case g of GMultiPolygon polys \<Rightarrow> concat (concat polys) | GPolygon rings \<Rightarrow> concat rings
                                  | _ \<Rightarrow> [])
           in if coords = [] then None
              else Some (py_round (sum_list (map fst coords) / real (length coords)) 8,
                         py_round (sum_list (map snd coords) / real (length coords)) 8)))"

subsection \<open>Room entries\<close>

type_synonym pdict = "ustr \<rightharpoonup> pyjson"

text \<open>The catalog \<open>all_rooms_by_building.json\<close>: building, floor, rooms, in file order.\<close>

type_synonym room_catalog = "(ustr \<times> (ustr \<times> pdict list) list) list"

record wfs_feature =
  wf_props :: pdict
  wf_geometry :: "geometry option"

record room_entry =
  re_class_num :: pyjson
  re_room_id :: pyjson
  re_name :: pyjson
  re_name_en :: pyjson
  re_floor :: pyjson
  re_building :: pyjson
  re_area :: pyjson
  re_boundary :: "geometry option"
  re_wkt :: ustr
  re_centroid :: "point option"
  re_properties :: "(ustr \<times> pyjson) list"

text \<open>Lines 285--293: the first catalog room of the building and floor whose \<open>id\<close> equals
  the feature's room id gives the name, and the class number when the feature has none.\<close>

definition catalog_lookup :: "room_catalog \<Rightarrow> ustr \<Rightarrow> ustr \<Rightarrow> pyjson \<Rightarrow> pdict option" where
  "catalog_lookup catalog building_id flr room_id =
     (if catalog = [] then None
      else case map_of catalog building_id of
             None \<Rightarrow> None
           | Some floors \<Rightarrow> (case map_of floors flr of
                               None \<Rightarrow> None
                             | Some rs \<Rightarrow> find (\<lambda>r. pget r (ascii ''id'') PNull = room_id) rs))"

definition room_property_keys :: "(ustr \<times> ustr) list" where
  "room_property_keys = map (\<lambda>(k, p). (ascii k, ascii p))
     [(''type'', ''Type''), (''purpose'', ''Purpose''), (''capacity'', ''Capacity''),
      (''propertyUnit'', ''PropertyUnit''), (''usingUnit'', ''UsingUnit''), (''category1'', ''Category1''),
      (''category2'', ''Category2''), (''keyword'', ''keyword'')]"

definition room_entry_of :: "(real \<Rightarrow> ustr) \<Rightarrow> room_catalog \<Rightarrow> ustr \<Rightarrow> ustr \<Rightarrow> wfs_feature
    \<Rightarrow> py_error + room_entry" where
  "room_entry_of fstr catalog building_id flr feature =
     (let props = wf_props feature;
          room_id = pget props (ascii ''ID'') (pget props (ascii ''RoomID'') (PStr []));
          class_num = pget props (ascii ''ClassNum'') (PStr []);
          room_name_raw = pget props (ascii ''RoomName'') (PStr []);
          floor_val = pget props (ascii ''Floor'') (PStr flr);
          build_id = (if py_truthy (pget props (ascii ''BuildID'') PNull) then pget props (ascii ''BuildID'') PNull
                      else PStr building_id);
          (proper_name, class_num') =
            (case catalog_lookup catalog building_id flr room_id of
               None \<Rightarrow> (room_name_raw, class_num)
             | Some r \<Rightarrow> (pget r (ascii ''name'') room_name_raw,
                          if py_truthy class_num then class_num else pget r (ascii ''classnum'') (PStr [])))
      in ebind (case wf_geometry feature of None \<Rightarrow> Inr None
                | Some g \<Rightarrow> ebind (convert_coordinates g) (\<lambda>g'. Inr (Some g'))) (\<lambda>boundary.
           Inr \<lparr>re_class_num = class_num', re_room_id = room_id, re_name = proper_name,
                re_name_en = pget props (ascii ''RoomNameEn'') (PStr []),
                re_floor = (if py_truthy floor_val then floor_val else PStr flr),
                re_building = build_id, re_area = pget props (ascii ''AREA'') PNull,
                re_boundary = boundary,
                re_wkt = (case boundary of None \<Rightarrow> [] | Some g \<Rightarrow> geometry_to_wkt fstr g),
                re_centroid = (case boundary of None \<Rightarrow> None | Some g \<Rightarrow> compute_centroid g),
                re_properties = map (\<lambda>(k, p). (k, pget props p (PStr []))) room_property_keys\<rparr>))"

definition process_wfs_geojson :: "(real \<Rightarrow> ustr) \<Rightarrow> wfs_feature list \<Rightarrow> ustr \<Rightarrow> ustr \<Rightarrow> room_catalog
    \<Rightarrow> py_error + room_entry list" where
  "process_wfs_geojson fstr features building_id flr catalog =
     emap (room_entry_of fstr catalog building_id flr) features"

text \<open>Lines 454--469: a catalog room of a floor without a WFS file.\<close>

definition catalog_entry :: "ustr \<Rightarrow> ustr \<Rightarrow> pdict \<Rightarrow> room_entry" where
  "catalog_entry bid flr room =
     \<lparr>re_class_num = pget room (ascii ''classnum'') (PStr []), re_room_id = pget room (ascii ''id'') (PStr []),
      re_name = pget room (ascii ''name'') (PStr []), re_name_en = PStr [], re_floor = PStr flr,
      re_building = PStr bid, re_area = PNull, re_boundary = None, re_wkt = [], re_centroid = None,
      re_properties = []\<rparr>"

subsection \<open>\<open>main\<close>\<close>

text \<open>Lines 385--394: \<open>{bid}_{floor}.json\<close> files of the WFS directory, in sorted order,
  split at the first underscore of the stem.\<close>

definition path_suffix :: "ustr \<Rightarrow> ustr" where
  "path_suffix name =
     (case first_index (\<lambda>c. c = 46) (rev name) of
        None \<Rightarrow> []
      | Some j \<Rightarrow> (let i = length name - 1 - j in if 0 < i \<and> i < length name - 1 then drop i name else []))"

definition split_once :: "ustr \<Rightarrow> (ustr \<times> ustr) option" where
  "split_once s = (case first_index (\<lambda>c. c = 95) s of None \<Rightarrow> None | Some i \<Rightarrow> Some (take i s, drop (Suc i) s))"

definition wfs_index_step :: "(ustr \<Rightarrow> (ustr \<rightharpoonup> ustr) option) \<Rightarrow> ustr \<Rightarrow> (ustr \<Rightarrow> (ustr \<rightharpoonup> ustr) option)" where
  "wfs_index_step idx f =
     (if path_suffix f \<noteq> ascii ''.json'' then idx
      else case split_once (take (length f - length (path_suffix f)) f) of
             None \<Rightarrow> idx
           | Some (bid, flr) \<Rightarrow>
               idx(bid \<mapsto> (case idx bid of None \<Rightarrow> Map.empty | Some m \<Rightarrow> m)(flr \<mapsto> f)))"

definition wfs_index :: "ustr list \<Rightarrow> (ustr \<Rightarrow> (ustr \<rightharpoonup> ustr) option)" where
  "wfs_index files = foldl wfs_index_step Map.empty (sort files)"

definition priority_buildings :: "ustr list" where
  "priority_buildings = map ascii [''Y001'', ''P003'', ''P004'', ''P005'', ''P006'', ''G005'', ''Y009'', ''Y010'']"

text \<open>Lines 399--406: the priority buildings present, then the others in sorted order.\<close>

definition ordered_buildings :: "ustr list \<Rightarrow> ustr list" where
  "ordered_buildings all_b =
     foldl (\<lambda>acc b. if b \<in> set acc then acc else acc @ [b])
       (foldl (\<lambda>acc pb. if pb \<in> set all_b then acc @ [pb] else acc) [] priority_buildings) (sort all_b)"

definition boundary_points :: "geometry option \<Rightarrow> nat" where
  "boundary_points b =
     (case b of Some (GMultiPolygon polys) \<Rightarrow> sum_list (map (\<lambda>poly. sum_list (map length poly)) polys)
              | Some (GPolygon rings) \<Rightarrow> sum_list (map length rings)
              | _ \<Rightarrow> 0)"

record floor_stats =
  fs_total :: nat
  fs_with :: nat
  fs_without :: nat
  fs_points :: nat
  fs_wfs :: bool

definition floor_stats_of :: "room_entry list \<Rightarrow> bool \<Rightarrow> floor_stats" where
  "floor_stats_of rooms wfs =
     (let w = length (filter (\<lambda>r. re_boundary r \<noteq> None) rooms)
      in \<lparr>fs_total = length rooms, fs_with = w, fs_without = length rooms - w,
          fs_points = sum_list (map (\<lambda>r. boundary_points (re_boundary r)) rooms), fs_wfs = wfs\<rparr>)"

record building_stats =
  bs_floors :: nat
  bs_total :: nat
  bs_with :: nat
  bs_without :: nat
  bs_details :: "(ustr \<times> floor_stats) list"

record rb_state =
  rb_processed :: nat
  rb_with :: nat
  rb_without :: nat
  rb_points :: nat
  rb_files :: "ustr \<times> ustr \<Rightarrow> room_entry list option"
  rb_buildings :: "(ustr \<times> building_stats) list"

definition floor_rooms_of :: "(real \<Rightarrow> ustr) \<Rightarrow> (ustr \<Rightarrow> wfs_feature list) \<Rightarrow> (ustr \<Rightarrow> (ustr \<rightharpoonup> ustr) option)
    \<Rightarrow> room_catalog \<Rightarrow> ustr \<Rightarrow> ustr \<Rightarrow> pdict list \<Rightarrow> py_error + room_entry list \<times> bool" where
  "floor_rooms_of fstr load idx catalog bid flr rooms_on_floor =
     (case Option.bind (idx bid) (\<lambda>m. m flr) of
        Some f \<Rightarrow> ebind (process_wfs_geojson fstr (load f) bid flr catalog) (\<lambda>rs. Inr (rs, True))
      | None \<Rightarrow> Inr (map (catalog_entry bid flr) rooms_on_floor, False))"

text \<open>The body of \<open>for floor in floor_list\<close> (lines 441--506): the counters of the building
  and of the run, the floor file written.\<close>

definition floor_step :: "(real \<Rightarrow> ustr) \<Rightarrow> (ustr \<Rightarrow> wfs_feature list) \<Rightarrow> (ustr \<Rightarrow> (ustr \<rightharpoonup> ustr) option)
    \<Rightarrow> room_catalog \<Rightarrow> ustr \<Rightarrow> rb_state \<times> building_stats \<Rightarrow> ustr \<times> pdict list
    \<Rightarrow> py_error + rb_state \<times> building_stats" where
  "floor_step fstr load idx catalog bid sb fl =
     (case (sb, fl) of ((st, b), (flr, rooms_on_floor)) \<Rightarrow>
       ebind (floor_rooms_of fstr load idx catalog bid flr rooms_on_floor) (\<lambda>(rooms, wfs).
         let fs = floor_stats_of rooms wfs
         in Inr (st\<lparr>rb_processed := rb_processed st + fs_total fs, rb_with := rb_with st + fs_with fs,
                    rb_without := rb_without st + fs_without fs, rb_points := rb_points st + fs_points fs,
                    rb_files := (rb_files st)((bid, flr) \<mapsto> rooms)\<rparr>,
                 b\<lparr>bs_total := bs_total b + fs_total fs, bs_with := bs_with b + fs_with fs,
                   bs_without := bs_without b + fs_without fs,
                   bs_details := AList.update flr fs (bs_details b)\<rparr>)))"

definition building_step :: "(real \<Rightarrow> ustr) \<Rightarrow> (ustr \<Rightarrow> wfs_feature list) \<Rightarrow> (ustr \<Rightarrow> (ustr \<rightharpoonup> ustr) option)
    \<Rightarrow> room_catalog \<Rightarrow> rb_state \<Rightarrow> ustr \<Rightarrow> py_error + rb_state" where
  "building_step fstr load idx catalog st bid =
     (case map_of catalog bid of
        None \<Rightarrow> Inl KeyError
      | Some floors \<Rightarrow>
          ebind (efold (floor_step fstr load idx catalog bid) floors
                   (st, \<lparr>bs_floors = length floors, bs_total = 0, bs_with = 0, bs_without = 0, bs_details = []\<rparr>))
            (\<lambda>(st', b). Inr (st'\<lparr>rb_buildings := AList.update bid b (rb_buildings st')\<rparr>)))"

text \<open>Lines 535--542: up to three rooms of the first two floors of the first three priority
  buildings, with a class number other than \<open>000\<close>.\<close>

definition sample_rooms :: "room_catalog \<Rightarrow> (ustr \<times> ustr \<times> pyjson \<times> pyjson) list" where
  "sample_rooms catalog =
     concat (map (\<lambda>bid. case map_of catalog bid of
                          None \<Rightarrow> []
                        | Some floors \<Rightarrow>
                            concat (map (\<lambda>(flr, rooms).
                              concat (map (\<lambda>room. let cn = pget room (ascii ''classnum'') (PStr []) in
                                             if py_truthy cn \<and> cn \<noteq> PStr (ascii ''000'')
                                             then [(bid, flr, cn, pget room (ascii ''name'') (PStr []))] else [])
                                          (take 3 rooms)))
                              (take 2 floors)))
                 (take 3 priority_buildings))"

text \<open>Lines 544--552: \<open>None\<close> stands for an exception, a status other than 200 or a
  missing \<open>data\<close>.\<close>

definition api_sample :: "(nat \<Rightarrow> ustr \<times> ustr \<times> pyjson \<Rightarrow> pyjson option) \<Rightarrow> room_catalog \<Rightarrow> nat \<times> nat \<times> nat" where
  "api_sample api catalog =
     (let qs = take 15 (sample_rooms catalog);
          rs = map (\<lambda>(i, (bid, flr, cn, name)). api i (bid, flr, cn)) (zip [0..<length qs] qs)
      in (length qs, length (filter (\<lambda>r. r \<noteq> None) rs), length (filter (\<lambda>r. r = None) rs)))"

text \<open>Lines 571--594: the rooms with a boundary, read back from the floor files.\<close>

definition combined_features :: "room_catalog \<Rightarrow> (ustr \<times> ustr \<Rightarrow> room_entry list option) \<Rightarrow> ustr list
    \<Rightarrow> (geometry \<times> room_entry) list" where
  "combined_features catalog files order =
     concat (map (\<lambda>bid. case map_of catalog bid of
                          None \<Rightarrow> []
                        | Some floors \<Rightarrow>
                            concat (map (\<lambda>(flr, _). case files (bid, flr) of
                                            None \<Rightarrow> []
                                          | Some rooms \<Rightarrow> List.map_filter (\<lambda>r. map_option (\<lambda>g. (g, r)) (re_boundary r)) rooms)
                                        floors))
                 order)"

record rb_output =
  ro_total_buildings :: nat
  ro_rooms_in_catalog :: nat
  ro_state :: rb_state
  ro_api :: "nat \<times> nat \<times> nat"
  ro_combined :: "(geometry \<times> room_entry) list"

definition main_rooms :: "(real \<Rightarrow> ustr) \<Rightarrow> (ustr \<Rightarrow> wfs_feature list) \<Rightarrow> ustr list \<Rightarrow> room_catalog
    \<Rightarrow> (nat \<Rightarrow> ustr \<times> ustr \<times> pyjson \<Rightarrow> pyjson option) \<Rightarrow> py_error + rb_output" where
  "main_rooms fstr load files catalog api =
     (let idx = wfs_index files; order = ordered_buildings (map fst catalog);
          st0 = \<lparr>rb_processed = 0, rb_with = 0, rb_without = 0, rb_points = 0, rb_files = Map.empty,
                 rb_buildings = []\<rparr>
      in ebind (efold (building_step fstr load idx catalog) order st0) (\<lambda>st.
           Inr \<lparr>ro_total_buildings = length catalog,
                ro_rooms_in_catalog = sum_list (map (\<lambda>(b, floors). sum_list (map (\<lambda>(f, rs). length rs) floors)) catalog),
                ro_state = st, ro_api = api_sample api catalog,
                ro_combined = combined_features catalog (rb_files st) order\<rparr>))"

subsection \<open>The projection\<close>

lemma py_round_of_int: "py_round (of_int k) n = of_int k"
  by (simp add: py_round_def round_half_even_def)

text \<open>On the central meridian the longitude is exactly 121 and the latitude the footpoint
  latitude, rounded to 10 decimals.\<close>

lemma tm2_to_wgs84_central_meridian:
  "tm2_to_wgs84 tm2_false_easting n =
     (if cos (tm2_footpoint (n / tm2_scale_factor)) = 0 then Inl ZeroDivisionError
      else Inr (121, py_round (degrees (tm2_footpoint (n / tm2_scale_factor))) 10))"
proof -
  have "py_round (121 :: real) 10 = 121" using py_round_of_int [of 121 10] by simp
  then show ?thesis
    by (simp add: tm2_to_wgs84_def Let_def tm2_false_northing_def tm2_central_meridian_def degrees_def)
qed

text \<open>The divisor of the meridional arc in \<^verbatim>\<open>03\<close>'s \<open>twd97_to_wgs84\<close> is
  \<open>a (1 - f/4 (2 + f) - 3/64 f^2 (1 + f))\<close>; the series it abbreviates, which
  \<open>tm2_to_wgs84\<close> writes out, is \<open>a (1 - e2/4 - 3 e2^2/64 - 5 e2^3/256)\<close> with
  \<open>e2 = 2f - f^2\<close>, whose first term is \<open>f/4 (2 - f)\<close>. The divisor of \<^verbatim>\<open>03\<close> is the smaller
  one, so for every northing north of the equator its \<open>mu\<close>, and with it the latitude of
  every NLSC building, is larger.\<close>

lemma mu_series_poly:
  fixes f :: real
  assumes "0 < f" "f \<le> 1 / 100"
  shows "1 - f / 4 * (2 + f) - 3 / 64 * f * f * (1 + f) <
         1 - (2 * f - f ^ 2) / 4 - 3 * (2 * f - f ^ 2) ^ 2 / 64 - 5 * (2 * f - f ^ 2) ^ 3 / 256"
proof -
  have eq: "(1 - (2 * f - f ^ 2) / 4 - 3 * (2 * f - f ^ 2) ^ 2 / 64 - 5 * (2 * f - f ^ 2) ^ 3 / 256)
            - (1 - f / 4 * (2 + f) - 3 / 64 * f * f * (1 + f))
            = f ^ 2 * (23 / 64 + 15 * f / 64 - 3 * f ^ 2 / 64 - 5 * f * (2 - f) ^ 3 / 256)"
    by algebra
  have "(2 - f) ^ 3 \<le> 2 ^ 3" using assms by (intro power_mono) auto
  then have "f * (2 - f) ^ 3 \<le> (1 / 100) * 8" using assms by (intro mult_mono) auto
  then have h1: "f * (2 - f) ^ 3 \<le> 2 / 25" by simp
  have "f ^ 2 \<le> (1 / 100) ^ 2" using assms by (intro power_mono) auto
  then have h2: "f ^ 2 \<le> 1 / 10000" by (simp add: power2_eq_square)
  define X where "X = f * (2 - f) ^ 3"
  define Y where "Y = f ^ 2"
  have "0 < 23 / 64 + 15 * f / 64 - 3 * Y / 64 - 5 * X / 256"
    using h1 h2 assms unfolding X_def [symmetric] Y_def [symmetric] by linarith
  then have "0 < 23 / 64 + 15 * f / 64 - 3 * f ^ 2 / 64 - 5 * (f * (2 - f) ^ 3) / 256"
    unfolding X_def Y_def .
  then have "0 < 23 / 64 + 15 * f / 64 - 3 * f ^ 2 / 64 - 5 * f * (2 - f) ^ 3 / 256"
    by (simp add: mult.assoc)
  moreover have "0 < f ^ 2" using assms by simp
  ultimately have "0 < f ^ 2 * (23 / 64 + 15 * f / 64 - 3 * f ^ 2 / 64 - 5 * f * (2 - f) ^ 3 / 256)"
    by (simp only: zero_less_mult_iff) simp
  then show ?thesis using eq by simp
qed
lemma twd97_mu_den_smaller:
  "twd_a * (1 - twd_f / 4 * (2 + twd_f) - 3 / 64 * twd_f * twd_f * (1 + twd_f)) < tm2_mu_den"
proof -
  have f: "grs80_f = twd_f" by (simp add: grs80_f_def twd_f_def)
  have a: "grs80_a = twd_a" by (simp add: grs80_a_def twd_a_def)
  have "0 < twd_f" "twd_f \<le> 1 / 100" by (simp_all add: twd_f_def)
  from mu_series_poly [OF this] have "twd_a * (1 - twd_f / 4 * (2 + twd_f) - 3 / 64 * twd_f * twd_f * (1 + twd_f)) <
      twd_a * (1 - (2 * twd_f - twd_f ^ 2) / 4 - 3 * (2 * twd_f - twd_f ^ 2) ^ 2 / 64 - 5 * (2 * twd_f - twd_f ^ 2) ^ 3 / 256)"
    by (rule mult_strict_left_mono) (simp add: twd_a_def)
  then show ?thesis unfolding tm2_mu_den_def grs80_e2_def f a .
qed

lemma twd97_mu_larger:
  assumes "0 < y"
  shows "y / tm2_mu_den < y / (twd_a * (1 - twd_f / 4 * (2 + twd_f) - 3 / 64 * twd_f * twd_f * (1 + twd_f)))"
proof -
  have "0 < twd_a * (1 - twd_f / 4 * (2 + twd_f) - 3 / 64 * twd_f * twd_f * (1 + twd_f))"
    by (simp add: twd_a_def twd_f_def)
  then show ?thesis using twd97_mu_den_smaller assms by (simp add: frac_less2)
qed

subsection \<open>Geometries\<close>

lemma convert_point_lengths:
  "emap (emap convert_point) rings = Inr rs \<Longrightarrow> map length rs = map length rings"
proof -
  assume "emap (emap convert_point) rings = Inr rs"
  then have "list_all2 (\<lambda>r r'. length r' = length r) rings rs"
    by (rule emap_Inr_list_all2) (simp add: emap_Inr)
  then show ?thesis by (induction rule: list_all2_induct) simp_all
qed

text \<open>The conversion keeps every ring and every position: the number of coordinate
  points that \<open>main\<close> counts is the same before and after it.\<close>

lemma convert_coordinates_points:
  assumes "convert_coordinates g = Inr g'"
  shows "boundary_points (Some g') = boundary_points (Some g)"
proof (cases g)
  case (GPoint p)
  then obtain q where "g' = GPoint q"
    using assms by (cases "convert_point p") (auto simp: convert_coordinates_def)
  then show ?thesis using GPoint by (simp add: boundary_points_def)
next
  case (GPolygon rings)
  then obtain rs where e: "emap (emap convert_point) rings = Inr rs" and g': "g' = GPolygon rs"
    using assms by (cases "emap (emap convert_point) rings") (simp_all add: convert_coordinates_def)
  have "map length rs = map length rings" by (rule convert_point_lengths [OF e])
  then show ?thesis using GPolygon g' by (simp add: boundary_points_def)
next
  case (GMultiPolygon polys)
  then obtain ps where e: "emap (emap (emap convert_point)) polys = Inr ps" and g': "g' = GMultiPolygon ps"
    using assms by (cases "emap (emap (emap convert_point)) polys") (simp_all add: convert_coordinates_def)
  have "list_all2 (\<lambda>p p'. map length p' = map length p) polys ps"
    using e by (rule emap_Inr_list_all2) (rule convert_point_lengths)
  then have "map (\<lambda>poly. sum_list (map length poly)) ps = map (\<lambda>poly. sum_list (map length poly)) polys"
    by (induction rule: list_all2_induct) simp_all
  then show ?thesis using GMultiPolygon g' by (simp add: boundary_points_def)
next
  case (GOther t)
  then show ?thesis using assms by (simp add: convert_coordinates_def)
qed

subsection \<open>Building order\<close>

lemma foldl_append_new:
  "distinct acc \<Longrightarrow>
   distinct (foldl (\<lambda>acc b. if b \<in> set acc then acc else acc @ [b]) acc xs) \<and>
   set (foldl (\<lambda>acc b. if b \<in> set acc then acc else acc @ [b]) acc xs) = set acc \<union> set xs \<and>
   take (length acc) (foldl (\<lambda>acc b. if b \<in> set acc then acc else acc @ [b]) acc xs) = acc"
proof (induction xs arbitrary: acc)
  case (Cons x xs)
  show ?case
  proof (cases "x \<in> set acc")
    case True
    then show ?thesis using Cons.IH [OF Cons.prems] by auto
  next
    case False
    then have d: "distinct (acc @ [x])" using Cons.prems by simp
    let ?r = "foldl (\<lambda>acc b. if b \<in> set acc then acc else acc @ [b]) (acc @ [x]) xs"
    from Cons.IH [OF d] have ih: "distinct ?r" "set ?r = set (acc @ [x]) \<union> set xs"
      "take (length (acc @ [x])) ?r = acc @ [x]" by blast+
    have "take (length acc) ?r = take (length acc) (take (length (acc @ [x])) ?r)" by simp
    also have "\<dots> = take (length acc) (acc @ [x])" using ih(3) by (rule arg_cong)
    finally have "take (length acc) ?r = acc" by simp
    then show ?thesis using ih(1,2) False by auto
  qed
qed simp

lemma foldl_priority:
  "foldl (\<lambda>acc pb. if pb \<in> set all_b then acc @ [pb] else acc) acc ps = acc @ filter (\<lambda>pb. pb \<in> set all_b) ps"
  by (induction ps arbitrary: acc) simp_all

lemma distinct_priority_buildings: "distinct priority_buildings"
  by (simp add: priority_buildings_def ascii_def)

text \<open>The processing order lists every building of the catalog once, the priority
  buildings present first, in their order.\<close>

lemma ordered_buildings_perm:
  "set (ordered_buildings all_b) = set all_b \<and> distinct (ordered_buildings all_b) \<and>
   take (length (filter (\<lambda>pb. pb \<in> set all_b) priority_buildings)) (ordered_buildings all_b) =
     filter (\<lambda>pb. pb \<in> set all_b) priority_buildings"
proof -
  let ?pre = "filter (\<lambda>pb. pb \<in> set all_b) priority_buildings"
  have d: "distinct ?pre" using distinct_priority_buildings by simp
  have "ordered_buildings all_b = foldl (\<lambda>acc b. if b \<in> set acc then acc else acc @ [b]) ?pre (sort all_b)"
    by (simp add: ordered_buildings_def foldl_priority)
  moreover have "set ?pre \<union> set (sort all_b) = set all_b" by auto
  ultimately show ?thesis using foldl_append_new [OF d, of "sort all_b"] by simp
qed

subsection \<open>Counters\<close>

lemma set_alist_update: "set (AList.update k v al) \<subseteq> insert (k, v) (set al)"
  by (induction al) auto

lemma floor_stats_sum: "fs_with (floor_stats_of rooms w) + fs_without (floor_stats_of rooms w) = fs_total (floor_stats_of rooms w)"
  by (simp add: floor_stats_of_def Let_def)

definition counts_ok :: "rb_state \<Rightarrow> bool" where
  "counts_ok st \<longleftrightarrow> rb_with st + rb_without st = rb_processed st \<and>
     (\<forall>(b, bs) \<in> set (rb_buildings st). bs_with bs + bs_without bs = bs_total bs)"

lemma floor_step_counts:
  assumes "floor_step fstr load idx catalog bid (st, b) fl = Inr (st', b')"
    and "counts_ok st" and "bs_with b + bs_without b = bs_total b"
  shows "counts_ok st' \<and> bs_with b' + bs_without b' = bs_total b' \<and> rb_buildings st' = rb_buildings st"
proof -
  obtain flr rs where fl: "fl = (flr, rs)" by (cases fl)
  obtain rooms wfs where r: "floor_rooms_of fstr load idx catalog bid flr rs = Inr (rooms, wfs)"
    using assms(1) fl by (cases "floor_rooms_of fstr load idx catalog bid flr rs") (auto simp: floor_step_def)
  let ?fs = "floor_stats_of rooms wfs"
  have e: "st' = st\<lparr>rb_processed := rb_processed st + fs_total ?fs, rb_with := rb_with st + fs_with ?fs,
                    rb_without := rb_without st + fs_without ?fs, rb_points := rb_points st + fs_points ?fs,
                    rb_files := (rb_files st)((bid, flr) \<mapsto> rooms)\<rparr>"
       "b' = b\<lparr>bs_total := bs_total b + fs_total ?fs, bs_with := bs_with b + fs_with ?fs,
                bs_without := bs_without b + fs_without ?fs, bs_details := AList.update flr ?fs (bs_details b)\<rparr>"
    using assms(1) fl r by (simp_all add: floor_step_def Let_def)
  have s: "fs_with ?fs + fs_without ?fs = fs_total ?fs" by (rule floor_stats_sum)
  show ?thesis using assms(2,3) s unfolding e counts_ok_def by simp
qed

lemma floor_fold_counts:
  "efold (floor_step fstr load idx catalog bid) floors (st, b) = Inr (st', b') \<Longrightarrow>
   counts_ok st \<Longrightarrow> bs_with b + bs_without b = bs_total b \<Longrightarrow>
   counts_ok st' \<and> bs_with b' + bs_without b' = bs_total b' \<and> rb_buildings st' = rb_buildings st"
proof (induction floors arbitrary: st b)
  case (Cons fl floors)
  obtain st1 b1 where s1: "floor_step fstr load idx catalog bid (st, b) fl = Inr (st1, b1)"
    and rest: "efold (floor_step fstr load idx catalog bid) floors (st1, b1) = Inr (st', b')"
    using Cons.prems(1) by (auto simp: ebind_def split: sum.splits)
  from floor_step_counts [OF s1 Cons.prems(2,3)] have "counts_ok st1" "bs_with b1 + bs_without b1 = bs_total b1"
    and "rb_buildings st1 = rb_buildings st" by blast+
  with Cons.IH [OF rest] show ?case by simp
qed simp

lemma building_step_counts:
  assumes "building_step fstr load idx catalog st bid = Inr st'" and "counts_ok st"
  shows "counts_ok st'"
proof -
  obtain floors where fl: "map_of catalog bid = Some floors"
    using assms(1) by (cases "map_of catalog bid") (simp_all add: building_step_def)
  let ?b0 = "\<lparr>bs_floors = length floors, bs_total = 0, bs_with = 0, bs_without = 0, bs_details = []\<rparr>"
  obtain st1 b1 where f: "efold (floor_step fstr load idx catalog bid) floors (st, ?b0) = Inr (st1, b1)"
    and e: "st' = st1\<lparr>rb_buildings := AList.update bid b1 (rb_buildings st1)\<rparr>"
    using assms(1) fl by (auto simp: building_step_def ebind_def split: sum.splits)
  have "counts_ok st1" "bs_with b1 + bs_without b1 = bs_total b1"
    using floor_fold_counts [OF f assms(2)] by simp_all
  moreover have "set (AList.update bid b1 (rb_buildings st1)) \<subseteq> insert (bid, b1) (set (rb_buildings st1))"
    by (rule set_alist_update)
  ultimately show ?thesis unfolding e counts_ok_def by fastforce
qed

text \<open>The summary is consistent: the rooms with and without a boundary add up to the rooms
  processed, for the run and for every building.\<close>

lemma main_rooms_state:
  "main_rooms fstr load files catalog api = Inr out \<Longrightarrow>
   efold (building_step fstr load (wfs_index files) catalog) (ordered_buildings (map fst catalog))
     \<lparr>rb_processed = 0, rb_with = 0, rb_without = 0, rb_points = 0, rb_files = Map.empty, rb_buildings = []\<rparr>
   = Inr (ro_state out)"
  unfolding main_rooms_def Let_def
  by (cases "efold (building_step fstr load (wfs_index files) catalog) (ordered_buildings (map fst catalog))
     \<lparr>rb_processed = 0, rb_with = 0, rb_without = 0, rb_points = 0, rb_files = Map.empty, rb_buildings = []\<rparr>")
     auto

lemma main_rooms_counts:
  assumes "main_rooms fstr load files catalog api = Inr out"
  shows "counts_ok (ro_state out)"
proof -
  have init: "counts_ok \<lparr>rb_processed = 0, rb_with = 0, rb_without = 0, rb_points = 0, rb_files = Map.empty,
                     rb_buildings = []\<rparr>" by (simp add: counts_ok_def)
  show ?thesis
  proof (rule efold_inv [where P = counts_ok, OF main_rooms_state [OF assms] init])
    fix s x s'
    assume "counts_ok s" and "building_step fstr load (wfs_index files) catalog s x = Inr s'"
    then show "counts_ok s'" using building_step_counts by blast
  qed
qed

end
