(* ===== verification/WmsInfo.thy ===== *)
theory WmsInfo
  imports Export "HOL-Library.AList" "HOL-Library.List_Lexorder"
begin

text \<open>
  The WMS extraction \<^verbatim>\<open>src/scripts/wms_featureinfo_extract.py\<close>: the layer tables
  (lines 38--161), one \<open>GetFeatureInfo\<close> request (lines 174--203), the grid of 37
  requests per layer that merges the features it sees by a key (lines 206--280), the
  comparison with the WFS download (lines 366--411), the alternative formats, legends
  and layer descriptions (lines 319--363, 582--652), and \<open>main\<close>'s summary
  (lines 435--718).

  Every HTTP request goes to the oracle \<open>hnet\<close>, indexed by the number of requests
  sent before it and the request; \<open>None\<close> is an exception of \<open>session.get\<close>. A reply
  carries its status, \<open>Content-Type\<close>, decoded text and bytes. \<open>resp.json()\<close> is the
  parameter \<open>json_parse\<close> (\<open>None\<close> when it raises), the text of a float in a query is
  Python's \<open>repr\<close> (\<open>fstr\<close>), \<open>str()\<close> of a non-string JSON value is \<open>repr\<close> and
  \<open>json.dumps(..., sort_keys=True)\<close> is \<open>dumps\<close>. \<open>.get\<close> on a JSON value that is not an
  object raises \<open>AttributeError\<close>. The error dictionaries that hold the text of an
  exception are kept as \<open>FiErr\<close>; time stamps and printing are not modelled.
\<close>

subsection \<open>Configuration\<close>

definition campus_bbox :: "int \<times> int \<times> int \<times> int" where
  "campus_bbox = (301286, 2776527, 303865, 2780020)"

definition all_layers :: "string list" where
  "all_layers =
    [''gis:gis_building_geom'', ''gis:gis_building'', ''gis:gis_campus'', ''gis:gis_block'',
     ''gis:gis_aed'', ''gis:gis_atm'', ''gis:gis_artwork'', ''gis:gis_busstop'',
     ''gis:gis_parking'', ''gis:gis_restaurant'', ''gis:gis_sport'', ''gis:gis_sport_p'',
     ''gis:gis_campusphotos'', ''gis:gis_conveniencestore'', ''gis:gis_firestation'',
     ''gis:gis_gateway'', ''gis:gis_healthroom'', ''gis:gis_postoffice'',
     ''gis:gis_securityoffice'', ''gis:gis_telephonebooth'', ''gis:gis_timerecorder'',
     ''gis:gis_elevator'', ''gis:gis_elevator2'', ''gis:gis_auditorium'',
     ''gis:gis_auditorium2'', ''gis:gis_barrierfreetoilet'', ''gis:gis_barrierfreetoilet2'',
     ''gis:gis_emergencycall'', ''gis:gis_emergencycall2'', ''gis:gis_handicapparking'',
     ''gis:gis_handicapparking2'', ''gis:gis_wheelchairramp'', ''gis:gis_wheelchairramp2'',
     ''gis:gis_monthlyparking'', ''gis:gis_busroutes_1'', ''gis:gis_busroutes_2'',
     ''gis:gis_busroutes_3'', ''gis:gis_parcel0821line'', ''gis:gis_parcel0821point'',
     ''gis:gis_parcel0886line'', ''gis:gis_parcel0886text'', ''gis:gis_parcel0893line'',
     ''gis:gis_parcel0893text'', ''gis:gis_parcel0981line'', ''gis:gis_parcel0981point'',
     ''gis:gis_sidewalk_1'', ''gis:gis_sidewalk_2'', ''gis:gis_sidewalk_3'',
     ''gis:gis_sidewalk_4'', ''gis:gis_sidewalk_5'', ''gis:gis_sidewalk_6'',
     ''gis:gis_sidewalk_7'', ''gis:gis_sidewalk_8'', ''gis:gis_sidewalk_9'',
     ''gis:gis_sidewalk_10'', ''gis:gis_sidewalk_11'', ''gis:gis_sidewalk_12'',
     ''gis:gis_sidewalk_13'', ''gis:gis_sidewalk_14'', ''gis:gis_sidewalk_15'',
     ''gis:gss_sidewalk'', ''gis:toilet'', ''gis:bak_gis_building_geom_v1'',
     ''gis:bak_gis_campus_v1'', ''gis:bak_gis_campus_v2'', ''gis:bak_gis_sidewalk_7_v1'',
     ''gis:bak_gss_sidewalk_v1'', ''gis:AED_test11'', ''gis:gis_test202305016'',
     ''gis:point_sample'', ''gis:system_test_gis_sidewalk'', ''gis:test_c'']"

definition key_layers :: "string list" where
  "key_layers = [''gis:gis_building_geom'', ''gis:gis_campus'', ''gis:gis_parking'', ''gis:gis_building'',
                 ''gis:gis_block'', ''gis:gis_aed'']"

definition query_grid :: "(nat \<times> nat) list" where
  "query_grid = [(128, 128), (64, 64), (192, 64), (64, 192), (192, 192), (32, 32), (224, 32), (32, 224),
                 (224, 224), (128, 32), (128, 224), (32, 128), (224, 128), (96, 96), (160, 96), (96, 160),
                 (160, 160)]"

definition layer_safe :: "string \<Rightarrow> string" where
  "layer_safe layer = map (\<lambda>c. if c = CHR '':'' then CHR ''_'' else c) layer"

subsection \<open>Requests and replies\<close>

datatype wms_request =
    GetFeatureInfo string nat nat ustr string ustr
  | GetMap string ustr
  | DescribeLayer string
  | GetLegendGraphic string

record wms_reply =
  wr_status :: nat
  wr_ctype :: ustr
  wr_text :: ustr
  wr_content :: bytes

type_synonym wms_net = "nat \<Rightarrow> wms_request \<Rightarrow> wms_reply option"

definition contains :: "ustr \<Rightarrow> ustr \<Rightarrow> bool" where
  "contains hay needle \<longleftrightarrow> find_sub hay needle \<noteq> None"

text \<open>\<open>dict.get(key, default)\<close> on a JSON value, and \<open>.keys()\<close>.\<close>

definition dget :: "pyjson \<Rightarrow> ustr \<Rightarrow> pyjson \<Rightarrow> py_error + pyjson" where
  "dget v k d = (case v of PDict kvs \<Rightarrow> Inr (case map_of kvs k of Some x \<Rightarrow> x | None \<Rightarrow> d) | _ \<Rightarrow> Inl AttributeError)"

definition dkeys :: "pyjson \<Rightarrow> py_error + ustr list" where
  "dkeys v = (case v of PDict kvs \<Rightarrow> Inr (map fst kvs) | _ \<Rightarrow> Inl AttributeError)"

datatype fi_result = FiJson pyjson | FiErr

text \<open>\<open>get_featureinfo_single\<close>: the parsed JSON of a 200 reply whose type mentions
  \<open>json\<close>; an error dictionary otherwise.\<close>

definition get_featureinfo_single :: "(ustr \<Rightarrow> pyjson option) \<Rightarrow> wms_net \<Rightarrow> nat \<Rightarrow> string \<Rightarrow> nat \<Rightarrow> nat
    \<Rightarrow> ustr \<Rightarrow> string \<Rightarrow> fi_result" where
  "get_featureinfo_single json_parse hnet n layer x y bbox srs =
     (case hnet n (GetFeatureInfo layer x y bbox srs (ascii ''application/json'')) of
        None \<Rightarrow> FiErr
      | Some r \<Rightarrow>
          if wr_status r = 200 \<and> contains (wr_ctype r) (ascii ''json'')
          then (case json_parse (wr_text r) of Some v \<Rightarrow> FiJson v | None \<Rightarrow> FiErr)
          else FiErr)"

text \<open>\<open>isinstance(result, dict) and "features" in result\<close>, then the iteration over
  \<open>result["features"]\<close>: a list gives its elements, a dictionary or a string its keys or
  characters (on which \<open>.get\<close> raises), any other value raises \<open>TypeError\<close>.\<close>

definition result_features :: "fi_result \<Rightarrow> py_error + pyjson list option" where
  "result_features r =
     (case r of
        FiJson (PDict kvs) \<Rightarrow>
          (case map_of kvs (ascii ''features'') of
             None \<Rightarrow> Inr None
           | Some (PList fs) \<Rightarrow> Inr (Some fs)
           | Some (PDict d) \<Rightarrow> Inr (Some (map (\<lambda>k. PStr (fst k)) d))
           | Some (PStr s) \<Rightarrow> Inr (Some (map (\<lambda>c. PStr [c]) s))
           | Some _ \<Rightarrow> Inl TypeError)
      | _ \<Rightarrow> Inr None)"

subsection \<open>The grid of one layer\<close>

text \<open>\<open>unique_key = feat_id or f"gid_{gid}" or json.dumps(props, sort_keys=True)\<close>.\<close>

definition feature_key :: "(pyjson \<Rightarrow> ustr) \<Rightarrow> (pyjson \<Rightarrow> ustr) \<Rightarrow> pyjson \<Rightarrow> py_error + pyjson" where
  "feature_key repr dumps feat =
     ebind (dget feat (ascii ''id'') (PStr [])) (\<lambda>feat_id.
     ebind (dget feat (ascii ''properties'') (PDict [])) (\<lambda>props.
     ebind (dget props (ascii ''gid'') (PStr [])) (\<lambda>gid.
       let k2 = ascii ''gid_'' @ py_str repr gid
       in Inr (if py_truthy feat_id then feat_id else if k2 \<noteq> [] then PStr k2 else PStr (dumps props)))))"

record fi_acc =
  fa_req :: nat
  fa_features :: "(pyjson \<times> pyjson) list"
  fa_seen :: "pyjson set"
  fa_total :: nat
  fa_hits :: nat

definition merge_feature :: "(pyjson \<Rightarrow> ustr) \<Rightarrow> (pyjson \<Rightarrow> ustr) \<Rightarrow> fi_acc \<Rightarrow> pyjson \<Rightarrow> py_error + fi_acc" where
  "merge_feature repr dumps acc feat =
     ebind (feature_key repr dumps feat) (\<lambda>k.
       Inr (if k \<in> fa_seen acc then acc
            else acc\<lparr>fa_seen := insert k (fa_seen acc), fa_features := AList.update k feat (fa_features acc)\<rparr>))"

text \<open>One request of the grid: counted, its features merged, a hit when it had any.\<close>

definition grid_step :: "(ustr \<Rightarrow> pyjson option) \<Rightarrow> (pyjson \<Rightarrow> ustr) \<Rightarrow> (pyjson \<Rightarrow> ustr) \<Rightarrow> wms_net \<Rightarrow> string
    \<Rightarrow> fi_acc \<Rightarrow> (nat \<times> nat \<times> ustr) \<Rightarrow> py_error + fi_acc" where
  "grid_step json_parse repr dumps hnet layer acc q =
     (case q of (x, y, bbox) \<Rightarrow>
       let r = get_featureinfo_single json_parse hnet (fa_req acc) layer x y bbox ''EPSG:3826'';
           acc1 = acc\<lparr>fa_req := Suc (fa_req acc), fa_total := Suc (fa_total acc)\<rparr>
       in ebind (result_features r) (\<lambda>fs.
            case fs of
              None \<Rightarrow> Inr acc1
            | Some feats \<Rightarrow>
                ebind (efold (merge_feature repr dumps) feats acc1) (\<lambda>acc2.
                  Inr (acc2\<lparr>fa_hits := fa_hits acc2 + (if feats = [] then 0 else 1)\<rparr>))))"

text \<open>The bounding boxes as the f-strings print them: the campus box, then its four
  quadrants, whose inner edges are floats.\<close>

definition bbox_text :: "(real \<Rightarrow> ustr) \<Rightarrow> pyjson list \<Rightarrow> ustr" where
  "bbox_text fstr vs = py_join (ascii '','') (map (\<lambda>v. case v of PInt i \<Rightarrow> ascii (str_int i) | PFloat x \<Rightarrow> fstr x
                                                           | _ \<Rightarrow> []) vs)"

definition grid_queries :: "(real \<Rightarrow> ustr) \<Rightarrow> (nat \<times> nat \<times> ustr) list" where
  "grid_queries fstr =
     (case campus_bbox of (minx, miny, maxx, maxy) \<Rightarrow>
       let dx = real_of_int (maxx - minx) / 2; dy = real_of_int (maxy - miny) / 2;
           full = bbox_text fstr [PInt minx, PInt miny, PInt maxx, PInt maxy];
           quadrants = [[PInt minx, PInt miny, PFloat (minx + dx), PFloat (miny + dy)],
                        [PFloat (minx + dx), PInt miny, PInt maxx, PFloat (miny + dy)],
                        [PInt minx, PFloat (miny + dy), PFloat (minx + dx), PInt maxy],
                        [PFloat (minx + dx), PFloat (miny + dy), PInt maxx, PInt maxy]]
       in map (\<lambda>(x, y). (x, y, full)) query_grid @
          concat (map (\<lambda>q. map (\<lambda>(x, y). (x, y, bbox_text fstr q)) [(64, 64), (128, 128), (192, 192), (64, 192), (192, 64)])
                      quadrants))"

definition get_featureinfo_grid :: "(ustr \<Rightarrow> pyjson option) \<Rightarrow> (real \<Rightarrow> ustr) \<Rightarrow> (pyjson \<Rightarrow> ustr) \<Rightarrow> (pyjson \<Rightarrow> ustr)
    \<Rightarrow> wms_net \<Rightarrow> nat \<Rightarrow> string \<Rightarrow> py_error + fi_acc" where
  "get_featureinfo_grid json_parse fstr repr dumps hnet req layer =
     efold (grid_step json_parse repr dumps hnet layer) (grid_queries fstr)
       \<lparr>fa_req = req, fa_features = [], fa_seen = {}, fa_total = 0, fa_hits = 0\<rparr>"

subsection \<open>Comparison with the WFS download\<close>

text \<open>\<open>load_wfs_data\<close>: \<open>wfs\<close> gives the parsed file, \<open>None\<close> when it is missing or not
  JSON; every exception of the body is caught and gives \<open>None\<close>.\<close>

definition feature_keys :: "pyjson list \<Rightarrow> py_error + ustr list list" where
  "feature_keys feats = emap (\<lambda>f. ebind (dget f (ascii ''properties'') (PDict [])) dkeys) feats"

definition load_wfs_data :: "(string \<Rightarrow> pyjson option) \<Rightarrow> string \<Rightarrow> (nat \<times> ustr list) option" where
  "load_wfs_data wfs layer_name =
     (case wfs (layer_safe layer_name @ ''.json'') of
        None \<Rightarrow> None
      | Some data \<Rightarrow>
          (case dget data (ascii ''features'') (PList []) of
             Inr (PList feats) \<Rightarrow>
               if feats = [] then None
               else (case feature_keys feats of
                       Inr kss \<Rightarrow> Some (length feats, sort (remdups (concat kss)))
                     | Inl _ \<Rightarrow> None)
           | _ \<Rightarrow> None))"

record wfs_comparison =
  wc_wfs_count :: nat
  wc_wms_count :: nat
  wc_wfs_attrs :: "ustr list"
  wc_wms_attrs :: "ustr list"
  wc_wms_only :: "ustr list"
  wc_wfs_only :: "ustr list"
  wc_common :: "ustr list"

text \<open>\<open>sorted(list(s))\<close> of the set operations, on lists.\<close>

definition compare_with_wfs :: "(string \<Rightarrow> pyjson option) \<Rightarrow> string \<Rightarrow> pyjson list
    \<Rightarrow> py_error + wfs_comparison option" where
  "compare_with_wfs wfs layer_name wms_features =
     (case load_wfs_data wfs layer_name of
        None \<Rightarrow> Inr None
      | Some (n, keys) \<Rightarrow>
          ebind (feature_keys wms_features) (\<lambda>kss.
            let wms = concat kss in
            Inr (Some \<lparr>wc_wfs_count = n, wc_wms_count = length wms_features,
                       wc_wfs_attrs = sort (remdups keys), wc_wms_attrs = sort (remdups wms),
                       wc_wms_only = sort (remdups (filter (\<lambda>k. k \<notin> set keys) wms)),
                       wc_wfs_only = sort (remdups (filter (\<lambda>k. k \<notin> set wms) keys)),
                       wc_common = sort (remdups (filter (\<lambda>k. k \<in> set wms) keys))\<rparr>)))"

subsection \<open>Other requests\<close>

datatype alt_result = AltSuccess string nat ustr | AltServiceException ustr | AltHttpError nat ustr | AltFailed

text \<open>\<open>download_alternative_format\<close>: the result and the file it writes.\<close>

definition download_alternative_format :: "wms_net \<Rightarrow> nat \<Rightarrow> string \<Rightarrow> ustr \<Rightarrow> string
    \<Rightarrow> alt_result \<times> (string \<times> bytes) option" where
  "download_alternative_format hnet req layer fmt ext =
     (let outfile = ''alternative_formats/'' @ layer_safe layer @ ''.'' @ ext in
      case hnet req (GetMap layer fmt) of
        None \<Rightarrow> (AltFailed, None)
      | Some r \<Rightarrow>
          if wr_status r = 200 then
            (if contains (wr_ctype r) (ascii ''xml'') \<and> contains (wr_text r) (ascii ''ServiceException'')
             then (AltServiceException (take 300 (wr_text r)), None)
             else (AltSuccess outfile (length (wr_content r)) (wr_ctype r), Some (outfile, wr_content r)))
          else (AltHttpError (wr_status r) (take 300 (wr_text r)), None))"

definition text_formats :: "(ustr \<times> ustr) list" where
  "text_formats = [(ascii ''text_plain'', ascii ''text/plain''), (ascii ''text_html'', ascii ''text/html''),
                   (ascii ''gml'', ascii ''application/vnd.ogc.gml'')]"

text \<open>\<open>get_featureinfo_text_format\<close>: status, type and the first 2000 (500 on an error
  status) characters of every format; \<open>None\<close> is the error entry.\<close>

definition get_featureinfo_text_format :: "(real \<Rightarrow> ustr) \<Rightarrow> wms_net \<Rightarrow> nat \<Rightarrow> string
    \<Rightarrow> nat \<times> (ustr \<times> (nat \<times> ustr \<times> ustr) option) list" where
  "get_featureinfo_text_format fstr hnet req layer =
     foldl (\<lambda>(n, results) (name, fmt).
              (Suc n, AList.update name
                 (map_option (\<lambda>r. (wr_status r, wr_ctype r, take (if wr_status r = 200 then 2000 else 500) (wr_text r)))
                    (hnet n (GetFeatureInfo layer 128 128 (snd (snd (hd (grid_queries fstr)))) ''EPSG:3826'' fmt)))
                 results))
       (req, []) text_formats"

datatype describe_result = DescJson pyjson | DescText ustr ustr | DescHttp nat | DescFailed

definition describe_layer :: "(ustr \<Rightarrow> pyjson option) \<Rightarrow> wms_net \<Rightarrow> nat \<Rightarrow> string \<Rightarrow> describe_result" where
  "describe_layer json_parse hnet req layer =
     (case hnet req (DescribeLayer layer) of
        None \<Rightarrow> DescFailed
      | Some r \<Rightarrow>
          if wr_status r = 200 then
            (if contains (wr_ctype r) (ascii ''json'')
             then (case json_parse (wr_text r) of Some v \<Rightarrow> DescJson v | None \<Rightarrow> DescFailed)
             else DescText (wr_ctype r) (take 1000 (wr_text r)))
          else DescHttp (wr_status r))"

datatype legend_result = LegendSaved nat string | LegendHttp nat | LegendFailed

definition get_legend :: "wms_net \<Rightarrow> nat \<Rightarrow> string \<Rightarrow> legend_result \<times> (string \<times> bytes) option" where
  "get_legend hnet req layer =
     (let outfile = ''legends/'' @ layer_safe layer @ ''_legend.png'' in
      case hnet req (GetLegendGraphic layer) of
        None \<Rightarrow> (LegendFailed, None)
      | Some r \<Rightarrow>
          if wr_status r = 200 then (LegendSaved (length (wr_content r)) outfile, Some (outfile, wr_content r))
          else (LegendHttp (wr_status r), None))"

subsection \<open>\<open>main\<close>\<close>

record layer_info =
  li_feature_count :: nat
  li_total :: nat
  li_hits :: nat
  li_attributes :: "ustr set"
  li_count_4326 :: "nat option"

record wms_state =
  ws_req :: nat
  ws_json :: "string \<Rightarrow> pyjson option"
  ws_bin :: "string \<Rightarrow> bytes option"
  ws_layers :: "(string \<times> layer_info) list"
  ws_comparisons :: "(string \<times> wfs_comparison option) list"
  ws_total_features :: nat
  ws_text :: "(string \<times> (ustr \<times> (nat \<times> ustr \<times> ustr) option) list) list"
  ws_alt :: "(string \<times> (string \<times> alt_result) list) list"
  ws_describe :: "(string \<times> describe_result) list"
  ws_legends :: "(string \<times> legend_result) list"

definition grid_json :: "fi_acc \<Rightarrow> pyjson" where
  "grid_json acc =
     PDict [(ascii ''type'', PStr (ascii ''FeatureCollection'')), (ascii ''features'', PList (map snd (fa_features acc))),
            (ascii ''query_stats'', PDict [(ascii ''total_queries'', PInt (int (fa_total acc))),
                                          (ascii ''queries_with_hits'', PInt (int (fa_hits acc))),
                                          (ascii ''unique_features'', PInt (int (length (fa_features acc))))])]"

text \<open>Phase 1 (lines 439--486): the grid of a layer, its file, the comparison and the
  set of its attribute names.\<close>

definition phase1_step :: "(ustr \<Rightarrow> pyjson option) \<Rightarrow> (real \<Rightarrow> ustr) \<Rightarrow> (pyjson \<Rightarrow> ustr) \<Rightarrow> (pyjson \<Rightarrow> ustr)
    \<Rightarrow> wms_net \<Rightarrow> (string \<Rightarrow> pyjson option) \<Rightarrow> wms_state \<Rightarrow> string \<Rightarrow> py_error + wms_state" where
  "phase1_step json_parse fstr repr dumps hnet wfs st layer =
     ebind (get_featureinfo_grid json_parse fstr repr dumps hnet (ws_req st) layer) (\<lambda>acc.
       let feats = map snd (fa_features acc) in
       ebind (compare_with_wfs wfs layer feats) (\<lambda>comp.
       ebind (feature_keys feats) (\<lambda>kss.
         Inr (st\<lparr>ws_req := fa_req acc,
                 ws_json := (ws_json st)(layer_safe layer @ ''_featureinfo.json'' \<mapsto> grid_json acc),
                 ws_total_features := ws_total_features st + length feats,
                 ws_comparisons := AList.update layer comp (ws_comparisons st),
                 ws_layers := AList.update layer
                   \<lparr>li_feature_count = length feats, li_total = fa_total acc, li_hits = fa_hits acc,
                    li_attributes = (if feats = [] then {} else set (concat kss)), li_count_4326 = None\<rparr>
                   (ws_layers st)\<rparr>))))"

text \<open>Phases 2 and 3 (lines 493--527): text formats and PDF/SVG maps of the key layers.\<close>

definition phase2_step :: "(real \<Rightarrow> ustr) \<Rightarrow> wms_net \<Rightarrow> wms_state \<Rightarrow> string \<Rightarrow> wms_state" where
  "phase2_step fstr hnet st layer =
     (case get_featureinfo_text_format fstr hnet (ws_req st) layer of
        (n, res) \<Rightarrow> st\<lparr>ws_req := n, ws_text := AList.update layer res (ws_text st)\<rparr>)"

definition phase3_step :: "wms_net \<Rightarrow> wms_state \<Rightarrow> string \<Rightarrow> wms_state" where
  "phase3_step hnet st layer =
     foldl (\<lambda>st (fmt, ext).
              case download_alternative_format hnet (ws_req st) layer fmt ext of
                (res, file) \<Rightarrow>
                  st\<lparr>ws_req := Suc (ws_req st),
                     ws_bin := (case file of None \<Rightarrow> ws_bin st | Some (f, d) \<Rightarrow> (ws_bin st)(f \<mapsto> d)),
                     ws_alt := AList.update layer
                                 (AList.update ext res (case map_of (ws_alt st) layer of Some m \<Rightarrow> m | None \<Rightarrow> []))
                                 (ws_alt st)\<rparr>)
       (st\<lparr>ws_alt := AList.update layer [] (ws_alt st)\<rparr>)
       [(ascii ''application/pdf'', ''pdf''), (ascii ''image/svg+xml'', ''svg'')]"

text \<open>Phase 4 (lines 537--575): nine grid points in EPSG:4326 for the layers without
  features; the features are merged by the same key.\<close>

definition retry_step :: "(ustr \<Rightarrow> pyjson option) \<Rightarrow> (pyjson \<Rightarrow> ustr) \<Rightarrow> (pyjson \<Rightarrow> ustr) \<Rightarrow> wms_net \<Rightarrow> string
    \<Rightarrow> nat \<times> (pyjson \<times> pyjson) list \<Rightarrow> nat \<times> nat \<Rightarrow> py_error + nat \<times> (pyjson \<times> pyjson) list" where
  "retry_step json_parse repr dumps hnet layer acc xy =
     (case (acc, xy) of ((n, feats), (x, y)) \<Rightarrow>
       ebind (result_features (get_featureinfo_single json_parse hnet n layer x y
                (ascii ''121.505,25.015,121.540,25.135'') ''EPSG:4326'')) (\<lambda>fs.
         case fs of
           None \<Rightarrow> Inr (Suc n, feats)
         | Some fl \<Rightarrow>
             ebind (efold (\<lambda>m f. ebind (feature_key repr dumps f) (\<lambda>k.
                              Inr (if k \<in> fst ` set m then m else AList.update k f m))) fl feats) (\<lambda>feats'.
               Inr (Suc n, feats'))))"

definition phase4_step :: "(ustr \<Rightarrow> pyjson option) \<Rightarrow> (pyjson \<Rightarrow> ustr) \<Rightarrow> (pyjson \<Rightarrow> ustr) \<Rightarrow> wms_net
    \<Rightarrow> wms_state \<Rightarrow> string \<Rightarrow> py_error + wms_state" where
  "phase4_step json_parse repr dumps hnet st layer =
     ebind (efold (retry_step json_parse repr dumps hnet layer) (take 9 query_grid) (ws_req st, [])) (\<lambda>(n, feats).
       Inr (if feats = [] then st\<lparr>ws_req := n\<rparr>
            else st\<lparr>ws_req := n,
                    ws_json := (ws_json st)(layer_safe layer @ ''_featureinfo_4326.json'' \<mapsto>
                      PDict [(ascii ''type'', PStr (ascii ''FeatureCollection'')), (ascii ''features'', PList (map snd feats)),
                             (ascii ''query_stats'', PDict [(ascii ''srs'', PStr (ascii ''EPSG:4326'')),
                                                           (ascii ''unique_features'', PInt (int (length feats)))])]),
                    ws_layers := AList.map_entry layer (\<lambda>li. li\<lparr>li_count_4326 := Some (length feats)\<rparr>) (ws_layers st)\<rparr>))"

text \<open>Phases 5 and 6 (lines 582--652): layer descriptions and legends of the key layers.\<close>

definition phase5_step :: "(ustr \<Rightarrow> pyjson option) \<Rightarrow> wms_net \<Rightarrow> wms_state \<Rightarrow> string \<Rightarrow> wms_state" where
  "phase5_step json_parse hnet st layer =
     st\<lparr>ws_req := Suc (ws_req st),
        ws_describe := AList.update layer (describe_layer json_parse hnet (ws_req st) layer) (ws_describe st)\<rparr>"

definition phase6_step :: "wms_net \<Rightarrow> wms_state \<Rightarrow> string \<Rightarrow> wms_state" where
  "phase6_step hnet st layer =
     (case get_legend hnet (ws_req st) layer of
        (res, file) \<Rightarrow>
          st\<lparr>ws_req := Suc (ws_req st),
             ws_bin := (case file of None \<Rightarrow> ws_bin st | Some (f, d) \<Rightarrow> (ws_bin st)(f \<mapsto> d)),
             ws_legends := AList.update layer res (ws_legends st)\<rparr>)"

subsection \<open>The summary\<close>

record layer_entry =
  le_wms_count :: nat
  le_attributes :: "ustr set"
  le_total :: nat
  le_hits :: nat
  le_wfs :: "wfs_comparison option"
  le_count_4326 :: "nat option"

record wms_summary =
  sm_total_layers :: nat
  sm_total_features :: nat
  sm_new_attrs :: "(string \<times> ustr list) list"
  sm_more :: "(string \<times> nat \<times> nat) list"
  sm_fewer :: "(string \<times> nat \<times> nat) list"
  sm_zero :: "string list"
  sm_layers :: "(string \<times> layer_entry) list"

definition count_4326_truthy :: "layer_info \<Rightarrow> bool" where
  "count_4326_truthy info \<longleftrightarrow> (case li_count_4326 info of Some n \<Rightarrow> n \<noteq> 0 | None \<Rightarrow> False)"

text \<open>The body of \<open>for layer, info in layer_results.items()\<close> (lines 678--718).\<close>

definition summary_step :: "(string \<times> wfs_comparison option) list \<Rightarrow> wms_summary \<Rightarrow> string \<times> layer_info
    \<Rightarrow> wms_summary" where
  "summary_step comps sm li =
     (case li of (layer, info) \<Rightarrow>
       let comp = (case map_of comps layer of Some c \<Rightarrow> c | None \<Rightarrow> None);
           n = li_feature_count info;
           entry = \<lparr>le_wms_count = n, le_attributes = li_attributes info, le_total = li_total info,
                    le_hits = li_hits info, le_wfs = comp,
                    le_count_4326 = (if count_4326_truthy info then li_count_4326 info else None)\<rparr>;
           sm1 = (case comp of
                    None \<Rightarrow> sm
                  | Some c \<Rightarrow>
                      sm\<lparr>sm_new_attrs := sm_new_attrs sm @ (if wc_wms_only c \<noteq> [] then [(layer, wc_wms_only c)] else []),
                         sm_more := sm_more sm @ (if wc_wfs_count c < n then [(layer, n, wc_wfs_count c)] else []),
                         sm_fewer := sm_fewer sm @ (if n < wc_wfs_count c then [(layer, n, wc_wfs_count c)] else [])\<rparr>)
       in sm1\<lparr>sm_zero := sm_zero sm1 @ (if n = 0 \<and> \<not> count_4326_truthy info then [layer] else []),
              sm_layers := AList.update layer entry (sm_layers sm1)\<rparr>)"

definition wms_summary_of :: "wms_state \<Rightarrow> wms_summary" where
  "wms_summary_of st =
     foldl (summary_step (ws_comparisons st))
       \<lparr>sm_total_layers = length all_layers, sm_total_features = ws_total_features st, sm_new_attrs = [],
        sm_more = [], sm_fewer = [], sm_zero = [], sm_layers = []\<rparr>
       (ws_layers st)"

definition main_wms :: "(ustr \<Rightarrow> pyjson option) \<Rightarrow> (real \<Rightarrow> ustr) \<Rightarrow> (pyjson \<Rightarrow> ustr) \<Rightarrow> (pyjson \<Rightarrow> ustr)
    \<Rightarrow> wms_net \<Rightarrow> (string \<Rightarrow> pyjson option) \<Rightarrow> py_error + wms_state \<times> wms_summary" where
  "main_wms json_parse fstr repr dumps hnet wfs =
     (let st0 = \<lparr>ws_req = 0, ws_json = Map.empty, ws_bin = Map.empty, ws_layers = [], ws_comparisons = [],
                 ws_total_features = 0, ws_text = [], ws_alt = [], ws_describe = [], ws_legends = []\<rparr>
      in ebind (efold (phase1_step json_parse fstr repr dumps hnet wfs) all_layers st0) (\<lambda>st1.
           let st3 = foldl (phase3_step hnet) (foldl (phase2_step fstr hnet) st1 key_layers) key_layers;
               zero = map fst (filter (\<lambda>(l, info). li_feature_count info = 0) (ws_layers st1))
           in ebind (efold (phase4_step json_parse repr dumps hnet) zero st3) (\<lambda>st4.
                let st6 = foldl (phase6_step hnet) (foldl (phase5_step json_parse hnet) st4 key_layers) key_layers
                in Inr (st6, wms_summary_of st6))))"

subsection \<open>The tables\<close>

text \<open>The comment announces ``all 74 known GIS layers''; the table lists 72, all distinct.\<close>

lemma all_layers_72: "length all_layers = 72 \<and> distinct all_layers"
  by (simp add: all_layers_def)

lemma grid_queries_37: "length (grid_queries fstr) = 37"
  by (simp add: grid_queries_def query_grid_def campus_bbox_def Let_def)

subsection \<open>The key of a feature\<close>

text \<open>\<open>f"gid_{gid}"\<close> is never empty, so \<open>json.dumps(props)\<close>, the third alternative of the
  key, is never evaluated.\<close>

lemma gid_key_nonempty: "ascii ''gid_'' @ s \<noteq> []"
  by (simp add: ascii_def)

lemma feature_key_no_dumps: "feature_key repr dumps feat = feature_key repr dumps' feat"
  unfolding feature_key_def Let_def by (simp only: gid_key_nonempty if_True if_False not_False_eq_True)

text \<open>Every feature without an \<open>id\<close> and without a \<open>gid\<close> property gets the key
  \<open>gid_\<close>: all such features of a layer collapse into the first one.\<close>

lemma feature_key_gid_:
  assumes "map_of kvs (ascii ''id'') = None"
    and "map_of kvs (ascii ''properties'') = None \<or>
         (\<exists>p. map_of kvs (ascii ''properties'') = Some (PDict p) \<and> map_of p (ascii ''gid'') = None)"
  shows "feature_key repr dumps (PDict kvs) = Inr (PStr (ascii ''gid_''))"
  using assms by (auto simp: feature_key_def dget_def py_truthy_def py_str_def ascii_def Let_def)

lemma merge_feature_fields:
  "merge_feature repr dumps acc f = Inr acc' \<Longrightarrow>
   fa_req acc' = fa_req acc \<and> fa_total acc' = fa_total acc \<and> fa_hits acc' = fa_hits acc"
  by (auto simp: merge_feature_def ebind_def split: sum.splits if_splits)

definition merged_ok :: "fi_acc \<Rightarrow> bool" where
  "merged_ok acc \<longleftrightarrow> fa_seen acc = fst ` set (fa_features acc) \<and> distinct (map fst (fa_features acc))"

lemma merge_feature_ok:
  assumes "merged_ok acc" and "merge_feature repr dumps acc f = Inr acc'"
  shows "merged_ok acc'"
proof -
  obtain k where k: "feature_key repr dumps f = Inr k"
    using assms(2) by (cases "feature_key repr dumps f") (simp_all add: merge_feature_def)
  show ?thesis
  proof (cases "k \<in> fa_seen acc")
    case True
    then show ?thesis using assms k by (simp add: merge_feature_def)
  next
    case False
    then have "acc' = acc\<lparr>fa_seen := insert k (fa_seen acc), fa_features := AList.update k f (fa_features acc)\<rparr>"
      using assms(2) k by (simp add: merge_feature_def)
    then show ?thesis using assms(1) by (simp add: merged_ok_def dom_update distinct_update)
  qed
qed

lemma merge_two_gid_:
  assumes "map_of kvs1 (ascii ''id'') = None" "map_of kvs1 (ascii ''properties'') = None"
    and "map_of kvs2 (ascii ''id'') = None" "map_of kvs2 (ascii ''properties'') = None"
    and "efold (merge_feature repr dumps) [PDict kvs1, PDict kvs2] acc = Inr acc'"
    and "fa_features acc = []" "fa_seen acc = {}"
  shows "map snd (fa_features acc') = [PDict kvs1]"
proof -
  have k1: "feature_key repr dumps (PDict kvs1) = Inr (PStr (ascii ''gid_''))"
    using assms(1,2) by (intro feature_key_gid_) simp_all
  have k2: "feature_key repr dumps (PDict kvs2) = Inr (PStr (ascii ''gid_''))"
    using assms(3,4) by (intro feature_key_gid_) simp_all
  show ?thesis using assms(5-7) k1 k2 by (auto simp: merge_feature_def)
qed

subsection \<open>The grid\<close>

lemma merge_fold_fields:
  "efold (merge_feature repr dumps) fs acc = Inr acc' \<Longrightarrow>
   fa_req acc' = fa_req acc \<and> fa_total acc' = fa_total acc \<and> fa_hits acc' = fa_hits acc"
proof (induction fs arbitrary: acc)
  case (Cons f fs)
  then obtain a1 where "merge_feature repr dumps acc f = Inr a1" "efold (merge_feature repr dumps) fs a1 = Inr acc'"
    by (auto simp: ebind_def split: sum.splits)
  then show ?case using Cons.IH merge_feature_fields by metis
qed simp

lemma grid_step_Inr:
  assumes "grid_step json_parse repr dumps hnet layer acc (x, y, bbox) = Inr acc'"
  shows "acc' = acc\<lparr>fa_req := Suc (fa_req acc), fa_total := Suc (fa_total acc)\<rparr> \<or>
         (\<exists>feats acc2. efold (merge_feature repr dumps) feats
                          (acc\<lparr>fa_req := Suc (fa_req acc), fa_total := Suc (fa_total acc)\<rparr>) = Inr acc2 \<and>
                        acc' = acc2\<lparr>fa_hits := fa_hits acc2 + (if feats = [] then 0 else 1)\<rparr>)"
proof -
  let ?r = "get_featureinfo_single json_parse hnet (fa_req acc) layer x y bbox ''EPSG:3826''"
  let ?acc1 = "acc\<lparr>fa_req := Suc (fa_req acc), fa_total := Suc (fa_total acc)\<rparr>"
  obtain fs where r: "result_features ?r = Inr fs"
    using assms by (cases "result_features ?r") (simp_all add: grid_step_def Let_def)
  show ?thesis
  proof (cases fs)
    case None
    then have "grid_step json_parse repr dumps hnet layer acc (x, y, bbox) = Inr ?acc1"
      using r by (simp add: grid_step_def Let_def)
    then show ?thesis using assms by simp
  next
    case (Some feats)
    show ?thesis
    proof (cases "efold (merge_feature repr dumps) feats ?acc1")
      case (Inl e)
      then have "grid_step json_parse repr dumps hnet layer acc (x, y, bbox) = Inl e"
        using r Some by (simp add: grid_step_def Let_def)
      then show ?thesis using assms by simp
    next
      case (Inr acc2)
      then have "grid_step json_parse repr dumps hnet layer acc (x, y, bbox) =
                 Inr (acc2\<lparr>fa_hits := fa_hits acc2 + (if feats = [] then 0 else 1)\<rparr>)"
        using r Some by (simp add: grid_step_def Let_def)
      then show ?thesis using assms Inr by auto
    qed
  qed
qed

lemma grid_step_fields:
  assumes "grid_step json_parse repr dumps hnet layer acc q = Inr acc'"
  shows "fa_req acc' = Suc (fa_req acc) \<and> fa_total acc' = Suc (fa_total acc) \<and> fa_hits acc' \<le> Suc (fa_hits acc)"
proof -
  obtain x y bbox where q: "q = (x, y, bbox)" by (cases q) auto
  from grid_step_Inr [OF assms [unfolded q]] show ?thesis
  proof
    assume "acc' = acc\<lparr>fa_req := Suc (fa_req acc), fa_total := Suc (fa_total acc)\<rparr>"
    then show ?thesis by simp
  next
    assume "\<exists>feats acc2. efold (merge_feature repr dumps) feats
                          (acc\<lparr>fa_req := Suc (fa_req acc), fa_total := Suc (fa_total acc)\<rparr>) = Inr acc2 \<and>
                        acc' = acc2\<lparr>fa_hits := fa_hits acc2 + (if feats = [] then 0 else 1)\<rparr>"
    then obtain feats acc2 where m: "efold (merge_feature repr dumps) feats
                          (acc\<lparr>fa_req := Suc (fa_req acc), fa_total := Suc (fa_total acc)\<rparr>) = Inr acc2"
      and e: "acc' = acc2\<lparr>fa_hits := fa_hits acc2 + (if feats = [] then 0 else 1)\<rparr>" by blast
    show ?thesis using merge_fold_fields [OF m] e by simp
  qed
qed

lemma grid_fold_fields:
  "efold (grid_step json_parse repr dumps hnet layer) qs acc = Inr acc' \<Longrightarrow>
   fa_req acc' = fa_req acc + length qs \<and> fa_total acc' = fa_total acc + length qs \<and>
   fa_hits acc' \<le> fa_hits acc + length qs"
proof (induction qs arbitrary: acc)
  case (Cons q qs)
  then obtain a1 where s: "grid_step json_parse repr dumps hnet layer acc q = Inr a1"
    and r: "efold (grid_step json_parse repr dumps hnet layer) qs a1 = Inr acc'"
    by (auto simp: ebind_def split: sum.splits)
  show ?case using Cons.IH [OF r] grid_step_fields [OF s] by simp
qed simp

lemma grid_step_ok:
  assumes "merged_ok acc" and "grid_step json_parse repr dumps hnet layer acc q = Inr acc'"
  shows "merged_ok acc'"
proof -
  obtain x y bbox where q: "q = (x, y, bbox)" by (cases q) auto
  have ok1: "merged_ok (acc\<lparr>fa_req := Suc (fa_req acc), fa_total := Suc (fa_total acc)\<rparr>)"
    using assms(1) by (simp add: merged_ok_def)
  from grid_step_Inr [OF assms(2) [unfolded q]] show ?thesis
  proof
    assume "acc' = acc\<lparr>fa_req := Suc (fa_req acc), fa_total := Suc (fa_total acc)\<rparr>"
    then show ?thesis using ok1 by simp
  next
    assume "\<exists>feats acc2. efold (merge_feature repr dumps) feats
                          (acc\<lparr>fa_req := Suc (fa_req acc), fa_total := Suc (fa_total acc)\<rparr>) = Inr acc2 \<and>
                        acc' = acc2\<lparr>fa_hits := fa_hits acc2 + (if feats = [] then 0 else 1)\<rparr>"
    then obtain feats acc2 where m: "efold (merge_feature repr dumps) feats
                          (acc\<lparr>fa_req := Suc (fa_req acc), fa_total := Suc (fa_total acc)\<rparr>) = Inr acc2"
      and e: "acc' = acc2\<lparr>fa_hits := fa_hits acc2 + (if feats = [] then 0 else 1)\<rparr>" by blast
    have "merged_ok acc2"
    proof (rule efold_inv [where P = merged_ok, OF m ok1])
      fix s x s' assume "merged_ok s" "merge_feature repr dumps s x = Inr s'"
      then show "merged_ok s'" by (rule merge_feature_ok)
    qed
    then show ?thesis using e by (simp add: merged_ok_def)
  qed
qed

text \<open>Every layer costs 37 requests; the features it keeps have distinct keys, and these
  keys are the set \<open>feature_ids_seen\<close>.\<close>

lemma get_featureinfo_grid_ok:
  assumes "get_featureinfo_grid json_parse fstr repr dumps hnet req layer = Inr acc"
  shows "fa_req acc = req + 37 \<and> fa_total acc = 37 \<and> fa_hits acc \<le> 37 \<and> merged_ok acc"
proof -
  let ?acc0 = "\<lparr>fa_req = req, fa_features = [], fa_seen = {}, fa_total = 0, fa_hits = 0\<rparr>"
  have f: "efold (grid_step json_parse repr dumps hnet layer) (grid_queries fstr) ?acc0 = Inr acc"
    using assms by (simp add: get_featureinfo_grid_def)
  have ok0: "merged_ok ?acc0" by (simp add: merged_ok_def)
  have "merged_ok acc"
  proof (rule efold_inv [where P = merged_ok, OF f ok0])
    fix s x s' assume "merged_ok s" "grid_step json_parse repr dumps hnet layer s x = Inr s'"
    then show "merged_ok s'" by (rule grid_step_ok)
  qed
  then show ?thesis using grid_fold_fields [OF f] grid_queries_37 [of fstr] by simp
qed

subsection \<open>The summary\<close>

lemma summary_step_zero:
  "set (sm_zero (foldl (summary_step comps) sm ls)) =
   set (sm_zero sm) \<union> {l. \<exists>info. (l, info) \<in> set ls \<and> li_feature_count info = 0 \<and> \<not> count_4326_truthy info}"
proof (induction ls arbitrary: sm)
  case (Cons li ls)
  obtain l info where li: "li = (l, info)" by (cases li)
  have "set (sm_zero (summary_step comps sm li)) =
        set (sm_zero sm) \<union> (if li_feature_count info = 0 \<and> \<not> count_4326_truthy info then {l} else {})"
    by (simp add: summary_step_def li Let_def split: option.splits)
  then show ?case using Cons.IH [of "summary_step comps sm li"] li by auto
qed simp

text \<open>A layer is reported as having zero features exactly when neither the EPSG:3826 grid
  nor the EPSG:4326 retry found one.\<close>

lemma wms_summary_zero:
  "set (sm_zero (wms_summary_of st)) =
   {l. \<exists>info. (l, info) \<in> set (ws_layers st) \<and> li_feature_count info = 0 \<and> \<not> count_4326_truthy info}"
  by (simp add: wms_summary_of_def summary_step_zero)

end
