(* ===== verification/Organize.thy ===== *)
theory Organize
  imports Client PyList "HOL-Library.Sublist" "HOL-Library.List_Lexorder" "HOL-Library.AList"
begin

text \<open>
  The data organiser of \<^verbatim>\<open>src/data/scripts/organize_data.py\<close> (class
  \<open>DataOrganizer\<close>): it backs the data tree up, sorts the NLSC 3D-tile and quadtree
  datasets of \<^verbatim>\<open>raw/\<close> into version directories, copies the processed building
  files into one directory per campus, versions the outputs, files the floor-plan PDFs by
  category and writes a JSON metadata file beside each, and a report.

  The file system is an explicit store (\<open>ofs\<close>): the files, each with its path (a list of
  path components) and contents, in the order a directory listing returns them, and the
  directories created. A directory exists when it was created or holds a file or
  directory. \<open>glob\<close> and \<open>rglob\<close> list the store in its order; the order of a real
  directory listing is the file system's, and the store fixes one. A JSON file holds its
  \<open>pyjson\<close> value, a README its name and a text file its text; their size on disk, which \<open>stat()\<close> reads,
  is the parameter \<open>dsz\<close>. Every \<open>shutil\<close> and \<open>open\<close> call that can fail
  (a missing source, a missing parent directory, a file in the way) is the value
  \<open>Inl OSError\<close>, and it ends \<open>main\<close>, which re-raises.
\<close>

section \<open>Strings and paths\<close>

type_synonym opath = "ustr list"

text \<open>\<open>str.lower()\<close> and \<open>str.title()\<close> on ASCII letters; other code points are left as
  they are (the campus codes and names they are applied to are ASCII).\<close>

definition lower_c :: "nat \<Rightarrow> nat" where
  "lower_c c = (if 65 \<le> c \<and> c \<le> 90 then c + 32 else c)"

definition upper_c :: "nat \<Rightarrow> nat" where
  "upper_c c = (if 97 \<le> c \<and> c \<le> 122 then c - 32 else c)"

definition is_alpha :: "nat \<Rightarrow> bool" where
  "is_alpha c = (65 \<le> c \<and> c \<le> 90 \<or> 97 \<le> c \<and> c \<le> 122)"

definition py_lower :: "ustr \<Rightarrow> ustr" where
  "py_lower s = map lower_c s"

fun title_from :: "bool \<Rightarrow> ustr \<Rightarrow> ustr" where
  "title_from prev [] = []"
| "title_from prev (c # cs) = (if prev then lower_c c else upper_c c) # title_from (is_alpha c) cs"

definition py_title :: "ustr \<Rightarrow> ustr" where
  "py_title s = title_from False s"

text \<open>\<open>sub in s\<close>.\<close>

definition py_in :: "ustr \<Rightarrow> ustr \<Rightarrow> bool" where
  "py_in sub s = (find_sub s sub \<noteq> None)"

text \<open>\<open>s.split(c)\<close> for a one-character separator.\<close>

fun split_on :: "nat \<Rightarrow> ustr \<Rightarrow> ustr list" where
  "split_on c [] = [[]]"
| "split_on c (x # xs) = (let r = split_on c xs in if x = c then [] # r else (x # hd r) # tl r)"

text \<open>\<open>s.replace(old, new)\<close> for a non-empty \<open>old\<close>: every occurrence, left to right,
  without overlaps.\<close>

fun py_replace :: "ustr \<Rightarrow> ustr \<Rightarrow> ustr \<Rightarrow> ustr" where
  "py_replace old new [] = []"
| "py_replace old new (x # xs) =
     (if old \<noteq> [] \<and> take (length old) (x # xs) = old
      then new @ py_replace old new (drop (length old) (x # xs))
      else x # py_replace old new xs)"

text \<open>\<open>fnmatch\<close> of a name against a glob pattern whose only wildcard is \<open>*\<close> (42), which
  matches any run of characters; the patterns of the script have no other.\<close>

fun fnmatch :: "ustr \<Rightarrow> ustr \<Rightarrow> bool" where
  "fnmatch [] s = (s = [])"
| "fnmatch (c # p) [] = (c = 42 \<and> fnmatch p [])"
| "fnmatch (c # p) (d # s) =
     (if c = 42 then fnmatch p (d # s) \<or> fnmatch (c # p) s else c = d \<and> fnmatch p s)"

text \<open>\<open>Path.suffix\<close>: from the last dot of the name, when the dot is neither its first
  nor its last character; \<open>f.suffix[1:]\<close> drops the dot.\<close>

definition py_suffix :: "ustr \<Rightarrow> ustr" where
  "py_suffix n =
     (case find (\<lambda>i. n ! i = 46) (rev [0..<length n]) of
        Some i \<Rightarrow> if 0 < i \<and> i < length n - 1 then drop i n else []
      | None \<Rightarrow> [])"

section \<open>The file system\<close>

datatype fdata = Blob nat | JsonDoc pyjson | ReadmeDoc ustr | TextDoc ustr

record ofs =
  fs_files :: "(opath \<times> fdata) list"
  fs_dirs :: "opath list"

definition fsize :: "(fdata \<Rightarrow> nat) \<Rightarrow> fdata \<Rightarrow> nat" where
  "fsize dsz d = (case d of Blob n \<Rightarrow> n | _ \<Rightarrow> dsz d)"

definition all_paths :: "ofs \<Rightarrow> opath list" where
  "all_paths s = map fst (fs_files s) @ fs_dirs s"

definition is_file :: "ofs \<Rightarrow> opath \<Rightarrow> bool" where
  "is_file s p = (p \<in> set (map fst (fs_files s)))"

definition is_dir :: "ofs \<Rightarrow> opath \<Rightarrow> bool" where
  "is_dir s p = (p \<in> set (fs_dirs s) \<or> list_ex (strict_prefix p) (all_paths s))"

definition exists :: "ofs \<Rightarrow> opath \<Rightarrow> bool" where
  "exists s p = (is_file s p \<or> is_dir s p)"

definition st_size :: "(fdata \<Rightarrow> nat) \<Rightarrow> ofs \<Rightarrow> opath \<Rightarrow> nat" where
  "st_size dsz s p = (case map_of (fs_files s) p of Some d \<Rightarrow> fsize dsz d | None \<Rightarrow> 0)"

text \<open>The entries of a directory (\<open>iterdir\<close>), in the order of the store, and
  \<open>d.glob(pat)\<close>, those whose name matches.\<close>

definition children :: "ofs \<Rightarrow> opath \<Rightarrow> opath list" where
  "children s d = remdups (map (\<lambda>q. take (Suc (length d)) q) (filter (strict_prefix d) (all_paths s)))"

definition glob :: "ofs \<Rightarrow> opath \<Rightarrow> ustr \<Rightarrow> opath list" where
  "glob s d pat = filter (\<lambda>q. fnmatch pat (last q)) (children s d)"

text \<open>\<open>d.rglob(pat)\<close>: every file and directory below \<open>d\<close> whose name matches.\<close>

definition descendants :: "ofs \<Rightarrow> opath \<Rightarrow> opath list" where
  "descendants s d =
     remdups (concat (map (\<lambda>q. map (\<lambda>k. take k q) [Suc (length d)..<Suc (length q)])
                            (filter (strict_prefix d) (all_paths s))))"

definition rglob :: "ofs \<Rightarrow> opath \<Rightarrow> ustr \<Rightarrow> opath list" where
  "rglob s d pat = filter (\<lambda>q. fnmatch pat (last q)) (descendants s d)"

text \<open>\<open>Path.mkdir(parents=True, exist_ok=True)\<close>, and without \<open>parents\<close>, which needs
  the parent; both refuse a file in the way.\<close>

definition mkdir_p :: "opath \<Rightarrow> ofs \<Rightarrow> py_error + ofs" where
  "mkdir_p p s =
     (if list_ex (\<lambda>q. prefix q p) (map fst (fs_files s)) then Inl OSError
      else if is_dir s p then Inr s else Inr (s\<lparr>fs_dirs := fs_dirs s @ [p]\<rparr>))"

definition mkdir :: "opath \<Rightarrow> ofs \<Rightarrow> py_error + ofs" where
  "mkdir p s = (if is_file s p \<or> \<not> is_dir s (butlast p) then Inl OSError else mkdir_p p s)"

text \<open>Writing a file (\<open>open(p, "w")\<close>, \<open>shutil.copy2\<close>) needs its directory and
  replaces what the path held; \<open>copy2\<close> into a directory copies into it.\<close>

definition write_file :: "opath \<Rightarrow> fdata \<Rightarrow> ofs \<Rightarrow> py_error + ofs" where
  "write_file p d s =
     (if is_dir s p \<or> \<not> is_dir s (butlast p) then Inl OSError
      else Inr (s\<lparr>fs_files := AList.update p d (fs_files s)\<rparr>))"

definition copy2 :: "opath \<Rightarrow> opath \<Rightarrow> ofs \<Rightarrow> py_error + ofs" where
  "copy2 src dst s =
     (case map_of (fs_files s) src of
        None \<Rightarrow> Inl OSError
      | Some d \<Rightarrow> write_file (if is_dir s dst then dst @ [last src] else dst) d s)"

text \<open>\<open>shutil.move(src, dst)\<close>: into \<open>dst\<close> when it is a directory, else a rename of
  \<open>src\<close> and everything below it.\<close>

definition rebase :: "opath \<Rightarrow> opath \<Rightarrow> opath \<Rightarrow> opath" where
  "rebase src dst q = (if prefix src q then dst @ drop (length src) q else q)"

definition rename_tree :: "opath \<Rightarrow> opath \<Rightarrow> ofs \<Rightarrow> ofs" where
  "rename_tree src dst s =
     \<lparr>fs_files = map (\<lambda>(q, d). (rebase src dst q, d)) (fs_files s),
      fs_dirs = map (rebase src dst) (fs_dirs s)\<rparr>"

definition move :: "opath \<Rightarrow> opath \<Rightarrow> ofs \<Rightarrow> py_error + ofs" where
  "move src dst s =
     (let dst' = (if is_dir s dst then dst @ [last src] else dst) in
      if \<not> exists s src \<or> exists s dst' \<or> \<not> is_dir s (butlast dst') then Inl OSError
      else Inr (rename_tree src dst' s))"

text \<open>\<open>shutil.rmtree\<close> and \<open>shutil.copytree\<close> (which creates \<open>dst\<close>, and with
  \<open>dirs_exist_ok=False\<close> refuses an existing one).\<close>

definition rmtree :: "opath \<Rightarrow> ofs \<Rightarrow> py_error + ofs" where
  "rmtree p s =
     (if \<not> is_dir s p then Inl OSError
      else Inr \<lparr>fs_files = filter (\<lambda>(q, _). \<not> prefix p q) (fs_files s),
                fs_dirs = filter (\<lambda>q. \<not> prefix p q) (fs_dirs s)\<rparr>)"

definition copytree :: "bool \<Rightarrow> opath \<Rightarrow> opath \<Rightarrow> ofs \<Rightarrow> py_error + ofs" where
  "copytree exist_ok src dst s =
     (if \<not> is_dir s src \<or> (exists s dst \<and> \<not> exist_ok) \<or> is_file s dst then Inl OSError
      else ebind (mkdir_p dst s) (\<lambda>s'.
        Inr \<lparr>fs_files = foldl (\<lambda>fs (q, d). AList.update (rebase src dst q) d fs) (fs_files s')
                                (filter (\<lambda>(q, _). prefix src q) (fs_files s)),
             fs_dirs = fs_dirs s' @ map (rebase src dst) (filter (strict_prefix src) (fs_dirs s))\<rparr>))"

section \<open>\<open>DataOrganizer\<close>\<close>

text \<open>The organiser's fields: the base directory, the time stamp taken when it is
  built, and the two later readings of the clock in \<open>organize_output\<close> (the date of the
  version directory and the ISO time of its metadata).\<close>

record organizer =
  base_path :: opath
  timestamp :: ustr
  out_date :: ustr
  out_iso :: ustr

definition raw_path :: "organizer \<Rightarrow> opath" where
  "raw_path og = base_path og @ [ascii ''raw'']"

definition processed_path :: "organizer \<Rightarrow> opath" where
  "processed_path og = base_path og @ [ascii ''processed'']"

definition output_path :: "organizer \<Rightarrow> opath" where
  "output_path og = base_path og @ [ascii ''output'']"

definition floor_plans_path :: "organizer \<Rightarrow> opath" where
  "floor_plans_path og = base_path og @ [ascii ''floor_plans'']"

definition metadata_json :: ustr where
  "metadata_json = ascii ''metadata.json''"

definition write_json :: "opath \<Rightarrow> pyjson \<Rightarrow> ofs \<Rightarrow> py_error + ofs" where
  "write_json p j = write_file p (JsonDoc j)"

text \<open>The \<open>_create_*_readme\<close> methods write a constant text into \<open>README.md\<close>; the
  text is not modelled, the file is.\<close>

definition create_readme :: "opath \<Rightarrow> ustr \<Rightarrow> ofs \<Rightarrow> py_error + ofs" where
  "create_readme d tag = write_file (d @ [ascii ''README.md'']) (ReadmeDoc tag)"

subsection \<open>\<open>create_backup\<close>\<close>

definition backup_dirs :: "ustr list" where
  "backup_dirs = map ascii [''raw'', ''processed'', ''output'', ''floor_plans'']"

definition create_backup :: "organizer \<Rightarrow> ofs \<Rightarrow> py_error + opath \<times> ofs" where
  "create_backup og s =
     (let bd = base_path og @ [ascii ''backup'', ascii ''backup_'' @ timestamp og] in
      ebind (mkdir_p bd s) (\<lambda>s.
      ebind (efold (\<lambda>s n. let src = base_path og @ [n] in
                           if exists s src then copytree True src (bd @ [n]) s else Inr s) backup_dirs s)
        (\<lambda>s. Inr (bd, s))))"

subsection \<open>\<open>organize_raw\<close>\<close>

definition version_mapping :: "(ustr \<times> ustr list) list" where
  "version_mapping =
     [(ascii ''current'', map ascii [''113_J'', ''113_A'', ''112_A'', ''112_D'', ''112_O'']),
      (ascii ''previous'', map ascii [''111_A'', ''111_J'']),
      (ascii ''legacy'', [ascii ''109_A''])]"

text \<open>The year and campus code of a dataset directory: its name without the prefix, split
  at \<open>_\<close>.\<close>

definition name_parts :: "ustr \<Rightarrow> ustr \<Rightarrow> ustr \<times> ustr" where
  "name_parts pre name =
     (let parts = split_on 95 (py_replace pre [] name) in
      (if parts = [] then ascii ''unknown'' else hd parts,
       if 1 < length parts then py_join (ascii ''_'') (tl parts) else ascii ''unknown''))"

definition tile_category :: "ustr \<Rightarrow> ustr \<Rightarrow> ustr" where
  "tile_category year code =
     (case find (\<lambda>(cat, ps). list_ex (\<lambda>p. prefix p year \<or> prefix p code) ps) version_mapping of
        Some (cat, _) \<Rightarrow> cat
      | None \<Rightarrow> ascii ''previous'')"

definition quadtree_category :: "ustr \<Rightarrow> ustr \<Rightarrow> ustr" where
  "quadtree_category year code =
     (if py_in (ascii ''v4'') (py_lower code) then ascii ''legacy''
      else if prefix (ascii ''113'') year \<or> prefix (ascii ''112'') year then ascii ''current''
      else ascii ''legacy'')"

definition campus_map :: "(ustr \<times> ustr) list" where
  "campus_map =
     [(ascii ''yangming'', [38525, 26126]), (ascii ''A'', [38525, 26126]),
      (ascii ''boai'', [21338, 24859]), (ascii ''O'', [20809, 24489, 47, 21338, 24859]),
      (ascii ''gueiren'', [27512, 20161]), (ascii ''D'', [27512, 20161]),
      (ascii ''liujia'', [20845, 30002]), (ascii ''J'', [20845, 30002])]"

definition identify_campus :: "ustr \<Rightarrow> ustr" where
  "identify_campus code =
     (case find (\<lambda>(k, v). py_in (py_lower k) (py_lower code)) campus_map of
        Some (_, v) \<Rightarrow> v
      | None \<Rightarrow> [26410, 30693])"

definition dataset_metadata :: "(fdata \<Rightarrow> nat) \<Rightarrow> ofs \<Rightarrow> opath \<Rightarrow> ustr \<Rightarrow> (ustr \<times> pyjson) list" where
  "dataset_metadata dsz s d year =
     (let bins = rglob s d (ascii ''*.bin'');
          layers = sort (remdups (filter (prefix (ascii ''L'')) (map (\<lambda>f. last (butlast f)) bins)));
          total = real (sum_list (map (st_size dsz s) bins)) / (1024 * 1024)
      in [(ascii ''name'', PStr (last d)), (ascii ''year'', PStr year),
          (ascii ''file_count'', PInt (int (length bins))),
          (ascii ''total_size_mb'', PFloat (py_round total 2)),
          (ascii ''layers'', PList (map PStr layers)),
          (ascii ''has_manifest'', PBool (exists s (d @ [ascii ''manifest.json''])))])"

text \<open>One iteration of the loop over the 3D-tile datasets (lines 73--98) or over the
  quadtree datasets (lines 104--127): \<open>pre\<close> is the name prefix, \<open>vroot\<close> the
  directory of the version directories and \<open>cat\<close> the rule that picks the version.\<close>

definition dataset_step ::
  "(fdata \<Rightarrow> nat) \<Rightarrow> ustr \<Rightarrow> opath \<Rightarrow> (ustr \<Rightarrow> ustr \<Rightarrow> ustr) \<Rightarrow>
   ofs \<times> pyjson list \<Rightarrow> opath \<Rightarrow> py_error + ofs \<times> pyjson list" where
  "dataset_step dsz pre vroot cat st d =
     (let (s, metas) = st in
      if \<not> is_dir s d then Inr (s, metas)
      else let (year, code) = name_parts pre (last d);
               vc = cat year code;
               meta = PDict (dataset_metadata dsz s d year @
                        [(ascii ''version_category'', PStr vc), (ascii ''campus'', PStr (identify_campus code))]);
               target = vroot @ [vc, year @ ascii ''_'' @ code]
           in if \<not> exists s target \<and> target \<noteq> d
              then ebind (move d target s) (\<lambda>s'. Inr (s', metas @ [meta]))
              else Inr (s, metas @ [meta]))"

definition mb_of :: "pyjson \<Rightarrow> real" where
  "mb_of m = (case m of PDict kvs \<Rightarrow> (case map_of kvs (ascii ''total_size_mb'') of Some (PFloat x) \<Rightarrow> x | _ \<Rightarrow> 0) | _ \<Rightarrow> 0)"

text \<open>\<open>sum()\<close> starts from the integer 0, so the total of no datasets is an integer.\<close>

definition raw_metadata :: "ustr \<Rightarrow> ustr \<Rightarrow> pyjson list \<Rightarrow> pyjson" where
  "raw_metadata ts dtype metas =
     PDict [(ascii ''description'', PStr (ascii ''NLSC '' @ dtype @ ascii '' Data - Versioned Organization'')),
            (ascii ''source'', PStr (ascii ''National Land Surveying and Mapping Center (NLSC)'')),
            (ascii ''coordinate_system'', PStr (ascii ''TWD97 (EPSG:3826)'')),
            (ascii ''organized_date'', PStr ts),
            (ascii ''version_strategy'', PDict
               [(ascii ''current'', PStr (ascii ''Latest versions (113_*, 112_*)'')),
                (ascii ''previous'', PStr (ascii ''Previous versions (111_*)'')),
                (ascii ''legacy'', PStr (ascii ''Older versions (109_*, special v4)''))]),
            (ascii ''datasets'', PList metas),
            (ascii ''total_count'', PInt (int (length metas))),
            (ascii ''total_size_mb'', if metas = [] then PInt 0 else PFloat (sum_list (map mb_of metas)))]"

definition save_raw_metadata :: "organizer \<Rightarrow> opath \<Rightarrow> pyjson list \<Rightarrow> ustr \<Rightarrow> ofs \<Rightarrow> py_error + ofs" where
  "save_raw_metadata og d metas dtype = write_json (d @ [metadata_json]) (raw_metadata (timestamp og) dtype metas)"

definition raw_dirs :: "organizer \<Rightarrow> opath list" where
  "raw_dirs og =
     (let t = raw_path og @ [ascii ''NLSC_3D_tiles'']; q = raw_path og @ [ascii ''NLSC_quadtree''] in
      [t @ [ascii ''current''], t @ [ascii ''previous''], t @ [ascii ''archive''],
       q @ [ascii ''current''], q @ [ascii ''legacy''], raw_path og @ [ascii ''auxiliary'']])"

definition osm_step :: "opath \<Rightarrow> ofs \<Rightarrow> opath \<Rightarrow> py_error + ofs" where
  "osm_step aux s f = (let t = aux @ [last f] in if \<not> exists s t then move f t s else Inr s)"

definition organize_raw :: "(fdata \<Rightarrow> nat) \<Rightarrow> organizer \<Rightarrow> ofs \<Rightarrow> py_error + ofs" where
  "organize_raw dsz og s0 =
     (let tiles = raw_path og @ [ascii ''NLSC_3D_tiles'']; quad = raw_path og @ [ascii ''NLSC_quadtree''];
          aux = raw_path og @ [ascii ''auxiliary''] in
      ebind (efold (\<lambda>s d. mkdir_p d s) (raw_dirs og) s0) (\<lambda>s1.
      ebind (efold (dataset_step dsz (ascii ''NLSC_3D_tiles_'') tiles tile_category)
                   (glob s1 (raw_path og) (ascii ''NLSC_3D_tiles_*'')) (s1, [])) (\<lambda>(s2, tm).
      ebind (efold (dataset_step dsz (ascii ''NLSC_quadtree_'') quad quadtree_category)
                   (glob s2 (raw_path og) (ascii ''NLSC_quadtree_*'')) (s2, [])) (\<lambda>(s3, qm).
      ebind (efold (osm_step aux) (glob s3 (raw_path og) (ascii ''taiwan-osm-*.*'')) s3) (\<lambda>s4.
      ebind (save_raw_metadata og tiles tm (ascii ''3D_tiles'') s4) (\<lambda>s5.
      ebind (save_raw_metadata og quad qm (ascii ''quadtree'') s5) (\<lambda>s6.
      create_readme (raw_path og) (ascii ''raw'') s6)))))))"

subsection \<open>\<open>organize_processed\<close>\<close>

definition campus_list :: "ustr list" where
  "campus_list = map ascii [''boai'', ''yangming'', ''gueiren'', ''liujia'', ''guangfu'']"

text \<open>\<open>campus_mapping\<close>: per campus its file (under the key \<open>json\<close> or \<open>geojson\<close>),
  its building count and its data source.\<close>

definition campus_mapping :: "(ustr \<times> (ustr \<times> ustr) list \<times> int \<times> ustr) list" where
  "campus_mapping =
     [(ascii ''boai'', [(ascii ''json'', ascii ''NYCU_boai_NLSC_buildings.json'')], 1023, ascii ''NLSC Layer 112_O''),
      (ascii ''yangming'', [(ascii ''json'', ascii ''NYCU_yangming_NLSC_buildings.json'')], 446,
       ascii ''NLSC Layer 112_A/113_A''),
      (ascii ''gueiren'', [(ascii ''json'', ascii ''NYCU_gueiren_NLSC_buildings.json'')], 17, ascii ''NLSC Layer 112_D''),
      (ascii ''liujia'', [(ascii ''json'', ascii ''NYCU_liujia_NLSC_buildings.json'')], 169, ascii ''NLSC Layer 113_J''),
      (ascii ''guangfu'', [(ascii ''geojson'', ascii ''NYCU_Guangfu_OSM_buildings.geojson'')], 319, ascii ''OpenStreetMap'')]"

definition campus_name_zh :: "ustr \<Rightarrow> ustr" where
  "campus_name_zh c =
     (case map_of [(ascii ''boai'', [21338, 24859, 26657, 21312]), (ascii ''yangming'', [38525, 26126, 26657, 21312]),
                   (ascii ''gueiren'', [27512, 20161, 26657, 21312]), (ascii ''liujia'', [20845, 30002, 26657, 21312]),
                   (ascii ''guangfu'', [20809, 24489, 26657, 21312])] c of
        Some n \<Rightarrow> n | None \<Rightarrow> c)"

definition campus_name_en :: "ustr \<Rightarrow> ustr" where
  "campus_name_en c =
     (case map_of [(ascii ''boai'', ascii ''Boai Campus''), (ascii ''yangming'', ascii ''Yangming Campus''),
                   (ascii ''gueiren'', ascii ''Gueiren Campus''), (ascii ''liujia'', ascii ''Liujia Campus''),
                   (ascii ''guangfu'', ascii ''Guangfu Campus'')] c of
        Some n \<Rightarrow> n | None \<Rightarrow> py_title c)"

definition buildings_dir :: "organizer \<Rightarrow> opath" where
  "buildings_dir og = processed_path og @ [ascii ''buildings'']"

definition copy_if_new :: "opath \<Rightarrow> opath \<Rightarrow> ofs \<Rightarrow> py_error + ofs" where
  "copy_if_new src dst s = (if exists s src \<and> \<not> exists s dst then copy2 src dst s else Inr s)"

text \<open>The main file of a campus, renamed without its \<open>NYCU_\<close> prefix (lines 238--251).\<close>

definition campus_file_step :: "organizer \<Rightarrow> ustr \<Rightarrow> (ustr \<times> ustr) list \<Rightarrow> ofs \<Rightarrow> ustr \<Rightarrow> py_error + ofs" where
  "campus_file_step og campus files s ft =
     (case map_of files ft of
        None \<Rightarrow> Inr s
      | Some fname \<Rightarrow>
          let dst_name = (if campus = ascii ''guangfu'' then ascii ''OSM_buildings.geojson''
                          else ascii ''NLSC_buildings.'' @ ft)
          in copy_if_new (processed_path og @ [fname]) (buildings_dir og @ [ascii ''by_campus'', campus, dst_name]) s)"

definition file_entry :: "(fdata \<Rightarrow> nat) \<Rightarrow> ofs \<Rightarrow> opath \<Rightarrow> pyjson" where
  "file_entry dsz s f =
     PDict [(ascii ''filename'', PStr (last f)), (ascii ''size_bytes'', PInt (int (st_size dsz s f))),
            (ascii ''format'', PStr (drop 1 (py_suffix (last f))))]"

definition campus_metadata :: "(fdata \<Rightarrow> nat) \<Rightarrow> ofs \<Rightarrow> opath \<Rightarrow> ustr \<Rightarrow> int \<Rightarrow> ustr \<Rightarrow> pyjson" where
  "campus_metadata dsz s cdir campus cnt src =
     PDict [(ascii ''campus'', PStr campus), (ascii ''campus_name_zh'', PStr (campus_name_zh campus)),
            (ascii ''campus_name_en'', PStr (campus_name_en campus)), (ascii ''data_source'', PStr src),
            (ascii ''building_count'', PInt cnt),
            (ascii ''files'', PList (map (file_entry dsz s) (filter (is_file s) (glob s cdir (ascii ''*.*'')))))]"

definition campus_step :: "(fdata \<Rightarrow> nat) \<Rightarrow> organizer \<Rightarrow> ofs \<Rightarrow> ustr \<times> (ustr \<times> ustr) list \<times> int \<times> ustr \<Rightarrow> py_error + ofs" where
  "campus_step dsz og s c =
     (let (campus, files, cnt, src) = c; cdir = buildings_dir og @ [ascii ''by_campus'', campus] in
      ebind (efold (campus_file_step og campus files) [ascii ''json'', ascii ''geojson''] s) (\<lambda>s'.
        write_json (cdir @ [metadata_json]) (campus_metadata dsz s' cdir campus cnt src) s'))"

definition combined_mapping :: "(ustr \<times> ustr) list" where
  "combined_mapping = [(ascii ''NYCU_NLSC_buildings.json'', ascii ''with_surrounding.json''),
                       (ascii ''NYCU_NLSC_buildings.geojson'', ascii ''with_surrounding.geojson'')]"

definition overall_metadata :: "ustr \<Rightarrow> pyjson" where
  "overall_metadata ts =
     PDict [(ascii ''organized_date'', PStr ts),
            (ascii ''organization_principle'', PStr (ascii ''ymmap_archive style - hierarchical by campus and source'')),
            (ascii ''structure'', PDict
               [(ascii ''buildings/by_campus/{campus}/'', PStr [21508, 26657, 21312, 30340, 29544, 31435, 25976, 25818]),
                (ascii ''buildings/combined/'', PStr [25152, 26377, 26657, 21312, 21512, 20341, 25976, 25818, 65288,
                                                       21547, 21608, 37002, 24314, 29289, 65289]),
                (ascii ''buildings/osm/'', PStr (ascii ''OpenStreetMap '' @ [20358, 28304, 25976, 25818])),
                (ascii ''reference/'', PStr [21443, 32771, 21644, 32034, 24341, 25991, 20214])]),
            (ascii ''campuses'', PList (map (\<lambda>(c, _). PStr c) campus_mapping)),
            (ascii ''total_buildings_by_campus'', PInt (sum_list (map (\<lambda>(_, _, n, _). n) campus_mapping))),
            (ascii ''data_sources'', PDict
               [(ascii ''NLSC'', PStr (ascii ''4 campuses (boai, yangming, gueiren, liujia)'')),
                (ascii ''OSM'', PStr (ascii ''1 campus (guangfu)''))])]"

definition processed_dirs :: "organizer \<Rightarrow> opath list" where
  "processed_dirs og =
     map (\<lambda>c. buildings_dir og @ [ascii ''by_campus'', c]) campus_list @
     [buildings_dir og @ [ascii ''combined''], buildings_dir og @ [ascii ''osm''], processed_path og @ [ascii ''reference'']]"

definition organize_processed :: "(fdata \<Rightarrow> nat) \<Rightarrow> organizer \<Rightarrow> ofs \<Rightarrow> py_error + ofs" where
  "organize_processed dsz og s0 =
     ebind (efold (\<lambda>s d. mkdir_p d s) (processed_dirs og) s0) (\<lambda>s1.
     ebind (efold (campus_step dsz og) campus_mapping s1) (\<lambda>s2.
     ebind (efold (\<lambda>s (src, new). copy_if_new (processed_path og @ [src]) (buildings_dir og @ [ascii ''combined'', new]) s)
                  combined_mapping s2) (\<lambda>s3.
     ebind (copy_if_new (processed_path og @ [ascii ''NYCU_building_list.txt''])
                        (processed_path og @ [ascii ''reference'', ascii ''building_names_list.txt'']) s3) (\<lambda>s4.
     ebind (write_json (processed_path og @ [metadata_json]) (overall_metadata (timestamp og)) s4) (\<lambda>s5.
     create_readme (processed_path og) (ascii ''processed'') s5)))))"

subsection \<open>\<open>organize_output\<close>\<close>

definition output_files :: "ustr list" where
  "output_files = map ascii [''NYCU_buildings_3d.geojson'', ''NYCU_buildings_3d.html'', ''NYCU_buildings_map.html'',
                             ''NYCU_buildings_merged.geojson'', ''NYCU_buildings_table.csv'', ''NYCU_buildings_table.xlsx'']"

definition version_metadata :: "ustr \<Rightarrow> ustr \<Rightarrow> pyjson" where
  "version_metadata vname created =
     PDict [(ascii ''version'', PStr vname), (ascii ''created_date'', PStr created),
            (ascii ''files'', PList (map PStr output_files)),
            (ascii ''source'', PStr (ascii ''processed/buildings/combined/'')),
            (ascii ''generator'', PStr (ascii ''building_merger_v2.py''))]"

definition organize_output :: "organizer \<Rightarrow> ofs \<Rightarrow> py_error + ofs" where
  "organize_output og s0 =
     (let vname = ascii ''v1_'' @ out_date og; vdir = output_path og @ [vname];
          latest = output_path og @ [ascii ''latest''] in
      ebind (mkdir vdir s0) (\<lambda>s1.
      ebind (efold (\<lambda>s f. let src = output_path og @ [f] in
                          if exists s src then copy2 src (vdir @ [py_replace (ascii ''NYCU_'') [] f]) s else Inr s)
                   output_files s1) (\<lambda>s2.
      ebind (write_json (vdir @ [metadata_json]) (version_metadata vname (out_iso og)) s2) (\<lambda>s3.
      ebind (if exists s3 latest then rmtree latest s3 else Inr s3) (\<lambda>s4.
      ebind (copytree False vdir latest s4) (\<lambda>s5.
      create_readme (output_path og) (ascii ''output'') s5))))))"

subsection \<open>\<open>organize_floor_plans\<close>\<close>

text \<open>\<open>categories\<close>: label in Chinese and English, building and campus.\<close>

definition fp_categories :: "(ustr \<times> ustr \<times> ustr \<times> ustr \<times> ustr) list" where
  "fp_categories =
     [(ascii ''auditorium'', [31150, 22530], ascii ''Auditorium'', ascii ''Main Auditorium'', ascii ''Yangming''),
      (ascii ''buildings'', [24314, 31689, 29289], ascii ''Buildings'', ascii ''Various'', ascii ''Yangming''),
      (ascii ''campus'', [26657, 22290, 22320, 22294], ascii ''Campus Maps'', ascii ''Campus-wide'', ascii ''Yangming''),
      (ascii ''administrative'', [34892, 25919, 25991, 20214], ascii ''Administrative'', ascii ''Administrative'',
       ascii ''All'')]"

text \<open>An entry of \<open>pdf_mapping\<close>; \<open>status\<close> and \<open>size_bytes\<close> are keys that may be
  absent, and the loop adds them to a small file.\<close>

record pdf_info =
  pi_category :: ustr
  pi_new_name :: ustr
  pi_title_zh :: ustr
  pi_title_en :: ustr
  pi_pages :: int
  pi_status :: "ustr option"
  pi_use_cases :: "ustr list"
  pi_size :: "nat option"

definition pdf_entry :: "ustr \<Rightarrow> ustr \<Rightarrow> ustr \<Rightarrow> ustr \<Rightarrow> int \<Rightarrow> ustr option \<Rightarrow> string list \<Rightarrow> pdf_info" where
  "pdf_entry c n tz te pg st uc =
     \<lparr>pi_category = c, pi_new_name = n, pi_title_zh = tz, pi_title_en = te, pi_pages = pg,
      pi_status = st, pi_use_cases = map ascii uc, pi_size = None\<rparr>"

definition pdf_mapping :: "(ustr \<times> pdf_info) list" where
  "pdf_mapping =
     [(ascii ''auditorium_panorama.pdf'', pdf_entry (ascii ''auditorium'') (ascii ''panorama.pdf'')
         [31150, 22530, 20840, 26223, 22294] (ascii ''Auditorium Panorama'') 2 None
         [''event_planning'', ''capacity_planning'']),
      (ascii ''auditorium_seatmap.pdf'', pdf_entry (ascii ''auditorium'') (ascii ''seatmap.pdf'')
         [31150, 22530, 24231, 20301, 22294] (ascii ''Auditorium Seat Map'') 2 None
         [''seating_assignment'', ''ticket_planning'']),
      (ascii ''einfo_building_map.pdf'', pdf_entry (ascii ''buildings'') (ascii ''einfo_building_map.pdf'')
         [36039, 35338, 22823, 27155, 24179, 38754, 22294] (ascii ''E-Info Building Map'') 2 None
         [''navigation'', ''room_finding'']),
      (ascii ''eng5_exam_floorplan.pdf'', pdf_entry (ascii ''buildings'') (ascii ''eng5_exam_floorplan.pdf'')
         [24037, 31243, 20116, 39208, 32771, 35430, 37197, 32622, 22294] (ascii ''ENG5 Exam Floor Plan'') 1 None
         [''exam_planning'', ''seating_arrangement'']),
      (ascii ''yangming_campus_map.pdf'', pdf_entry (ascii ''campus'') (ascii ''yangming_campus_map.pdf'')
         [38525, 26126, 26657, 21312, 22320, 22294] (ascii ''Yangming Campus Map'') 1 None
         [''navigation'', ''wayfinding'']),
      (ascii ''yangming_map_old.pdf'', pdf_entry (ascii ''campus'') (ascii ''yangming_map_old.pdf'')
         [38525, 26126, 26657, 21312, 22320, 22294, 65288, 33290, 29256, 65289] (ascii ''Yangming Campus Map (Old)'') 2
         None [''historical_reference'']),
      (ascii ''fee_standard.pdf'', pdf_entry (ascii ''administrative'') (ascii ''fee_standard.pdf'')
         [25910, 36027, 27161, 28310] (ascii ''Fee Standard'') 0 (Some (ascii ''corrupted'')) [''fee_reference''])]"

text \<open>\<open>file_stats\<close>: per category the count, the total size and the entries.\<close>

type_synonym file_stats = "(ustr \<times> nat \<times> nat \<times> pdf_info list) list"

definition stats_get :: "file_stats \<Rightarrow> ustr \<Rightarrow> nat \<times> nat \<times> pdf_info list" where
  "stats_get fs c = (case map_of fs c of Some x \<Rightarrow> x | None \<Rightarrow> (0, 0, []))"

text \<open>One iteration of the PDF loop (lines 503--528). \<open>pdf_copy\<close>: a file that is there
  and not yet filed is copied, and marked corrupted when it is under 1000 bytes.
  \<open>pdf_count\<close>: every entry of the mapping is counted, there or not, and only the size
  of a file that is there added. The loop also carries the mapping as it leaves it, for
  the quality issues.\<close>

definition pdf_copy :: "(fdata \<Rightarrow> nat) \<Rightarrow> opath \<Rightarrow> ofs \<Rightarrow> ustr \<Rightarrow> pdf_info \<Rightarrow> py_error + ofs \<times> pdf_info" where
  "pdf_copy dsz fp s src_name info =
     (let src = fp @ [src_name]; dst = fp @ [ascii ''pdf'', pi_category info, pi_new_name info] in
      if exists s src \<and> \<not> exists s dst then
        let sz = st_size dsz s src;
            info' = (if sz < 1000 then info\<lparr>pi_status := Some (ascii ''corrupted''), pi_size := Some sz\<rparr> else info)
        in ebind (copy2 src dst s) (\<lambda>s'. Inr (s', info'))
      else Inr (s, info))"

definition pdf_count :: "(fdata \<Rightarrow> nat) \<Rightarrow> ofs \<Rightarrow> opath \<Rightarrow> pdf_info \<Rightarrow> file_stats \<Rightarrow> file_stats" where
  "pdf_count dsz s src info fstats =
     (let (c, t, fs) = stats_get fstats (pi_category info);
          t' = (if exists s src then t + st_size dsz s src else t)
      in AList.update (pi_category info) (Suc c, t', fs @ [info]) fstats)"

definition pdf_step ::
  "(fdata \<Rightarrow> nat) \<Rightarrow> opath \<Rightarrow> ofs \<times> file_stats \<times> (ustr \<times> pdf_info) list \<Rightarrow> ustr \<times> pdf_info \<Rightarrow>
   py_error + ofs \<times> file_stats \<times> (ustr \<times> pdf_info) list" where
  "pdf_step dsz fp st e =
     (let (s, fstats, infos) = st; (src_name, info) = e in
      ebind (pdf_copy dsz fp s src_name info) (\<lambda>(s', info').
        Inr (s', pdf_count dsz s' (fp @ [src_name]) info' fstats, infos @ [(src_name, info')])))"

definition preview_mapping :: "(ustr \<times> ustr list) list" where
  "preview_mapping =
     [(ascii ''auditorium'', map ascii [''auditorium_panorama_'', ''auditorium_seatmap_'']),
      (ascii ''buildings'', map ascii [''einfo_building_map_'', ''eng5_exam_floorplan_'']),
      (ascii ''campus'', map ascii [''yangming_campus_map_'', ''yangming_map_old_''])]"

definition preview_step :: "opath \<Rightarrow> ofs \<Rightarrow> ustr \<times> ustr list \<Rightarrow> py_error + ofs" where
  "preview_step pb s cp =
     (let (cat, prefixes) = cp; cdir = pb @ [cat] in
      ebind (mkdir_p cdir s) (efold (\<lambda>s pre.
        efold (\<lambda>s f. copy_if_new f (cdir @ [last f]) s) (glob s pb (pre @ ascii ''*.png'')) s) prefixes))"

definition doc_meta :: "pdf_info \<Rightarrow> pyjson" where
  "doc_meta i =
     PDict ([(ascii ''id'', PStr (py_replace (ascii ''.pdf'') [] (pi_new_name i))),
             (ascii ''filename'', PStr (pi_new_name i)), (ascii ''title_zh'', PStr (pi_title_zh i)),
             (ascii ''title_en'', PStr (pi_title_en i)), (ascii ''pages'', PInt (pi_pages i)),
             (ascii ''use_cases'', PList (map PStr (pi_use_cases i)))] @
            (case pi_status i of
               Some st \<Rightarrow> [(ascii ''status'', PStr st),
                           (ascii ''size_bytes'', PInt (int (case pi_size i of Some n \<Rightarrow> n | None \<Rightarrow> 0)))]
             | None \<Rightarrow> []))"

definition category_meta :: "ofs \<Rightarrow> opath \<Rightarrow> file_stats \<Rightarrow> ustr \<times> ustr \<times> ustr \<times> ustr \<times> ustr \<Rightarrow> ustr \<times> pyjson" where
  "category_meta s pb fstats ci =
     (let (cat, lzh, len, bld, cmp) = ci; (c, t, fs) = stats_get fstats cat;
          pc = (if exists s (pb @ [cat]) then length (glob s (pb @ [cat]) (ascii ''*.png'')) else 0)
      in (cat, PDict [(ascii ''label_zh'', PStr lzh), (ascii ''label_en'', PStr len),
                      (ascii ''building'', PStr bld), (ascii ''campus'', PStr cmp),
                      (ascii ''document_count'', PInt (int c)), (ascii ''preview_count'', PInt (int pc)),
                      (ascii ''total_size_mb'', PFloat (py_round (real t / (1024 * 1024)) 2)),
                      (ascii ''documents'', PList (map doc_meta fs))]))"

definition quality_issue :: "ustr \<times> pdf_info \<Rightarrow> pyjson" where
  "quality_issue e =
     (let (src, i) = e in
      PDict [(ascii ''document'', PStr src), (ascii ''category'', PStr (pi_category i)),
             (ascii ''issue'', PStr (ascii ''File size '' @ show_nat (case pi_size i of Some n \<Rightarrow> n | None \<Rightarrow> 0) @
                                    ascii '' bytes - likely corrupted'')),
             (ascii ''action_required'', PStr (ascii ''Replace with valid file or remove'')),
             (ascii ''priority'', PStr (ascii ''high''))])"

definition floor_plans_metadata :: "ustr \<Rightarrow> ofs \<Rightarrow> opath \<Rightarrow> file_stats \<Rightarrow> (ustr \<times> pdf_info) list \<Rightarrow> pyjson" where
  "floor_plans_metadata ts s pb fstats infos =
     PDict [(ascii ''organized_date'', PStr ts),
            (ascii ''organization_principle'', PStr (ascii ''ymmap_archive style - hierarchical by document type'')),
            (ascii ''categories'', PDict (map (category_meta s pb fstats) fp_categories)),
            (ascii ''quality_issues'', PList (map quality_issue
               (filter (\<lambda>(_, i). pi_status i = Some (ascii ''corrupted'')) infos)))]"

definition organize_floor_plans :: "(fdata \<Rightarrow> nat) \<Rightarrow> organizer \<Rightarrow> ofs \<Rightarrow> py_error + ofs" where
  "organize_floor_plans dsz og s0 =
     (let fp = floor_plans_path og; pb = fp @ [ascii ''preview''] in
      ebind (efold (\<lambda>s c. mkdir_p (fp @ [ascii ''pdf'', fst c]) s) fp_categories s0) (\<lambda>s1.
      ebind (efold (pdf_step dsz fp) pdf_mapping (s1, [], [])) (\<lambda>(s2, fstats, infos).
      ebind (efold (preview_step pb) preview_mapping s2) (\<lambda>s3.
      ebind (write_json (fp @ [metadata_json]) (floor_plans_metadata (timestamp og) s3 pb fstats infos) s3) (\<lambda>s4.
      create_readme fp (ascii ''floor_plans'') s4)))))"

subsection \<open>\<open>generate_report\<close> and \<open>main\<close>\<close>

definition dir_stats :: "(fdata \<Rightarrow> nat) \<Rightarrow> ofs \<Rightarrow> opath \<Rightarrow> pyjson" where
  "dir_stats dsz s d =
     (let ds = descendants s d; files = filter (is_file s) ds in
      PDict [(ascii ''files'', PInt (int (length files))),
             (ascii ''dirs'', PInt (int (length (filter (\<lambda>q. \<not> is_file s q) ds)))),
             (ascii ''size_mb'', PFloat (py_round (real (sum_list (map (st_size dsz s) files)) / (1024 * 1024)) 2))])"

definition report_json :: "(fdata \<Rightarrow> nat) \<Rightarrow> organizer \<Rightarrow> ofs \<Rightarrow> pyjson" where
  "report_json dsz og s =
     PDict [(ascii ''organized_date'', PStr (timestamp og)),
            (ascii ''statistics'', PDict (map (\<lambda>n. (n, dir_stats dsz s (base_path og @ [n])))
                                            (filter (\<lambda>n. exists s (base_path og @ [n])) backup_dirs))),
            (ascii ''actions'', PList (map PStr
               [[21109, 24314, 20633, 20221],
                [25972, 29702] @ ascii '' raw/ '' @ [30446, 37636, 20006, 29983, 25104, 20803, 25976, 25818],
                [25972, 29702] @ ascii '' processed/ '' @ [30446, 37636, 25353, 26657, 21312, 20998, 39006],
                [25972, 29702] @ ascii '' output/ '' @ [30446, 37636, 20006, 24314, 31435, 29256, 26412, 25511, 21046],
                [25972, 29702] @ ascii '' floor_plans/ '' @ [30446, 37636, 25353, 39006, 22411, 20998, 39006],
                [28858, 25152, 26377, 30446, 37636, 21109, 24314] @ ascii '' README.md''])),
            (ascii ''next_steps'', PList (map PStr
               [[39511, 35657, 25991, 20214, 23436, 25972, 24615],
                [22739, 32302, 33290, 29256, 26412, 25976, 25818],
                [26356, 26032, 20027] @ ascii '' README.md'']))]"

definition generate_report :: "(fdata \<Rightarrow> nat) \<Rightarrow> organizer \<Rightarrow> ofs \<Rightarrow> py_error + opath \<times> ofs" where
  "generate_report dsz og s =
     (let rf = base_path og @ [ascii ''organization_report_'' @ timestamp og @ ascii ''.json''] in
      ebind (write_json rf (report_json dsz og s) s) (\<lambda>s'. Inr (rf, s')))"

definition main_organize :: "(fdata \<Rightarrow> nat) \<Rightarrow> organizer \<Rightarrow> ofs \<Rightarrow> py_error + ofs" where
  "main_organize dsz og s0 =
     ebind (create_backup og s0) (\<lambda>(_, s1).
     ebind (organize_raw dsz og s1) (\<lambda>s2.
     ebind (organize_processed dsz og s2) (\<lambda>s3.
     ebind (organize_output og s3) (\<lambda>s4.
     ebind (organize_floor_plans dsz og s4) (\<lambda>s5.
     ebind (generate_report dsz og s5) (\<lambda>(_, s6). Inr s6))))))"

section \<open>Properties\<close>

text \<open>A run keeps every file when each path that held a file still holds one, and each
  directory created is still there; the contents of a store are the multiset of what its
  files hold.\<close>

definition files_kept :: "ofs \<Rightarrow> ofs \<Rightarrow> bool" where
  "files_kept s s' = (set (map fst (fs_files s)) \<subseteq> set (map fst (fs_files s')) \<and> set (fs_dirs s) \<subseteq> set (fs_dirs s'))"

definition contents :: "ofs \<Rightarrow> fdata multiset" where
  "contents s = mset (map snd (fs_files s))"

text \<open>\<open>keeps s r\<close>: the computation \<open>r\<close>, started on \<open>s\<close>, keeps every file of
  \<open>s\<close> when it returns.\<close>

definition keeps :: "ofs \<Rightarrow> py_error + ofs \<Rightarrow> bool" where
  "keeps s r = (\<forall>s'. r = Inr s' \<longrightarrow> files_kept s s')"

text \<open>An entry of \<open>pdf_mapping\<close> as the PDF loop leaves it: the same file and
  category, and still corrupted when it was.\<close>

definition entry_follows :: "ustr \<times> pdf_info \<Rightarrow> ustr \<times> pdf_info \<Rightarrow> bool" where
  "entry_follows e e' =
     (fst e' = fst e \<and> pi_category (snd e') = pi_category (snd e) \<and>
      (pi_status (snd e) = Some (ascii ''corrupted'') \<longrightarrow> pi_status (snd e') = Some (ascii ''corrupted'')))"

named_theorems keeps_intros "rules that show an operation keeps every file"

subsection \<open>Strings\<close>

lemma split_on_nonempty [simp]: "split_on c s \<noteq> []"
  by (induction s) (auto simp: Let_def)

lemma split_on_hd_sep: "c \<notin> set (hd (split_on c s))"
  by (induction s) (auto simp: Let_def)

text \<open>The year of a dataset name never holds an underscore.\<close>

lemma name_parts_year: "95 \<notin> set (fst (name_parts pre n))"
  by (simp add: name_parts_def Let_def split_on_hd_sep)

lemma version_patterns_sep: "\<forall>(cat, ps) \<in> set version_mapping. \<forall>p \<in> set ps. 95 \<in> set p"
  by (simp add: version_mapping_def ascii_def)

text \<open>C2. So no pattern of \<open>version_mapping\<close>, each of which holds an underscore, is
  a prefix of the year of a dataset name: the version of a 3D-tile dataset is decided by
  its campus code alone, and a code that starts with no pattern (\<open>J_liujia\<close>,
  \<open>A_yangming\<close>) gives \<open>previous\<close>, whatever the year, \<open>113\<close> included.\<close>

theorem tile_category_previous:
  assumes "\<not> list_ex (\<lambda>p. prefix p code) (concat (map snd version_mapping))"
  shows "tile_category (fst (name_parts pre n)) code = ascii ''previous''"
proof -
  have "\<not> prefix p (fst (name_parts pre n))" if "(cat, ps) \<in> set version_mapping" "p \<in> set ps" for cat ps p
    using version_patterns_sep that name_parts_year set_mono_prefix by fastforce
  moreover have "\<not> prefix p code" if "(cat, ps) \<in> set version_mapping" "p \<in> set ps" for cat ps p
    using assms that by (force simp: list_ex_iff)
  ultimately have "find (\<lambda>(cat, ps). list_ex (\<lambda>p. prefix p (fst (name_parts pre n)) \<or> prefix p code) ps)
                     version_mapping = None"
    by (auto simp: find_None_iff list_ex_iff)
  then show ?thesis by (simp add: tile_category_def)
qed

text \<open>C20. \<open>_identify_campus\<close> tests the keys in order with \<open>key.lower() in
  code.lower()\<close>; the second key is \<open>A\<close>, so every code with an \<open>a\<close> in it is
  identified as Yangming (code points 38525, 26126), \<open>boai\<close> and \<open>liujia\<close> included.\<close>

theorem identify_campus_a:
  assumes "py_in [97] (py_lower code)"
  shows "identify_campus code = [38525, 26126]"
proof -
  have "py_lower (ascii ''A'') = [97]" by (simp add: py_lower_def lower_c_def ascii_def)
  then show ?thesis using assms
    by (simp add: identify_campus_def campus_map_def)
qed

theorem identify_campus_a_witness:
  "py_in [97] (py_lower (ascii ''boai'')) \<and> identify_campus (ascii ''boai'') = [38525, 26126]"
proof -
  have h: "py_in [97] (py_lower (ascii ''boai''))"
    by (simp add: py_in_def find_sub_def py_lower_def lower_c_def ascii_def)
  show ?thesis using identify_campus_a [OF h] h by simp
qed

theorem tile_category_previous_witness:
  "\<not> list_ex (\<lambda>p. prefix p (ascii ''J_liujia'')) (concat (map snd version_mapping)) \<and>
   tile_category (fst (name_parts (ascii ''NLSC_3D_tiles_'') (ascii ''NLSC_3D_tiles_113_J_liujia'')))
     (ascii ''J_liujia'') = ascii ''previous''"
proof -
  have h: "\<not> list_ex (\<lambda>p. prefix p (ascii ''J_liujia'')) (concat (map snd version_mapping))"
    by (simp add: version_mapping_def ascii_def)
  show ?thesis using tile_category_previous [OF h] h by simp
qed

lemma tile_category_113_J:
  "name_parts (ascii ''NLSC_3D_tiles_'') (ascii ''NLSC_3D_tiles_113_J_liujia'') = (ascii ''113'', ascii ''J_liujia'') \<and>
   tile_category (ascii ''113'') (ascii ''J_liujia'') = ascii ''previous''"
  by (simp add: name_parts_def tile_category_def version_mapping_def ascii_def)

subsection \<open>The store: operations that keep every file\<close>

lemma files_kept_trans: "files_kept a b \<Longrightarrow> files_kept b c \<Longrightarrow> files_kept a c"
  unfolding files_kept_def by (meson subset_trans)

lemma keys_foldl_update:
  "fst ` set fs \<subseteq> fst ` set (foldl (\<lambda>fs (q, d). AList.update (g q) d fs) fs xs)"
proof (induction xs arbitrary: fs)
  case (Cons x xs)
  obtain q d where x: "x = (q, d)" by (cases x)
  have "fst ` set fs \<subseteq> fst ` set (AList.update (g q) d fs)" by (auto simp: dom_update)
  also have "\<dots> \<subseteq> fst ` set (foldl (\<lambda>fs (q, d). AList.update (g q) d fs) (AList.update (g q) d fs) xs)"
    by (rule Cons.IH)
  finally show ?case by (simp add: x)
qed simp

lemma keeps_Inr [keeps_intros]: "keeps s (Inr s)"
  by (simp add: keeps_def files_kept_def)

lemma keeps_Inl [keeps_intros]: "keeps s (Inl e)"
  by (simp add: keeps_def)

lemma keeps_if [keeps_intros]: "keeps s a \<Longrightarrow> keeps s b \<Longrightarrow> keeps s (if c then a else b)"
  by simp

lemma keeps_ebind [keeps_intros]:
  "keeps s m \<Longrightarrow> (\<And>x. m = Inr x \<Longrightarrow> keeps x (f x)) \<Longrightarrow> keeps s (ebind m f)"
  by (auto simp: keeps_def intro: files_kept_trans)

lemma keeps_efold [keeps_intros]: "(\<And>t x. keeps t (f t x)) \<Longrightarrow> keeps s (efold f xs s)"
proof (induction xs arbitrary: s)
  case (Cons x xs)
  show ?case
    unfolding efold.simps by (rule keeps_ebind [OF Cons.prems Cons.IH [OF Cons.prems]])
qed (simp add: keeps_Inr)

lemma keeps_write_file [keeps_intros]: "keeps s (write_file p d s)"
  by (auto simp: keeps_def files_kept_def write_file_def dom_update)

lemma keeps_mkdir_p [keeps_intros]: "keeps s (mkdir_p p s)"
  by (auto simp: keeps_def files_kept_def mkdir_p_def)

lemma keeps_mkdir [keeps_intros]: "keeps s (mkdir p s)"
  by (simp add: mkdir_def keeps_Inl keeps_mkdir_p)

lemma keeps_copy2 [keeps_intros]: "keeps s (copy2 src dst s)"
  by (simp add: copy2_def keeps_Inl keeps_write_file split: option.split)

lemma keeps_copy_if_new [keeps_intros]: "keeps s (copy_if_new src dst s)"
  by (simp add: copy_if_new_def keeps_copy2 keeps_Inr)

lemma keeps_write_json [keeps_intros]: "keeps s (write_json p j s)"
  by (simp add: write_json_def keeps_write_file)

lemma keeps_create_readme [keeps_intros]: "keeps s (create_readme d t s)"
  by (simp add: create_readme_def keeps_write_file)

lemma keeps_copytree [keeps_intros]: "keeps s (copytree ok src dst s)"
proof -
  have "keeps s' (Inr \<lparr>fs_files = foldl (\<lambda>fs (q, d). AList.update (g q) d fs) (fs_files s') xs, fs_dirs = fs_dirs s' @ ds\<rparr>)"
    for s' g xs ds
    using keys_foldl_update by (simp add: keeps_def files_kept_def)
  then show ?thesis
    unfolding copytree_def by (intro keeps_if keeps_Inl keeps_ebind keeps_mkdir_p)
qed

lemma keeps_case_prod [keeps_intros]: "(\<And>a b. keeps s (f a b)) \<Longrightarrow> keeps s (case x of (a, b) \<Rightarrow> f a b)"
  by (cases x) simp

lemma keeps_ebind_fst:
  "(\<And>y. m = Inr y \<Longrightarrow> files_kept s (fst y)) \<Longrightarrow> (\<And>a b. m = Inr (a, b) \<Longrightarrow> keeps a (f (a, b))) \<Longrightarrow>
   keeps s (ebind m f)"
  by (auto simp: keeps_def intro: files_kept_trans)

lemma keeps_campus_file_step [keeps_intros]: "keeps s (campus_file_step og c files s ft)"
  by (simp add: campus_file_step_def Let_def keeps_Inr keeps_copy_if_new split: option.split)

lemma keeps_campus_step [keeps_intros]: "keeps s (campus_step dsz og s c)"
  unfolding campus_step_def by (simp add: split_beta Let_def) (intro keeps_intros)

lemma keeps_preview_step [keeps_intros]: "keeps s (preview_step pb s cp)"
  unfolding preview_step_def by (simp add: split_beta Let_def) (intro keeps_intros)

subsection \<open>Organising \<^verbatim>\<open>processed/\<close> and \<^verbatim>\<open>floor_plans/\<close> keeps every file\<close>

text \<open>\<open>organize_processed\<close> only creates directories and copies and writes files: when
  it returns, every file it started with is still there.\<close>

lemma organize_processed_keeps: "keeps s (organize_processed dsz og s)"
  unfolding organize_processed_def by (intro keeps_intros)

lemma pdf_copy_Inr:
  assumes "pdf_copy dsz fp s n i = Inr (s', i')"
  shows "files_kept s s' \<and> pi_category i' = pi_category i \<and> pi_new_name i' = pi_new_name i \<and>
         (pi_status i' = pi_status i \<or> pi_status i' = Some (ascii ''corrupted''))"
proof (cases "exists s (fp @ [n]) \<and> \<not> exists s (fp @ [ascii ''pdf'', pi_category i, pi_new_name i])")
  case True
  then show ?thesis using assms keeps_copy2 [of s]
    by (auto simp: pdf_copy_def Let_def keeps_def split: if_splits)
next
  case False
  then show ?thesis using assms by (auto simp: pdf_copy_def Let_def files_kept_def)
qed

lemma pdf_step_Inr:
  "pdf_step dsz fp (s, fstats, infos) (n, i) = Inr (s', fstats', infos') \<longleftrightarrow>
   (\<exists>i'. pdf_copy dsz fp s n i = Inr (s', i') \<and> fstats' = pdf_count dsz s' (fp @ [n]) i' fstats \<and>
         infos' = infos @ [(n, i')])"
  by (auto simp: pdf_step_def split: prod.splits)

lemma pdf_count_count:
  "fst (stats_get (pdf_count dsz s src i fstats) c) = fst (stats_get fstats c) + (if pi_category i = c then 1 else 0)"
  by (simp add: pdf_count_def stats_get_def update_conv' split_beta split: option.split)

text \<open>The PDF loop keeps every file, counts each entry of the mapping under its category
  whether or not its file is there, and leaves each entry with its category and name, and
  a corrupted one corrupted.\<close>

lemma pdf_fold:
  assumes "efold (pdf_step dsz fp) xs (s, fstats, infos) = Inr (s', fstats', infos')"
  shows "files_kept s s' \<and>
         (\<forall>c. fst (stats_get fstats' c) = fst (stats_get fstats c) + length (filter (\<lambda>e. pi_category (snd e) = c) xs)) \<and>
         (\<exists>ys. infos' = infos @ ys \<and>
               list_all2 entry_follows
                         xs ys)"
  using assms
proof (induction xs arbitrary: s fstats infos)
  case Nil
  then show ?case by (simp add: files_kept_def)
next
  case (Cons x xs)
  obtain n i where x: "x = (n, i)" by (cases x)
  from Cons.prems obtain y where y: "pdf_step dsz fp (s, fstats, infos) (n, i) = Inr y"
    and r: "efold (pdf_step dsz fp) xs y = Inr (s', fstats', infos')" by (auto simp: x)
  obtain s1 fs1 inf1 where y1: "y = (s1, fs1, inf1)" by (cases y)
  from y obtain i' where c: "pdf_copy dsz fp s n i = Inr (s1, i')"
    and f: "fs1 = pdf_count dsz s1 (fp @ [n]) i' fstats" and inf: "inf1 = infos @ [(n, i')]"
    by (auto simp: y1 pdf_step_Inr)
  have ih: "files_kept s1 s' \<and>
         (\<forall>c. fst (stats_get fstats' c) = fst (stats_get fs1 c) + length (filter (\<lambda>e. pi_category (snd e) = c) xs)) \<and>
         (\<exists>ys. infos' = inf1 @ ys \<and>
               list_all2 entry_follows
                         xs ys)"
    using Cons.IH [of s1 fs1 inf1] r y1 by simp
  from ih obtain ys where ys: "infos' = inf1 @ ys" and rel: "list_all2 entry_follows xs ys"
    by blast
  have cp: "files_kept s s1 \<and> pi_category i' = pi_category i \<and>
            (pi_status i' = pi_status i \<or> pi_status i' = Some (ascii ''corrupted''))"
    using pdf_copy_Inr [OF c] by simp
  show ?case
  proof (intro conjI allI)
    show "files_kept s s'" using cp ih files_kept_trans by blast
    show "fst (stats_get fstats' c) = fst (stats_get fstats c) + length (filter (\<lambda>e. pi_category (snd e) = c) (x # xs))" for c
      using ih cp by (simp add: f x pdf_count_count)
    show "\<exists>ys. infos' = infos @ ys \<and> list_all2 entry_follows (x # xs) ys"
      using ys rel cp by (intro exI [of _ "(n, i') # ys"]) (auto simp: inf x entry_follows_def)
  qed
qed

lemma organize_floor_plans_keeps: "keeps s (organize_floor_plans dsz og s)"
proof -
  have pdf: "files_kept s1 (fst y)" if "efold (pdf_step dsz fp) xs (s1, [], []) = Inr y" for s1 y fp xs
    using pdf_fold [of dsz fp xs s1 "[]" "[]"] that by (metis prod.collapse)
  show ?thesis
    unfolding organize_floor_plans_def Let_def
    apply (rule keeps_ebind, intro keeps_intros)
    apply (rule keeps_ebind_fst, erule pdf)
    apply (simp only: prod.case)
    apply (intro keeps_intros)
    done
qed

text \<open>For the mapping of the script the categories count 2, 2, 2 and 1 documents, whatever
  files there are, and \<open>fee_standard.pdf\<close>, which the mapping marks corrupted, is always
  among the quality issues, even when there is no such file.\<close>

lemma floor_plan_document_counts:
  assumes "efold (pdf_step dsz fp) pdf_mapping (s, [], []) = Inr (s', fstats, infos)"
  shows "map (\<lambda>c. fst (stats_get fstats (fst c))) fp_categories = [2, 2, 2, 1]"
  using pdf_fold [OF assms]
  by (simp add: pdf_mapping_def pdf_entry_def fp_categories_def ascii_def stats_get_def)

lemma floor_plan_fee_issue:
  assumes "efold (pdf_step dsz fp) pdf_mapping (s, [], []) = Inr (s', fstats, infos)"
  shows "\<exists>i. (ascii ''fee_standard.pdf'', i) \<in> set infos \<and> pi_status i = Some (ascii ''corrupted'')"
proof -
  obtain ys where ys: "infos = ys" and rel: "list_all2 entry_follows pdf_mapping ys"
    using pdf_fold [OF assms] by auto
  have len: "length ys = 7" using list_all2_lengthD [OF rel] by (simp add: pdf_mapping_def)
  have "length pdf_mapping = 7" by (simp add: pdf_mapping_def)
  then have "entry_follows (pdf_mapping ! 6) (ys ! 6)" using list_all2_nthD [OF rel, of 6] by simp
  then have "fst (ys ! 6) = ascii ''fee_standard.pdf'' \<and> pi_status (snd (ys ! 6)) = Some (ascii ''corrupted'')"
    by (simp add: entry_follows_def pdf_mapping_def pdf_entry_def)
  moreover have "ys ! 6 \<in> set infos" using len ys by simp
  ultimately show ?thesis by (metis prod.collapse)
qed

subsection \<open>Sorting \<^verbatim>\<open>raw/\<close> moves files without losing or duplicating any\<close>

lemma contents_rename_tree: "contents (rename_tree a b s) = contents s"
  by (simp add: contents_def rename_tree_def comp_def split_beta)

lemma move_contents: "move a b s = Inr s' \<Longrightarrow> contents s' = contents s"
  by (auto simp: move_def Let_def contents_rename_tree split: if_splits)

lemma dataset_step_contents:
  assumes "dataset_step dsz pre vroot cat (s, m) d = Inr (s', m')"
  shows "contents s' = contents s \<and> (\<exists>j. m' = m @ j \<and> length j \<le> 1)"
  using assms move_contents
  by (auto simp: dataset_step_def Let_def split_beta split: if_splits)

lemma dataset_fold_contents:
  assumes "efold (dataset_step dsz pre vroot cat) ds (s, m) = Inr (s', m')"
  shows "contents s' = contents s \<and> (\<exists>j. m' = m @ j \<and> length j \<le> length ds)"
  using assms
proof (induction ds arbitrary: s m)
  case (Cons d ds)
  from Cons.prems obtain s1 m1 where st: "dataset_step dsz pre vroot cat (s, m) d = Inr (s1, m1)"
    and r: "efold (dataset_step dsz pre vroot cat) ds (s1, m1) = Inr (s', m')"
    by (auto simp: split_pairs)
  obtain j1 where "contents s1 = contents s" "m1 = m @ j1" "length j1 \<le> 1"
    using dataset_step_contents [OF st] by blast
  moreover obtain j2 where "contents s' = contents s1" "m' = m1 @ j2" "length j2 \<le> length ds"
    using Cons.IH [OF r] by blast
  ultimately show ?case by (intro conjI exI [of _ "j1 @ j2"]) auto
qed simp

lemma osm_fold_contents: "efold (osm_step aux) fs s = Inr s' \<Longrightarrow> contents s' = contents s"
  by (erule efold_inv [where P = "\<lambda>t. contents t = contents s"])
     (auto simp: osm_step_def Let_def move_contents split: if_splits)


subsection \<open>Reading back what was written\<close>

lemma write_file_read:
  assumes "write_file p d s = Inr s'"
  shows "map_of (fs_files s') p = Some d \<and> is_file s' p \<and> \<not> is_dir s' p"
proof -
  have nd: "\<not> is_dir s p" and s': "s' = s\<lparr>fs_files := AList.update p d (fs_files s)\<rparr>"
    using assms by (auto simp: write_file_def split: if_splits)
  have "\<not> list_ex (strict_prefix p) (all_paths s')"
    using nd by (auto simp: s' is_dir_def all_paths_def list_ex_iff dom_update)
  moreover have "p \<notin> set (fs_dirs s')" using nd by (simp add: s' is_dir_def)
  ultimately show ?thesis
    by (auto simp: s' is_dir_def is_file_def update_conv' dom_update)
qed

lemma write_file_other:
  "write_file p d s = Inr s' \<Longrightarrow> q \<noteq> p \<Longrightarrow> map_of (fs_files s') q = map_of (fs_files s) q"
  by (auto simp: write_file_def update_conv' split: if_splits)

lemma files_kept_is_file: "files_kept s s' \<Longrightarrow> is_file s p \<Longrightarrow> is_file s' p"
  by (auto simp: files_kept_def is_file_def)

lemma files_kept_is_dir: "files_kept s s' \<Longrightarrow> is_dir s p \<Longrightarrow> is_dir s' p"
  by (auto simp: files_kept_def is_dir_def all_paths_def list_ex_iff)

lemma mkdir_p_is_dir: "mkdir_p p s = Inr s' \<Longrightarrow> is_dir s' p"
  by (auto simp: mkdir_p_def is_dir_def split: if_splits)

lemma strict_prefix_append [simp]: "ys \<noteq> [] \<Longrightarrow> strict_prefix xs (xs @ ys)"
  by (simp add: strict_prefix_def)

lemma is_dir_ancestor: "is_dir s q \<Longrightarrow> strict_prefix p q \<Longrightarrow> is_dir s p"
  by (auto simp: is_dir_def list_ex_iff all_paths_def intro: prefix_order.less_trans)

end
