(* ===== verification/WfsDownload.thy ===== *)
theory WfsDownload
  imports Organize Export
begin

text \<open>
  The WFS bulk download of \<^verbatim>\<open>src/scripts/download_all_wfs.py\<close>: the layer names of
  the capabilities document (an input: the XML parser is not modelled) are ordered with the
  exact priority layers first, then the keyword-priority layers and the others, each
  sorted, without repetitions; every layer is downloaded as GeoJSON into the file-system
  store of \<open>Organize\<close>, unless an earlier run's summary lists it as downloaded and its
  file is there; the summary (\<^verbatim>\<open>download_summary.json\<close>) is rewritten every 25
  layers and at the end, and a later run resumes from it.

  The server's answer to a layer's \<open>GetFeature\<close> is the oracle \<open>reply\<close>: a timeout, a
  request error with its message, or a body with its text and its JSON value (or the
  message of the \<open>JSONDecodeError\<close>). The text of an exception caught by the generic
  handler is the parameter \<open>exc_text\<close>; the output directory is \<open>out_dir\<close>, a layer's
  workspace and name are taken as single path components. A summary file that exists
  and is not a directory is read back when it holds a list of results of the shape this
  script writes; any other content of it is outside the model (\<open>SummaryUnsupported\<close>).
\<close>

section \<open>Layer names and their order\<close>

definition priority_keywords :: "ustr list" where
  "priority_keywords = map ascii
     [''building'', ''campus'', ''block'', ''sidewalk'', ''road'', ''parking'',
      ''tree'', ''utility'', ''pipe'', ''electric'', ''water'', ''drainage'',
      ''fire'', ''hydrant'', ''landscape'', ''fence'', ''gate'', ''elevator'',
      ''stair'', ''toilet'', ''entrance'', ''door'', ''wall'', ''column'',
      ''floor'', ''roof'', ''bridge'', ''tunnel'', ''cable'', ''manhole'',
      ''lamp'', ''light'', ''sign'', ''bench'', ''garden'', ''pond'']"

definition priority_layers :: "ustr list" where
  "priority_layers = map ascii [''gis:gis_building_geom'', ''gis:gis_campus'', ''gis:gis_block'', ''gss:gss_sidewalk'']"

text \<open>\<open>'workspace:layer'.split(':', 1)\<close>.\<close>

definition parse_layer_name :: "ustr \<Rightarrow> ustr \<times> ustr" where
  "parse_layer_name n =
     (case find_sub n (ascii '':'') of Some i \<Rightarrow> (take i n, drop (Suc i) n) | None \<Rightarrow> (ascii ''default'', n))"

definition is_priority_layer :: "ustr \<Rightarrow> bool" where
  "is_priority_layer n = (n \<in> set priority_layers \<or> list_ex (\<lambda>kw. py_in kw (py_lower n)) priority_keywords)"

text \<open>The loop that removes repetitions, keeping the first occurrence.\<close>

fun keep_first :: "'a list \<Rightarrow> 'a list \<Rightarrow> 'a list" where
  "keep_first seen [] = []"
| "keep_first seen (x # xs) = (if x \<in> set seen then keep_first seen xs else x # keep_first (x # seen) xs)"

definition ordered_layers :: "ustr list \<Rightarrow> ustr list" where
  "ordered_layers ls =
     (let priority = filter is_priority_layer ls; non_priority = filter (\<lambda>l. \<not> is_priority_layer l) ls;
          exact = filter (\<lambda>l. l \<in> set priority_layers) ls;
          keyword = filter (\<lambda>l. l \<notin> set priority_layers) priority
      in keep_first [] (exact @ sort keyword @ sort non_priority))"

section \<open>\<open>download_layer\<close>\<close>

record wfs_result =
  wr_layer :: ustr
  wr_features :: int
  wr_size :: int
  wr_geom :: pyjson
  wr_status :: ustr

datatype wfs_reply = RTimeout | RRequestError ustr | RBody ustr "ustr + pyjson"

definition failed_result :: "ustr \<Rightarrow> ustr \<Rightarrow> wfs_result" where
  "failed_result l st = \<lparr>wr_layer = l, wr_features = 0, wr_size = 0, wr_geom = PNull, wr_status = st\<rparr>"

text \<open>\<open>data.get("features", [])\<close>, its \<open>len()\<close> and the geometry type of its first
  element, with the exceptions each step raises on a value of another shape.\<close>

definition geometry_type :: "pyjson \<Rightarrow> py_error + pyjson" where
  "geometry_type f =
     (case f of
        PDict kv \<Rightarrow>
          (let g = (case map_of kv (ascii ''geometry'') of Some v \<Rightarrow> v | None \<Rightarrow> PNull) in
           if \<not> py_truthy g then Inr PNull
           else case g of PDict gk \<Rightarrow> Inr (case map_of gk (ascii ''type'') of Some t \<Rightarrow> t | None \<Rightarrow> PNull)
                        | _ \<Rightarrow> Inl AttributeError)
      | _ \<Rightarrow> Inl AttributeError)"

definition features_info :: "pyjson \<Rightarrow> py_error + int \<times> pyjson" where
  "features_info data =
     (case data of
        PDict kv \<Rightarrow>
          (case (case map_of kv (ascii ''features'') of Some v \<Rightarrow> v | None \<Rightarrow> PList []) of
             PList [] \<Rightarrow> Inr (0, PNull)
           | PList (f # fs) \<Rightarrow> ebind (geometry_type f) (\<lambda>g. Inr (int (Suc (length fs)), g))
           | PStr s \<Rightarrow> if s = [] then Inr (0, PNull) else Inl AttributeError
           | PDict d \<Rightarrow> if d = [] then Inr (0, PNull) else Inl KeyError
           | _ \<Rightarrow> Inl TypeError)
      | _ \<Rightarrow> Inl AttributeError)"

text \<open>\<open>Path.with_suffix\<close>.\<close>

definition with_suffix :: "ustr \<Rightarrow> ustr \<Rightarrow> ustr" where
  "with_suffix n sfx = take (length n - length (py_suffix n)) n @ sfx"

text \<open>\<open>download_layer\<close> (lines 130--210): the result, and the store as the call leaves
  it. Every exception of the body is caught and becomes a failed result; only the file
  operations of the \<open>JSONDecodeError\<close> handler can raise out of it.\<close>

definition download_layer ::
  "(fdata \<Rightarrow> nat) \<Rightarrow> (py_error \<Rightarrow> ustr) \<Rightarrow> wfs_reply \<Rightarrow> ustr \<Rightarrow> opath \<Rightarrow> ofs \<Rightarrow> py_error + wfs_result \<times> ofs" where
  "download_layer dsz exc_text rep l out s =
     (let err = (\<lambda>e. failed_result l (ascii ''error: '' @ exc_text e)) in
      case rep of
        RTimeout \<Rightarrow> Inr (failed_result l (ascii ''timeout''), s)
      | RRequestError m \<Rightarrow> Inr (failed_result l (ascii ''http_error: '' @ m), s)
      | RBody txt (Inl m) \<Rightarrow>
          (let ep = butlast out @ [with_suffix (last out) (ascii ''.error.txt'')] in
           ebind (mkdir_p (butlast out) s) (\<lambda>s1.
           ebind (write_file ep (TextDoc (take 2000 txt)) s1) (\<lambda>s2.
           Inr (failed_result l (ascii ''json_error: '' @ m), s2))))
      | RBody txt (Inr data) \<Rightarrow>
          (case features_info data of
             Inl e \<Rightarrow> Inr (err e, s)
           | Inr (n, g) \<Rightarrow>
               (case mkdir_p (butlast out) s of
                  Inl e \<Rightarrow> Inr (err e, s)
                | Inr s1 \<Rightarrow>
                    (case write_json out data s1 of
                       Inl e \<Rightarrow> Inr (err e, s1)
                     | Inr s2 \<Rightarrow> Inr (\<lparr>wr_layer = l, wr_features = n, wr_size = int (st_size dsz s2 out),
                                        wr_geom = g, wr_status = ascii ''success''\<rparr>, s2)))))"

section \<open>The summary file\<close>

definition result_json :: "wfs_result \<Rightarrow> pyjson" where
  "result_json r =
     PDict [(ascii ''layer_name'', PStr (wr_layer r)), (ascii ''feature_count'', PInt (wr_features r)),
            (ascii ''file_size_bytes'', PInt (wr_size r)), (ascii ''geometry_type'', wr_geom r),
            (ascii ''status'', PStr (wr_status r))]"

definition result_of_json :: "pyjson \<Rightarrow> wfs_result option" where
  "result_of_json v =
     (case v of
        PDict kv \<Rightarrow>
          (case (map_of kv (ascii ''layer_name''), map_of kv (ascii ''feature_count''),
                 map_of kv (ascii ''file_size_bytes''), map_of kv (ascii ''geometry_type''), map_of kv (ascii ''status'')) of
             (Some (PStr l), Some (PInt n), Some (PInt b), Some g, Some (PStr st)) \<Rightarrow>
               Some \<lparr>wr_layer = l, wr_features = n, wr_size = b, wr_geom = g, wr_status = st\<rparr>
           | _ \<Rightarrow> None)
      | _ \<Rightarrow> None)"

definition summary_of_json :: "pyjson \<Rightarrow> wfs_result list option" where
  "summary_of_json v = (case v of PList xs \<Rightarrow> those (map result_of_json xs) | _ \<Rightarrow> None)"

datatype summary_read = NoSummary | Summary "wfs_result list" | SummaryUnsupported

text \<open>Steps 3 and 4 of \<open>main\<close> (lines 260--278): a missing summary, or one that cannot be
  read (a directory), gives no results; a list of results is resumed from.\<close>

definition read_summary :: "ofs \<Rightarrow> opath \<Rightarrow> summary_read" where
  "read_summary s p =
     (if \<not> exists s p \<or> is_dir s p then NoSummary
      else case map_of (fs_files s) p of
             Some (JsonDoc v) \<Rightarrow> (case summary_of_json v of Some rs \<Rightarrow> Summary rs | None \<Rightarrow> SummaryUnsupported)
           | _ \<Rightarrow> SummaryUnsupported)"

definition write_summary :: "opath \<Rightarrow> wfs_result list \<Rightarrow> ofs \<Rightarrow> py_error + ofs" where
  "write_summary p rs s = ebind (mkdir_p (butlast p) s) (write_json p (PList (map result_json rs)))"

section \<open>\<open>main\<close>\<close>

record wfs_state =
  ws_fs :: ofs
  ws_results :: "wfs_result list"
  ws_names :: "ustr list"
  ws_success :: nat
  ws_fail :: nat
  ws_skip :: nat
  ws_bytes :: int
  ws_features :: int

text \<open>\<open>results[idx] = result\<close> at the first entry of the layer, or an append.\<close>

fun replace_first :: "ustr \<Rightarrow> wfs_result \<Rightarrow> wfs_result list \<Rightarrow> wfs_result list" where
  "replace_first l r [] = []"
| "replace_first l r (x # xs) = (if wr_layer x = l then r # xs else x # replace_first l r xs)"

definition record_result :: "ustr \<Rightarrow> wfs_result \<Rightarrow> wfs_state \<Rightarrow> wfs_state" where
  "record_result l r st =
     (if l \<in> set (ws_names st) then st\<lparr>ws_results := replace_first l r (ws_results st)\<rparr>
      else st\<lparr>ws_results := ws_results st @ [r], ws_names := ws_names st @ [l]\<rparr>)"

definition count_result :: "wfs_result \<Rightarrow> wfs_state \<Rightarrow> wfs_state" where
  "count_result r st =
     (if wr_status r = ascii ''success''
      then st\<lparr>ws_success := Suc (ws_success st), ws_bytes := ws_bytes st + wr_size r,
              ws_features := ws_features st + wr_features r\<rparr>
      else st\<lparr>ws_fail := Suc (ws_fail st)\<rparr>)"

definition summary_path :: "opath \<Rightarrow> opath" where
  "summary_path out_dir = out_dir @ [ascii ''download_summary.json'']"

definition layer_path :: "opath \<Rightarrow> ustr \<Rightarrow> opath" where
  "layer_path out_dir l = (let (ws, n) = parse_layer_name l in out_dir @ [ws, n @ ascii ''.json''])"

text \<open>One iteration of the download loop (lines 286--338), \<open>i\<close> counting from 1; a
  skipped layer \<open>continue\<close>s past the periodic save.\<close>

definition layer_step ::
  "(fdata \<Rightarrow> nat) \<Rightarrow> (py_error \<Rightarrow> ustr) \<Rightarrow> (ustr \<Rightarrow> wfs_reply) \<Rightarrow> opath \<Rightarrow> ustr list \<Rightarrow>
   wfs_state \<Rightarrow> nat \<times> ustr \<Rightarrow> py_error + wfs_state" where
  "layer_step dsz exc_text reply out_dir already st il =
     (let (i, l) = il; out = layer_path out_dir l in
      if l \<in> set already \<and> exists (ws_fs st) out then Inr (st\<lparr>ws_skip := Suc (ws_skip st)\<rparr>)
      else ebind (download_layer dsz exc_text (reply l) l out (ws_fs st)) (\<lambda>(r, s').
             let st' = record_result l r (count_result r (st\<lparr>ws_fs := s'\<rparr>)) in
             if i mod 25 = 0
             then ebind (write_summary (summary_path out_dir) (ws_results st') (ws_fs st')) (\<lambda>s''. Inr (st'\<lparr>ws_fs := s''\<rparr>))
             else Inr st'))"

datatype wfs_outcome = NoLayers | Unsupported | Raised py_error | Finished wfs_state

definition initial_state :: "ofs \<Rightarrow> wfs_result list \<Rightarrow> wfs_state" where
  "initial_state s rs =
     \<lparr>ws_fs = s, ws_results = rs, ws_names = remdups (map wr_layer rs),
      ws_success = length (remdups (map wr_layer (filter (\<lambda>r. wr_status r = ascii ''success'') rs))),
      ws_fail = 0, ws_skip = 0, ws_bytes = sum_list (map wr_size rs), ws_features = sum_list (map wr_features rs)\<rparr>"

definition main_wfs ::
  "(fdata \<Rightarrow> nat) \<Rightarrow> (py_error \<Rightarrow> ustr) \<Rightarrow> (ustr \<Rightarrow> wfs_reply) \<Rightarrow> opath \<Rightarrow> ustr list \<Rightarrow> ofs \<Rightarrow> wfs_outcome" where
  "main_wfs dsz exc_text reply out_dir layers s =
     (if layers = [] then NoLayers
      else let ol = ordered_layers layers;
               rs = (case read_summary s (summary_path out_dir) of Summary rs \<Rightarrow> Some rs | NoSummary \<Rightarrow> Some [] | _ \<Rightarrow> None)
           in case rs of
                None \<Rightarrow> Unsupported
              | Some rs \<Rightarrow>
                  let already = map wr_layer (filter (\<lambda>r. wr_status r = ascii ''success'') rs) in
                  case efold (layer_step dsz exc_text reply out_dir already) (zip [1..<Suc (length ol)] ol)
                             (initial_state s rs) of
                    Inl e \<Rightarrow> Raised e
                  | Inr st \<Rightarrow>
                      (case write_summary (summary_path out_dir) (ws_results st) (ws_fs st) of
                         Inl e \<Rightarrow> Raised e
                       | Inr s' \<Rightarrow> Finished (st\<lparr>ws_fs := s'\<rparr>)))"

text \<open>The bookkeeping invariant of the loop: \<open>existing_layer_names\<close> holds exactly the
  layers of \<open>results\<close>, each once.\<close>

definition wfs_inv :: "wfs_state \<Rightarrow> bool" where
  "wfs_inv st = (set (ws_names st) = set (map wr_layer (ws_results st)) \<and> distinct (ws_names st))"

text \<open>A resumed run: the summary of an earlier run lists \<open>gis:gis_campus\<close> as downloaded
  (3 features, 100 bytes), but its file is gone, and the server now answers with an empty
  feature collection.\<close>

definition fx_out :: opath where
  "fx_out = [ascii ''wfs'']"

definition fx_layer :: ustr where
  "fx_layer = ascii ''gis:gis_campus''"

definition fx_old :: wfs_result where
  "fx_old = \<lparr>wr_layer = fx_layer, wr_features = 3, wr_size = 100, wr_geom = PNull, wr_status = ascii ''success''\<rparr>"

definition fx_store :: ofs where
  "fx_store = \<lparr>fs_files = [(summary_path fx_out, JsonDoc (PList [result_json fx_old]))], fs_dirs = []\<rparr>"

definition fx_reply :: "ustr \<Rightarrow> wfs_reply" where
  "fx_reply l = RBody [] (Inr (PDict [(ascii ''features'', PList [])]))"

section \<open>Properties\<close>

subsection \<open>The order of the layers\<close>

lemma keep_first_set: "set (keep_first seen xs) = set xs - set seen"
  by (induction xs arbitrary: seen) auto

lemma keep_first_distinct: "distinct (keep_first seen xs)"
  by (induction xs arbitrary: seen) (auto simp: keep_first_set)

lemma keep_first_cong: "set a = set b \<Longrightarrow> keep_first a xs = keep_first b xs"
proof (induction xs arbitrary: a b)
  case (Cons x xs)
  have 1: "keep_first a xs = keep_first b xs" by (rule Cons.IH [OF Cons.prems])
  have 2: "keep_first (x # a) xs = keep_first (x # b) xs" by (rule Cons.IH) (simp add: Cons.prems)
  show ?case by (simp only: keep_first.simps 1 2 Cons.prems)
qed simp

lemma keep_first_append: "keep_first seen (xs @ ys) = keep_first seen xs @ keep_first (xs @ seen) ys"
proof (induction xs arbitrary: seen)
  case (Cons x xs)
  show ?case
  proof (cases "x \<in> set seen")
    case True
    have "keep_first (xs @ seen) ys = keep_first ((x # xs) @ seen) ys"
      by (rule keep_first_cong) (use True in auto)
    then show ?thesis using True Cons.IH by simp
  next
    case False
    have "keep_first (xs @ x # seen) ys = keep_first ((x # xs) @ seen) ys"
      by (rule keep_first_cong) auto
    then show ?thesis using False Cons.IH [of "x # seen"] by simp
  qed
qed simp

text \<open>Every layer is downloaded once, and the exact priority layers, in the order of
  the capabilities, come before all others.\<close>

lemma ordered_layers_perm: "distinct (ordered_layers ls) \<and> set (ordered_layers ls) = set ls"
  by (auto simp: ordered_layers_def Let_def keep_first_distinct keep_first_set)

lemma ordered_layers_exact_first:
  "prefix (keep_first [] (filter (\<lambda>l. l \<in> set priority_layers) ls)) (ordered_layers ls)"
  by (simp add: ordered_layers_def Let_def keep_first_append)

subsection \<open>The summary round trip\<close>

lemma result_json_roundtrip: "result_of_json (result_json r) = Some r"
  by (simp add: result_json_def result_of_json_def ascii_def)

lemma summary_json_roundtrip: "summary_of_json (PList (map result_json rs)) = Some rs"
  by (induction rs) (simp_all add: summary_of_json_def result_json_roundtrip)

text \<open>What a run writes as its summary the next run reads back as the same results.\<close>

lemma write_summary_read:
  "write_summary p rs s = Inr s' \<Longrightarrow> read_summary s' p = Summary rs"
  using write_file_read
  by (fastforce simp: write_summary_def write_json_def read_summary_def exists_def summary_json_roundtrip)

subsection \<open>\<open>download_layer\<close>\<close>

lemma download_layer_layer: "download_layer dsz et rep l out s = Inr (r, s') \<Longrightarrow> wr_layer r = l"
  by (auto simp: download_layer_def Let_def failed_result_def split: wfs_reply.splits sum.splits prod.splits)

text \<open>\<open>download_layer\<close> raises only from the handler of a body that is not JSON.\<close>

lemma download_layer_raises: "download_layer dsz et rep l out s = Inl e \<Longrightarrow> \<exists>txt m. rep = RBody txt (Inl m)"
  by (auto simp: download_layer_def Let_def split: wfs_reply.splits sum.splits prod.splits)

text \<open>A successful download has stored the body's JSON value at the layer's path and
  reports the size of that file.\<close>

lemma download_layer_success:
  assumes "download_layer dsz et rep l out s = Inr (r, s')" and "wr_status r = ascii ''success''"
  shows "\<exists>txt data. rep = RBody txt (Inr data) \<and> map_of (fs_files s') out = Some (JsonDoc data) \<and>
                    wr_size r = int (fsize dsz (JsonDoc data))"
  using assms write_file_read [of out]
  by (auto simp: download_layer_def Let_def failed_result_def write_json_def st_size_def ascii_def
           split: wfs_reply.splits sum.splits prod.splits)

subsection \<open>The bookkeeping of the loop\<close>

lemma replace_first_layers: "wr_layer r = l \<Longrightarrow> map wr_layer (replace_first l r xs) = map wr_layer xs"
  by (induction xs) auto

lemma replace_first_layer_set: "wr_layer r = l \<Longrightarrow> wr_layer ` set (replace_first l r xs) = wr_layer ` set xs"
  using arg_cong [OF replace_first_layers, of r l set xs] by simp

lemma record_result_inv: "wfs_inv st \<Longrightarrow> wr_layer r = l \<Longrightarrow> wfs_inv (record_result l r st)"
  by (auto simp: wfs_inv_def record_result_def replace_first_layer_set)

lemma count_result_lists [simp]:
  "ws_names (count_result r st) = ws_names st" "ws_results (count_result r st) = ws_results st"
  by (simp_all add: count_result_def)

lemma layer_step_inv:
  assumes "layer_step dsz et reply out_dir already st il = Inr st'" and "wfs_inv st"
  shows "wfs_inv st'"
proof -
  obtain i l where il: "il = (i, l)" by (cases il)
  show ?thesis
  proof (cases "l \<in> set already \<and> exists (ws_fs st) (layer_path out_dir l)")
    case True
    then show ?thesis using assms by (auto simp: layer_step_def il wfs_inv_def)
  next
    case False
    then obtain r s' where d: "download_layer dsz et (reply l) l (layer_path out_dir l) (ws_fs st) = Inr (r, s')"
      and rest: "(let st1 = record_result l r (count_result r (st\<lparr>ws_fs := s'\<rparr>)) in
                  if i mod 25 = 0
                  then ebind (write_summary (summary_path out_dir) (ws_results st1) (ws_fs st1)) (\<lambda>s''. Inr (st1\<lparr>ws_fs := s''\<rparr>))
                  else Inr st1) = Inr st'"
      using assms(1) by (auto simp: layer_step_def il Let_def)
    have "wfs_inv (record_result l r (count_result r (st\<lparr>ws_fs := s'\<rparr>)))"
      using assms(2) download_layer_layer [OF d] by (intro record_result_inv) (simp_all add: wfs_inv_def)
    then show ?thesis using rest by (auto simp: Let_def wfs_inv_def split: if_splits)
  qed
qed

lemma initial_state_inv: "wfs_inv (initial_state s rs)"
  by (simp add: wfs_inv_def initial_state_def)

text \<open>When \<open>main\<close> finishes, the summary it wrote lists every layer of its results once, and
  the next run reads those results back.\<close>

lemma main_wfs_run:
  assumes "main_wfs dsz et reply out_dir layers s = Finished st"
  shows "\<exists>already rs st0. efold (layer_step dsz et reply out_dir already)
                             (zip [1..<Suc (length (ordered_layers layers))] (ordered_layers layers)) (initial_state s rs) = Inr st0 \<and>
                      write_summary (summary_path out_dir) (ws_results st0) (ws_fs st0) = Inr (ws_fs st) \<and>
                      st = st0\<lparr>ws_fs := ws_fs st\<rparr>"
  using assms by (fastforce simp: main_wfs_def Let_def split: if_splits summary_read.splits option.splits sum.splits)

text \<open>When \<open>main\<close> finishes, the summary it wrote lists every layer of its results once, and
  the next run reads those results back.\<close>

lemma main_wfs_finished:
  assumes "main_wfs dsz et reply out_dir layers s = Finished st"
  shows "wfs_inv st \<and> read_summary (ws_fs st) (summary_path out_dir) = Summary (ws_results st)"
proof -
  obtain already rs st0 where run: "efold (layer_step dsz et reply out_dir already)
                                (zip [1..<Suc (length (ordered_layers layers))] (ordered_layers layers)) (initial_state s rs) = Inr st0"
    and w: "write_summary (summary_path out_dir) (ws_results st0) (ws_fs st0) = Inr (ws_fs st)"
    and st: "st = st0\<lparr>ws_fs := ws_fs st\<rparr>"
    using main_wfs_run [OF assms] by blast
  have "wfs_inv st0"
    by (rule efold_inv [where P = wfs_inv, OF run initial_state_inv]) (rule layer_step_inv)
  moreover have "ws_results st = ws_results st0" "ws_names st = ws_names st0"
    using arg_cong [OF st, of ws_results] arg_cong [OF st, of ws_names] by simp_all
  ultimately show ?thesis using write_summary_read [OF w] by (simp add: wfs_inv_def)
qed

subsection \<open>Resuming counts a layer twice\<close>

text \<open>\<open>success_count\<close> and \<open>total_bytes\<close> start from the earlier summary, and a layer it
  lists whose file is gone is downloaded again and counted again: in the resumed run of
  the fixture one layer yields two successes, and its old 100 bytes stay in the total
  beside the new file's.\<close>

lemma resume_counts_twice:
  "\<exists>st. main_wfs (\<lambda>_. 7) (\<lambda>_. []) fx_reply fx_out [fx_layer] fx_store = Finished st \<and>
        map wr_layer (ws_results st) = [fx_layer] \<and> ws_success st = 2 \<and> ws_bytes st = 107"
  by (simp add: main_wfs_def fx_layer_def fx_out_def fx_store_def fx_reply_def fx_old_def
      ordered_layers_def is_priority_layer_def priority_layers_def read_summary_def summary_path_def
      exists_def is_file_def is_dir_def all_paths_def summary_of_json_def result_json_roundtrip
      initial_state_def layer_step_def layer_path_def parse_layer_name_def find_sub_def
      download_layer_def features_info_def mkdir_p_def write_json_def write_file_def st_size_def fsize_def
      count_result_def record_result_def write_summary_def Let_def ascii_def)

end
