(* ===== verification/Validate.thy ===== *)
theory Validate
  imports Organize
begin

text \<open>
  The checker of \<^verbatim>\<open>src/data/scripts/validate_organization.py\<close> (class
  \<open>OrganizationValidator\<close>), read over the file-system store of \<open>Organize\<close>, and what the
  organiser of \<^verbatim>\<open>organize_data.py\<close> guarantees it. The checker appends messages to
  three lists, \<open>passed\<close>, \<open>warnings\<close> and \<open>errors\<close>, and succeeds when \<open>errors\<close> is
  empty. A message is kept as a value of \<open>vmsg\<close> carrying what its text interpolates
  (the list it is in tells a check that passed from one that failed); the texts, in
  Chinese, and the printed tables are not modelled. \<open>json.load\<close> of a JSON file of the
  store gives its value; of any other file, the parameter \<open>jload\<close>.
\<close>

datatype vmsg =
    VFile ustr ustr
  | VDir ustr
  | VMeta
  | VDatasets nat
  | VNoDatasets
  | VBadJson
  | VSubdir ustr nat
  | VLatest nat nat
  | VLatestMissing "ustr set"
  | VVersions nat
  | VPreview nat
  | VArchive
  | VArchiveCount nat

record vstate =
  v_errors :: "vmsg list"
  v_warnings :: "vmsg list"
  v_passed :: "vmsg list"

definition pass :: "vmsg \<Rightarrow> vstate \<Rightarrow> vstate" where
  "pass m v = v\<lparr>v_passed := v_passed v @ [m]\<rparr>"

definition warn :: "vmsg \<Rightarrow> vstate \<Rightarrow> vstate" where
  "warn m v = v\<lparr>v_warnings := v_warnings v @ [m]\<rparr>"

definition fail :: "vmsg \<Rightarrow> vstate \<Rightarrow> vstate" where
  "fail m v = v\<lparr>v_errors := v_errors v @ [m]\<rparr>"

text \<open>\<open>_check_files\<close>.\<close>

definition check_files :: "ofs \<Rightarrow> opath \<Rightarrow> ustr list \<Rightarrow> ustr \<Rightarrow> vstate \<Rightarrow> vstate" where
  "check_files s p fs ctx v =
     fold (\<lambda>f v. if exists s (p @ [f]) then pass (VFile ctx f) v else fail (VFile ctx f) v) fs v"

text \<open>\<open>json.load\<close> of a file of the store (\<open>None\<close> for a \<open>JSONDecodeError\<close>).\<close>

definition json_load :: "(fdata \<Rightarrow> pyjson option) \<Rightarrow> fdata \<Rightarrow> pyjson option" where
  "json_load jload d = (case d of JsonDoc v \<Rightarrow> Some v | _ \<Rightarrow> jload d)"

text \<open>\<open>"datasets" in data\<close> and \<open>len(data['datasets'])\<close>, with the \<open>TypeError\<close>s that the
  \<open>try\<close> block, which catches only \<open>JSONDecodeError\<close>, lets through.\<close>

definition py_len :: "pyjson \<Rightarrow> py_error + nat" where
  "py_len v = (case v of PList xs \<Rightarrow> Inr (length xs) | PDict kv \<Rightarrow> Inr (length kv) | PStr s \<Rightarrow> Inr (length s)
                | _ \<Rightarrow> Inl TypeError)"

definition datasets_check :: "pyjson \<Rightarrow> vstate \<Rightarrow> py_error + vstate" where
  "datasets_check data v =
     (let k = ascii ''datasets'' in
      case data of
        PDict kv \<Rightarrow> (case map_of kv k of Some ds \<Rightarrow> ebind (py_len ds) (\<lambda>n. Inr (pass (VDatasets n) v))
                                      | None \<Rightarrow> Inr (warn VNoDatasets v))
      | PList xs \<Rightarrow> if PStr k \<in> set xs then Inl TypeError else Inr (warn VNoDatasets v)
      | PStr s \<Rightarrow> if py_in k s then Inl TypeError else Inr (warn VNoDatasets v)
      | _ \<Rightarrow> Inl TypeError)"

definition validate_raw :: "(fdata \<Rightarrow> pyjson option) \<Rightarrow> opath \<Rightarrow> ofs \<Rightarrow> vstate \<Rightarrow> py_error + vstate" where
  "validate_raw jload b s v0 =
     (let raw = b @ [ascii ''raw'']; nlsc = raw @ [ascii ''NLSC_3D_tiles'']; mf = nlsc @ [ascii ''metadata.json''];
          v1 = check_files s raw [ascii ''README.md''] (ascii ''raw/'') v0 in
      if \<not> exists s nlsc then Inr (fail (VDir (ascii ''NLSC_3D_tiles/'')) v1)
      else let v2 = pass (VDir (ascii ''NLSC_3D_tiles/'')) v1 in
           if \<not> exists s mf then Inr (warn VMeta v2)
           else let v3 = pass VMeta v2 in
                case map_of (fs_files s) mf of
                  None \<Rightarrow> Inl OSError
                | Some d \<Rightarrow> (case json_load jload d of
                               None \<Rightarrow> Inr (fail VBadJson v3)
                             | Some data \<Rightarrow> datasets_check data v3))"

definition validate_processed :: "opath \<Rightarrow> ofs \<Rightarrow> vstate \<Rightarrow> vstate" where
  "validate_processed b s v0 =
     (let pp = b @ [ascii ''processed'']; bd = pp @ [ascii ''buildings''];
          v1 = check_files s pp [ascii ''README.md'', metadata_json] (ascii ''processed/'') v0 in
      if exists s bd
      then fold (\<lambda>sub v. let p = bd @ [sub] in
                   if exists s p
                   then pass (VSubdir sub (length (glob s p (ascii ''*.json'')) + length (glob s p (ascii ''*.geojson'')))) v
                   else warn (VSubdir sub 0) v)
                [ascii ''by_campus'', ascii ''combined'', ascii ''osm''] (pass (VDir (ascii ''buildings/'')) v1)
      else fail (VDir (ascii ''buildings/'')) v1)"

definition expected_latest :: "ustr list" where
  "expected_latest = map ascii [''buildings_3d.geojson'', ''buildings_3d.html'', ''buildings_map.html'',
                                ''buildings_merged.geojson'', ''buildings_table.csv'', ''buildings_table.xlsx'', ''metadata.json'']"

definition validate_output :: "opath \<Rightarrow> ofs \<Rightarrow> vstate \<Rightarrow> vstate" where
  "validate_output b s v0 =
     (let op = b @ [ascii ''output'']; latest = op @ [ascii ''latest''];
          v1 = check_files s op [ascii ''README.md''] (ascii ''output/'') v0;
          v2 = (if exists s latest
                then let existing = filter (\<lambda>f. exists s (latest @ [f])) expected_latest;
                         v = pass (VLatest (length existing) (length expected_latest)) v1 in
                     if length existing < length expected_latest
                     then warn (VLatestMissing (set expected_latest - set existing)) v else v
                else fail (VDir (ascii ''latest/'')) v1);
          vds = glob s op (ascii ''v*_*'')
      in if vds \<noteq> [] then pass (VVersions (length vds)) v2 else warn (VVersions 0) v2)"

definition validate_floor_plans :: "opath \<Rightarrow> ofs \<Rightarrow> vstate \<Rightarrow> vstate" where
  "validate_floor_plans b s v0 =
     (let fp = b @ [ascii ''floor_plans'']; pdf = fp @ [ascii ''pdf'']; pv = fp @ [ascii ''preview''];
          v1 = check_files s fp [ascii ''README.md'', metadata_json] (ascii ''floor_plans/'') v0;
          v2 = (if exists s pdf
                then fold (\<lambda>sub v. if exists s (pdf @ [sub])
                                   then pass (VSubdir sub (length (glob s (pdf @ [sub]) (ascii ''*.pdf'')))) v
                                   else warn (VSubdir sub 0) v)
                          (map ascii [''auditorium'', ''buildings'', ''campus'', ''administrative'']) v1
                else fail (VDir (ascii ''pdf/'')) v1)
      in if exists s pv then pass (VPreview (length (rglob s pv (ascii ''*.png'')))) v2 else warn (VPreview 0) v2)"

definition validate_ymmap_archive :: "opath \<Rightarrow> ofs \<Rightarrow> vstate \<Rightarrow> vstate" where
  "validate_ymmap_archive b s v =
     (let ap = b @ [ascii ''ymmap_archive''] in
      if \<not> exists s ap then fail VArchive v
      else pass (VArchiveCount (length (rglob s ap (ascii ''*'')))) (pass VArchive v))"

definition empty_vstate :: vstate where
  "empty_vstate = \<lparr>v_errors = [], v_warnings = [], v_passed = []\<rparr>"

text \<open>\<open>validate_all\<close> and \<open>_print_results\<close>: the checks in order, then success when no
  error was recorded (the exit status of \<open>main\<close> is 0 exactly then).\<close>

definition validate_all :: "(fdata \<Rightarrow> pyjson option) \<Rightarrow> opath \<Rightarrow> ofs \<Rightarrow> py_error + vstate" where
  "validate_all jload b s =
     ebind (validate_raw jload b s empty_vstate) (\<lambda>v.
       Inr (validate_ymmap_archive b s (validate_floor_plans b s (validate_output b s (validate_processed b s v)))))"

definition validation_ok :: "vstate \<Rightarrow> bool" where
  "validation_ok v = (v_errors v = [])"

text \<open>\<open>changes_within pre s s'\<close>: from \<open>s\<close> to \<open>s'\<close> no file outside the directory
  \<open>pre\<close> changed, and no directory created outside it went away; \<open>confined pre s r\<close>:
  the computation \<open>r\<close> started on \<open>s\<close> does that when it returns. Each phase of the
  organiser works within its own directory.\<close>

definition changes_within :: "opath \<Rightarrow> ofs \<Rightarrow> ofs \<Rightarrow> bool" where
  "changes_within pre s s' =
     ((\<forall>p. \<not> prefix pre p \<longrightarrow> map_of (fs_files s') p = map_of (fs_files s) p) \<and>
      (\<forall>q \<in> set (fs_dirs s). \<not> prefix pre q \<longrightarrow> q \<in> set (fs_dirs s')))"

definition confined :: "opath \<Rightarrow> ofs \<Rightarrow> py_error + ofs \<Rightarrow> bool" where
  "confined pre s r = (\<forall>s'. r = Inr s' \<longrightarrow> changes_within pre s s')"

named_theorems confined_intros "rules that bound where an operation changes the store"

text \<open>What the organiser leaves behind, in the terms the checker asks for.\<close>

definition organized :: "organizer \<Rightarrow> ofs \<Rightarrow> bool" where
  "organized og s =
     (is_file s (raw_path og @ [ascii ''README.md'']) \<and>
      (\<exists>tm. map_of (fs_files s) (raw_path og @ [ascii ''NLSC_3D_tiles'', metadata_json]) =
              Some (JsonDoc (raw_metadata (timestamp og) (ascii ''3D_tiles'') tm))) \<and>
      is_file s (processed_path og @ [ascii ''README.md'']) \<and> is_file s (processed_path og @ [metadata_json]) \<and>
      is_dir s (buildings_dir og) \<and>
      is_file s (output_path og @ [ascii ''README.md'']) \<and> is_dir s (output_path og @ [ascii ''latest'']) \<and>
      is_file s (floor_plans_path og @ [ascii ''README.md'']) \<and> is_file s (floor_plans_path og @ [metadata_json]) \<and>
      is_dir s (floor_plans_path og @ [ascii ''pdf'']) \<and>
      exists s (base_path og @ [ascii ''ymmap_archive'']))"

section \<open>The store seen by the checker\<close>

lemma changes_within_refl [simp]: "changes_within pre s s"
  by (simp add: changes_within_def)

lemma changes_within_trans: "changes_within pre a b \<Longrightarrow> changes_within pre b c \<Longrightarrow> changes_within pre a c"
  by (simp add: changes_within_def)

lemma prefix_self_append [simp]: "prefix xs (xs @ ys)"
  by simp

lemma confined_Inr [confined_intros]: "confined pre s (Inr s)"
  by (simp add: confined_def)

lemma confined_Inl [confined_intros]: "confined pre s (Inl e)"
  by (simp add: confined_def)

lemma confined_if [confined_intros]: "confined pre s a \<Longrightarrow> confined pre s b \<Longrightarrow> confined pre s (if c then a else b)"
  by simp

lemma confined_case_prod [confined_intros]: "(\<And>a b. confined pre s (f a b)) \<Longrightarrow> confined pre s (case x of (a, b) \<Rightarrow> f a b)"
  by (cases x) simp

lemma confined_ebind [confined_intros]:
  "confined pre s m \<Longrightarrow> (\<And>x. m = Inr x \<Longrightarrow> confined pre x (f x)) \<Longrightarrow> confined pre s (ebind m f)"
  by (auto simp: confined_def intro: changes_within_trans)

lemma confined_efold [confined_intros]:
  "(\<And>t x. x \<in> set xs \<Longrightarrow> confined pre t (f t x)) \<Longrightarrow> confined pre s (efold f xs s)"
proof (induction xs arbitrary: s)
  case (Cons x xs)
  show ?case
    unfolding efold.simps by (rule confined_ebind) (use Cons.prems Cons.IH in auto)
qed (simp add: confined_Inr)

text \<open>A loop whose state carries the store as its first component.\<close>

lemma efold_fst_confined:
  assumes "efold f xs st = Inr st'"
    and "\<And>t x t'. x \<in> set xs \<Longrightarrow> f t x = Inr t' \<Longrightarrow> changes_within pre (fst t) (fst t')"
  shows "changes_within pre (fst st) (fst st')"
  using assms
proof (induction xs arbitrary: st)
  case (Cons x xs)
  then obtain y where "f st x = Inr y" "efold f xs y = Inr st'" by auto
  then show ?case using Cons.prems(2) Cons.IH [of y] by (meson changes_within_trans list.set_intros)
qed simp

lemma confined_mkdir_p [confined_intros]: "confined pre s (mkdir_p p s)"
  by (auto simp: confined_def changes_within_def mkdir_p_def)

lemma confined_mkdir [confined_intros]: "confined pre s (mkdir p s)"
  by (simp add: mkdir_def confined_Inl confined_mkdir_p)

lemma confined_write_file [confined_intros]: "prefix pre p \<Longrightarrow> confined pre s (write_file p d s)"
  by (auto simp: confined_def changes_within_def write_file_def update_conv')

lemma confined_copy2 [confined_intros]: "prefix pre dst \<Longrightarrow> confined pre s (copy2 src dst s)"
  by (auto simp: copy2_def confined_Inl intro: confined_write_file split: option.split)

lemma confined_copy_if_new [confined_intros]: "prefix pre dst \<Longrightarrow> confined pre s (copy_if_new src dst s)"
  by (simp add: copy_if_new_def confined_copy2 confined_Inr)

lemma confined_write_json [confined_intros]: "prefix pre p \<Longrightarrow> confined pre s (write_json p j s)"
  by (simp add: write_json_def confined_write_file)

lemma confined_create_readme [confined_intros]: "prefix pre d \<Longrightarrow> confined pre s (create_readme d t s)"
  by (simp add: create_readme_def confined_write_file)

lemma map_of_foldl_update_other:
  "\<forall>x \<in> set xs. g (fst x) \<noteq> p \<Longrightarrow> map_of (foldl (\<lambda>fs (q, d). AList.update (g q) d fs) fs xs) p = map_of fs p"
proof (induction xs arbitrary: fs)
  case (Cons x xs)
  obtain q d where x: "x = (q, d)" by (cases x)
  have "map_of (foldl (\<lambda>fs (q, d). AList.update (g q) d fs) (AList.update (g q) d fs) xs) p
        = map_of (AList.update (g q) d fs) p"
    using Cons.IH [of "AList.update (g q) d fs"] Cons.prems by simp
  also have "\<dots> = map_of fs p" using Cons.prems x by (auto simp: update_conv')
  finally show ?case by (simp add: x)
qed simp

lemma map_of_filter_keep: "P r \<Longrightarrow> map_of (filter (\<lambda>(q, _). P q) fs) r = map_of fs r"
  by (induction fs) auto

lemma prefix_rebase: "prefix src q \<Longrightarrow> prefix dst (rebase src dst q)"
  by (simp add: rebase_def)

lemma confined_copytree [confined_intros]: "prefix pre dst \<Longrightarrow> confined pre s (copytree ok src dst s)"
proof -
  assume pd: "prefix pre dst"
  have "confined pre s1 (Inr \<lparr>fs_files = foldl (\<lambda>fs (q, d). AList.update (rebase src dst q) d fs) (fs_files s1)
                                    (filter (\<lambda>(q, _). prefix src q) (fs_files s)),
                          fs_dirs = fs_dirs s1 @ ds\<rparr>)" for s1 ds
  proof -
    have "map_of (foldl (\<lambda>fs (q, d). AList.update (rebase src dst q) d fs) (fs_files s1)
                   (filter (\<lambda>(q, _). prefix src q) (fs_files s))) p = map_of (fs_files s1) p"
      if "\<not> prefix pre p" for p
      using that pd prefix_rebase prefix_order.trans
      by (intro map_of_foldl_update_other) (fastforce simp: split_beta)
    then show ?thesis by (simp add: confined_def changes_within_def)
  qed
  then show ?thesis
    unfolding copytree_def by (intro confined_if confined_Inl confined_ebind confined_mkdir_p)
qed

lemma confined_rmtree [confined_intros]: "prefix pre p \<Longrightarrow> confined pre s (rmtree p s)"
proof -
  assume pp: "prefix pre p"
  have out: "\<not> prefix p r" if "\<not> prefix pre r" for r
    using that prefix_order.trans [OF pp] by blast
  have "map_of (filter (\<lambda>(q, _). \<not> prefix p q) (fs_files s)) r = map_of (fs_files s) r" if "\<not> prefix pre r" for r
    using out [OF that] by (rule map_of_filter_keep)
  moreover have "q \<in> set (filter (\<lambda>q. \<not> prefix p q) (fs_dirs s))" if "q \<in> set (fs_dirs s)" "\<not> prefix pre q" for q
    using that out by simp
  ultimately show ?thesis
    by (simp add: rmtree_def confined_def changes_within_def)
qed

lemma map_of_map_key:
  assumes "\<And>q. f q = p \<longleftrightarrow> q = p"
  shows "map_of (map (\<lambda>(q, d). (f q, d)) fs) p = map_of fs p"
proof (induction fs)
  case (Cons x fs)
  obtain q d where x: "x = (q, d)" by (cases x)
  show ?case
  proof (cases "q = p")
    case True
    then have "f q = p" using assms by simp
    then show ?thesis by (simp add: x True)
  next
    case False
    then have "f q \<noteq> p" using assms by simp
    then show ?thesis using Cons.IH False by (simp add: x)
  qed
qed simp

lemma rename_tree_confined:
  assumes "prefix pre src" and "prefix pre dst"
  shows "changes_within pre s (rename_tree src dst s)"
proof -
  have same: "rebase src dst q = q" if "\<not> prefix pre q" for q
    using that assms(1) prefix_order.trans by (auto simp: rebase_def)
  have key: "rebase src dst q = p \<longleftrightarrow> q = p" if "\<not> prefix pre p" for p q
  proof
    assume r: "rebase src dst q = p"
    show "q = p"
    proof (cases "prefix src q")
      case True
      then have "prefix pre (rebase src dst q)" using assms(2) prefix_rebase prefix_order.trans by blast
      then show ?thesis using r that by simp
    next
      case False
      then show ?thesis using r by (simp add: rebase_def)
    qed
  next
    assume "q = p"
    then show "rebase src dst q = p" using same that by simp
  qed
  have "map_of (fs_files (rename_tree src dst s)) p = map_of (fs_files s) p" if "\<not> prefix pre p" for p
    unfolding rename_tree_def using key [OF that] by (simp add: map_of_map_key)
  moreover have "q \<in> set (fs_dirs (rename_tree src dst s))" if "q \<in> set (fs_dirs s)" "\<not> prefix pre q" for q
  proof -
    have "rebase src dst q \<in> set (map (rebase src dst) (fs_dirs s))" using that(1) by simp
    then show ?thesis using same [OF that(2)] by (simp add: rename_tree_def)
  qed
  ultimately show ?thesis by (simp add: changes_within_def)
qed

lemma confined_move [confined_intros]:
  assumes "prefix pre src" and "prefix pre dst"
  shows "confined pre s (move src dst s)"
proof -
  have "prefix pre (if is_dir s dst then dst @ [last src] else dst)"
    using assms(2) by (simp add: prefix_order.trans)
  then show ?thesis
    using rename_tree_confined [OF assms(1)]
    by (simp add: move_def Let_def confined_def)
qed

section \<open>Each phase of the organiser works within its directory\<close>

lemma glob_prefix: "q \<in> set (glob s d pat) \<Longrightarrow> prefix d q"
  by (auto simp: glob_def children_def strict_prefix_def prefix_def)

lemma confined_campus_file_step [confined_intros]:
  "confined (processed_path og) s (campus_file_step og c files s ft)"
  by (auto simp: campus_file_step_def Let_def buildings_dir_def intro: confined_intros split: option.split)

lemma confined_campus_step [confined_intros]: "confined (processed_path og) s (campus_step dsz og s c)"
  unfolding campus_step_def
  by (simp add: split_beta Let_def) (intro confined_intros, simp add: buildings_dir_def)

lemma confined_organize_processed: "confined (processed_path og) s (organize_processed dsz og s)"
  unfolding organize_processed_def
  by (intro confined_intros) (simp_all add: buildings_dir_def)

lemma confined_organize_output: "confined (output_path og) s (organize_output og s)"
  unfolding organize_output_def Let_def
  by (intro confined_intros) simp_all

lemma pdf_copy_confined: "pdf_copy dsz fp s n i = Inr (s', i') \<Longrightarrow> changes_within fp s s'"
  using confined_copy2 [of fp "fp @ [ascii ''pdf'', pi_category i, pi_new_name i]" s "fp @ [n]"]
  by (auto simp: pdf_copy_def Let_def confined_def split: if_splits)

lemma pdf_step_confined: "pdf_step dsz fp st e = Inr st' \<Longrightarrow> changes_within fp (fst st) (fst st')"
proof -
  assume a: "pdf_step dsz fp st e = Inr st'"
  obtain s fs inf where st: "st = (s, fs, inf)" by (cases st)
  obtain n i where e: "e = (n, i)" by (cases e)
  obtain s' fs' inf' where st': "st' = (s', fs', inf')" by (cases st')
  from a obtain i' where "pdf_copy dsz fp s n i = Inr (s', i')" by (auto simp: st e st' pdf_step_Inr)
  then show ?thesis by (simp add: st st' pdf_copy_confined)
qed

lemma confined_preview_step [confined_intros]: "prefix fp pb \<Longrightarrow> confined fp s (preview_step pb s cp)"
  unfolding preview_step_def
  by (simp add: split_beta Let_def) (intro confined_intros, simp add: prefix_order.trans)

lemma floor_run:
  assumes "organize_floor_plans dsz og s = Inr s'"
  shows "\<exists>s1 s2 fstats infos s3 s4.
      efold (\<lambda>s c. mkdir_p (floor_plans_path og @ [ascii ''pdf'', fst c]) s) fp_categories s = Inr s1 \<and>
      efold (pdf_step dsz (floor_plans_path og)) pdf_mapping (s1, [], []) = Inr (s2, fstats, infos) \<and>
      efold (preview_step (floor_plans_path og @ [ascii ''preview''])) preview_mapping s2 = Inr s3 \<and>
      write_json (floor_plans_path og @ [metadata_json])
        (floor_plans_metadata (timestamp og) s3 (floor_plans_path og @ [ascii ''preview'']) fstats infos) s3 = Inr s4 \<and>
      create_readme (floor_plans_path og) (ascii ''floor_plans'') s4 = Inr s'"
  using assms by (fastforce simp: organize_floor_plans_def Let_def split: prod.splits)

lemma confined_organize_floor_plans:
  assumes "organize_floor_plans dsz og s = Inr s'"
  shows "changes_within (floor_plans_path og) s s'"
proof -
  obtain s1 s2 fstats infos s3 s4 where
      1: "efold (\<lambda>s c. mkdir_p (floor_plans_path og @ [ascii ''pdf'', fst c]) s) fp_categories s = Inr s1" and
      2: "efold (pdf_step dsz (floor_plans_path og)) pdf_mapping (s1, [], []) = Inr (s2, fstats, infos)" and
      3: "efold (preview_step (floor_plans_path og @ [ascii ''preview''])) preview_mapping s2 = Inr s3" and
      4: "write_json (floor_plans_path og @ [metadata_json])
            (floor_plans_metadata (timestamp og) s3 (floor_plans_path og @ [ascii ''preview'']) fstats infos) s3 = Inr s4" and
      5: "create_readme (floor_plans_path og) (ascii ''floor_plans'') s4 = Inr s'"
    using floor_run [OF assms] by (elim exE conjE)
  have "confined (floor_plans_path og) s (efold (\<lambda>s c. mkdir_p (floor_plans_path og @ [ascii ''pdf'', fst c]) s) fp_categories s)"
      "confined (floor_plans_path og) s2 (efold (preview_step (floor_plans_path og @ [ascii ''preview''])) preview_mapping s2)"
      "confined (floor_plans_path og) s3 (write_json (floor_plans_path og @ [metadata_json]) j s3)"
      "confined (floor_plans_path og) s4 (create_readme (floor_plans_path og) (ascii ''floor_plans'') s4)" for j
    by (intro confined_intros; simp)+
  moreover have "changes_within (floor_plans_path og) s1 s2"
    using efold_fst_confined [OF 2] pdf_step_confined by fastforce
  ultimately show ?thesis
    using 1 3 4 5 by (simp add: confined_def) (meson changes_within_trans)
qed

lemma dataset_step_confined:
  assumes "dataset_step dsz pre vroot cat st d = Inr st'" and "prefix r d" and "prefix r vroot"
  shows "changes_within r (fst st) (fst st')"
proof -
  obtain s m where st: "st = (s, m)" by (cases st)
  have mv: "changes_within r s s'" if "move d (vroot @ xs) s = Inr s'" for xs s'
    using confined_move [OF assms(2) prefix_prefix [OF assms(3)], of s xs] that by (simp add: confined_def)
  show ?thesis
    using assms(1) mv by (auto simp: dataset_step_def st Let_def split: prod.splits if_splits)
qed

lemma dataset_fold_confined:
  assumes "efold (dataset_step dsz pre vroot cat) (glob s0 r pat) st = Inr st'" and "prefix r vroot"
  shows "changes_within r (fst st) (fst st')"
  using assms(1) by (rule efold_fst_confined) (use dataset_step_confined glob_prefix assms(2) in blast)

lemma confined_osm_step [confined_intros]: "prefix r aux \<Longrightarrow> prefix r f \<Longrightarrow> confined r s (osm_step aux s f)"
  by (auto simp: osm_step_def Let_def intro: confined_intros prefix_order.trans)

lemma organize_raw_run:
  assumes "organize_raw dsz og s0 = Inr s'"
  shows "\<exists>s1 s2 tm s3 qm s4 s5 s6.
           efold (\<lambda>s d. mkdir_p d s) (raw_dirs og) s0 = Inr s1 \<and>
           efold (dataset_step dsz (ascii ''NLSC_3D_tiles_'') (raw_path og @ [ascii ''NLSC_3D_tiles'']) tile_category)
             (glob s1 (raw_path og) (ascii ''NLSC_3D_tiles_*'')) (s1, []) = Inr (s2, tm) \<and>
           efold (dataset_step dsz (ascii ''NLSC_quadtree_'') (raw_path og @ [ascii ''NLSC_quadtree'']) quadtree_category)
             (glob s2 (raw_path og) (ascii ''NLSC_quadtree_*'')) (s2, []) = Inr (s3, qm) \<and>
           efold (osm_step (raw_path og @ [ascii ''auxiliary''])) (glob s3 (raw_path og) (ascii ''taiwan-osm-*.*'')) s3 = Inr s4 \<and>
           save_raw_metadata og (raw_path og @ [ascii ''NLSC_3D_tiles'']) tm (ascii ''3D_tiles'') s4 = Inr s5 \<and>
           save_raw_metadata og (raw_path og @ [ascii ''NLSC_quadtree'']) qm (ascii ''quadtree'') s5 = Inr s6 \<and>
           create_readme (raw_path og) (ascii ''raw'') s6 = Inr s'"
  using assms by (fastforce simp: organize_raw_def Let_def split: prod.splits)

lemma confined_organize_raw: "organize_raw dsz og s = Inr s' \<Longrightarrow> changes_within (raw_path og) s s'"
proof -
  assume "organize_raw dsz og s = Inr s'"
  then obtain s1 s2 tm s3 qm s4 s5 s6 where
    1: "efold (\<lambda>s d. mkdir_p d s) (raw_dirs og) s = Inr s1" and
    2: "efold (dataset_step dsz (ascii ''NLSC_3D_tiles_'') (raw_path og @ [ascii ''NLSC_3D_tiles'']) tile_category)
             (glob s1 (raw_path og) (ascii ''NLSC_3D_tiles_*'')) (s1, []) = Inr (s2, tm)" and
    3: "efold (dataset_step dsz (ascii ''NLSC_quadtree_'') (raw_path og @ [ascii ''NLSC_quadtree'']) quadtree_category)
             (glob s2 (raw_path og) (ascii ''NLSC_quadtree_*'')) (s2, []) = Inr (s3, qm)" and
    4: "efold (osm_step (raw_path og @ [ascii ''auxiliary''])) (glob s3 (raw_path og) (ascii ''taiwan-osm-*.*'')) s3 = Inr s4" and
    5: "save_raw_metadata og (raw_path og @ [ascii ''NLSC_3D_tiles'']) tm (ascii ''3D_tiles'') s4 = Inr s5" and
    6: "save_raw_metadata og (raw_path og @ [ascii ''NLSC_quadtree'']) qm (ascii ''quadtree'') s5 = Inr s6" and
    7: "create_readme (raw_path og) (ascii ''raw'') s6 = Inr s'"
    using organize_raw_run [OF \<open>organize_raw dsz og s = Inr s'\<close>] by (elim exE conjE)
  have "confined (raw_path og) s (efold (\<lambda>s d. mkdir_p d s) (raw_dirs og) s)"
    by (rule confined_efold, rule confined_mkdir_p)
  then have c1: "changes_within (raw_path og) s s1" using 1 by (simp add: confined_def)
  have c2: "changes_within (raw_path og) s1 s2" using dataset_fold_confined [OF 2] by simp
  have c3: "changes_within (raw_path og) s2 s3" using dataset_fold_confined [OF 3] by simp
  have "confined (raw_path og) s3 (efold (osm_step (raw_path og @ [ascii ''auxiliary'']))
          (glob s3 (raw_path og) (ascii ''taiwan-osm-*.*'')) s3)"
    by (rule confined_efold, rule confined_osm_step) (auto dest: glob_prefix)
  then have c4: "changes_within (raw_path og) s3 s4" using 4 by (simp add: confined_def)
  have c5: "changes_within (raw_path og) s4 s5"
    using 5 confined_write_json [of "raw_path og" "raw_path og @ [ascii ''NLSC_3D_tiles'', metadata_json]"]
    by (simp add: save_raw_metadata_def confined_def)
  have c6: "changes_within (raw_path og) s5 s6"
    using 6 confined_write_json [of "raw_path og" "raw_path og @ [ascii ''NLSC_quadtree'', metadata_json]"]
    by (simp add: save_raw_metadata_def confined_def)
  have c7: "changes_within (raw_path og) s6 s'"
    using 7 confined_create_readme [of "raw_path og" "raw_path og"] by (simp add: confined_def)
  have c567: "changes_within (raw_path og) s4 s'" using c5 c6 c7 changes_within_trans by blast
  show ?thesis using c1 c2 c3 c4 c567 by (meson changes_within_trans)
qed

lemma confined_create_backup:
  assumes "create_backup og s = Inr (b, s')"
  shows "changes_within (base_path og @ [ascii ''backup'']) s s'"
proof -
  define bd where "bd = base_path og @ [ascii ''backup'', ascii ''backup_'' @ timestamp og]"
  define F where "F = (\<lambda>s n. let src = base_path og @ [n] in
                             if exists s src then copytree True src (bd @ [n]) s else Inr s)"
  obtain s1 where 1: "mkdir_p bd s = Inr s1" and 2: "efold F backup_dirs s1 = Inr s'"
    using assms unfolding create_backup_def Let_def F_def bd_def by auto
  have "confined (base_path og @ [ascii ''backup'']) s1 (efold F backup_dirs s1)"
    unfolding F_def Let_def by (intro confined_intros) (simp add: bd_def)
  then show ?thesis
    using 1 2 confined_mkdir_p [of "base_path og @ [ascii ''backup'']" s bd]
    by (simp add: confined_def) (meson changes_within_trans)
qed

lemma confined_generate_report:
  "generate_report dsz og s = Inr (rf, s') \<Longrightarrow> changes_within rf s s'"
  using confined_write_json [of rf rf]
  by (auto simp: generate_report_def Let_def confined_def)

section \<open>What each phase leaves behind\<close>

lemma mkdirs_is_dir:
  "efold (\<lambda>s c. mkdir_p (g c) s) cs s = Inr s' \<Longrightarrow> c \<in> set cs \<Longrightarrow> is_dir s' (g c)"
proof (induction cs arbitrary: s)
  case (Cons x cs)
  then obtain s1 where 1: "mkdir_p (g x) s = Inr s1" and 2: "efold (\<lambda>s c. mkdir_p (g c) s) cs s1 = Inr s'" by auto
  have "keeps s1 (efold (\<lambda>s c. mkdir_p (g c) s) cs s1)" by (intro keeps_intros)
  then have "files_kept s1 s'" using 2 by (simp add: keeps_def)
  then show ?case
    using Cons.prems(2) Cons.IH [OF 2] mkdir_p_is_dir [OF 1] files_kept_is_dir by auto
qed simp

lemma keeps_kept: "keeps s r \<Longrightarrow> r = Inr s' \<Longrightarrow> files_kept s s'"
  by (simp add: keeps_def)

lemma write_file_is_file: "write_file p d s = Inr s' \<Longrightarrow> is_file s' p"
  using write_file_read by blast

lemma raw_post:
  assumes "organize_raw dsz og s = Inr s'"
  shows "is_file s' (raw_path og @ [ascii ''README.md'']) \<and>
         (\<exists>tm. map_of (fs_files s') (raw_path og @ [ascii ''NLSC_3D_tiles'', metadata_json]) =
                 Some (JsonDoc (raw_metadata (timestamp og) (ascii ''3D_tiles'') tm)))"
proof -
  obtain s4 s5 s6 tm qm where
    5: "save_raw_metadata og (raw_path og @ [ascii ''NLSC_3D_tiles'']) tm (ascii ''3D_tiles'') s4 = Inr s5" and
    6: "save_raw_metadata og (raw_path og @ [ascii ''NLSC_quadtree'']) qm (ascii ''quadtree'') s5 = Inr s6" and
    7: "create_readme (raw_path og) (ascii ''raw'') s6 = Inr s'"
    using organize_raw_run [OF assms] by blast
  have m5: "map_of (fs_files s5) (raw_path og @ [ascii ''NLSC_3D_tiles'', metadata_json]) =
              Some (JsonDoc (raw_metadata (timestamp og) (ascii ''3D_tiles'') tm))"
    using 5 write_file_read by (simp add: save_raw_metadata_def write_json_def)
  have m6: "map_of (fs_files s6) (raw_path og @ [ascii ''NLSC_3D_tiles'', metadata_json]) =
              map_of (fs_files s5) (raw_path og @ [ascii ''NLSC_3D_tiles'', metadata_json])"
    using 6 write_file_other by (simp add: save_raw_metadata_def write_json_def ascii_def metadata_json_def)
  have m7: "map_of (fs_files s') (raw_path og @ [ascii ''NLSC_3D_tiles'', metadata_json]) =
              map_of (fs_files s6) (raw_path og @ [ascii ''NLSC_3D_tiles'', metadata_json])"
    using 7 write_file_other by (simp add: create_readme_def ascii_def)
  show ?thesis using m5 m6 m7 7 write_file_is_file by (auto simp: create_readme_def)
qed

lemma ebind_InrE: "ebind m f = Inr y \<Longrightarrow> (\<And>x. m = Inr x \<Longrightarrow> f x = Inr y \<Longrightarrow> P) \<Longrightarrow> P"
  by auto

text \<open>A fact established by the first step of a sequence whose later steps keep every
  file holds at its end.\<close>

lemma ebind_keeps_post:
  assumes "ebind m f = Inr s'" and "\<And>x. m = Inr x \<Longrightarrow> P x" and "\<And>x. keeps x (f x)"
    and "\<And>a b. P a \<Longrightarrow> files_kept a b \<Longrightarrow> P b"
  shows "P s'"
  using assms by (auto simp: keeps_def)

lemma create_readme_post: "create_readme d t s = Inr s' \<Longrightarrow> is_file s' (d @ [ascii ''README.md''])"
  by (simp add: create_readme_def write_file_is_file)

lemma write_json_post: "write_json p j s = Inr s' \<Longrightarrow> is_file s' p"
  by (simp add: write_json_def write_file_is_file)

lemma write_then_readme:
  assumes "write_json p j s = Inr a" and "create_readme d t a = Inr b"
  shows "is_file b p"
proof -
  have "files_kept a b" using keeps_create_readme [of a d t] assms(2) by (simp add: keeps_def)
  then show ?thesis using write_json_post [OF assms(1)] files_kept_is_file by blast
qed

lemma processed_post:
  assumes "organize_processed dsz og s = Inr s'"
  shows "is_dir s' (buildings_dir og) \<and> is_file s' (processed_path og @ [ascii ''README.md'']) \<and>
         is_file s' (processed_path og @ [metadata_json])"
proof (intro conjI)
  show "is_dir s' (buildings_dir og)"
    using assms unfolding organize_processed_def
  proof (rule ebind_keeps_post)
    fix x assume "efold (\<lambda>s d. mkdir_p d s) (processed_dirs og) s = Inr x"
    then have "is_dir x (buildings_dir og @ [ascii ''by_campus'', ascii ''boai''])"
      by (rule mkdirs_is_dir [where g = "\<lambda>d. d"]) (simp add: processed_dirs_def campus_list_def)
    then show "is_dir x (buildings_dir og)" by (rule is_dir_ancestor) simp
  qed (intro keeps_intros, use files_kept_is_dir in blast)
  show "is_file s' (processed_path og @ [ascii ''README.md''])"
    using assms unfolding organize_processed_def
    by (elim ebind_InrE) (simp add: create_readme_post)
  show "is_file s' (processed_path og @ [metadata_json])"
    using assms unfolding organize_processed_def
    by (elim ebind_InrE) (rule write_then_readme)
qed

lemma copytree_is_dir: "copytree ok src dst s = Inr s' \<Longrightarrow> is_dir s' dst"
proof -
  assume a: "copytree ok src dst s = Inr s'"
  then obtain s1 where m: "mkdir_p dst s = Inr s1"
    and s': "s' = \<lparr>fs_files = foldl (\<lambda>fs (q, d). AList.update (rebase src dst q) d fs) (fs_files s1)
                                (filter (\<lambda>(q, _). prefix src q) (fs_files s)),
                   fs_dirs = fs_dirs s1 @ map (rebase src dst) (filter (strict_prefix src) (fs_dirs s))\<rparr>"
    by (auto simp: copytree_def split: if_splits)
  have "fst ` set (fs_files s1) \<subseteq> fst ` set (fs_files s')" by (simp add: s' keys_foldl_update)
  then have "files_kept s1 s'" by (auto simp: s' files_kept_def)
  then show ?thesis using mkdir_p_is_dir [OF m] files_kept_is_dir by blast
qed

lemma output_post:
  assumes "organize_output og s = Inr s'"
  shows "is_file s' (output_path og @ [ascii ''README.md'']) \<and> is_dir s' (output_path og @ [ascii ''latest''])"
proof
  show "is_file s' (output_path og @ [ascii ''README.md''])"
    using assms unfolding organize_output_def Let_def by (elim ebind_InrE) (simp add: create_readme_post)
  have "is_dir b d" if "copytree ok src d a = Inr b'" "create_readme r t b' = Inr b" for ok src d a b' r t b
  proof -
    have "files_kept b' b" using keeps_create_readme [of b' r t] that(2) by (simp add: keeps_def)
    then show ?thesis using copytree_is_dir [OF that(1)] files_kept_is_dir by blast
  qed
  then show "is_dir s' (output_path og @ [ascii ''latest''])"
    using assms unfolding organize_output_def Let_def by (elim ebind_InrE) blast
qed

lemma floor_post:
  assumes "organize_floor_plans dsz og s = Inr s'"
  shows "is_file s' (floor_plans_path og @ [ascii ''README.md'']) \<and> is_file s' (floor_plans_path og @ [metadata_json]) \<and>
         is_dir s' (floor_plans_path og @ [ascii ''pdf''])"
proof -
  obtain s1 s2 fstats infos s3 s4 where
      1: "efold (\<lambda>s c. mkdir_p (floor_plans_path og @ [ascii ''pdf'', fst c]) s) fp_categories s = Inr s1" and
      2: "efold (pdf_step dsz (floor_plans_path og)) pdf_mapping (s1, [], []) = Inr (s2, fstats, infos)" and
      3: "efold (preview_step (floor_plans_path og @ [ascii ''preview''])) preview_mapping s2 = Inr s3" and
      4: "write_json (floor_plans_path og @ [metadata_json])
            (floor_plans_metadata (timestamp og) s3 (floor_plans_path og @ [ascii ''preview'']) fstats infos) s3 = Inr s4" and
      5: "create_readme (floor_plans_path og) (ascii ''floor_plans'') s4 = Inr s'"
    using floor_run [OF assms] by (elim exE conjE)
  have "is_dir s1 (floor_plans_path og @ [ascii ''pdf'', ascii ''auditorium''])"
    using mkdirs_is_dir [where g = "\<lambda>c. floor_plans_path og @ [ascii ''pdf'', fst c]", OF 1]
    by (force simp: fp_categories_def)
  then have d1: "is_dir s1 (floor_plans_path og @ [ascii ''pdf''])"
    by (rule is_dir_ancestor) (metis append.assoc append_Cons append_Nil not_Cons_self2 strict_prefix_append)
  have k2: "files_kept s1 s2" using pdf_fold [OF 2] by simp
  have "keeps s2 (efold (preview_step (floor_plans_path og @ [ascii ''preview''])) preview_mapping s2)"
    by (intro keeps_intros)
  then have k3: "files_kept s2 s3" using 3 by (simp add: keeps_def)
  have k4: "files_kept s3 s4" using 4 keeps_write_json [of s3] by (simp add: keeps_def)
  have k5: "files_kept s4 s'" using 5 keeps_create_readme [of s4] by (simp add: keeps_def)
  show ?thesis
    using d1 k2 k3 k4 k5 files_kept_is_dir files_kept_trans create_readme_post [OF 5] write_then_readme [OF 4 5]
    by meson
qed

section \<open>The organiser satisfies the checker\<close>

lemma is_file_map_of: "is_file s p \<longleftrightarrow> map_of (fs_files s) p \<noteq> None"
  by (auto simp: is_file_def map_of_eq_None_iff)

lemma changes_within_map_of: "changes_within pre s s' \<Longrightarrow> \<not> prefix pre p \<Longrightarrow> map_of (fs_files s') p = map_of (fs_files s) p"
  by (simp add: changes_within_def)

lemma changes_within_is_file: "changes_within pre s s' \<Longrightarrow> \<not> prefix pre p \<Longrightarrow> is_file s p \<Longrightarrow> is_file s' p"
  by (simp add: is_file_map_of changes_within_map_of)

lemma changes_within_is_dir:
  assumes "changes_within pre s s'" and "\<not> prefix pre p" and "\<not> prefix p pre" and "is_dir s p"
  shows "is_dir s' p"
proof -
  have out: "\<not> prefix pre q" if "strict_prefix p q" for q
    using that assms(2,3) prefix_same_cases [of pre q p] by (auto simp: strict_prefix_def)
  from assms(4) consider "p \<in> set (fs_dirs s)" | q where "q \<in> set (all_paths s)" "strict_prefix p q"
    by (auto simp: is_dir_def list_ex_iff)
  then show ?thesis
  proof cases
    case 1
    then show ?thesis using assms(1,2) by (auto simp: changes_within_def is_dir_def)
  next
    case 2
    then have "q \<in> set (all_paths s')"
      using assms(1) out [OF 2(2)] changes_within_is_file [OF assms(1)]
      by (auto simp: all_paths_def changes_within_def is_file_def)
    then show ?thesis using 2(2) by (auto simp: is_dir_def list_ex_iff)
  qed
qed

lemma changes_within_exists:
  "changes_within pre s s' \<Longrightarrow> \<not> prefix pre p \<Longrightarrow> \<not> prefix p pre \<Longrightarrow> exists s p \<Longrightarrow> exists s' p"
  using changes_within_is_file changes_within_is_dir by (auto simp: exists_def)

lemma main_organize_run:
  assumes "main_organize dsz og s0 = Inr s6"
  shows "\<exists>b s1 s2 s3 s4 s5 rf. create_backup og s0 = Inr (b, s1) \<and> organize_raw dsz og s1 = Inr s2 \<and>
           organize_processed dsz og s2 = Inr s3 \<and> organize_output og s3 = Inr s4 \<and>
           organize_floor_plans dsz og s4 = Inr s5 \<and> generate_report dsz og s5 = Inr (rf, s6)"
  using assms by (fastforce simp: main_organize_def split: prod.splits)

lemma generate_report_path:
  "generate_report dsz og s = Inr (rf, s') \<Longrightarrow> rf = base_path og @ [ascii ''organization_report_'' @ timestamp og @ ascii ''.json'']"
  by (auto simp: generate_report_def Let_def)

text \<open>After a run of \<open>main\<close> of \<^verbatim>\<open>organize_data.py\<close> that returns, everything the
  checker requires is in place, provided \<^verbatim>\<open>ymmap_archive/\<close>, which the organiser
  never creates, was there before: each phase establishes its part, and the later phases,
  each of which changes the store only within its own directory, leave it alone.\<close>

lemma main_organize_organized:
  assumes run: "main_organize dsz og s0 = Inr s6"
    and arch: "exists s0 (base_path og @ [ascii ''ymmap_archive''])"
  shows "organized og s6"
proof -
  obtain b s1 s2 s3 s4 s5 rf where
    1: "create_backup og s0 = Inr (b, s1)" and 2: "organize_raw dsz og s1 = Inr s2" and
    3: "organize_processed dsz og s2 = Inr s3" and 4: "organize_output og s3 = Inr s4" and
    5: "organize_floor_plans dsz og s4 = Inr s5" and 6: "generate_report dsz og s5 = Inr (rf, s6)"
    using main_organize_run [OF run] by (elim exE conjE)
  have rf: "rf = base_path og @ [ascii ''organization_report_'' @ timestamp og @ ascii ''.json'']"
    using generate_report_path [OF 6] .
  note c1 = confined_create_backup [OF 1] and c2 = confined_organize_raw [OF 2]
    and c3 = confined_organize_processed [of og s2 dsz, unfolded confined_def, rule_format, OF 3]
    and c4 = confined_organize_output [of og s3, unfolded confined_def, rule_format, OF 4]
    and c5 = confined_organize_floor_plans [OF 5] and c6 = confined_generate_report [OF 6]
  note defs = raw_path_def processed_path_def output_path_def floor_plans_path_def buildings_dir_def
    metadata_json_def rf ascii_def
  obtain tm where rm2: "map_of (fs_files s2) (raw_path og @ [ascii ''NLSC_3D_tiles'', metadata_json]) =
                          Some (JsonDoc (raw_metadata (timestamp og) (ascii ''3D_tiles'') tm))"
    and rr2: "is_file s2 (raw_path og @ [ascii ''README.md''])"
    using raw_post [OF 2] by blast
  have rm: "map_of (fs_files s6) (raw_path og @ [ascii ''NLSC_3D_tiles'', metadata_json]) =
              Some (JsonDoc (raw_metadata (timestamp og) (ascii ''3D_tiles'') tm))"
    using rm2 changes_within_map_of [OF c3] changes_within_map_of [OF c4] changes_within_map_of [OF c5]
          changes_within_map_of [OF c6]
    by (simp add: defs)
  have rr: "is_file s6 (raw_path og @ [ascii ''README.md''])"
    by (rule changes_within_is_file [OF c6], simp add: defs, rule changes_within_is_file [OF c5], simp add: defs,
        rule changes_within_is_file [OF c4], simp add: defs, rule changes_within_is_file [OF c3], simp add: defs, rule rr2)
  have f: "is_file s' p" if "is_file s p" "changes_within q s s'" "\<not> prefix q p" for s s' p q
    using changes_within_is_file that by blast
  have d: "is_dir s' p" if "is_dir s p" "changes_within q s s'" "\<not> prefix q p" "\<not> prefix p q" for s s' p q
    using changes_within_is_dir that by blast
  have e: "exists s' p" if "exists s p" "changes_within q s s'" "\<not> prefix q p" "\<not> prefix p q" for s s' p q
    using changes_within_exists that by blast
  obtain p3: "is_dir s3 (buildings_dir og)" "is_file s3 (processed_path og @ [ascii ''README.md''])"
      "is_file s3 (processed_path og @ [metadata_json])"
    using processed_post [OF 3] by blast
  obtain o4: "is_file s4 (output_path og @ [ascii ''README.md''])" "is_dir s4 (output_path og @ [ascii ''latest''])"
    using output_post [OF 4] by blast
  obtain f5: "is_file s5 (floor_plans_path og @ [ascii ''README.md''])" "is_file s5 (floor_plans_path og @ [metadata_json])"
      "is_dir s5 (floor_plans_path og @ [ascii ''pdf''])"
    using floor_post [OF 5] by blast
  have "is_dir s6 (buildings_dir og)"
    by (rule d [OF d [OF d [OF p3(1) c4] c5] c6]; simp add: defs)
  moreover have "is_file s6 (processed_path og @ [ascii ''README.md''])"
    by (rule f [OF f [OF f [OF p3(2) c4] c5] c6]; simp add: defs)
  moreover have "is_file s6 (processed_path og @ [metadata_json])"
    by (rule f [OF f [OF f [OF p3(3) c4] c5] c6]; simp add: defs)
  moreover have "is_file s6 (output_path og @ [ascii ''README.md''])"
    by (rule f [OF f [OF o4(1) c5] c6]; simp add: defs)
  moreover have "is_dir s6 (output_path og @ [ascii ''latest''])"
    by (rule d [OF d [OF o4(2) c5] c6]; simp add: defs)
  moreover have "is_file s6 (floor_plans_path og @ [ascii ''README.md''])"
    by (rule f [OF f5(1) c6]; simp add: defs)
  moreover have "is_file s6 (floor_plans_path og @ [metadata_json])"
    by (rule f [OF f5(2) c6]; simp add: defs)
  moreover have "is_dir s6 (floor_plans_path og @ [ascii ''pdf''])"
    by (rule d [OF f5(3) c6]; simp add: defs)
  moreover have "exists s6 (base_path og @ [ascii ''ymmap_archive''])"
    by (rule e [OF e [OF e [OF e [OF e [OF e [OF arch c1] c2] c3] c4] c5] c6]; simp add: defs)
  ultimately show ?thesis using rm rr by (auto simp: organized_def)
qed

lemma pass_errors [simp]: "v_errors (pass m v) = v_errors v"
  by (simp add: pass_def)

lemma warn_errors [simp]: "v_errors (warn m v) = v_errors v"
  by (simp add: warn_def)

lemma fold_errors: "(\<And>x v. v_errors (g x v) = v_errors v) \<Longrightarrow> v_errors (fold g xs v) = v_errors v"
  by (induction xs arbitrary: v) simp_all

lemma check_files_errors:
  "\<forall>f \<in> set fs. exists s (p @ [f]) \<Longrightarrow> v_errors (check_files s p fs ctx v) = v_errors v"
  by (induction fs arbitrary: v) (simp_all add: check_files_def)

lemma is_file_parent_dir: "is_file s q \<Longrightarrow> strict_prefix p q \<Longrightarrow> is_dir s p"
  by (auto simp: is_file_def is_dir_def all_paths_def list_ex_iff)

lemma exists_if [simp]: "is_file s p \<Longrightarrow> exists s p" "is_dir s p \<Longrightarrow> exists s p"
  by (simp_all add: exists_def)

text \<open>On a store the organiser has left behind, the checker records no error.\<close>

lemma organized_validates:
  assumes "organized og s"
  shows "\<exists>v. validate_all jload (base_path og) s = Inr v \<and> validation_ok v"
proof -
  obtain tm where rm: "map_of (fs_files s) (raw_path og @ [ascii ''NLSC_3D_tiles'', metadata_json]) =
                         Some (JsonDoc (raw_metadata (timestamp og) (ascii ''3D_tiles'') tm))"
    using assms by (auto simp: organized_def)
  have mf: "is_file s (raw_path og @ [ascii ''NLSC_3D_tiles'', metadata_json])"
    using rm by (simp add: is_file_map_of)
  have nl: "is_dir s (raw_path og @ [ascii ''NLSC_3D_tiles''])"
    using is_file_parent_dir [OF mf] by (metis append.assoc append_Cons append_Nil not_Cons_self2 strict_prefix_append)
  have "datasets_check (raw_metadata (timestamp og) (ascii ''3D_tiles'') tm) v = Inr (pass (VDatasets (length tm)) v)" for v
    by (simp add: datasets_check_def raw_metadata_def py_len_def ascii_def)
  then have raw: "validate_raw jload (base_path og) s empty_vstate =
      Inr (pass (VDatasets (length tm)) (pass VMeta (pass (VDir (ascii ''NLSC_3D_tiles/''))
             (check_files s (raw_path og) [ascii ''README.md''] (ascii ''raw/'') empty_vstate))))"
    using rm mf nl by (simp add: validate_raw_def Let_def json_load_def raw_path_def metadata_json_def)
  have e_raw: "v_errors (pass (VDatasets (length tm)) (pass VMeta (pass (VDir (ascii ''NLSC_3D_tiles/''))
             (check_files s (raw_path og) [ascii ''README.md''] (ascii ''raw/'') empty_vstate)))) = []"
    using assms by (simp add: organized_def check_files_errors empty_vstate_def)
  have e_p: "v_errors (validate_processed (base_path og) s v) = v_errors v" for v
    using assms by (simp add: organized_def validate_processed_def Let_def check_files_errors fold_errors
                              processed_path_def buildings_dir_def)
  have e_o: "v_errors (validate_output (base_path og) s v) = v_errors v" for v
    using assms by (simp add: organized_def validate_output_def Let_def check_files_errors output_path_def)
  have e_f: "v_errors (validate_floor_plans (base_path og) s v) = v_errors v" for v
    using assms by (simp add: organized_def validate_floor_plans_def Let_def check_files_errors fold_errors
                              floor_plans_path_def)
  have e_a: "v_errors (validate_ymmap_archive (base_path og) s v) = v_errors v" for v
    using assms by (simp add: organized_def validate_ymmap_archive_def Let_def)
  show ?thesis
    using raw e_raw e_p e_o e_f e_a by (simp add: validate_all_def validation_ok_def)
qed

theorem organize_then_validate:
  assumes "main_organize dsz og s = Inr s'" and "exists s (base_path og @ [ascii ''ymmap_archive''])"
  shows "\<exists>v. validate_all jload (base_path og) s' = Inr v \<and> validation_ok v"
  using organized_validates [OF main_organize_organized [OF assms]] .

text \<open>The organiser does need \<^verbatim>\<open>output/\<close>: \<open>organize_output\<close> creates the version
  directory with \<open>mkdir(exist_ok=True)\<close> but without \<open>parents=True\<close>, so without
  \<^verbatim>\<open>output/\<close> it raises \<open>FileNotFoundError\<close> and \<open>main\<close> stops there.\<close>

lemma organize_output_needs_output_dir:
  "\<not> is_dir s (output_path og) \<Longrightarrow> organize_output og s = Inl OSError"
  by (simp add: organize_output_def mkdir_def Let_def)

end
