(* ===== verification/Spec2Isabelle.thy ===== *)
theory Spec2Isabelle
  imports Fusion MultiCampus Quadtree CampusParse Export Osm RoomBoundary WmsInfo Organize WfsDownload Validate
begin

text \<open>
  \<^bold>\<open>A verification development of the NLSC building pipeline of NYCU-Campus-3D-Buildings.\<close>

  The repository downloads the 3D building tiles of the NLSC map service
  (\<^verbatim>\<open>src/scripts/01_download_nlsc_tiles.py\<close>, \<^verbatim>\<open>06\<close>, \<^verbatim>\<open>08\<close>), decodes their
  binary attribute tables into building records (\<^verbatim>\<open>03_parse_nlsc_tiles.py\<close>, repeated in
  \<^verbatim>\<open>07_parse_multi_campus.py\<close>), deduplicates the buildings over all tiles, and fuses
  them with OpenStreetMap footprints (\<^verbatim>\<open>02\<close>, \<^verbatim>\<open>04_merge_datasets.py\<close>) before exporting
  tables (\<^verbatim>\<open>05\<close>). The decoding chain of \<^verbatim>\<open>03\<close>, the fusion of \<^verbatim>\<open>04\<close> and the
  three downloaders are modelled here, function by function, as a shallow embedding; each
  theory opens with a note of what it holds.

  \<^item> \<^bold>\<open>Prelude\<close>: bytes as \<^typ>\<open>8 word list\<close>, Python text as lists of code points
    (\<open>ustr\<close>), Python exceptions as the left side of \<open>py_error + 'a\<close> with the bind
    \<open>ebind\<close>; \<open>struct.unpack_from('<I')\<close> as \<open>unpack_u32\<close>, which raises
    \<open>StructError\<close> past the end, its encoder and round trip; \<open>bytes.find\<close> as
    \<open>find_sub\<close> with its first-occurrence specification; slicing as \<open>py_slice\<close>.
  \<^item> \<^bold>\<open>PyText\<close>: CPython's \<open>bytes.decode('utf-8', errors='replace')\<close>
    (\<open>utf8_decode\<close>, maximal-subpart replacement, terminating by a length measure),
    \<open>float()\<close> on decimal strings (\<open>py_float\<close>), \<open>str()\<close> of naturals and
    \<open>round(x, n)\<close> with ties to even.
  \<^item> \<^bold>\<open>Locator\<close>: \<open>find_attribute_section\<close> (lines 112--180): the \<open>BUILD_ID\<close>
    marker, the length word 8 before it and the probe over the candidate field counts
    20, 15, 25, 10, 30; refined by a declarative fingerprint \<open>guess_ok\<close>.
  \<^item> \<^bold>\<open>Attributes\<close>: \<open>parse_tile_attributes\<close> (lines 183--257): field lengths, names,
    the column reader with its 50-byte slack, and the sparse per-building records.
  \<^item> \<^bold>\<open>Geodesy\<close>: \<open>ecef_to_lonlat\<close> (ten fixed iterations, \<open>ecef_step ^^ 10\<close>) and
    \<open>twd97_to_wgs84\<close> (lines 33--86) over real numbers; the \<open>ZeroDivisionError\<close> of
    \<open>/ cos(phi1)\<close> is \<open>None\<close>.
  \<^item> \<^bold>\<open>TileFile\<close>: \<open>parse_tile_header\<close> and \<open>parse_tile_file\<close> (lines 89--109,
    258--321): gzip detection with fallback, header words, OBB corners to WGS84 and their
    bbox, the attribute table and the TWD97 enrichment of every building.
  \<^item> \<^bold>\<open>Dedup\<close>: \<open>process_all_tiles\<close> (lines 324--371) as a fold of \<open>process_tile\<close>
    over the \<open>os.walk\<close> result with the accumulators as the record \<open>dedup_state\<close>,
    and the reference definition \<open>dedup_first\<close> it refines.
  \<^item> \<^bold>\<open>Fusion\<close>: \<^verbatim>\<open>04_merge_datasets.py\<close> (lines 20--274): ray casting, centroids,
    haversine and shoelace helpers, the OSM polygon table, the point-in-polygon phase and the
    nearest-centroid phase over the record \<open>match_state\<close>, tallest-match attributes, the
    NLSC-only points and the metadata counts.
  \<^item> \<^bold>\<open>Client\<close>: what the downloaders share. The module-global \<open>server_idx\<close> and the
    files written are the record \<open>io_state\<close>; the network is an oracle \<open>net n url\<close>
    answering request number \<open>n\<close>; \<open>fetch_attempts\<close> is the retry loop of \<open>fetch_tile\<close>.
  \<^item> \<^bold>\<open>RangeDownload\<close>: \<^verbatim>\<open>01_download_nlsc_tiles.py\<close> -- its fetchers,
    \<open>download_level_range\<close> as a fold over the row-major grid, the deeper levels of step 3,
    the terrain tiles and the manifest of \<open>main01\<close>.
  \<^item> \<^bold>\<open>MultiCampus\<close>: \<^verbatim>\<open>06_download_multi_campus.py\<close> -- the campus table, the
    tile range of a bounding box, the layer-year fallback, the per-level loop with its early
    stop, the levels below the level-7 tiles and the campus loop.
  \<^item> \<^bold>\<open>Quadtree\<close>: \<^verbatim>\<open>08_download_quadtree.py\<close> -- the breadth-first traversal as
    \<open>while_option\<close> of \<open>bfs_step\<close> over the record \<open>qt_state\<close>, its header reader, the
    layer choice of \<open>download_campus\<close> and the campus loop.
  \<^item> \<^bold>\<open>CampusParse\<close>: \<^verbatim>\<open>07_parse_multi_campus.py\<close> -- its verbatim
    copies of the 03 parsers (the same functions), its \<open>parse_tile_file\<close>, the campus
    table and \<open>process_campus\<close> (lines 235--364) as a fold of \<open>campus_file_step\<close> and
    \<open>campus_building_step\<close> over the state record \<open>campus_state\<close> (the accumulators
    \<open>all_buildings\<close>, \<open>seen_ids\<close>, \<open>total_raw_buildings\<close>, \<open>tiles_with_data\<close>), then
    the height sort, which may raise \<open>ValueError\<close>, and \<open>main\<close>'s campus loop.
  \<^item> \<^bold>\<open>PyList\<close>: the \<open>for\<close> loop whose body may raise (\<open>efold\<close>), the comprehension
    whose element may raise (\<open>emap\<close>) and \<open>list.sort(key=...)\<close> (\<open>py_sort_key\<close>),
    shown to be HOL's stable \<open>sort_key\<close> once every key is computed.
  \<^item> \<^bold>\<open>Export\<close>: \<^verbatim>\<open>05_export_building_table.py\<close> -- footprint area and box in
    metres, one row per \<open>Polygon\<close> feature (\<open>export_row_of\<close>), the height sort, the CSV
    table, the two sheets with their cell conversion, the statistics, the top-20 print, and
    \<open>main05\<close>, whose outcome records the files written and the exception that ended it.
  \<^item> \<^bold>\<open>Osm\<close>: \<^verbatim>\<open>02_extract_osm_buildings.py\<close> -- the two osmium passes as folds over
    the node and way streams (\<open>collect_nodes\<close>, \<open>way_feature\<close>), producing the
    \<open>osm_feature\<close>s that \<open>Fusion\<close> reads, so the hand-over from 02 to 04 is a lemma.
  \<^item> \<^bold>\<open>RoomBoundary\<close>: \<^verbatim>\<open>extract_room_boundaries.py\<close> -- the inverse TM2 projection
    \<open>tm2_to_wgs84\<close>, geometry conversion, WKT and centroid, one \<open>room_entry\<close> per WFS
    feature named from the room catalog, and \<open>main_rooms\<close>: WFS file index, building
    order, the floor and building loops over the state record \<open>rb_state\<close> (counters and
    floor files), the \<open>getBound\<close> sample and the combined GeoJSON.
  \<^item> \<^bold>\<open>WmsInfo\<close>: \<^verbatim>\<open>wms_featureinfo_extract.py\<close> -- the layer tables, the 37-request
    \<open>GetFeatureInfo\<close> grid of a layer merging features by their key, the comparison with
    the WFS download, the other WMS requests and the six phases of \<open>main_wms\<close> over the
    record \<open>wms_state\<close>, with its summary; every request goes to an oracle.
  \<^item> \<^bold>\<open>Organize\<close>: \<^verbatim>\<open>src/data/scripts/organize_data.py\<close> -- the file system as
    an explicit store \<open>ofs\<close> (files with their contents in listing order, directories),
    the \<open>pathlib\<close> and \<open>shutil\<close> calls over it, each failing with \<open>OSError\<close> where
    Python raises, and the methods of \<open>DataOrganizer\<close>: \<open>create_backup\<close>,
    \<open>organize_raw\<close> (version categories, dataset metadata, moves), \<open>organize_processed\<close>,
    \<open>organize_output\<close>, \<open>organize_floor_plans\<close> (the PDF loop as \<open>pdf_copy\<close> and
    \<open>pdf_count\<close>, previews, quality issues), \<open>generate_report\<close> and \<open>main_organize\<close>.
  \<^item> \<^bold>\<open>WfsDownload\<close>: \<^verbatim>\<open>src/scripts/download_all_wfs.py\<close> -- the layer order
    (\<open>ordered_layers\<close>), \<open>download_layer\<close> with each of its exception paths writing into
    the store of \<open>Organize\<close>, the resume from the summary an earlier run wrote
    (\<open>read_summary\<close>), and the loop of \<open>main_wfs\<close> over the record \<open>wfs_state\<close>
    (\<open>layer_step\<close>, \<open>record_result\<close>, \<open>count_result\<close>); the server is the oracle
    \<open>reply\<close>.
  \<^item> \<^bold>\<open>Validate\<close>: \<^verbatim>\<open>src/data/scripts/validate_organization.py\<close> -- the checks of
    \<open>OrganizationValidator\<close> over the same store (\<open>validate_raw\<close> \<dots>
    \<open>validate_ymmap_archive\<close>, \<open>validate_all\<close>), with each message a value of \<open>vmsg\<close>,
    and the frame of the organiser: \<open>changes_within pre\<close>, each phase confined to its
    own directory, and what each phase leaves behind (\<open>organized\<close>).

  \<^bold>\<open>What the lemmas show.\<close> The locator never raises and returns the first candidate
  layout meeting its fingerprint; the decoder yields exactly \<open>building_count\<close> sparse
  records, its values lie within 50 bytes past their field, and a truncated table raises.
  The header reader's corner count is \<open>min 8 ((len - 12) div 24)\<close>; a tile's bbox is the
  tightest box of its corners within the WGS84 ranges; a tile raises exactly when its
  attribute table does; the enrichment touches only \<open>lon\<close> and \<open>lat\<close>. The tile walk
  computes \<open>dedup_first\<close> (first occurrence of every truthy \<open>BUILD_ID\<close>), keeps the
  invariant that ids are distinct and equal \<open>seen_ids\<close>, and keeps the first tile's record,
  not the highest level's. On the geodesy side: \<open>twd97_to_wgs84\<close> fails only where
  \<open>cos(phi1) = 0\<close>, maps the false easting to 121 E and is mirror-symmetric about it;
  \<open>ecef_to_lonlat\<close> is exact on the equator and returns \<open>alt = -N\<close> on the polar axis.
  The fusion matches every building at most once, inside-polygon before nearest centroid
  within 30 m, and its counts agree with its output. On the download side: \<open>fetch_tile\<close>
  returns the first reply that did not raise after at most \<open>retries + 1\<close> requests; a level
  range writes one file per tile found and none is overwritten (file names are injective);
  step 3 of \<^verbatim>\<open>01\<close> never requests level 10; descendant ranges are exact; a campus range
  covers its bounding box; \<^verbatim>\<open>06\<close> never raises for a campus of its table; and the
  quadtree traversal ends for every server behaviour, returning distinct tiles within the
  level bound and the expanded box, each after its parent. A campus file of \<^verbatim>\<open>07\<close>
  holds only in-box buildings with distinct truthy ids, sorted by descending height. The
  area of \<^verbatim>\<open>05\<close> is the area of \<^verbatim>\<open>04\<close> scaled to square metres, and with no
  \<open>Polygon\<close> feature \<^verbatim>\<open>05\<close> writes a header-only CSV, then raises in \<open>max()\<close>.
  Every footprint of \<^verbatim>\<open>02\<close> is a closed ring of at least three cached nodes that
  \<^verbatim>\<open>04\<close> accepts without \<open>IndexError\<close>; the centroid test of \<^verbatim>\<open>02\<close> counts the
  closing node of a way twice and can keep a footprint whose \<^verbatim>\<open>04\<close> centroid is
  outside the box. The room extraction processes every catalog building once, priority
  buildings first, keeps every position when it converts a geometry, and its counters
  add up; its TM2 series shows that the meridional-arc divisor of \<^verbatim>\<open>03\<close> is too small.
  The WMS grid always sends 37 requests and keeps features with distinct keys, but its
  key never reaches \<open>json.dumps\<close>, so features without \<open>id\<close> and \<open>gid\<close> collapse;
  a layer is reported empty exactly when neither query system found a feature.
  The organiser's moves of \<^verbatim>\<open>raw/\<close> neither lose nor duplicate a file, and its
  processed and floor-plan phases keep every file; but it files every 3D-tile dataset
  whose campus code starts with no version pattern under \<open>previous\<close>, since the year
  can never start with one, it identifies every campus code with an \<open>a\<close> as Yangming,
  and it counts and reports the floor-plan documents of its table, not the files found.
  The WFS download processes every layer once, the exact priority layers first; it
  raises only while saving the text of a body that is not JSON; a successful layer is
  stored at its path; its results list every layer once, and the summary it writes is read
  back by the next run as the same results, which then counts a layer whose file has gone
  twice. A run of the organiser that returns leaves a tree on which the checker of
  \<^verbatim>\<open>validate_organization.py\<close> records no error, provided \<^verbatim>\<open>ymmap_archive/\<close> was
  there (\<open>organize_then_validate\<close>); the organiser itself raises when \<^verbatim>\<open>output/\<close> is
  missing.

  \<^bold>\<open>Bounds and parameters.\<close> No fuel is needed: every \<open>for\<close> loop of the modelled code
  runs over a finite range, modelled by structural recursion or \<open>fold\<close>, and the UTF-8
  decoder terminates by the length of its input. Library routines the code only calls are
  parameters: \<open>gzip.decompress\<close> (\<open>gunzip\<close>), the IEEE decoding of \<open>'<d'\<close>
  (\<open>f64\<close>), reading and parsing a file in the walk (\<open>parse\<close>), and the HTTP replies
  (\<open>net\<close>). Floats are real numbers: rounding error is not modelled. The quadtree loop is
  \<open>while_option\<close>: its termination is proved with the measure \<open>5 * card (U - visited) +
  length queue\<close>, \<open>U\<close> the tiles of level at most \<open>max_level\<close> with row and column below
  \<open>2^level\<close>, so no fuel is chosen.

  \<^bold>\<open>Not modelled.\<close> The osmium library is not modelled (its node and way
  streams are inputs), nor the HTTP clients of the room and WMS extractions (oracles);
  \<open>analyze_binary\<close> and step 4 of \<^verbatim>\<open>01\<close> only read files and print, and argument
  parsing is left out. The API probes and image downloads are network I/O, and the
  archive, backup and validation scripts other than \<^verbatim>\<open>organize_data.py\<close> copy
  and list files with no decision of their own to verify; printing is left out everywhere,
  a JSON file written is kept as its value, not its text, and the README texts of the
  organiser are kept as the name of the README, not its text. The file-system store fixes
  one directory listing order, where the real order is the file system's, and
  \<open>str.lower\<close>, \<open>str.title\<close> are modelled on ASCII letters, the only ones the
  organiser's names contain.
\<close>

end
